(* ===== verification/Prelude.thy ===== *)
theory Prelude
  imports Main "HOL-Library.Word" "HOL-Library.AList"
begin

text \<open>
  Shared vocabulary of the development.

  A Go call that touches the outside world is a state transformer that either returns or
  panics: \<open>('s, 'a) go\<close>.  The state is passed explicitly; a panic keeps the state
  reached so far, as Go does.  \<open>go_recover\<close> is a deferred \<open>recover()\<close> around a body.
  \<open>go_wp\<close> is the weakest precondition of such a call with one postcondition for the
  normal return and one for the panic; its equations are collected in \<open>go_wps\<close>.
\<close>

named_theorems go_wps "weakest precondition equations of the call combinators"
named_theorems go_defs "definitions unfolded when a call is evaluated on a concrete state"

type_synonym u64 = "64 word"
type_synonym i64 = "64 word"
type_synonym bytes = string

subsection \<open>Calls that may panic\<close>

datatype 'a res = Ret 'a | Panic string

type_synonym ('s, 'a) go = "'s \<Rightarrow> 'a res \<times> 's"

definition go_ret :: "'a \<Rightarrow> ('s, 'a) go" where
  "go_ret a s = (Ret a, s)"

definition go_panic :: "string \<Rightarrow> ('s, 'a) go" where
  "go_panic p s = (Panic p, s)"

definition go_bind :: "('s, 'a) go \<Rightarrow> ('a \<Rightarrow> ('s, 'b) go) \<Rightarrow> ('s, 'b) go" where
  "go_bind m f s = (case m s of (Ret a, s') \<Rightarrow> f a s' | (Panic p, s') \<Rightarrow> (Panic p, s'))"

definition go_seq :: "('s, 'a) go \<Rightarrow> ('s, 'b) go \<Rightarrow> ('s, 'b) go" where
  "go_seq m n = go_bind m (\<lambda>_. n)"

definition go_recover :: "('s, 'a) go \<Rightarrow> (string \<Rightarrow> ('s, 'a) go) \<Rightarrow> ('s, 'a) go" where
  "go_recover m h s = (case m s of (Ret a, s') \<Rightarrow> (Ret a, s') | (Panic p, s') \<Rightarrow> h p s')"

definition go_get :: "('s \<Rightarrow> 'a) \<Rightarrow> ('s, 'a) go" where
  "go_get f s = (Ret (f s), s)"

definition go_modify :: "('s \<Rightarrow> 's) \<Rightarrow> ('s, unit) go" where
  "go_modify f s = (Ret (), f s)"

definition go_when :: "bool \<Rightarrow> ('s, unit) go \<Rightarrow> ('s, unit) go" where
  "go_when b m = (if b then m else go_ret ())"

text \<open>A call that runs on a part of the state: \<open>get\<close> reads the part, \<open>put\<close> stores it back.\<close>

definition go_zoom :: "('s \<Rightarrow> 't) \<Rightarrow> ('t \<Rightarrow> 's \<Rightarrow> 's) \<Rightarrow> ('t, 'a) go \<Rightarrow> ('s, 'a) go" where
  "go_zoom get put m s = (case m (get s) of (r, t) \<Rightarrow> (r, put t s))"

text \<open>A call that cannot panic: the clock, a random generator.\<close>

definition go_total :: "('s \<Rightarrow> 'a \<times> 's) \<Rightarrow> ('s, 'a) go" where
  "go_total f s = (Ret (fst (f s)), snd (f s))"

lemmas go_basic_defs [go_defs] = go_ret_def go_panic_def go_bind_def go_seq_def go_recover_def
  go_get_def go_modify_def go_when_def go_zoom_def go_total_def

subsection \<open>Weakest preconditions\<close>

definition go_wp :: "('s, 'a) go \<Rightarrow> ('a \<Rightarrow> 's \<Rightarrow> bool) \<Rightarrow> (string \<Rightarrow> 's \<Rightarrow> bool) \<Rightarrow> 's \<Rightarrow> bool" where
  "go_wp m Q E s = (case m s of (Ret a, s') \<Rightarrow> Q a s' | (Panic p, s') \<Rightarrow> E p s')"

lemma go_wp_ret [go_wps]: "go_wp (go_ret a) Q E = Q a"
  by (rule ext) (simp add: go_wp_def go_ret_def)

lemma go_wp_panic [go_wps]: "go_wp (go_panic p) Q E = E p"
  by (rule ext) (simp add: go_wp_def go_panic_def)

lemma go_wp_bind [go_wps]: "go_wp (go_bind m f) Q E = go_wp m (\<lambda>a. go_wp (f a) Q E) E"
  by (rule ext) (auto simp: go_wp_def go_bind_def split: prod.splits res.splits)

lemma go_wp_seq [go_wps]: "go_wp (go_seq m n) Q E = go_wp m (\<lambda>_. go_wp n Q E) E"
  by (simp add: go_seq_def go_wp_bind)

lemma go_wp_recover [go_wps]: "go_wp (go_recover m h) Q E = go_wp m Q (\<lambda>p. go_wp (h p) Q E)"
  by (rule ext) (auto simp: go_wp_def go_recover_def split: prod.splits res.splits)

lemma go_wp_get [go_wps]: "go_wp (go_get f) Q E = (\<lambda>s. Q (f s) s)"
  by (rule ext) (simp add: go_wp_def go_get_def)

lemma go_wp_modify [go_wps]: "go_wp (go_modify f) Q E = (\<lambda>s. Q () (f s))"
  by (rule ext) (simp add: go_wp_def go_modify_def)

lemma go_wp_when [go_wps]: "go_wp (go_when b m) Q E s = (if b then go_wp m Q E s else Q () s)"
  by (simp add: go_when_def go_wp_ret)

lemma go_wp_zoom [go_wps]:
  "go_wp (go_zoom get put m) Q E s =
     go_wp m (\<lambda>a t. Q a (put t s)) (\<lambda>p t. E p (put t s)) (get s)"
  by (auto simp: go_wp_def go_zoom_def split: prod.splits res.splits)

lemma go_wp_total [go_wps]: "go_wp (go_total f) Q E s = Q (fst (f s)) (snd (f s))"
  by (simp add: go_wp_def go_total_def)

lemma go_wp_mono:
  assumes "go_wp m Q E s"
    and "\<And>a t. Q a t \<Longrightarrow> Q' a t" and "\<And>p t. E p t \<Longrightarrow> E' p t"
  shows "go_wp m Q' E' s"
  using assms by (auto simp: go_wp_def split: prod.splits res.splits)

lemma go_wp_any:
  assumes "\<And>a t. Q a t" and "\<And>p t. E p t"
  shows "go_wp m Q E s"
  using assms by (auto simp: go_wp_def split: prod.splits res.splits)

lemma go_wp_conj:
  assumes "go_wp m Q E s" and "go_wp m Q' E' s"
  shows "go_wp m (\<lambda>a t. Q a t \<and> Q' a t) (\<lambda>p t. E p t \<and> E' p t) s"
  using assms by (auto simp: go_wp_def split: prod.splits res.splits)

lemma go_wp_RetD: "go_wp m Q E s \<Longrightarrow> m s = (Ret a, t) \<Longrightarrow> Q a t"
  by (simp add: go_wp_def)

lemma go_wp_PanicD: "go_wp m Q E s \<Longrightarrow> m s = (Panic p, t) \<Longrightarrow> E p t"
  by (simp add: go_wp_def)

text \<open>A call never panics.\<close>

definition no_panic :: "('s, 'a) go \<Rightarrow> bool" where
  "no_panic m \<longleftrightarrow> (\<forall>s. \<exists>a t. m s = (Ret a, t))"

lemma no_panic_wp: "no_panic m \<Longrightarrow> (\<And>a t. Q a t) \<Longrightarrow> go_wp m Q E s"
  unfolding no_panic_def go_wp_def by (metis (no_types, lifting) old.prod.case res.simps(5))

lemma no_panicI:
  assumes "\<And>s. go_wp m (\<lambda>_ _. True) (\<lambda>_ _. False) s"
  shows "no_panic m"
  unfolding no_panic_def
proof
  fix s
  obtain r t where "m s = (r, t)" by (cases "m s")
  with assms [of s] show "\<exists>a t. m s = (Ret a, t)"
    by (cases r) (auto simp: go_wp_def)
qed

subsection \<open>Go maps as association lists\<close>

text \<open>
  A Go map is an association list with distinct keys; the order of the list stands for the
  iteration order \<open>range\<close> happens to pick.  \<open>put_all\<close> is a loop that stores every pair
  of a list with a given setter.
\<close>

lemma map_of_AList_update [simp]: "map_of (AList.update k v xs) k' = (if k' = k then Some v else map_of xs k')"
  by (simp add: update_conv')

lemma map_of_AList_delete [simp]: "map_of (AList.delete k xs) k' = (if k' = k then None else map_of xs k')"
  by (simp add: delete_conv')

definition has_key :: "('k \<times> 'v) list \<Rightarrow> 'k \<Rightarrow> bool" where
  "has_key xs k = (map_of xs k \<noteq> None)"

lemma has_key_iff: "has_key xs k \<longleftrightarrow> k \<in> fst ` set xs"
  by (simp add: has_key_def map_of_eq_None_iff)

lemma map_of_filter_key:
  "map_of (filter (\<lambda>(k, v). P k) xs) k = (if P k then map_of xs k else None)"
  by (induction xs) auto

subsection \<open>Strings\<close>

definition has_prefix :: "string \<Rightarrow> string \<Rightarrow> bool" where
  "has_prefix s p = (take (length p) s = p)"

lemma has_prefix_append [simp]: "has_prefix (p @ s) p"
  by (simp add: has_prefix_def)

lemma has_prefix_iff: "has_prefix s p \<longleftrightarrow> (\<exists>t. s = p @ t)"
  unfolding has_prefix_def by (metis append_take_drop_id append_eq_conv_conj)

text \<open>Decimal rendering of a non-negative number, as \<open>%d\<close> writes it.\<close>

fun show_nat :: "nat \<Rightarrow> string" where
  "show_nat n = (if n < 10 then [char_of (48 + n)] else show_nat (n div 10) @ [char_of (48 + n mod 10)])"

declare show_nat.simps [simp del]

definition show_int :: "int \<Rightarrow> string" where
  "show_int i = (if i < 0 then ''-'' @ show_nat (nat (- i)) else show_nat (nat i))"

end
