(* ===== verification/GoError.thy ===== *)
theory GoError
  imports Prelude
begin

text \<open>
  Go error values (\<open>pkg/event/errors.go\<close> and the \<open>errors\<close> and \<open>fmt\<close> packages it
  builds on).  An error is a tree: \<open>fmt.Errorf\<close> with \<open>%w\<close>, \<open>errors.Join\<close> and the
  library's own marker types hold the errors they wrap.  \<open>errors_is\<close> and \<open>errors_as\<close> walk
  the tree in the order \<open>errors.Is\<close> and \<open>errors.AsType\<close> do (the error itself, then its
  wrapped errors, depth first).
\<close>

datatype goerr =
    Sentinel string string       \<comment> \<open>the value of a package variable: its name, its message\<close>
  | Errorf string "goerr list"   \<comment> \<open>\<open>fmt.Errorf\<close>: the formatted text, the \<open>%w\<close> operands\<close>
  | Joined "goerr list"          \<comment> \<open>\<open>errors.Join\<close>\<close>
  | NonRetryableError goerr      \<comment> \<open>\<open>*event.NonRetryableError\<close>\<close>
  | PanicError goerr string      \<comment> \<open>\<open>*eventmux.panicError\<close>: cause and stack\<close>
  | PreflightError goerr         \<comment> \<open>\<open>*eventmux.preflightError\<close>\<close>
  | ValidateError goerr          \<comment> \<open>\<open>validate.Error\<close>\<close>
  | Foreign string string "goerr list"
      \<comment> \<open>any other type: its name, the text of \<open>Error()\<close>, what \<open>Unwrap\<close> gives\<close>

text \<open>An \<open>errors.New\<close> that is not kept in a variable equals no other error.\<close>

definition errors_new :: "string \<Rightarrow> goerr" where
  "errors_new msg = Errorf msg []"

fun join_lines :: "string list \<Rightarrow> string" where
  "join_lines [] = []"
| "join_lines [s] = s"
| "join_lines (s # ss) = s @ ''\<newline>'' @ join_lines ss"

fun err_text :: "goerr \<Rightarrow> string" where
  "err_text (Sentinel v msg) = msg"
| "err_text (Errorf msg es) = msg"
| "err_text (Joined es) = join_lines (map err_text es)"
| "err_text (NonRetryableError e) = err_text e"
| "err_text (PanicError e st) = err_text e"
| "err_text (PreflightError e) = err_text e"
| "err_text (ValidateError e) = ''validation failed: '' @ err_text e"
| "err_text (Foreign ty msg es) = msg"

text \<open>What \<open>Unwrap\<close> exposes: one error or several.\<close>

fun err_children :: "goerr \<Rightarrow> goerr list" where
  "err_children (Sentinel v msg) = []"
| "err_children (Errorf msg es) = es"
| "err_children (Joined es) = es"
| "err_children (NonRetryableError e) = [e]"
| "err_children (PanicError e st) = [e]"
| "err_children (PreflightError e) = [e]"
| "err_children (ValidateError e) = [e]"
| "err_children (Foreign ty msg es) = es"

lemma err_children_size: "e' \<in> set (err_children e) \<Longrightarrow> size e' < size e"
  by (cases e) (auto dest: size_list_estimation' [where f = size, OF _ order.refl] simp: less_Suc_eq_le)

function err_tree :: "goerr \<Rightarrow> goerr list" where
  "err_tree e = e # concat (map err_tree (err_children e))"
  by pat_completeness auto
termination
  by (relation "measure size") (auto dest: err_children_size)

declare err_tree.simps [simp del]

definition errors_as :: "(goerr \<Rightarrow> bool) \<Rightarrow> goerr \<Rightarrow> goerr option" where
  "errors_as is_T e = find is_T (err_tree e)"

fun is_sentinel :: "string \<Rightarrow> goerr \<Rightarrow> bool" where
  "is_sentinel v (Sentinel v' msg) = (v' = v)"
| "is_sentinel v _ = False"

definition errors_is :: "string \<Rightarrow> goerr \<Rightarrow> bool" where
  "errors_is v e = list_ex (is_sentinel v) (err_tree e)"

text \<open>\<open>errors.Unwrap\<close>: only the single-error form.\<close>

definition errors_unwrap :: "goerr \<Rightarrow> goerr option" where
  "errors_unwrap e = (case e of Joined es \<Rightarrow> None
     | _ \<Rightarrow> (case err_children e of [x] \<Rightarrow> Some x | _ \<Rightarrow> None))"

text \<open>\<open>errors.Join\<close> drops nil errors; nothing left is nil.\<close>

definition errors_Join :: "goerr option list \<Rightarrow> goerr option" where
  "errors_Join errs = (case List.map_filter id errs of [] \<Rightarrow> None | es \<Rightarrow> Some (Joined es))"

lemma errors_Join_None_iff: "errors_Join errs = None \<longleftrightarrow> (\<forall>e \<in> set errs. e = None)"
  by (induction errs) (auto simp: errors_Join_def List.map_filter_def split: list.splits)

text \<open>The Go type of an error value, as \<open>%T\<close> prints it.\<close>

fun err_type :: "goerr \<Rightarrow> string" where
  "err_type (Sentinel v msg) = ''*errors.errorString''"
| "err_type (Errorf msg es) =
     (case es of [] \<Rightarrow> ''*errors.errorString'' | [e] \<Rightarrow> ''*fmt.wrapError'' | _ \<Rightarrow> ''*fmt.wrapErrors'')"
| "err_type (Joined es) = ''*errors.joinError''"
| "err_type (NonRetryableError e) = ''*event.NonRetryableError''"
| "err_type (PanicError e st) = ''*eventmux.panicError''"
| "err_type (PreflightError e) = ''*eventmux.preflightError''"
| "err_type (ValidateError e) = ''validate.Error''"
| "err_type (Foreign ty msg es) = ty"

subsection \<open>The sentinels and the marker of package event\<close>

definition ErrPublicationFailed :: goerr where
  "ErrPublicationFailed = Sentinel ''ErrPublicationFailed'' ''failed to publish message''"

definition ErrNoRoute :: goerr where
  "ErrNoRoute = Sentinel ''ErrNoRoute'' ''message does not match any route''"

definition ErrDecode :: goerr where
  "ErrDecode = Sentinel ''ErrDecode'' ''payload decode failed''"

definition ErrPanic :: goerr where
  "ErrPanic = Sentinel ''ErrPanic'' ''handler panicked''"

definition ErrAlreadyStarted :: goerr where
  "ErrAlreadyStarted = Sentinel ''ErrAlreadyStarted'' ''event: already started''"

lemmas sentinel_defs = ErrPublicationFailed_def ErrNoRoute_def ErrDecode_def ErrPanic_def
  ErrAlreadyStarted_def

definition NewNonRetryableError :: "goerr \<Rightarrow> goerr" where
  "NewNonRetryableError e = NonRetryableError e"

fun is_NonRetryableError :: "goerr \<Rightarrow> bool" where
  "is_NonRetryableError (NonRetryableError e) = True"
| "is_NonRetryableError _ = False"

text \<open>\<open>eventmux.isNonRetryable\<close> and \<open>retry.isNonRetryable\<close> are the same function.\<close>

definition isNonRetryable :: "goerr \<Rightarrow> bool" where
  "isNonRetryable e = (errors_as is_NonRetryableError e \<noteq> None)"

fun is_panicError :: "goerr \<Rightarrow> bool" where
  "is_panicError (PanicError e st) = True"
| "is_panicError _ = False"

fun is_preflightError :: "goerr \<Rightarrow> bool" where
  "is_preflightError (PreflightError e) = True"
| "is_preflightError _ = False"

subsection \<open>Wrapping with a prefix\<close>

text \<open>\<open>fmt.Errorf("prefix: %w", err)\<close> and \<open>fmt.Errorf("%w: %w", a, b)\<close>.\<close>

definition wrap_prefix :: "string \<Rightarrow> goerr \<Rightarrow> goerr" where
  "wrap_prefix p e = Errorf (p @ '': '' @ err_text e) [e]"

definition wrap_both :: "goerr \<Rightarrow> goerr \<Rightarrow> goerr" where
  "wrap_both a b = Errorf (err_text a @ '': '' @ err_text b) [a, b]"

text \<open>
  \<open>%q\<close>: exact for printable ASCII, the quote and the backslash; every other byte is kept as it
  is (no statement depends on the quoted form).
\<close>

definition go_quote :: "string \<Rightarrow> string" where
  "go_quote s = [CHR 0x22] @ concat (map (\<lambda>c. if c = CHR 0x22 \<or> c = CHR 0x5C then [CHR 0x5C, c] else [c]) s)
     @ [CHR 0x22]"

subsection \<open>Laws of the tree walk\<close>

lemma err_tree_self [simp]: "e \<in> set (err_tree e)"
  by (subst err_tree.simps) simp

lemma set_err_tree: "set (err_tree e) = insert e (\<Union>e' \<in> set (err_children e). set (err_tree e'))"
  by (subst err_tree.simps) auto

lemma errors_is_iff: "errors_is v e \<longleftrightarrow> (\<exists>x \<in> set (err_tree e). is_sentinel v x)"
  by (simp add: errors_is_def list_ex_iff)

lemma errors_as_None_iff: "errors_as P e = None \<longleftrightarrow> (\<forall>x \<in> set (err_tree e). \<not> P x)"
  by (auto simp: errors_as_def find_None_iff)

lemma errors_as_Some_iff: "errors_as P e \<noteq> None \<longleftrightarrow> (\<exists>x \<in> set (err_tree e). P x)"
  by (simp only: errors_as_None_iff) simp

lemma errors_as_SomeD: "errors_as P e = Some x \<Longrightarrow> P x \<and> x \<in> set (err_tree e)"
  unfolding errors_as_def find_Some_iff using nth_mem by blast

lemma errors_as_self: "P e \<Longrightarrow> errors_as P e = Some e"
  unfolding errors_as_def by (subst err_tree.simps) simp

lemma errors_is_unfold: "errors_is v e \<longleftrightarrow> is_sentinel v e \<or> (\<exists>x \<in> set (err_children e). errors_is v x)"
  by (auto simp: errors_is_iff set_err_tree [of e])

lemma errors_as_unfold:
  "errors_as P e \<noteq> None \<longleftrightarrow> P e \<or> (\<exists>x \<in> set (err_children e). errors_as P x \<noteq> None)"
  by (auto simp: errors_as_Some_iff set_err_tree [of e] simp del: not_None_eq)

lemma isNonRetryable_unfold:
  "isNonRetryable e \<longleftrightarrow> is_NonRetryableError e \<or> (\<exists>x \<in> set (err_children e). isNonRetryable x)"
  unfolding isNonRetryable_def by (rule errors_as_unfold)

text \<open>The marker is found under any wrapping, and only where it is.\<close>

lemma isNonRetryable_simps [simp]:
  "isNonRetryable (NonRetryableError e)"
  "isNonRetryable (Sentinel v m) = False"
  "isNonRetryable (Errorf m es) = (\<exists>x \<in> set es. isNonRetryable x)"
  "isNonRetryable (Joined es) = (\<exists>x \<in> set es. isNonRetryable x)"
  "isNonRetryable (PanicError e st) = isNonRetryable e"
  "isNonRetryable (PreflightError e) = isNonRetryable e"
  "isNonRetryable (ValidateError e) = isNonRetryable e"
  "isNonRetryable (Foreign ty m es) = (\<exists>x \<in> set es. isNonRetryable x)"
  by (simp_all add: isNonRetryable_unfold [of "NonRetryableError e"] isNonRetryable_unfold [of "Sentinel v m"]
      isNonRetryable_unfold [of "Errorf m es"] isNonRetryable_unfold [of "Joined es"]
      isNonRetryable_unfold [of "PanicError e st"] isNonRetryable_unfold [of "PreflightError e"]
      isNonRetryable_unfold [of "ValidateError e"] isNonRetryable_unfold [of "Foreign ty m es"])

lemma errors_is_simps [simp]:
  "errors_is v (Sentinel v' m) = (v' = v)"
  "errors_is v (Errorf m es) = (\<exists>x \<in> set es. errors_is v x)"
  "errors_is v (Joined es) = (\<exists>x \<in> set es. errors_is v x)"
  "errors_is v (NonRetryableError e) = errors_is v e"
  "errors_is v (PanicError e st) = errors_is v e"
  "errors_is v (PreflightError e) = errors_is v e"
  "errors_is v (ValidateError e) = errors_is v e"
  "errors_is v (Foreign ty m es) = (\<exists>x \<in> set es. errors_is v x)"
  by (simp_all add: errors_is_unfold [of v "NonRetryableError e"] errors_is_unfold [of v "Sentinel v' m"]
      errors_is_unfold [of v "Errorf m es"] errors_is_unfold [of v "Joined es"]
      errors_is_unfold [of v "PanicError e st"] errors_is_unfold [of v "PreflightError e"]
      errors_is_unfold [of v "ValidateError e"] errors_is_unfold [of v "Foreign ty m es"])

lemma isNonRetryable_wrap [simp]:
  "isNonRetryable (wrap_prefix p e) = isNonRetryable e"
  "isNonRetryable (wrap_both a b) = (isNonRetryable a \<or> isNonRetryable b)"
  by (auto simp: wrap_prefix_def wrap_both_def)

lemma errors_is_wrap [simp]:
  "errors_is v (wrap_prefix p e) = errors_is v e"
  "errors_is v (wrap_both a b) = (errors_is v a \<or> errors_is v b)"
  by (auto simp: wrap_prefix_def wrap_both_def)

end
