(* ===== verification/Contracts.thy ===== *)
theory Contracts
  imports GoError
begin

text \<open>
  The start/stop contract of \<open>eventmux.Subscription\<close>, \<open>eventmux.Mux\<close> and every transport
  subscriber: a second Start is refused, a Stop of something not running is a no-op, and only a
  call that returned nil changes whether it runs, so that a failed Stop can be retried.
\<close>

datatype 'c lifecycle_op = OpStart 'c | OpStop 'c

fun is_start :: "'c lifecycle_op \<Rightarrow> bool" where
  "is_start (OpStart c) = True"
| "is_start (OpStop c) = False"

locale startable =
  fixes start :: "'c \<Rightarrow> ('s, goerr option) go"
    and stop :: "'c \<Rightarrow> ('s, goerr option) go"
    and running :: "'s \<Rightarrow> bool"
    and ok :: "'s \<Rightarrow> bool"
  assumes start_running: "ok s \<Longrightarrow> running s \<Longrightarrow> start c s = (Ret (Some ErrAlreadyStarted), s)"
    and start_idle: "ok s \<Longrightarrow> \<not> running s \<Longrightarrow> start c s = (r, s') \<Longrightarrow> running s' \<longleftrightarrow> r = Ret None"
    and stop_idle: "ok s \<Longrightarrow> \<not> running s \<Longrightarrow> stop c s = (Ret None, s)"
    and stop_running: "ok s \<Longrightarrow> running s \<Longrightarrow> stop c s = (r, s') \<Longrightarrow> running s' \<longleftrightarrow> r \<noteq> Ret None"
    and ok_start: "ok s \<Longrightarrow> ok (snd (start c s))"
    and ok_stop: "ok s \<Longrightarrow> ok (snd (stop c s))"
begin

fun apply_op :: "'c lifecycle_op \<Rightarrow> ('s, goerr option) go" where
  "apply_op (OpStart c) = start c"
| "apply_op (OpStop c) = stop c"

fun history :: "'c lifecycle_op list \<Rightarrow> 's \<Rightarrow> ('c lifecycle_op \<times> goerr option res) list \<times> 's" where
  "history [] s = ([], s)"
| "history (op # ops) s = (case apply_op op s of (r, s1) \<Rightarrow> (case history ops s1 of (h, s2) \<Rightarrow> ((op, r) # h, s2)))"

text \<open>Only calls that returned nil count.\<close>

definition effect :: "bool \<Rightarrow> 'c lifecycle_op \<times> goerr option res \<Rightarrow> bool" where
  "effect b e = (if snd e = Ret None then is_start (fst e) else b)"

lemma op_effect:
  assumes "ok s" and "apply_op op s = (r, s')"
  shows "running s' = effect (running s) (op, r) \<and> ok s'"
proof (cases op)
  case (OpStart c)
  with assms start_running [of s c] start_idle [of s c r s'] ok_start [of s c] show ?thesis
    by (cases "running s") (auto simp: effect_def)
next
  case (OpStop c)
  with assms stop_idle [of s c] stop_running [of s c r s'] ok_stop [of s c] show ?thesis
    by (cases "running s") (auto simp: effect_def)
qed

text \<open>After any sequence of calls, what runs is decided by the last call that returned nil.\<close>

lemma running_after:
  assumes "ok s" and "history ops s = (h, s')"
  shows "running s' = foldl effect (running s) h \<and> ok s' \<and> map fst h = ops"
  using assms
proof (induction ops arbitrary: s h)
  case (Cons op ops)
  obtain r s1 where step: "apply_op op s = (r, s1)" by fastforce
  obtain h1 s2 where rest: "history ops s1 = (h1, s2)" by fastforce
  from op_effect [OF Cons.prems(1) step] Cons.IH [of s1 h1] Cons.prems rest step show ?case
    by auto
qed auto

text \<open>A second Start in a row fails; a Stop after a successful Stop changes nothing.\<close>

lemma second_start:
  assumes "ok s" and "start c s = (Ret None, s1)"
  shows "start c' s1 = (Ret (Some ErrAlreadyStarted), s1)"
  using op_effect [of s "OpStart c"] assms start_running [of s1 c'] by (simp add: effect_def)

lemma second_stop:
  assumes "ok s" and "stop c s = (Ret None, s1)"
  shows "stop c' s1 = (Ret None, s1)"
  using op_effect [of s "OpStop c"] assms stop_idle [of s1 c'] by (simp add: effect_def)

lemma stop_retried:
  assumes "ok s" and "running s" and "stop c s = (Ret (Some e), s1)"
  shows "running s1"
  using op_effect [of s "OpStop c"] assms by (simp add: effect_def)

end

end
