(* ===== verification/Logfields.thy ===== *)
theory Logfields
  imports GoError
begin

text \<open>
  \<open>pkg/kit/logfields\<close>: the field names of log records, the outcome as it appears in them, and
  the record itself.  A log record is data here: the level, the message and its attributes in
  the order the code passes them; \<open>AEmpty\<close> is \<open>slog.Attr{}\<close>, which handlers ignore.
\<close>

datatype log_level = LevelDebug | LevelInfo | LevelWarn | LevelError

datatype log_attr = AEmpty | AErr goerr | APanicErr string string string | AStr string string | AUint string u64
  | AInt string int

record logrec =
  log_level :: log_level
  log_message :: string
  log_attrs :: "log_attr list"

definition KeyMessagingMessageID :: string where
  "KeyMessagingMessageID = ''messaging.message.id''"

definition KeyMessagingOutcome :: string where
  "KeyMessagingOutcome = ''messaging.operation.outcome''"

definition KeyCorrelationID :: string where
  "KeyCorrelationID = ''messaging.message.correlation_id''"

definition KeyDeliveryCount :: string where
  "KeyDeliveryCount = ''messaging.message.delivery_count''"

definition KeyDeadLetterReason :: string where
  "KeyDeadLetterReason = ''messaging.deadletter.reason''"

definition KeyDeadLetterPublishError :: string where
  "KeyDeadLetterPublishError = ''messaging.deadletter.publish_error''"

definition KeyCloudEventsType :: string where
  "KeyCloudEventsType = ''cloudevents.event_type''"

definition KeyCloudEventsSource :: string where
  "KeyCloudEventsSource = ''cloudevents.event_source''"

definition KeyCloudEventsExtension :: string where
  "KeyCloudEventsExtension = ''cloudevents.extension''"

definition KeyMuxRoutesTotal :: string where
  "KeyMuxRoutesTotal = ''eventmux.routes.total''"

definition KeyRetryAttempt :: string where
  "KeyRetryAttempt = ''retry.attempt''"

definition KeyRetryDelay :: string where
  "KeyRetryDelay = ''retry.delay''"

definition KeyPredicate :: string where
  "KeyPredicate = ''skiperr.predicate''"

text \<open>\<open>logfields.Outcome\<close>: the router's final decision in logs and to the Observer.\<close>

datatype log_outcome = LogAcked | LogNacked | LogDiscarded

fun log_outcome_string :: "log_outcome \<Rightarrow> string" where
  "log_outcome_string LogAcked = ''acked''"
| "log_outcome_string LogNacked = ''nacked''"
| "log_outcome_string LogDiscarded = ''discarded''"

definition outcome_Attr :: "log_outcome \<Rightarrow> log_attr" where
  "outcome_Attr o' = AStr KeyMessagingOutcome (log_outcome_string o')"

text \<open>The outcome attributes of a record; a completion record carries exactly one.\<close>

definition outcome_attrs :: "logrec \<Rightarrow> log_attr list" where
  "outcome_attrs r = filter (\<lambda>a. case a of AStr k v \<Rightarrow> k = KeyMessagingOutcome | _ \<Rightarrow> False) (log_attrs r)"

end
