(* ===== verification/Utf8.thy ===== *)
theory Utf8
  imports Prelude
begin

text \<open>
  UTF-8 as Go's \<open>unicode/utf8\<close> and \<open>strings\<close> packages treat it, and the two helpers of
  \<open>pkg/eventmux/failure.go\<close> that make an error text fit a broker attribute: \<open>sanitize\<close>
  and \<open>truncate\<close>.  A Go string is a list of bytes (HOL's \<open>char\<close> is a byte).
\<close>

abbreviation byte :: "char \<Rightarrow> nat" where
  "byte c \<equiv> of_char c"

text \<open>\<open>utf8.RuneStart\<close>: not a continuation byte.\<close>

definition rune_start :: "char \<Rightarrow> bool" where
  "rune_start c = (\<not> (0x80 \<le> byte c \<and> byte c \<le> 0xBF))"

definition cont :: "nat \<Rightarrow> nat \<Rightarrow> char \<Rightarrow> bool" where
  "cont lo hi c = (lo \<le> byte c \<and> byte c \<le> hi)"

text \<open>
  \<open>utf8.DecodeRuneInString\<close>: the rune at the head of the string and its width.  The ranges of
  the second byte exclude overlong forms, surrogates and values above \<open>U+10FFFF\<close>.  An
  invalid head is the pair \<open>(RuneError, 1)\<close>; the empty string gives width 0.
\<close>

definition RuneError :: nat where
  "RuneError = 0xFFFD"

definition second_range :: "nat \<Rightarrow> nat \<times> nat" where
  "second_range b = (if b = 0xE0 then (0xA0, 0xBF) else if b = 0xED then (0x80, 0x9F)
     else if b = 0xF0 then (0x90, 0xBF) else if b = 0xF4 then (0x80, 0x8F) else (0x80, 0xBF))"

definition second_ok :: "char \<Rightarrow> char \<Rightarrow> bool" where
  "second_ok c d = (case second_range (byte c) of (lo, hi) \<Rightarrow> cont lo hi d)"

fun decode_rune :: "string \<Rightarrow> nat \<times> nat" where
  "decode_rune [] = (RuneError, 0)"
| "decode_rune (c # s) = (let b = byte c in
     if b < 0x80 then (b, 1)
     else if 0xC2 \<le> b \<and> b \<le> 0xDF then
       (case s of d # _ \<Rightarrow> if second_ok c d then ((b - 0xC0) * 64 + (byte d - 0x80), 2) else (RuneError, 1)
        | _ \<Rightarrow> (RuneError, 1))
     else if 0xE0 \<le> b \<and> b \<le> 0xEF then
       (case s of d # e # _ \<Rightarrow>
           if second_ok c d \<and> cont 0x80 0xBF e
           then ((b - 0xE0) * 4096 + (byte d - 0x80) * 64 + (byte e - 0x80), 3) else (RuneError, 1)
        | _ \<Rightarrow> (RuneError, 1))
     else if 0xF0 \<le> b \<and> b \<le> 0xF4 then
       (case s of d # e # f # _ \<Rightarrow>
           if second_ok c d \<and> cont 0x80 0xBF e \<and> cont 0x80 0xBF f
           then ((b - 0xF0) * 262144 + (byte d - 0x80) * 4096 + (byte e - 0x80) * 64 + (byte f - 0x80), 4)
           else (RuneError, 1)
        | _ \<Rightarrow> (RuneError, 1))
     else (RuneError, 1))"

text \<open>The width of a valid encoding at the head, 0 when the head is not one.\<close>

definition rune_width :: "string \<Rightarrow> nat" where
  "rune_width s = (case decode_rune s of (r, n) \<Rightarrow> if n = 1 \<and> r = RuneError then 0 else n)"

lemma decode_rune_width: "snd (decode_rune s) \<le> length s \<and> (s \<noteq> [] \<longrightarrow> 0 < snd (decode_rune s))"
  by (cases s) (auto simp: Let_def split: list.splits)

lemma rune_width_le: "rune_width s \<le> length s"
  using decode_rune_width [of s] by (auto simp: rune_width_def split: prod.splits)

text \<open>
  A valid encoding: its first byte starts a rune, the others are continuation bytes, and the
  bytes after it do not matter.
\<close>

lemma list_cases3:
  obtains "u = []" | d where "u = [d]" | d e t where "u = d # e # t"
  by (metis neq_Nil_conv)

lemma list_cases4:
  obtains "u = []" | d where "u = [d]" | d e where "u = [d, e]" | d e f t where "u = d # e # f # t"
  by (metis neq_Nil_conv)

lemma rune_forms:
  assumes "0 < rune_width s"
  obtains (one) c t where "s = c # t" "byte c < 0x80"
  | (two) c d t where "s = c # d # t" "0xC2 \<le> byte c" "byte c \<le> 0xDF" "second_ok c d"
  | (three) c d e t where "s = c # d # e # t" "0xE0 \<le> byte c" "byte c \<le> 0xEF" "second_ok c d"
      "cont 0x80 0xBF e"
  | (four) c d e f t where "s = c # d # e # f # t" "0xF0 \<le> byte c" "byte c \<le> 0xF4" "second_ok c d"
      "cont 0x80 0xBF e" "cont 0x80 0xBF f"
proof -
  from assms obtain c u where s: "s = c # u"
    by (cases s) (auto simp: rune_width_def)
  consider (a) "byte c < 0x80" | (b) "0xC2 \<le> byte c" "byte c \<le> 0xDF"
    | (c) "0xE0 \<le> byte c" "byte c \<le> 0xEF" | (d) "0xF0 \<le> byte c" "byte c \<le> 0xF4"
    | (e) "0x80 \<le> byte c" "byte c < 0xC2 \<or> 0xF4 < byte c"
    by linarith
  then show thesis
  proof cases
    case a
    with s one show ?thesis by simp
  next
    case b
    with s assms obtain d t where "u = d # t" "second_ok c d"
      by (cases u) (simp_all add: rune_width_def Let_def split: if_split_asm)
    with s b two show ?thesis by simp
  next
    case c
    with s assms obtain d e t where "u = d # e # t" "second_ok c d" "cont 0x80 0xBF e"
      by (cases u rule: list_cases3) (simp_all add: rune_width_def Let_def split: if_split_asm)
    with s c three show ?thesis by simp
  next
    case d
    with s assms obtain d' e f t where "u = d' # e # f # t" "second_ok c d'" "cont 0x80 0xBF e" "cont 0x80 0xBF f"
      by (cases u rule: list_cases4) (simp_all add: rune_width_def Let_def split: if_split_asm)
    with s d four show ?thesis by simp
  next
    case e
    with s assms show ?thesis by (simp add: rune_width_def Let_def split: if_split_asm)
  qed
qed

lemma rune_width_4: "rune_width s \<le> 4"
proof (cases "rune_width s = 0")
  case False
  then have "0 < rune_width s" by simp
  then show ?thesis by (cases rule: rune_forms) (auto simp: rune_width_def Let_def)
qed simp

lemmas rune_eval = rune_width_def Let_def RuneError_def rune_start_def

lemma rune_width_tail:
  assumes "0 < i" and "i < rune_width s"
  shows "\<not> rune_start (s ! i)"
proof -
  from assms have "0 < rune_width s" by simp
  then show ?thesis
    using assms
    by (cases rule: rune_forms)
      (auto simp: rune_eval second_ok_def second_range_def cont_def nth_Cons' split: if_splits)
qed

lemma rune_width_append:
  assumes "0 < rune_width s"
  shows "decode_rune (take (rune_width s) s @ t) = decode_rune s"
  using assms
  by (cases rule: rune_forms) (simp_all add: rune_eval)

lemma rune_width_append_eq:
  "0 < rune_width s \<Longrightarrow> rune_width (take (rune_width s) s @ t) = rune_width s"
  by (subst rune_width_def) (simp add: rune_width_append, simp add: rune_width_def)

lemma rune_width_append':
  assumes "0 < rune_width s"
  shows "rune_width (s @ t) = rune_width s"
  using rune_width_append_eq [OF assms, of "drop (rune_width s) s @ t"]
  by (metis append.assoc append_take_drop_id)

lemma rune_width_take:
  assumes "0 < rune_width s" and "rune_width s \<le> n"
  shows "rune_width (take n s) = rune_width s"
proof -
  have "take n s = take (rune_width s) s @ take (n - rune_width s) (drop (rune_width s) s)"
    using assms(2) by (metis le_add_diff_inverse take_add)
  then show ?thesis
    by (simp add: rune_width_append_eq [OF assms(1)])
qed

lemma rune_wide_bytes:
  assumes "1 < rune_width s" and "i < rune_width s"
  shows "0x80 \<le> byte (s ! i)"
proof -
  from assms have "0 < rune_width s" by simp
  then show ?thesis
    using assms
    by (cases rule: rune_forms)
      (auto simp: rune_eval second_ok_def second_range_def cont_def nth_Cons' split: if_splits)
qed

lemma rune_narrow:
  assumes "rune_width s = 1"
  shows "s \<noteq> [] \<and> decode_rune s = (byte (hd s), 1) \<and> byte (hd s) < 0x80"
proof -
  from assms have "0 < rune_width s" by simp
  then show ?thesis
    using assms by (cases rule: rune_forms) (auto simp: rune_eval)
qed

lemma rune_width_pos_start:
  assumes "0 < rune_width s"
  shows "rune_start (s ! 0)"
  using assms by (cases rule: rune_forms) (auto simp: rune_eval)

subsection \<open>Valid strings\<close>

function valid_utf8 :: "string \<Rightarrow> bool" where
  "valid_utf8 s =
     (if s = [] then True
      else if 0 < rune_width s then valid_utf8 (drop (rune_width s) s) else False)"
  by pat_completeness auto
termination
  by (relation "measure length") auto

declare valid_utf8.simps [simp del]

lemma valid_utf8_Nil [simp]: "valid_utf8 []"
  by (subst valid_utf8.simps) simp

lemma valid_utf8_step:
  "s \<noteq> [] \<Longrightarrow> valid_utf8 s = (0 < rune_width s \<and> valid_utf8 (drop (rune_width s) s))"
  by (subst valid_utf8.simps) simp

lemma valid_utf8_append: "valid_utf8 a \<Longrightarrow> valid_utf8 b \<Longrightarrow> valid_utf8 (a @ b)"
proof (induction a rule: valid_utf8.induct)
  case (1 a)
  show ?case
  proof (cases "a = []")
    case True
    with "1.prems" show ?thesis by simp
  next
    case False
    with "1.prems" have w: "0 < rune_width a" "valid_utf8 (drop (rune_width a) a)"
      by (simp_all add: valid_utf8_step)
    with "1.IH" False "1.prems" have "valid_utf8 (drop (rune_width a) a @ b)"
      by blast
    with w(1) False show ?thesis
      using rune_width_le [of a] by (simp add: valid_utf8_step rune_width_append')
  qed
qed

lemma valid_utf8_rune: "0 < rune_width s \<Longrightarrow> valid_utf8 (take (rune_width s) s)"
  by (subst valid_utf8.simps) (auto simp: rune_width_take)

lemma valid_utf8_ascii: "(\<forall>c \<in> set s. byte c < 0x80) \<Longrightarrow> valid_utf8 s"
proof (induction s)
  case (Cons c s)
  then have "rune_width (c # s) = 1"
    by (simp add: rune_width_def Let_def RuneError_def)
  with Cons show ?case by (simp add: valid_utf8_step)
qed simp

text \<open>A cut at the start of a rune (or at the end) leaves a valid prefix.\<close>

lemma valid_utf8_cut:
  "valid_utf8 s \<Longrightarrow> n < length s \<Longrightarrow> rune_start (s ! n) \<Longrightarrow> valid_utf8 (take n s)"
proof (induction s arbitrary: n rule: valid_utf8.induct)
  case (1 s)
  show ?case
  proof (cases "n = 0")
    case False
    define w where "w = rune_width s"
    from "1.prems" have ne: "s \<noteq> []" by auto
    with "1.prems" have w: "0 < w" "valid_utf8 (drop w s)"
      by (simp_all add: valid_utf8_step w_def)
    have "w \<le> n"
      using rune_width_tail [of n s] "1.prems"(3) False by (auto simp: w_def not_less [symmetric])
    moreover have "w \<le> length s" by (simp add: w_def rune_width_le)
    ultimately have "valid_utf8 (take (n - w) (drop w s))"
      using "1.IH" [of "n - w"] ne w "1.prems" by (simp add: w_def)
    moreover have "take n s = take w s @ take (n - w) (drop w s)"
      using \<open>w \<le> n\<close> by (metis le_add_diff_inverse take_add)
    moreover have "valid_utf8 (take w s)"
      using w(1) valid_utf8_rune by (simp add: w_def)
    ultimately show ?thesis
      by (simp add: valid_utf8_append)
  qed simp
qed

subsection \<open>strings.ToValidUTF8 and strings.Map\<close>

definition replacement :: string where
  "replacement = map char_of [0xEF, 0xBF, 0xBD :: nat]"

text \<open>
  \<open>strings.ToValidUTF8\<close>: each maximal run of invalid bytes becomes one replacement; the flag
  says whether the previous byte was invalid.
\<close>

function to_valid_from :: "string \<Rightarrow> bool \<Rightarrow> string \<Rightarrow> string" where
  "to_valid_from rep bad s =
     (if s = [] then []
      else if rune_width s = 0 then (if bad then [] else rep) @ to_valid_from rep True (drop 1 s)
      else take (rune_width s) s @ to_valid_from rep False (drop (rune_width s) s))"
  by pat_completeness auto
termination
  by (relation "measure (\<lambda>(rep, bad, s). length s)") auto

declare to_valid_from.simps [simp del]

definition ToValidUTF8 :: "string \<Rightarrow> string \<Rightarrow> string" where
  "ToValidUTF8 s rep = to_valid_from rep False s"

text \<open>
  \<open>strings.Map\<close> with a mapping that keeps a rune or drops it (returns -1).  An invalid byte
  reads as \<open>RuneError\<close>, and a kept rune is written back encoded.
\<close>

function map_keep :: "(nat \<Rightarrow> bool) \<Rightarrow> string \<Rightarrow> string" where
  "map_keep keep s =
     (if s = [] then []
      else (if keep (fst (decode_rune s))
            then (if rune_width s = 0 then replacement else take (rune_width s) s) else [])
           @ map_keep keep (drop (snd (decode_rune s)) s))"
  by pat_completeness auto
termination
  using decode_rune_width by (relation "measure (\<lambda>(keep, s). length s)") auto

declare map_keep.simps [simp del]

lemma valid_replacement [simp]: "valid_utf8 replacement"
  by (simp add: valid_utf8_step replacement_def rune_width_def Let_def second_ok_def second_range_def
      cont_def RuneError_def)

lemma to_valid_from_valid: "valid_utf8 rep \<Longrightarrow> valid_utf8 (to_valid_from rep bad s)"
  by (induction rep bad s rule: to_valid_from.induct)
    (subst to_valid_from.simps, auto intro!: valid_utf8_append valid_utf8_rune)

lemma to_valid_from_id: "valid_utf8 s \<Longrightarrow> to_valid_from rep bad s = s"
proof (induction rep bad s rule: to_valid_from.induct)
  case (1 rep bad s)
  then show ?case
    by (cases "s = []")
      (auto simp: to_valid_from.simps [of rep bad s] to_valid_from.simps [of rep bad "[]"] valid_utf8_step [of s])
qed

lemma decode_width_valid: "0 < rune_width s \<Longrightarrow> snd (decode_rune s) = rune_width s"
  by (auto simp: rune_width_def split: prod.splits if_splits)

subsection \<open>sanitize and truncate\<close>

definition sanitize_keep :: "nat \<Rightarrow> bool" where
  "sanitize_keep r = (\<not> (r < 0x20 \<and> r \<noteq> 9 \<and> r \<noteq> 10 \<and> r \<noteq> 13))"

definition sanitize :: "string \<Rightarrow> string" where
  "sanitize s = map_keep sanitize_keep (ToValidUTF8 s replacement)"

fun cut_at :: "string \<Rightarrow> nat \<Rightarrow> nat" where
  "cut_at s c = (if 0 < c \<and> \<not> rune_start (s ! c) then cut_at s (c - 1) else c)"

declare cut_at.simps [simp del]

definition truncate_str :: "string \<Rightarrow> nat \<Rightarrow> string" where
  "truncate_str s maxBytes =
     (if length s \<le> maxBytes then s else take (cut_at s maxBytes) s)"

definition printable :: "string \<Rightarrow> bool" where
  "printable s = list_all (\<lambda>c. sanitize_keep (byte c)) s"

lemma map_keep_valid:
  "valid_utf8 s \<Longrightarrow> valid_utf8 (map_keep keep s)"
proof (induction keep s rule: map_keep.induct)
  case (1 keep s)
  show ?case
  proof (cases "s = []")
    case False
    with "1.prems" have w: "0 < rune_width s" "valid_utf8 (drop (rune_width s) s)"
      by (simp_all add: valid_utf8_step)
    with "1.IH" False show ?thesis
      by (auto simp: map_keep.simps [of keep s] decode_width_valid intro!: valid_utf8_append valid_utf8_rune)
  qed (simp add: map_keep.simps)
qed

lemma printable_rune:
  assumes "0 < rune_width s" and "sanitize_keep (fst (decode_rune s))"
  shows "printable (take (rune_width s) s)"
proof (cases "rune_width s = 1")
  case True
  with rune_narrow [OF True] assms(2) show ?thesis
    by (cases s) (auto simp: printable_def)
next
  case False
  with assms(1) have "1 < rune_width s" by simp
  with rune_wide_bytes have "\<forall>c \<in> set (take (rune_width s) s). 0x80 \<le> byte c"
    using rune_width_le [of s] by (auto simp: in_set_conv_nth)
  then show ?thesis
    by (auto simp: printable_def list_all_iff sanitize_keep_def)
qed

lemma printable_Nil [simp]: "printable []"
  by (simp add: printable_def)

lemma printable_append [simp]: "printable (a @ b) = (printable a \<and> printable b)"
  by (simp add: printable_def)

lemma map_keep_printable: "valid_utf8 s \<Longrightarrow> printable (map_keep sanitize_keep s)"
proof (induction s rule: valid_utf8.induct)
  case (1 s)
  show ?case
  proof (cases "s = []")
    case False
    with "1.prems" have w: "0 < rune_width s" "valid_utf8 (drop (rune_width s) s)"
      by (simp_all add: valid_utf8_step)
    with "1.IH" False show ?thesis
      by (auto simp: map_keep.simps [of _ s] decode_width_valid printable_rune)
  qed (simp add: map_keep.simps)
qed

lemma sanitize_valid: "valid_utf8 (sanitize s)"
  by (simp add: sanitize_def ToValidUTF8_def map_keep_valid to_valid_from_valid)

lemma sanitize_printable: "printable (sanitize s)"
  by (simp add: sanitize_def ToValidUTF8_def map_keep_printable to_valid_from_valid)

lemma cut_at_le: "cut_at s n \<le> n"
proof (induction s n rule: cut_at.induct)
  case (1 s c)
  then show ?case
    by (cases "0 < c \<and> \<not> rune_start (s ! c)") (auto simp: cut_at.simps [of s c])
qed

lemma cut_at_start: "cut_at s n = 0 \<or> rune_start (s ! cut_at s n)"
proof (induction s n rule: cut_at.induct)
  case (1 s c)
  then show ?case
    by (cases "0 < c \<and> \<not> rune_start (s ! c)") (auto simp: cut_at.simps [of s c])
qed

lemma truncate_length: "length (truncate_str s n) \<le> n"
  using cut_at_le [of s n] by (auto simp: truncate_str_def)

lemma truncate_prefix: "\<exists>t. s = truncate_str s n @ t"
  unfolding truncate_str_def by (metis append.right_neutral append_take_drop_id)

lemma truncate_valid:
  assumes "valid_utf8 s"
  shows "valid_utf8 (truncate_str s n)"
proof (cases "length s \<le> n")
  case False
  then have "cut_at s n < length s" using cut_at_le [of s n] by simp
  with False assms cut_at_start [of s n] valid_utf8_cut [OF assms, of "cut_at s n"] show ?thesis
    by (auto simp: truncate_str_def)
qed (simp add: truncate_str_def assms)

lemma truncate_printable: "printable s \<Longrightarrow> printable (truncate_str s n)"
  by (auto simp: truncate_str_def printable_def list_all_iff dest: in_set_takeD)

text \<open>Not more than three bytes are given up: the cut is at the last rune start.\<close>

lemma cut_at_greatest:
  assumes "rune_start (s ! i)" and "i \<le> n"
  shows "i \<le> cut_at s n"
  using assms
proof (induction s n rule: cut_at.induct)
  case (1 s c)
  show ?case
  proof (cases "0 < c \<and> \<not> rune_start (s ! c)")
    case True
    with "1.prems" have "i \<le> c - 1"
      by (metis One_nat_def Suc_pred le_Suc_eq)
    with "1" True show ?thesis by (auto simp: cut_at.simps [of s c])
  next
    case False
    with "1.prems" show ?thesis by (auto simp: cut_at.simps [of s c])
  qed
qed

lemma valid_utf8_start_near:
  "valid_utf8 s \<Longrightarrow> n < length s \<Longrightarrow> \<exists>i. i \<le> n \<and> n < i + 4 \<and> rune_start (s ! i)"
proof (induction s arbitrary: n rule: valid_utf8.induct)
  case (1 s)
  define w where "w = rune_width s"
  from "1.prems" have ne: "s \<noteq> []" by auto
  with "1.prems" have w: "0 < w" "valid_utf8 (drop w s)"
    by (simp_all add: valid_utf8_step w_def)
  show ?case
  proof (cases "n < w")
    case True
    have "w \<le> 4" by (simp add: w_def rune_width_4)
    with True rune_width_pos_start [of s] w(1) show ?thesis
      by (intro exI [of _ 0]) (simp add: w_def)
  next
    case False
    then have "n - w < length (drop w s)" using "1.prems" by simp
    with "1.IH" [of "n - w"] ne w obtain i
      where i: "i \<le> n - w" "n - w < i + 4" "rune_start (drop w s ! i)"
      unfolding w_def by blast
    with False "1.prems" show ?thesis
      by (intro exI [of _ "w + i"]) (auto simp: w_def)
  qed
qed

lemma truncate_tight:
  assumes "valid_utf8 s" and "n < length s"
  shows "n < length (truncate_str s n) + 4"
proof -
  from valid_utf8_start_near [OF assms] obtain i where "i \<le> n" "n < i + 4" "rune_start (s ! i)"
    by blast
  with cut_at_greatest [of s i n] assms(2) cut_at_le [of s n] show ?thesis
    by (auto simp: truncate_str_def)
qed

end
