(* ===== verification/CloudEvents.thy ===== *)
theory CloudEvents
  imports GoError Utf8
begin

text \<open>
  The CloudEvents side of package event: \<open>pkg/event/extensions.go\<close>,
  \<open>pkg/event/correlation.go\<close>, \<open>pkg/event/deadletter.go\<close> and \<open>pkg/event/tracing.go\<close>.

  The CloudEvents SDK and the httpgate trace package are not part of the repository: the SDK's
  event type is a type parameter and its operations are the fields of a record \<open>sdk\<close>; the
  trace package is a record \<open>tracer\<close>.  What the library relies on is the predicate
  \<open>sdk_laws\<close>: setters store what the SDK accepts of their argument and touch nothing else.
  \<open>attr_value\<close> is what the SDK makes of a value for an attribute (it trims, and rejects a blank
  id or a source that is no URI reference); a rejected value leaves the attribute as it was and is
  remembered in \<open>event_faults\<close>, which validation reports.
\<close>

subsection \<open>The SDK as a parameter\<close>

type_synonym gotime = int

text \<open>The SDK's canonical extension values (strings, bool, int32, bytes, URI, timestamp).\<close>

datatype extval = XString string | XBool bool | XInt32 "32 word" | XBytes bytes | XUri string | XTime gotime

type_synonym exts = "(string \<times> extval) list"

text \<open>What \<open>SetData\<close> receives: raw bytes, or a value it has to encode first.\<close>

datatype data_value = RawBytes bytes | JsonValue string

record 'ev sdk =
  event_new :: 'ev
  event_id :: "'ev \<Rightarrow> string"
  event_type :: "'ev \<Rightarrow> string"
  event_source :: "'ev \<Rightarrow> string"
  event_specversion :: "'ev \<Rightarrow> string"
  event_subject :: "'ev \<Rightarrow> string"
  event_dataschema :: "'ev \<Rightarrow> string"
  event_datacontenttype :: "'ev \<Rightarrow> string"
  event_time :: "'ev \<Rightarrow> gotime option"
  event_data :: "'ev \<Rightarrow> bytes"
  event_exts :: "'ev \<Rightarrow> exts"
  event_v1_exts :: "'ev \<Rightarrow> exts option"
  set_id :: "string \<Rightarrow> 'ev \<Rightarrow> 'ev"
  set_type :: "string \<Rightarrow> 'ev \<Rightarrow> 'ev"
  set_source :: "string \<Rightarrow> 'ev \<Rightarrow> 'ev"
  set_specversion :: "string \<Rightarrow> 'ev \<Rightarrow> 'ev"
  set_subject :: "string \<Rightarrow> 'ev \<Rightarrow> 'ev"
  set_dataschema :: "string \<Rightarrow> 'ev \<Rightarrow> 'ev"
  set_time :: "gotime \<Rightarrow> 'ev \<Rightarrow> 'ev"
  set_ext :: "string \<Rightarrow> extval \<Rightarrow> 'ev \<Rightarrow> 'ev"
  set_data :: "string \<Rightarrow> data_value \<Rightarrow> 'ev \<Rightarrow> goerr + 'ev"
  event_clone :: "'ev \<Rightarrow> 'ev"
  event_validate :: "'ev \<Rightarrow> goerr option"
  attr_value :: "string \<Rightarrow> string \<Rightarrow> string option"
  event_faults :: "'ev \<Rightarrow> string set"

definition ApplicationJSON :: string where
  "ApplicationJSON = ''application/json''"

definition CloudEventsVersionV1 :: string where
  "CloudEventsVersionV1 = ''1.0''"

subsection \<open>Extension names of the library\<close>

definition ExtCorrelationID :: string where
  "ExtCorrelationID = ''correlationid''"

definition ExtCausationID :: string where
  "ExtCausationID = ''causationid''"

definition ExtDeadLetterReason :: string where
  "ExtDeadLetterReason = ''deadletterreason''"

definition ExtDeadLetterError :: string where
  "ExtDeadLetterError = ''deadlettererror''"

definition MaxDeadLetterErrorLen :: nat where
  "MaxDeadLetterErrorLen = 256"

definition MaxCorrelationIDLen :: nat where
  "MaxCorrelationIDLen = 128"

definition traceparentExtension :: string where
  "traceparentExtension = ''traceparent''"

lemmas ext_name_defs = ExtCorrelationID_def ExtCausationID_def ExtDeadLetterReason_def
  ExtDeadLetterError_def traceparentExtension_def

text \<open>The CloudEvents naming rule for extensions, and the names of context attributes.\<close>

definition spec_attributes :: "string list" where
  "spec_attributes = [''id'', ''source'', ''specversion'', ''type'', ''datacontenttype'',
     ''dataschema'', ''subject'', ''time'', ''data'']"

definition lower_alnum :: "char \<Rightarrow> bool" where
  "lower_alnum c = ((97 \<le> byte c \<and> byte c \<le> 122) \<or> (48 \<le> byte c \<and> byte c \<le> 57))"

definition ext_name_ok :: "string \<Rightarrow> bool" where
  "ext_name_ok n = (n \<noteq> [] \<and> list_all lower_alnum n \<and> n \<notin> set spec_attributes)"

subsection \<open>extensions.go\<close>

definition extensions :: "'ev sdk \<Rightarrow> 'ev \<Rightarrow> exts" where
  "extensions S ce = (case event_v1_exts S ce of Some m \<Rightarrow> m | None \<Rightarrow> event_exts S ce)"

definition extension :: "'ev sdk \<Rightarrow> 'ev \<Rightarrow> string \<Rightarrow> extval option" where
  "extension S ce name = map_of (extensions S ce) name"

subsection \<open>What the library relies on\<close>

text \<open>ASCII lower case: extension names that differ only in case may be one name to the SDK.\<close>

definition ascii_lower :: "string \<Rightarrow> string" where
  "ascii_lower = map (\<lambda>c. if 65 \<le> byte c \<and> byte c \<le> 90 then char_of (byte c + 32) else c)"

definition stored :: "'ev sdk \<Rightarrow> string \<Rightarrow> string \<Rightarrow> string \<Rightarrow> string" where
  "stored S n x old = (case attr_value S n x of Some y \<Rightarrow> y | None \<Rightarrow> old)"

definition accepted :: "'ev sdk \<Rightarrow> string \<Rightarrow> string \<Rightarrow> bool" where
  "accepted S n x \<longleftrightarrow> attr_value S n x = Some x"

lemma stored_accepted [simp]: "accepted S n x \<Longrightarrow> stored S n x old = x"
  by (simp add: accepted_def stored_def)

definition sdk_laws :: "'ev sdk \<Rightarrow> bool" where
  "sdk_laws S \<longleftrightarrow>
     (\<forall>n v ce. ext_name_ok n \<longrightarrow> extension S (set_ext S n v ce) n = Some v) \<and>
     (\<forall>n k v ce. ascii_lower k \<noteq> ascii_lower n \<longrightarrow> extension S (set_ext S n v ce) k = extension S ce k) \<and>
     (\<forall>n v ce. event_id S (set_ext S n v ce) = event_id S ce \<and> event_type S (set_ext S n v ce) = event_type S ce
        \<and> event_source S (set_ext S n v ce) = event_source S ce \<and> event_data S (set_ext S n v ce) = event_data S ce) \<and>
     (\<forall>x ce. event_id S (set_id S x ce) = stored S ''id'' x (event_id S ce) \<and> event_type S (set_id S x ce) = event_type S ce
        \<and> event_source S (set_id S x ce) = event_source S ce \<and> extension S (set_id S x ce) = extension S ce) \<and>
     (\<forall>x ce. event_type S (set_type S x ce) = stored S ''type'' x (event_type S ce) \<and> event_id S (set_type S x ce) = event_id S ce
        \<and> event_source S (set_type S x ce) = event_source S ce \<and> extension S (set_type S x ce) = extension S ce) \<and>
     (\<forall>x ce. event_source S (set_source S x ce) = stored S ''source'' x (event_source S ce) \<and> event_id S (set_source S x ce) = event_id S ce
        \<and> event_type S (set_source S x ce) = event_type S ce \<and> extension S (set_source S x ce) = extension S ce) \<and>
     (\<forall>t ce. event_id S (set_time S t ce) = event_id S ce \<and> event_type S (set_time S t ce) = event_type S ce
        \<and> event_source S (set_time S t ce) = event_source S ce \<and> extension S (set_time S t ce) = extension S ce) \<and>
     (\<forall>ct d ce ce'. set_data S ct d ce = Inr ce' \<longrightarrow>
        event_id S ce' = event_id S ce \<and> event_type S ce' = event_type S ce
        \<and> event_source S ce' = event_source S ce \<and> extension S ce' = extension S ce) \<and>
     (\<forall>ct b ce. \<exists>ce'. set_data S ct (RawBytes b) ce = Inr ce' \<and> event_data S ce' = b) \<and>
     (\<forall>ce. event_clone S ce = ce) \<and>
     (\<forall>k. extension S (event_new S) k = None) \<and>
     (\<forall>ce. distinct (map fst (extensions S ce)) \<and> list_all (\<lambda>(k, v). ext_name_ok k) (extensions S ce))"

lemma ext_name_ok_library [simp]:
  "ext_name_ok ExtCorrelationID" "ext_name_ok ExtCausationID" "ext_name_ok ExtDeadLetterReason"
  "ext_name_ok ExtDeadLetterError" "ext_name_ok traceparentExtension"
  by (simp_all add: ext_name_ok_def ext_name_defs spec_attributes_def lower_alnum_def)

lemma ascii_lower_ok: "ext_name_ok n \<Longrightarrow> ascii_lower n = n"
  unfolding ascii_lower_def ext_name_ok_def
  by (rule map_idI) (auto simp: list_all_iff lower_alnum_def)

lemma ascii_lower_library [simp]:
  "ascii_lower ExtCorrelationID = ExtCorrelationID" "ascii_lower ExtCausationID = ExtCausationID"
  "ascii_lower ExtDeadLetterReason = ExtDeadLetterReason"
  "ascii_lower ExtDeadLetterError = ExtDeadLetterError"
  "ascii_lower traceparentExtension = traceparentExtension"
  by (simp_all add: ascii_lower_ok)

lemma ext_names_distinct [simp]:
  "ExtCorrelationID \<noteq> ExtCausationID" "ExtCausationID \<noteq> ExtCorrelationID"
  "ExtCorrelationID \<noteq> ExtDeadLetterReason" "ExtDeadLetterReason \<noteq> ExtCorrelationID"
  "ExtCorrelationID \<noteq> ExtDeadLetterError" "ExtDeadLetterError \<noteq> ExtCorrelationID"
  "ExtCausationID \<noteq> ExtDeadLetterReason" "ExtDeadLetterReason \<noteq> ExtCausationID"
  "ExtCausationID \<noteq> ExtDeadLetterError" "ExtDeadLetterError \<noteq> ExtCausationID"
  "ExtDeadLetterReason \<noteq> ExtDeadLetterError" "ExtDeadLetterError \<noteq> ExtDeadLetterReason"
  by (simp_all add: ext_name_defs)

lemma sdk_set_ext:
  assumes "sdk_laws S"
  shows "ext_name_ok n \<Longrightarrow> extension S (set_ext S n v ce) n = Some v"
    and "ascii_lower k \<noteq> ascii_lower n \<Longrightarrow> extension S (set_ext S n v ce) k = extension S ce k"
    and "event_id S (set_ext S n v ce) = event_id S ce"
    and "event_type S (set_ext S n v ce) = event_type S ce"
    and "event_source S (set_ext S n v ce) = event_source S ce"
    and "event_data S (set_ext S n v ce) = event_data S ce"
  using assms unfolding sdk_laws_def by (elim conjE, simp)+

lemma sdk_set_attr:
  assumes "sdk_laws S"
  shows "event_id S (set_id S x ce) = stored S ''id'' x (event_id S ce)" "event_type S (set_id S x ce) = event_type S ce"
    "event_source S (set_id S x ce) = event_source S ce" "extension S (set_id S x ce) = extension S ce"
    "event_type S (set_type S x ce) = stored S ''type'' x (event_type S ce)" "event_id S (set_type S x ce) = event_id S ce"
    "event_source S (set_type S x ce) = event_source S ce" "extension S (set_type S x ce) = extension S ce"
    "event_source S (set_source S x ce) = stored S ''source'' x (event_source S ce)" "event_id S (set_source S x ce) = event_id S ce"
    "event_type S (set_source S x ce) = event_type S ce" "extension S (set_source S x ce) = extension S ce"
    "event_id S (set_time S t ce) = event_id S ce" "event_type S (set_time S t ce) = event_type S ce"
    "event_source S (set_time S t ce) = event_source S ce" "extension S (set_time S t ce) = extension S ce"
  using assms unfolding sdk_laws_def by (elim conjE, simp)+

lemma sdk_set_data:
  assumes "sdk_laws S" and "set_data S ct d ce = Inr ce'"
  shows "event_id S ce' = event_id S ce" "event_type S ce' = event_type S ce"
    "event_source S ce' = event_source S ce" "extension S ce' = extension S ce"
  using assms unfolding sdk_laws_def by (elim conjE, simp)+

lemma sdk_misc:
  assumes "sdk_laws S"
  shows "event_clone S ce = ce" "extension S (event_new S) k = None"
    "distinct (map fst (extensions S ce))" "list_all (\<lambda>(k, v). ext_name_ok k) (extensions S ce)"
  using assms unfolding sdk_laws_def by (elim conjE, simp)+

subsection \<open>correlation.go\<close>

definition ErrInvalidCorrelationID :: goerr where
  "ErrInvalidCorrelationID = Sentinel ''ErrInvalidCorrelationID'' ''invalid correlation id''"

definition hex_digit :: "nat \<Rightarrow> char" where
  "hex_digit n = (if n < 10 then char_of (48 + n) else char_of (87 + n))"

definition show_byte_hex :: "char \<Rightarrow> string" where
  "show_byte_hex c = ''0x'' @ [hex_digit (byte c div 16), hex_digit (byte c mod 16)]"

definition id_byte_ok :: "char \<Rightarrow> bool" where
  "id_byte_ok c = (\<not> (byte c < 0x21 \<or> byte c > 0x7E))"

text \<open>The loop over the bytes: the first offending byte and its offset.\<close>

fun first_bad_byte :: "nat \<Rightarrow> string \<Rightarrow> (char \<times> nat) option" where
  "first_bad_byte i [] = None"
| "first_bad_byte i (c # s) = (if id_byte_ok c then first_bad_byte (Suc i) s else Some (c, i))"

definition ValidateCorrelationID :: "string \<Rightarrow> goerr option" where
  "ValidateCorrelationID s =
     (if s = [] then
        Some (Errorf (err_text ErrInvalidCorrelationID @ '': empty'') [ErrInvalidCorrelationID])
      else if length s > MaxCorrelationIDLen then
        Some (Errorf (err_text ErrInvalidCorrelationID @ '': '' @ show_nat (length s) @ '' bytes exceeds ''
                @ show_nat MaxCorrelationIDLen) [ErrInvalidCorrelationID])
      else (case first_bad_byte 0 s of
          Some (c, i) \<Rightarrow>
            Some (Errorf (err_text ErrInvalidCorrelationID @ '': byte '' @ show_byte_hex c @ '' at offset ''
                    @ show_nat i) [ErrInvalidCorrelationID])
        | None \<Rightarrow> None))"

definition CorrelationID :: "'ev sdk \<Rightarrow> 'ev \<Rightarrow> string" where
  "CorrelationID S ce = (case extension S ce ExtCorrelationID of Some (XString v) \<Rightarrow> v | _ \<Rightarrow> [])"

lemma first_bad_byte_None: "first_bad_byte i s = None \<longleftrightarrow> list_all id_byte_ok s"
  by (induction s arbitrary: i) auto

lemma first_bad_byte_Some:
  "first_bad_byte i s = Some (c, j) \<longleftrightarrow>
     i \<le> j \<and> j < i + length s \<and> c = s ! (j - i) \<and> \<not> id_byte_ok c \<and> list_all id_byte_ok (take (j - i) s)"
proof (induction s arbitrary: i)
  case (Cons d s)
  show ?case
  proof (cases "j \<le> i")
    case True
    then show ?thesis
      using Cons.IH [of "Suc i"] by (cases "j = i") auto
  next
    case False
    then have "j - i = Suc (j - Suc i)" by simp
    with False show ?thesis
      using Cons.IH [of "Suc i"] by auto
  qed
qed simp

lemma ValidateCorrelationID_ok_iff:
  "ValidateCorrelationID s = None \<longleftrightarrow>
     s \<noteq> [] \<and> length s \<le> MaxCorrelationIDLen \<and> list_all (\<lambda>c. 0x21 \<le> byte c \<and> byte c \<le> 0x7E) s"
proof -
  have "id_byte_ok = (\<lambda>c. 0x21 \<le> byte c \<and> byte c \<le> 0x7E)"
    by (auto simp: id_byte_ok_def)
  then have "list_all (\<lambda>c. 0x21 \<le> byte c \<and> byte c \<le> 0x7E) s \<longleftrightarrow> first_bad_byte 0 s = None"
    by (simp add: first_bad_byte_None)
  then show ?thesis
    by (simp add: ValidateCorrelationID_def not_less split: option.splits)
qed

lemma ValidateCorrelationID_is:
  "ValidateCorrelationID s = Some e \<Longrightarrow> errors_is ''ErrInvalidCorrelationID'' e"
  by (auto simp: ValidateCorrelationID_def ErrInvalidCorrelationID_def split: if_splits option.splits)

lemma valid_id_utf8: "ValidateCorrelationID s = None \<Longrightarrow> valid_utf8 s"
  by (rule valid_utf8_ascii) (fastforce simp: ValidateCorrelationID_ok_iff list_all_iff)

subsection \<open>tracing.go\<close>

record trace_context =
  TraceID :: string
  SpanID :: string

text \<open>The httpgate trace package: parsing, rendering, and the two generators.\<close>

record 'w tracer =
  trace_parse :: "string \<Rightarrow> trace_context option"
  trace_parent :: "trace_context \<Rightarrow> string"
  trace_new_span :: "('w, string) go"
  trace_new :: "('w, trace_context) go"

text \<open>
  The part of \<open>context.Context\<close> the library reads: the trace, the broker's delivery count,
  whether the metadata store is reachable, whether \<open>WithoutCancel\<close> cut it off from cancellation,
  and the timeouts put on it, the latest first.
\<close>

record ctx =
  ctx_trace :: "trace_context option"
  ctx_count :: "u64 option"
  ctx_store :: bool
  ctx_detached :: bool
  ctx_timeouts :: "int list"

definition Background :: ctx where
  "Background = \<lparr>ctx_trace = None, ctx_count = None, ctx_store = False, ctx_detached = False, ctx_timeouts = []\<rparr>"

definition WithoutCancel :: "ctx \<Rightarrow> ctx" where
  "WithoutCancel c = c\<lparr>ctx_detached := True, ctx_timeouts := []\<rparr>"

definition context_WithTimeout :: "int \<Rightarrow> ctx \<Rightarrow> ctx" where
  "context_WithTimeout d c = c\<lparr>ctx_timeouts := d # ctx_timeouts c\<rparr>"

definition traceFromCloudEvent :: "'w tracer \<Rightarrow> 'ev sdk \<Rightarrow> 'ev \<Rightarrow> trace_context option" where
  "traceFromCloudEvent T S ce =
     (case extension S ce traceparentExtension of Some (XString s) \<Rightarrow> trace_parse T s | _ \<Rightarrow> None)"

definition injectTrace :: "'w tracer \<Rightarrow> 'ev sdk \<Rightarrow> trace_context \<Rightarrow> 'ev \<Rightarrow> 'ev" where
  "injectTrace T S tc ce = set_ext S traceparentExtension (XString (trace_parent T tc)) ce"

definition inheritOrNewTrace :: "'w tracer \<Rightarrow> 'ev sdk \<Rightarrow> string \<Rightarrow> 'ev option \<Rightarrow> ('w, trace_context) go" where
  "inheritOrNewTrace T S traceparent ce =
     (case trace_parse T traceparent of
        Some tc \<Rightarrow> go_bind (trace_new_span T) (\<lambda>sp. go_ret \<lparr>TraceID = TraceID tc, SpanID = sp\<rparr>)
      | None \<Rightarrow>
          (case ce of
             None \<Rightarrow> trace_new T
           | Some e \<Rightarrow>
               (case traceFromCloudEvent T S e of
                  Some tc \<Rightarrow> go_bind (trace_new_span T) (\<lambda>sp. go_ret \<lparr>TraceID = TraceID tc, SpanID = sp\<rparr>)
                | None \<Rightarrow> trace_new T)))"

definition ContextWithTrace ::
    "'w tracer \<Rightarrow> 'ev sdk \<Rightarrow> ctx option \<Rightarrow> string \<Rightarrow> 'ev option \<Rightarrow> ('w, ctx) go" where
  "ContextWithTrace T S parent traceparent ce =
     go_bind (inheritOrNewTrace T S traceparent ce)
       (\<lambda>tc. go_ret ((case parent of None \<Rightarrow> Background | Some p \<Rightarrow> p)\<lparr>ctx_trace := Some tc\<rparr>))"

definition InjectTraceFromContext ::
    "'w tracer \<Rightarrow> 'ev sdk \<Rightarrow> ctx \<Rightarrow> 'ev \<Rightarrow> 'ev \<times> trace_context option" where
  "InjectTraceFromContext T S c ce =
     (case ctx_trace c of Some tc \<Rightarrow> (injectTrace T S tc ce, Some tc) | None \<Rightarrow> (ce, None))"

text \<open>
  An inherited trace keeps its trace id: the native carrier wins, then the extension, and only
  without either is a new trace started.
\<close>

lemma inheritOrNewTrace_trace_id:
  assumes "inheritOrNewTrace T S tp ce w = (Ret tc, w')"
  shows "(case trace_parse T tp of
            Some c \<Rightarrow> TraceID tc = TraceID c
          | None \<Rightarrow> (case Option.bind ce (traceFromCloudEvent T S) of
                Some c \<Rightarrow> TraceID tc = TraceID c
              | None \<Rightarrow> trace_new T w = (Ret tc, w')))"
  using assms
  by (auto simp: inheritOrNewTrace_def go_bind_def go_ret_def split: option.splits prod.splits res.splits)

text \<open>
  The trace survives a hop: what a publisher injects, a subscriber that lost the native carrier
  reads back from the extension.
\<close>

lemma inject_then_read:
  assumes "sdk_laws S" and "trace_parse T (trace_parent T tc) = Some tc"
  shows "traceFromCloudEvent T S (injectTrace T S tc ce) = Some tc"
  by (simp add: traceFromCloudEvent_def injectTrace_def sdk_set_ext(1) [OF assms(1)] assms(2))

end
