(* ===== verification/Metadata.thy ===== *)
theory Metadata
  imports CloudEvents
begin

text \<open>
  \<open>pkg/eventmux/metadata\<close>: the per-message string store that handlers fill and the router
  turns into extensions of the result event.  The mutex makes each operation atomic, so a
  store is its map.
\<close>

type_synonym store = "(string \<times> string) list"

definition NewStore :: store where
  "NewStore = []"

definition Store_Set :: "string \<Rightarrow> string \<Rightarrow> store \<Rightarrow> store" where
  "Store_Set key val b = AList.update key val b"

text \<open>\<open>All\<close> copies every entry into a new map.\<close>

definition Store_All :: "store \<Rightarrow> (string \<times> string) list" where
  "Store_All b = fold (\<lambda>(k, v) out. AList.update k v out) b []"

definition NewContext :: "ctx \<Rightarrow> ctx" where
  "NewContext c = c\<lparr>ctx_store := True\<rparr>"

text \<open>The store is reached through the context; a context without one gives \<open>ok = false\<close>.\<close>

definition FromContext :: "ctx \<Rightarrow> store \<Rightarrow> store option" where
  "FromContext c b = (if ctx_store c then Some b else None)"

definition store_inv :: "store \<Rightarrow> bool" where
  "store_inv b = distinct (map fst b)"

lemma store_inv_new [simp]: "store_inv NewStore"
  by (simp add: store_inv_def NewStore_def)

lemma store_inv_set [simp]: "store_inv b \<Longrightarrow> store_inv (Store_Set k v b)"
  by (simp add: store_inv_def Store_Set_def distinct_update)

lemma fold_update_map_of:
  "map_of (fold (\<lambda>(k, v) out. AList.update k v out) xs acc) k =
     (case map_of (rev xs) k of Some v \<Rightarrow> Some v | None \<Rightarrow> map_of acc k)"
  by (induction xs arbitrary: acc) (auto simp: map_add_def split: option.splits)

lemma Store_All_map_of:
  assumes "store_inv b"
  shows "map_of (Store_All b) = map_of b"
proof
  fix k
  from assms have "map_of (rev b) k = map_of b k"
    by (metis map_of_eqI distinct_map distinct_rev rev_map set_rev map_of_inject_set store_inv_def)
  then show "map_of (Store_All b) k = map_of b k"
    by (simp add: Store_All_def fold_update_map_of split: option.splits)
qed

lemma Store_All_distinct: "distinct (map fst (Store_All b))"
proof -
  have "distinct (map fst acc) \<Longrightarrow>
      distinct (map fst (fold (\<lambda>(k, v) out. AList.update k v out) b acc))" for acc
    by (induction b arbitrary: acc) (auto simp: distinct_update split: prod.splits)
  from this [of "[]"] show ?thesis by (simp add: Store_All_def)
qed

subsection \<open>The key-value contract\<close>

locale kv_store =
  fixes empty :: 's
    and put :: "'k \<Rightarrow> 'v \<Rightarrow> 's \<Rightarrow> 's"
    and snapshot :: "'s \<Rightarrow> 'k \<Rightarrow> 'v option"
    and ok :: "'s \<Rightarrow> bool"
  assumes ok_empty: "ok empty"
    and ok_put: "ok s \<Longrightarrow> ok (put k v s)"
    and snapshot_empty: "snapshot empty k = None"
    and snapshot_put: "ok s \<Longrightarrow> snapshot (put k v s) k' = (if k' = k then Some v else snapshot s k')"
begin

lemma ok_puts: "ok s \<Longrightarrow> ok (fold (\<lambda>(k, v). put k v) kvs s)"
  by (induction kvs arbitrary: s) (auto simp: ok_put)

lemma snapshot_puts:
  "ok s \<Longrightarrow> snapshot (fold (\<lambda>(k, v). put k v) kvs s) k =
     (case map_of (rev kvs) k of Some v \<Rightarrow> Some v | None \<Rightarrow> snapshot s k)"
  by (induction kvs arbitrary: s) (auto simp: ok_put snapshot_put map_add_def split: option.splits)

end

interpretation metadata: kv_store NewStore Store_Set "\<lambda>b. map_of (Store_All b)" store_inv
  by unfold_locales (simp_all add: Store_All_map_of, simp_all add: NewStore_def Store_Set_def)

end
