(* ===== verification/Middleware.thy ===== *)
theory Middleware
  imports Logfields Metadata
begin

text \<open>
  \<open>pkg/eventmux/handler.go\<close> and \<open>pkg/eventmux/middleware.go\<close>: the type-erased handler, the
  middleware type and \<open>Chain\<close>.

  A handler runs on the world, the metadata store its context reaches and the log; the payload
  type is a parameter (Go's \<open>any\<close>).  It returns a pair: the result data (\<open>None\<close> is a nil
  \<open>jsontext.Value\<close>) and the error.
\<close>

record 'w henv =
  h_world :: 'w
  h_store :: store
  h_log :: "logrec list"

type_synonym ('d, 'w) handler_func = "ctx \<Rightarrow> 'd \<Rightarrow> ('w henv, bytes option \<times> goerr option) go"

type_synonym ('d, 'w) middleware = "('d, 'w) handler_func \<Rightarrow> ('d, 'w) handler_func"

definition h_log_add :: "logrec \<Rightarrow> ('w henv, unit) go" where
  "h_log_add r = go_modify (\<lambda>h. h\<lparr>h_log := h_log h @ [r]\<rparr>)"

definition on_h_world :: "('w, 'a) go \<Rightarrow> ('w henv, 'a) go" where
  "on_h_world = go_zoom h_world (\<lambda>w h. h\<lparr>h_world := w\<rparr>)"

lemmas henv_defs [go_defs] = h_log_add_def on_h_world_def

definition Chain :: "('d, 'w) handler_func \<Rightarrow> ('d, 'w) middleware list \<Rightarrow> ('d, 'w) handler_func" where
  "Chain handler mws = foldl (\<lambda>chained mw. mw chained) handler (rev mws)"

definition noopHandler :: "('d, 'w) handler_func" where
  "noopHandler c data = go_ret (None, None)"

lemma Chain_Nil [simp]: "Chain h [] = h"
  by (simp add: Chain_def)

lemma Chain_Cons [simp]: "Chain h (mw # mws) = mw (Chain h mws)"
  by (simp add: Chain_def)

lemma Chain_append: "Chain h (xs @ ys) = Chain (Chain h ys) xs"
  by (induction xs) simp_all

end
