(* ===== verification/Message.thy ===== *)
theory Message
  imports CloudEvents
begin

text \<open>
  \<open>pkg/event/message.go\<close>: a CloudEvent together with the broker's delivery callbacks and the
  router's decision about it.

  The state of the operations is the message and the world: a delivery callback runs on the
  world and may fail or panic.  \<open>msg_told\<close> is a ghost field: the delivery callbacks that were run,
  each recorded where it runs, so that "the broker was told once, and told the right thing" can be
  stated.
\<close>

subsection \<open>Outcome\<close>

datatype outcome = OutcomePending | OutcomeAcked | OutcomeNacked | OutcomeDiscarded

fun outcome_code :: "outcome \<Rightarrow> nat" where
  "outcome_code OutcomePending = 0"
| "outcome_code OutcomeAcked = 1"
| "outcome_code OutcomeNacked = 2"
| "outcome_code OutcomeDiscarded = 3"

fun outcome_String :: "outcome \<Rightarrow> string" where
  "outcome_String OutcomePending = ''pending''"
| "outcome_String OutcomeAcked = ''acked''"
| "outcome_String OutcomeNacked = ''nacked''"
| "outcome_String OutcomeDiscarded = ''discarded''"

text \<open>The constants are an \<open>iota\<close> block: they are ordered by their number.\<close>

instantiation outcome :: linorder
begin

definition less_eq_outcome :: "outcome \<Rightarrow> outcome \<Rightarrow> bool" where
  "less_eq_outcome a b = (outcome_code a \<le> outcome_code b)"

definition less_outcome :: "outcome \<Rightarrow> outcome \<Rightarrow> bool" where
  "less_outcome a b = (outcome_code a < outcome_code b)"

instance
proof
  fix a b :: outcome
  show "a \<le> b \<Longrightarrow> b \<le> a \<Longrightarrow> a = b"
    by (cases a; cases b) (auto simp: less_eq_outcome_def)
qed (auto simp: less_eq_outcome_def less_outcome_def)

end

lemma OutcomePending_least [simp]: "OutcomePending \<le> a"
  by (simp add: less_eq_outcome_def)

subsection \<open>Delivery and Message\<close>

record 'w delivery =
  dl_ack :: "('w, goerr option) go option"
  dl_nack :: "('w, goerr option) go option"
  dl_discard :: "('w, goerr option) go option"
  dl_count :: u64

record ('ev, 'w) message =
  msg_event :: 'ev
  msg_delivery :: "'w delivery"
  msg_once :: bool
  msg_ctx :: ctx
  msg_cancelled :: bool
  msg_outcome :: outcome
  msg_cause :: "goerr option"
  msg_decode_err :: "goerr option"
  msg_told :: "('w, goerr option) go list"

definition NewMessage :: "ctx option \<Rightarrow> 'ev \<Rightarrow> 'w delivery \<Rightarrow> ('ev, 'w) message" where
  "NewMessage parent ce d =
     (let p = (case parent of None \<Rightarrow> Background | Some p \<Rightarrow> p);
          d = (if dl_discard d = None then d\<lparr>dl_discard := dl_ack d\<rparr> else d);
          p = (if dl_count d > 0 then p\<lparr>ctx_count := Some (dl_count d)\<rparr> else p)
      in \<lparr>msg_event = ce, msg_delivery = d, msg_once = False, msg_ctx = p, msg_cancelled = False,
          msg_outcome = OutcomePending, msg_cause = None, msg_decode_err = None, msg_told = []\<rparr>)"

definition NewUndecodable :: "ctx option \<Rightarrow> 'ev \<Rightarrow> 'w delivery \<Rightarrow> goerr \<Rightarrow> ('ev, 'w) message" where
  "NewUndecodable parent ce d err = (NewMessage parent ce d)\<lparr>msg_decode_err := Some err\<rparr>"

definition DecodeError :: "('ev, 'w) message \<Rightarrow> goerr option" where
  "DecodeError m = msg_decode_err m"

definition DeliveryCountFromContext :: "ctx \<Rightarrow> u64 \<times> bool" where
  "DeliveryCountFromContext c = (case ctx_count c of Some n \<Rightarrow> (n, True) | None \<Rightarrow> (0, False))"

definition Outcome :: "('ev, 'w) message \<Rightarrow> outcome \<times> goerr option" where
  "Outcome m = (msg_outcome m, msg_cause m)"

definition CanNack :: "('ev, 'w) message \<Rightarrow> bool" where
  "CanNack m = (dl_nack (msg_delivery m) \<noteq> None)"

definition DeliveryCount :: "('ev, 'w) message \<Rightarrow> u64 \<times> bool" where
  "DeliveryCount m = (dl_count (msg_delivery m), dl_count (msg_delivery m) > 0)"

text \<open>
  \<open>decide\<close>: the body of \<open>once.Do\<close> runs at most once, also when the callback panics (then the
  context is not cancelled and the panic goes on).
\<close>

definition decide :: "outcome \<Rightarrow> goerr option \<Rightarrow> ('w, goerr option) go option
    \<Rightarrow> (('ev, 'w) message \<times> 'w, goerr option) go" where
  "decide out cause fn s = (case s of (m, w) \<Rightarrow>
     if msg_once m then (Ret None, (m, w))
     else (let m = m\<lparr>msg_once := True, msg_outcome := out, msg_cause := cause\<rparr> in
       (case fn of
          None \<Rightarrow> (Ret None, (m\<lparr>msg_cancelled := True\<rparr>, w))
        | Some f \<Rightarrow>
            (let m = m\<lparr>msg_told := msg_told m @ [f]\<rparr> in
             (case f w of
                (Ret err, w') \<Rightarrow> (Ret err, (m\<lparr>msg_cancelled := True\<rparr>, w'))
              | (Panic p, w') \<Rightarrow> (Panic p, (m, w')))))))"

definition Ack :: "(('ev, 'w) message \<times> 'w, goerr option) go" where
  "Ack s = decide OutcomeAcked None (dl_ack (msg_delivery (fst s))) s"

definition Nack :: "goerr \<Rightarrow> (('ev, 'w) message \<times> 'w, goerr option) go" where
  "Nack cause s = decide OutcomeNacked (Some cause) (dl_nack (msg_delivery (fst s))) s"

definition Discard :: "goerr \<Rightarrow> (('ev, 'w) message \<times> 'w, goerr option) go" where
  "Discard cause s = decide OutcomeDiscarded (Some cause) (dl_discard (msg_delivery (fst s))) s"

text \<open>The three calls as data, for statements about sequences of them.\<close>

datatype decision = DAck | DNack goerr | DDiscard goerr

fun apply_decision :: "decision \<Rightarrow> (('ev, 'w) message \<times> 'w, goerr option) go" where
  "apply_decision DAck = Ack"
| "apply_decision (DNack e) = Nack e"
| "apply_decision (DDiscard e) = Discard e"

fun decision_outcome :: "decision \<Rightarrow> outcome \<times> goerr option" where
  "decision_outcome DAck = (OutcomeAcked, None)"
| "decision_outcome (DNack e) = (OutcomeNacked, Some e)"
| "decision_outcome (DDiscard e) = (OutcomeDiscarded, Some e)"

fun decision_callback :: "decision \<Rightarrow> ('ev, 'w) message \<Rightarrow> ('w, goerr option) go option" where
  "decision_callback DAck m = dl_ack (msg_delivery m)"
| "decision_callback (DNack e) m = dl_nack (msg_delivery m)"
| "decision_callback (DDiscard e) m = dl_discard (msg_delivery m)"

lemma apply_decision_decide:
  "apply_decision d s = decide (fst (decision_outcome d)) (snd (decision_outcome d)) (decision_callback d (fst s)) s"
  by (cases d) (simp_all add: Ack_def Nack_def Discard_def)

text \<open>The callback a transport provides for an outcome, and the calls it is owed.\<close>

fun outcome_callback :: "outcome \<Rightarrow> 'w delivery \<Rightarrow> ('w, goerr option) go option" where
  "outcome_callback OutcomePending d = None"
| "outcome_callback OutcomeAcked d = dl_ack d"
| "outcome_callback OutcomeNacked d = dl_nack d"
| "outcome_callback OutcomeDiscarded d = dl_discard d"

definition calls_owed :: "('w, goerr option) go option \<Rightarrow> ('w, goerr option) go list" where
  "calls_owed fn = (case fn of None \<Rightarrow> [] | Some f \<Rightarrow> [f])"

lemma calls_owed_simps [simp]: "calls_owed None = []" "calls_owed (Some f) = [f]"
  by (simp_all add: calls_owed_def)

lemma calls_owed_le: "length (calls_owed fn) \<le> Suc 0"
  by (simp add: calls_owed_def split: option.split)

lemma decision_callback_outcome:
  "decision_callback d m = outcome_callback (fst (decision_outcome d)) (msg_delivery m)"
  by (cases d) simp_all

subsection \<open>The message invariant\<close>

text \<open>
  Undecided messages have told the broker nothing; a decided one ran the callback for its outcome,
  once, when the transport has one, and nothing else.
\<close>

definition message_inv :: "('ev, 'w) message \<Rightarrow> bool" where
  "message_inv m \<longleftrightarrow>
     (msg_once m \<longleftrightarrow> msg_outcome m \<noteq> OutcomePending) \<and>
     msg_told m = calls_owed (outcome_callback (msg_outcome m) (msg_delivery m)) \<and>
     (\<not> msg_once m \<longrightarrow> msg_cause m = None \<and> \<not> msg_cancelled m)"

lemma message_inv_new [simp]: "message_inv (NewMessage p ce d)"
  by (simp add: message_inv_def NewMessage_def Let_def)

lemma message_inv_undecodable [simp]: "message_inv (NewUndecodable p ce d e)"
  by (simp add: message_inv_def NewUndecodable_def NewMessage_def Let_def)

text \<open>What \<open>decide\<close> does to a message that is not decided yet.\<close>

lemma decide_pending:
  assumes "\<not> msg_once m" and "decide out cause fn (m, w) = (r, (m', w'))"
  shows "msg_once m' \<and> msg_outcome m' = out \<and> msg_cause m' = cause
    \<and> msg_told m' = msg_told m @ calls_owed fn
    \<and> (case fn of None \<Rightarrow> r = Ret None \<and> w' = w | Some f \<Rightarrow> f w = (r, w'))
    \<and> msg_delivery m' = msg_delivery m \<and> msg_event m' = msg_event m \<and> msg_decode_err m' = msg_decode_err m
    \<and> msg_ctx m' = msg_ctx m \<and> (\<forall>x. r = Ret x \<longrightarrow> msg_cancelled m')"
  using assms
  by (auto simp: decide_def Let_def split: option.splits prod.splits res.splits)

lemma decide_decided: "msg_once m \<Longrightarrow> decide out cause fn (m, w) = (Ret None, (m, w))"
  by (simp add: decide_def)

lemma apply_decision_inv:
  assumes "message_inv m" and "apply_decision d (m, w) = (r, (m', w'))"
  shows "message_inv m'"
proof (cases "msg_once m")
  case True
  with assms show ?thesis by (simp add: apply_decision_decide decide_decided)
next
  case False
  with assms(1) have "msg_told m = []" by (auto simp: message_inv_def)
  with decide_pending [OF False assms(2) [unfolded apply_decision_decide]] show ?thesis
    by (cases d) (simp_all add: message_inv_def)
qed

lemma decide_panics_only_if:
  "decide out cause (Some f) (m, w) = (Panic p, s) \<Longrightarrow> \<exists>w'. f w = (Panic p, w')"
  by (auto simp: decide_def Let_def split: if_splits prod.splits res.splits)

lemma decision_outcome_not_pending: "fst (decision_outcome d) \<noteq> OutcomePending"
  by (cases d) simp_all

subsection \<open>The one-shot contract\<close>

text \<open>
  What the router relies on: a decision is taken once.  Inside the locale, any further sequence
  of decisions leaves the first one standing.
\<close>

locale one_shot =
  fixes attempt :: "'d \<Rightarrow> ('s, 'r) go"
    and result :: "'d \<Rightarrow> 'v"
    and decided :: "'s \<Rightarrow> 'v option"
    and valid :: "'s \<Rightarrow> bool"
  assumes first_attempt: "valid s \<Longrightarrow> decided s = None \<Longrightarrow> decided (snd (attempt d s)) = Some (result d)"
    and later_attempt: "valid s \<Longrightarrow> decided s = Some v \<Longrightarrow> snd (attempt d s) = s"
    and valid_attempt: "valid s \<Longrightarrow> valid (snd (attempt d s))"
begin

lemma stays: "valid s \<Longrightarrow> decided s = Some v \<Longrightarrow> fold (\<lambda>d s. snd (attempt d s)) ds s = s"
  by (induction ds arbitrary: s) (simp_all add: later_attempt)

lemma first_wins:
  assumes "valid s" and "decided s = None"
  shows "decided (fold (\<lambda>d s. snd (attempt d s)) (d # ds) s) = Some (result d)"
  using stays [OF valid_attempt [OF assms(1)] first_attempt [OF assms]] first_attempt [OF assms]
  by simp

lemma fold_valid: "valid s \<Longrightarrow> valid (fold (\<lambda>d s. snd (attempt d s)) ds s)"
  by (induction ds arbitrary: s) (simp_all add: valid_attempt)

end

definition message_decided :: "('ev, 'w) message \<times> 'w \<Rightarrow> (outcome \<times> goerr option) option" where
  "message_decided s = (if msg_once (fst s) then Some (Outcome (fst s)) else None)"

interpretation settling: one_shot apply_decision decision_outcome message_decided "\<lambda>s. message_inv (fst s)"
proof (unfold_locales, goal_cases)
  case (1 s d)
  obtain m w where s: "s = (m, w)" by (cases s)
  with 1 have "\<not> msg_once m" by (auto simp: message_decided_def split: if_splits)
  then show ?case
    using decide_pending [of m]
    by (cases "apply_decision d s")
      (force simp: s apply_decision_decide message_decided_def Outcome_def)
next
  case (2 s v d)
  then show ?case
    by (cases s) (auto simp: message_decided_def apply_decision_decide decide_decided split: if_splits)
next
  case (3 s d)
  then show ?case
    by (cases s; cases "apply_decision d s") (auto intro: apply_decision_inv)
qed

text \<open>
  C26. Only the first of any sequence of Ack, Nack and Discard calls on a fresh message takes
  effect: it fixes the outcome and its cause for good, and the broker hears of it exactly once, by
  the transport's own callback for that call (not at all when the transport has no such callback),
  whether or not the callback fails or panics.  The later calls do not touch the world.
\<close>

theorem first_decision_wins:
  "let m = NewMessage p ce dl;
       (m', w') = fold (\<lambda>d s. snd (apply_decision d s)) (d # ds) (m, w);
       fn = (case d of DAck \<Rightarrow> dl_ack dl | DNack e \<Rightarrow> dl_nack dl
                     | DDiscard e \<Rightarrow> (if dl_discard dl = None then dl_ack dl else dl_discard dl))
   in Outcome m' = decision_outcome d \<and>
      msg_told m' = (case fn of None \<Rightarrow> [] | Some f \<Rightarrow> [f]) \<and>
      w' = (case fn of None \<Rightarrow> w | Some f \<Rightarrow> snd (f w)) \<and>
      OutcomePending < msg_outcome m'"
proof -
  define m where "m = NewMessage p ce dl"
  define fn where "fn = (case d of DAck \<Rightarrow> dl_ack dl | DNack e \<Rightarrow> dl_nack dl
    | DDiscard e \<Rightarrow> (if dl_discard dl = None then dl_ack dl else dl_discard dl))"
  obtain r m1 w1 where step: "apply_decision d (m, w) = (r, (m1, w1))"
    by (metis prod.exhaust_sel)
  have fresh: "\<not> msg_once m" "msg_told m = []" "message_inv m"
    by (simp_all add: m_def) (simp_all add: NewMessage_def Let_def)
  have fn: "decision_callback d m = fn"
    by (cases d) (simp_all add: m_def fn_def NewMessage_def Let_def)
  from decide_pending [OF fresh(1) step [unfolded apply_decision_decide fst_conv fn]] fresh(2)
  have m1: "msg_once m1" "Outcome m1 = decision_outcome d"
    "msg_told m1 = (case fn of None \<Rightarrow> [] | Some f \<Rightarrow> [f])"
    "w1 = (case fn of None \<Rightarrow> w | Some f \<Rightarrow> snd (f w))"
    by (cases fn; simp add: Outcome_def calls_owed_def prod_eq_iff)+
  have "fold (\<lambda>d s. snd (apply_decision d s)) (d # ds) (m, w) = (m1, w1)"
    using settling.stays [of "(m1, w1)"] settling.valid_attempt [of "(m, w)" d] m1(1) fresh(3) step
    by (simp add: message_decided_def)
  moreover have "OutcomePending < msg_outcome m1"
    using m1(2) decision_outcome_not_pending [of d]
    by (metis Outcome_def OutcomePending_least fst_conv order_le_imp_less_or_eq)
  ultimately show ?thesis
    using m1 by (simp add: m_def fn_def [symmetric] Let_def)
qed

end
