(* ===== verification/Filters.thy ===== *)
theory Filters
  imports Message Logfields
begin

text \<open>
  \<open>eventmux.Filter\<close> with the implementations of \<open>pkg/filter/cefilter\<close>.

  A filter value carries what \<open>==\<close> on interfaces compares: an identity, or none when its
  dynamic type is not comparable (a func type).  \<open>Match\<close> is user code: it runs on the world
  and may panic.
\<close>

record ('ev, 'w) filter_impl =
  flt_identity :: "nat option"
  flt_Match :: "('ev, 'w) message \<Rightarrow> ('w, bool) go"

subsection \<open>cefilter\<close>

definition typeFilter_Match :: "'ev sdk \<Rightarrow> string set \<Rightarrow> ('ev, 'w) message \<Rightarrow> ('w, bool) go" where
  "typeFilter_Match S allowedTypes msg = go_ret (event_type S (msg_event msg) \<in> allowedTypes)"

definition ByType :: "'ev sdk \<Rightarrow> nat \<Rightarrow> string list \<Rightarrow> ('ev, 'w) filter_impl" where
  "ByType S addr types = \<lparr>flt_identity = Some addr, flt_Match = typeFilter_Match S (set types)\<rparr>"

definition sourceFilter_Match :: "'ev sdk \<Rightarrow> string \<Rightarrow> ('ev, 'w) message \<Rightarrow> ('w, bool) go" where
  "sourceFilter_Match S prefix msg = go_ret (has_prefix (event_source S (msg_event msg)) prefix)"

definition BySource :: "'ev sdk \<Rightarrow> nat \<Rightarrow> string \<Rightarrow> ('ev, 'w) filter_impl" where
  "BySource S addr prefix = \<lparr>flt_identity = Some addr, flt_Match = sourceFilter_Match S prefix\<rparr>"

fun compositeFilter_Match :: "('ev, 'w) filter_impl list \<Rightarrow> ('ev, 'w) message \<Rightarrow> ('w, bool) go" where
  "compositeFilter_Match [] msg = go_ret True"
| "compositeFilter_Match (f # fs) msg =
     go_bind (flt_Match f msg) (\<lambda>b. if \<not> b then go_ret False else compositeFilter_Match fs msg)"

definition FilterAll :: "nat \<Rightarrow> ('ev, 'w) filter_impl list \<Rightarrow> ('ev, 'w) filter_impl" where
  "FilterAll addr fs = \<lparr>flt_identity = Some addr, flt_Match = compositeFilter_Match fs\<rparr>"

subsection \<open>Filters that are predicates\<close>

text \<open>
  A filter computes a predicate of the message when it returns it without panicking.  Conjunction
  is \<open>FilterAll\<close>, whatever the order of its parts.
\<close>

definition computes :: "('ev, 'w) filter_impl \<Rightarrow> (('ev, 'w) message \<Rightarrow> bool) \<Rightarrow> bool" where
  "computes f P \<longleftrightarrow> (\<forall>m w. fst (flt_Match f m w) = Ret (P m))"

lemma computes_ByType: "computes (ByType S a ts) (\<lambda>m. event_type S (msg_event m) \<in> set ts)"
  by (simp add: computes_def ByType_def typeFilter_Match_def go_ret_def)

lemma computes_BySource: "computes (BySource S a p) (\<lambda>m. has_prefix (event_source S (msg_event m)) p)"
  by (simp add: computes_def BySource_def sourceFilter_Match_def go_ret_def)

lemma computes_FilterAll:
  assumes "list_all2 computes fs Ps"
  shows "computes (FilterAll a fs) (\<lambda>m. list_all (\<lambda>P. P m) Ps)"
proof -
  have "fst (compositeFilter_Match fs m w) = Ret (list_all (\<lambda>P. P m) Ps)" for m w
    using assms
  proof (induction fs Ps arbitrary: w rule: list_all2_induct)
    case Nil
    show ?case by (simp add: go_ret_def)
  next
    case (Cons f fs P Ps)
    obtain r w1 where f: "flt_Match f m w = (r, w1)" by fastforce
    with Cons.hyps(1) have "r = Ret (P m)"
      by (metis computes_def fst_conv)
    with f Cons.IH [of w1] show ?case
      by (auto simp: go_bind_def go_ret_def)
  qed
  then show ?thesis by (simp add: computes_def FilterAll_def)
qed

end
