(* ===== verification/MuxTypes.thy ===== *)
theory MuxTypes
  imports Middleware Filters
begin

text \<open>
  The data of \<open>pkg/eventmux\<close>: configuration, routes, the multiplexer, and the state one call of
  \<open>handle\<close> works on; \<open>pkg/eventmux/interfaces.go\<close> and \<open>pkg/eventmux/observer.go\<close>.

  \<open>'ev\<close> is the SDK's event type, \<open>'d\<close> Go's \<open>any\<close> (the decoded payload), \<open>'w\<close> the world that
  brokers, publishers and user code act on.
\<close>

subsection \<open>Dead-letter reasons\<close>

text \<open>
  \<open>DeadLetterReason\<close> is a string; its constants are the constructors and the empty string
  ("retryable", or no reason) is \<open>None\<close>.
\<close>

datatype reason = ReasonDecode | ReasonValidation | ReasonPanic | ReasonNonRetryable
  | ReasonNoRedelivery | ReasonMaxRetries | ReasonPublish

fun reason_string :: "reason \<Rightarrow> string" where
  "reason_string ReasonDecode = ''decode''"
| "reason_string ReasonValidation = ''validation''"
| "reason_string ReasonPanic = ''panic''"
| "reason_string ReasonNonRetryable = ''nonretryable''"
| "reason_string ReasonNoRedelivery = ''noredelivery''"
| "reason_string ReasonMaxRetries = ''maxretries''"
| "reason_string ReasonPublish = ''publish''"

subsection \<open>Interfaces\<close>

type_synonym ('ev, 'w) publisher = "ctx \<Rightarrow> 'ev \<Rightarrow> ('w, goerr option) go"

text \<open>A publisher as the mux holds it: as configured, or wrapped by \<open>observedPublisher\<close>.\<close>

datatype ('ev, 'w) pub = BarePub "('ev, 'w) publisher" | ObservedPub "('ev, 'w) publisher"

record ('ev, 'w) observer =
  OnMessage :: "ctx \<Rightarrow> ('ev, 'w) message \<Rightarrow> log_outcome \<Rightarrow> reason option \<Rightarrow> ('w, unit) go"
  OnPublish :: "ctx \<Rightarrow> 'ev \<Rightarrow> goerr option \<Rightarrow> ('w, unit) go"

text \<open>A subscription: set up and torn down by the mux; it then calls \<open>handle\<close> per message.\<close>

record 'w subscription =
  sub_Start :: "ctx \<Rightarrow> ('w, goerr option) go"
  sub_Stop :: "ctx \<Rightarrow> ('w, goerr option) go"

subsection \<open>Route, Config and Mux\<close>

record ('ev, 'd, 'w) route =
  rt_pub :: "('ev, 'w) pub option"
  rt_filter :: "('ev, 'w) filter_impl option"
  rt_decode :: "bytes \<Rightarrow> ('w, goerr + 'd) go"
  rt_handler :: "('d, 'w) handler_func"
  rt_chain :: "('d, 'w) handler_func option"

text \<open>\<open>Observer = None\<close> is \<open>noopObserver\<close>; \<open>DebugEnabled\<close> is the logger's answer for DEBUG.\<close>

record ('ev, 'w) config =
  cfg_Name :: string
  cfg_Subscription :: "'w subscription option"
  cfg_DebugEnabled :: bool
  cfg_MaxRetries :: u64
  cfg_DeadLetter :: "('ev, 'w) pub option"
  cfg_PublishAfterAck :: bool
  cfg_Observer :: "('ev, 'w) observer option"

record ('ev, 'd, 'w) mux =
  mux_cfg :: "('ev, 'w) config"
  mux_routes :: "('ev, 'd, 'w) route list"
  mux_middlewares :: "('d, 'w) middleware list"
  mux_preflightMiddlewares :: "('d, 'w) middleware list"
  mux_started :: bool
  mux_frozen :: bool
  mux_preflight :: "('d, 'w) handler_func option"

text \<open>
  What the router takes from its surroundings: the SDK, the UUID generator, the clock and the
  text of \<open>debug.Stack()\<close>.
\<close>

record ('ev, 'w) env =
  env_sdk :: "'ev sdk"
  env_uuid :: "'w \<Rightarrow> string \<times> 'w"
  env_now :: "'w \<Rightarrow> gotime \<times> 'w"
  env_stack :: string

subsection \<open>The state of one \<open>handle\<close> call\<close>

text \<open>
  \<open>st_warned\<close> is the mux's \<open>warnNoDeliveryCount\<close> once; \<open>st_seen\<close> is a ghost field: the
  \<open>OnMessage\<close> calls made, each recorded when it starts.
\<close>

record ('ev, 'w) st =
  st_world :: 'w
  st_msg :: "('ev, 'w) message"
  st_log :: "logrec list"
  st_warned :: bool
  st_seen :: "(log_outcome \<times> reason option) list"

definition on_world :: "('w, 'a) go \<Rightarrow> (('ev, 'w) st, 'a) go" where
  "on_world = go_zoom st_world (\<lambda>w s. s\<lparr>st_world := w\<rparr>)"

definition on_message :: "(('ev, 'w) message \<times> 'w, 'a) go \<Rightarrow> (('ev, 'w) st, 'a) go" where
  "on_message = go_zoom (\<lambda>s. (st_msg s, st_world s)) (\<lambda>(m, w) s. s\<lparr>st_msg := m, st_world := w\<rparr>)"

definition log_rec :: "log_level \<Rightarrow> string \<Rightarrow> log_attr list \<Rightarrow> (('ev, 'w) st, unit) go" where
  "log_rec lvl text attrs =
     go_modify (\<lambda>s. s\<lparr>st_log := st_log s @ [\<lparr>log_level = lvl, log_message = text, log_attrs = attrs\<rparr>]\<rparr>)"

lemmas st_defs [go_defs] = on_world_def on_message_def log_rec_def

lemma go_wp_on_world [go_wps]:
  "go_wp (on_world m) Q E s =
     go_wp m (\<lambda>a w. Q a (s\<lparr>st_world := w\<rparr>)) (\<lambda>p w. E p (s\<lparr>st_world := w\<rparr>)) (st_world s)"
  by (simp add: on_world_def go_wp_zoom)

lemma go_wp_on_message:
  "go_wp (on_message m) Q E s =
     go_wp m (\<lambda>a (m, w). Q a (s\<lparr>st_msg := m, st_world := w\<rparr>))
       (\<lambda>p (m, w). E p (s\<lparr>st_msg := m, st_world := w\<rparr>)) (st_msg s, st_world s)"
  by (simp add: on_message_def go_wp_zoom case_prod_unfold)

lemma go_wp_log_rec [go_wps]:
  "go_wp (log_rec lvl text attrs) Q E =
     (\<lambda>s. Q () (s\<lparr>st_log := st_log s @ [\<lparr>log_level = lvl, log_message = text, log_attrs = attrs\<rparr>]\<rparr>))"
  by (rule ext) (simp add: log_rec_def go_wp_modify)

subsection \<open>mux.go: the name\<close>

definition mux_Name :: "('ev, 'd, 'w) mux \<Rightarrow> string" where
  "mux_Name mx = (if cfg_Name (mux_cfg mx) \<noteq> [] then cfg_Name (mux_cfg mx) else ''eventmux'')"

subsection \<open>observer.go\<close>

definition panicCause :: "string \<Rightarrow> goerr" where
  "panicCause r = Errorf (err_text ErrPanic @ '': '' @ r) [ErrPanic]"

text \<open>The Go type of the innermost cause; \<open>errors.Unwrap\<close> stops at a multi-error.\<close>

lemma errors_unwrap_size: "errors_unwrap e = Some e' \<Longrightarrow> size e' < size e"
  using err_children_size [of e' e]
  by (auto simp: errors_unwrap_def split: goerr.splits list.splits)

function rootType :: "goerr \<Rightarrow> string" where
  "rootType e = (case errors_unwrap e of None \<Rightarrow> err_type e | Some nxt \<Rightarrow> rootType nxt)"
  by pat_completeness auto
termination
  by (relation "measure size") (auto dest: errors_unwrap_size)

declare rootType.simps [simp del]

definition errorAttr :: "goerr \<Rightarrow> string option \<Rightarrow> log_attr" where
  "errorAttr cause stack =
     (case stack of None \<Rightarrow> AErr cause | Some st \<Rightarrow> APanicErr (rootType cause) (err_text cause) st)"

text \<open>\<open>observe\<close> contains the panics of an Observer callback; the noop Observer does nothing.\<close>

definition observe :: "('ev, 'w) env \<Rightarrow> ('ev, 'd, 'w) mux
    \<Rightarrow> (('ev, 'w) observer \<Rightarrow> ('w, unit) go) \<Rightarrow> (('ev, 'w) st, unit) go" where
  "observe E mx fn =
     go_recover
       (case cfg_Observer (mux_cfg mx) of None \<Rightarrow> go_ret () | Some obs \<Rightarrow> on_world (fn obs))
       (\<lambda>r. log_rec LevelError ''observer panicked''
          [errorAttr (Errorf (err_text ErrPanic @ '': '' @ r) [ErrPanic]) (Some (env_stack E))])"

definition pub_Publish :: "('ev, 'w) env \<Rightarrow> ('ev, 'd, 'w) mux \<Rightarrow> ('ev, 'w) pub \<Rightarrow> ctx \<Rightarrow> 'ev
    \<Rightarrow> (('ev, 'w) st, goerr option) go" where
  "pub_Publish E mx p c ce =
     (case p of
        BarePub f \<Rightarrow> on_world (f c ce)
      | ObservedPub f \<Rightarrow>
          go_bind (on_world (f c ce)) (\<lambda>err.
          go_seq (observe E mx (\<lambda>obs. OnPublish obs c ce err))
          (go_ret err)))"

text \<open>An Observer callback changes nothing but the world and the log, and never panics.\<close>

lemma go_wp_observe:
  assumes "\<And>w l. Q () (s\<lparr>st_world := w, st_log := st_log s @ l\<rparr>)"
  shows "go_wp (observe E mx fn) Q X s"
proof -
  have "Q () s" using assms [of "[]" "st_world s"] by simp
  moreover have "Q () (s\<lparr>st_world := w\<rparr>)" for w using assms [of "[]" w] by simp
  ultimately show ?thesis
    using assms by (auto simp: observe_def go_wps intro!: go_wp_any split: option.splits)
qed

lemma go_wp_pub_Publish:
  assumes "\<And>e w l. Q e (s\<lparr>st_world := w, st_log := st_log s @ l\<rparr>)"
    and "\<And>p w. X p (s\<lparr>st_world := w\<rparr>)"
  shows "go_wp (pub_Publish E mx p c ce) Q X s"
proof -
  have "Q e (s\<lparr>st_world := w\<rparr>)" for e w using assms(1) [of e "[]" w] by simp
  show ?thesis
  proof (cases p)
    case (BarePub f)
    show ?thesis
      by (simp add: BarePub pub_Publish_def go_wps) (rule go_wp_any; fact)
  next
    case (ObservedPub f)
    have "go_wp (observe E mx (\<lambda>obs. OnPublish obs c ce e)) (\<lambda>_. Q e) X (s\<lparr>st_world := w\<rparr>)" for e w
      by (rule go_wp_observe) (simp add: assms(1))
    then show ?thesis
      by (simp add: ObservedPub pub_Publish_def go_wps) (rule go_wp_any; simp add: assms(2))
  qed
qed

end
