(* ===== verification/Failure.thy ===== *)
theory Failure
  imports MuxTypes
begin

text \<open>
  \<open>pkg/eventmux/failure.go\<close> and \<open>settle\<close> of \<open>pkg/eventmux/mux.go\<close>: how a failure is
  classified, dead-lettered and settled.
\<close>

subsection \<open>Log attributes of a message\<close>

definition msg_ID :: "('ev, 'w) env \<Rightarrow> ('ev, 'w) message \<Rightarrow> string" where
  "msg_ID E m = event_id (env_sdk E) (msg_event m)"

definition correlationAttr :: "('ev, 'w) env \<Rightarrow> ('ev, 'w) message \<Rightarrow> log_attr" where
  "correlationAttr E m =
     (let v = CorrelationID (env_sdk E) (msg_event m) in if v = [] then AEmpty else AStr KeyCorrelationID v)"

definition deliveryAttr :: "('ev, 'w) message \<Rightarrow> log_attr" where
  "deliveryAttr m = (case DeliveryCount m of (count, known) \<Rightarrow>
     if \<not> known then AEmpty else AUint KeyDeliveryCount count)"

subsection \<open>Classification\<close>

definition pastMaxRetries :: "('ev, 'd, 'w) mux \<Rightarrow> ('ev, 'w) message \<Rightarrow> bool" where
  "pastMaxRetries mx m = (case DeliveryCount m of (count, known) \<Rightarrow>
     cfg_MaxRetries (mux_cfg mx) > 0 \<and> known \<and> count > cfg_MaxRetries (mux_cfg mx))"

definition redeliveryBounded :: "('ev, 'd, 'w) mux \<Rightarrow> ('ev, 'w) message \<Rightarrow> bool" where
  "redeliveryBounded mx m = (case DeliveryCount m of (count, known) \<Rightarrow>
     CanNack m \<and> cfg_MaxRetries (mux_cfg mx) > 0 \<and> known \<and> \<not> pastMaxRetries mx m)"

definition classify :: "('ev, 'd, 'w) mux \<Rightarrow> ('ev, 'w) message \<Rightarrow> goerr \<Rightarrow> reason option" where
  "classify mx m err =
     (if errors_as is_panicError err \<noteq> None then Some ReasonPanic
      else if errors_as is_preflightError err \<noteq> None then Some ReasonValidation
      else if isNonRetryable err then Some ReasonNonRetryable
      else if \<not> CanNack m then Some ReasonNoRedelivery
      else if pastMaxRetries mx m then Some ReasonMaxRetries
      else None)"

definition classifyPublish :: "('ev, 'd, 'w) mux \<Rightarrow> ('ev, 'w) message \<Rightarrow> goerr \<Rightarrow> reason option" where
  "classifyPublish mx m err =
     (if isNonRetryable err \<or> \<not> CanNack m \<or> pastMaxRetries mx m then Some ReasonPublish else None)"

definition unwrapFailure :: "goerr \<Rightarrow> string option \<times> goerr" where
  "unwrapFailure err =
     (case errors_as is_panicError err of
        Some (PanicError cause stack) \<Rightarrow> (Some stack, cause)
      | _ \<Rightarrow> (case errors_as is_preflightError err of
          Some (PreflightError e) \<Rightarrow> (None, e)
        | _ \<Rightarrow> (None, err)))"

subsection \<open>Dead-letter copy\<close>

definition deadLetterEvent :: "'ev sdk \<Rightarrow> 'ev \<Rightarrow> reason \<Rightarrow> goerr \<Rightarrow> 'ev" where
  "deadLetterEvent S ce r cause =
     (let dl = event_clone S ce;
          dl = set_ext S ExtDeadLetterReason (XString (reason_string r)) dl
      in set_ext S ExtDeadLetterError
           (XString (truncate_str (sanitize (err_text cause)) MaxDeadLetterErrorLen)) dl)"

definition publishDeadLetter :: "('ev, 'w) env \<Rightarrow> ('ev, 'd, 'w) mux \<Rightarrow> ('ev, 'w) pub \<Rightarrow> ('ev, 'w) message
    \<Rightarrow> reason \<Rightarrow> goerr \<Rightarrow> (('ev, 'w) st, goerr option) go" where
  "publishDeadLetter E mx dl m r cause =
     pub_Publish E mx dl (WithoutCancel (msg_ctx m)) (deadLetterEvent (env_sdk E) (msg_event m) r cause)"

subsection \<open>settle\<close>

definition settle :: "('ev, 'w) env \<Rightarrow> ('ev, 'd, 'w) mux \<Rightarrow> log_outcome \<Rightarrow> reason option
    \<Rightarrow> (('ev, 'w) message \<times> 'w, goerr option) go \<Rightarrow> (('ev, 'w) st, unit) go" where
  "settle E mx out r decision =
     go_bind (on_message decision) (\<lambda>err.
     go_bind (go_get st_msg) (\<lambda>m.
     go_seq (case err of
         None \<Rightarrow> go_ret ()
       | Some e \<Rightarrow> log_rec LevelError ''message ack failed''
           [AErr e, AStr KeyMessagingMessageID (msg_ID E m), correlationAttr E m, outcome_Attr out])
     (go_seq (go_modify (\<lambda>s. s\<lparr>st_seen := st_seen s @ [(out, r)]\<rparr>))
       (observe E mx (\<lambda>obs. OnMessage obs (msg_ctx m) m out r)))))"

subsection \<open>fail\<close>

definition failure_attrs :: "('ev, 'w) env \<Rightarrow> ('ev, 'w) message \<Rightarrow> goerr \<Rightarrow> string option \<Rightarrow> log_attr list" where
  "failure_attrs E m cause stack =
     [errorAttr cause stack, AStr KeyMessagingMessageID (msg_ID E m), correlationAttr E m, deliveryAttr m]"

definition dead_letter_failed :: "goerr \<Rightarrow> goerr \<Rightarrow> goerr" where
  "dead_letter_failed cause pubErr =
     Errorf (err_text cause @ ''; '' @ err_text ErrPublicationFailed @ '': '' @ err_text pubErr)
       [cause, ErrPublicationFailed, pubErr]"

text \<open>The last three lines of \<open>fail\<close>.\<close>

definition fail_discard :: "('ev, 'w) env \<Rightarrow> ('ev, 'd, 'w) mux \<Rightarrow> string \<Rightarrow> log_attr list \<Rightarrow> reason \<Rightarrow> goerr
    \<Rightarrow> (('ev, 'w) st, unit) go" where
  "fail_discard E mx logMsg attrs r cause =
     go_seq (log_rec LevelError logMsg (attrs @ [outcome_Attr LogDiscarded]))
       (settle E mx LogDiscarded (Some r) (Discard cause))"

definition fail :: "('ev, 'w) env \<Rightarrow> ('ev, 'd, 'w) mux \<Rightarrow> reason option \<Rightarrow> goerr \<Rightarrow> string option
    \<Rightarrow> (('ev, 'w) st, unit) go" where
  "fail E mx reason cause stack =
     go_bind (go_get st_msg) (\<lambda>m.
     (let attrs = failure_attrs E m cause stack in
     (case reason of
        None \<Rightarrow>
          go_seq (log_rec LevelError ''message handling failed'' (attrs @ [outcome_Attr LogNacked]))
            (settle E mx LogNacked None (Nack cause))
      | Some r \<Rightarrow>
          (let attrs = attrs @ [AStr KeyDeadLetterReason (reason_string r)] in
          (case cfg_DeadLetter (mux_cfg mx) of
             None \<Rightarrow> fail_discard E mx ''message discarded'' attrs r cause
           | Some dl \<Rightarrow>
               go_bind (publishDeadLetter E mx dl m r cause) (\<lambda>pubErr.
               (case pubErr of
                  None \<Rightarrow> fail_discard E mx ''message dead-lettered'' attrs r cause
                | Some pe \<Rightarrow>
                    if isNonRetryable pe \<or> \<not> redeliveryBounded mx m then
                      fail_discard E mx ''message discarded''
                        (attrs @ [AStr KeyDeadLetterPublishError (err_text pe)]) r cause
                    else
                      go_seq (log_rec LevelError ''dead-letter publish failed''
                          (attrs @ [AStr KeyDeadLetterPublishError (err_text pe), outcome_Attr LogNacked]))
                        (settle E mx LogNacked None (Nack (dead_letter_failed cause pe))))))))))"

subsection \<open>invoke and recoverOutsideHandler\<close>

text \<open>Calling a nil function value panics.\<close>

definition call_handler :: "('d, 'w) handler_func option \<Rightarrow> ('d, 'w) handler_func" where
  "call_handler f c payload = (case f of
     None \<Rightarrow> go_panic ''runtime error: invalid memory address or nil pointer dereference''
   | Some h \<Rightarrow> h c payload)"

definition invoke :: "('ev, 'w) env \<Rightarrow> ('ev, 'd, 'w) mux \<Rightarrow> ('ev, 'd, 'w) route \<Rightarrow> ('d, 'w) handler_func" where
  "invoke E mx rt c payload =
     go_recover
       (go_bind (call_handler (mux_preflight mx) c payload) (\<lambda>(_, perr).
         (case perr of
            Some e \<Rightarrow> go_ret (None, Some (PreflightError e))
          | None \<Rightarrow> call_handler (rt_chain rt) c payload)))
       (\<lambda>r. go_ret (None, Some (PanicError (panicCause r) (env_stack E))))"

definition recoverOutsideHandler :: "('ev, 'w) env \<Rightarrow> ('ev, 'd, 'w) mux \<Rightarrow> string \<Rightarrow> (('ev, 'w) st, unit) go" where
  "recoverOutsideHandler E mx r =
     go_bind (go_get st_msg) (\<lambda>m.
     if fst (Outcome m) \<noteq> OutcomePending then
       log_rec LevelError ''panic after message decision''
         [errorAttr (panicCause r) (Some (env_stack E)), AStr KeyMessagingMessageID (msg_ID E m),
          correlationAttr E m]
     else
       go_recover (fail E mx (Some ReasonPanic) (panicCause r) (Some (env_stack E)))
         (\<lambda>again. log_rec LevelError ''panic while settling a panicked message''
            [errorAttr (panicCause again) (Some (env_stack E)), AStr KeyMessagingMessageID (msg_ID E m)]))"

end
