(* ===== verification/Mux.thy ===== *)
theory Mux
  imports Failure
begin

text \<open>
  \<open>pkg/eventmux/mux.go\<close>: registration and lifecycle of the router (state \<open>app\<close>), and
  \<open>handle\<close>, the per-message entry point (state \<open>st\<close>).
\<close>

subsection \<open>Registration\<close>

text \<open>The router with the world and the log its registration methods write.\<close>

record ('ev, 'd, 'w) app =
  app_mux :: "('ev, 'd, 'w) mux"
  app_world :: 'w
  app_log :: "logrec list"

definition app_info :: "string \<Rightarrow> log_attr list \<Rightarrow> (('ev, 'd, 'w) app, unit) go" where
  "app_info text attrs = go_modify (\<lambda>a. a\<lparr>app_log := app_log a
     @ [\<lparr>log_level = LevelInfo, log_message = text, log_attrs = attrs\<rparr>]\<rparr>)"

definition on_mux :: "(('ev, 'd, 'w) mux \<Rightarrow> ('ev, 'd, 'w) mux) \<Rightarrow> (('ev, 'd, 'w) app, unit) go" where
  "on_mux f = go_modify (\<lambda>a. a\<lparr>app_mux := f (app_mux a)\<rparr>)"

definition on_app_world :: "('w, 'a) go \<Rightarrow> (('ev, 'd, 'w) app, 'a) go" where
  "on_app_world = go_zoom app_world (\<lambda>w a. a\<lparr>app_world := w\<rparr>)"

lemmas app_defs [go_defs] = app_info_def on_mux_def on_app_world_def

definition New :: "('ev, 'w) config \<Rightarrow> goerr + ('ev, 'd, 'w) mux" where
  "New cfg =
     (if cfg_Subscription cfg = None then Inl (errors_new ''eventmux: Config.Subscription is nil'')
      else Inr \<lparr>mux_cfg = cfg, mux_routes = [], mux_middlewares = [], mux_preflightMiddlewares = [],
                mux_started = False, mux_frozen = False, mux_preflight = None\<rparr>)"

definition mustBeOpen :: "string \<Rightarrow> (('ev, 'd, 'w) app, unit) go" where
  "mustBeOpen method = go_bind (go_get app_mux) (\<lambda>mx.
     if mux_frozen mx then go_panic (''eventmux: '' @ method @ '' after Start'') else go_ret ())"

text \<open>Interface identity: \<open>nil\<close> is identical to \<open>nil\<close>; an uncomparable value to nothing.\<close>

definition identical :: "('ev, 'w) filter_impl option \<Rightarrow> ('ev, 'w) filter_impl option \<Rightarrow> bool" where
  "identical a b = (case (a, b) of
     (Some f, Some g) \<Rightarrow> (case (flt_identity f, flt_identity g) of (Some x, Some y) \<Rightarrow> x = y | _ \<Rightarrow> False)
   | (None, None) \<Rightarrow> True
   | _ \<Rightarrow> False)"

text \<open>
  A Go type \<open>T\<close> as \<open>Handle\<close> uses it: its name, \<open>json.Unmarshal\<close> into it (user
  \<open>UnmarshalJSON\<close> code may run), storing it in an \<open>any\<close>, the type assertion, and the name of
  the dynamic type of an \<open>any\<close> for \<open>%T\<close>.
\<close>

record ('t, 'd, 'w) gotype =
  ty_name :: string
  ty_unmarshal :: "bytes \<Rightarrow> ('w, goerr + 't) go"
  ty_any :: "'t \<Rightarrow> 'd"
  ty_assert :: "'d \<Rightarrow> 't option"
  ty_dynamic :: "'d \<Rightarrow> string"

definition route_decode :: "('t, 'd, 'w) gotype \<Rightarrow> bytes \<Rightarrow> ('w, goerr + 'd) go" where
  "route_decode T data = go_bind (ty_unmarshal T data) (\<lambda>r. (case r of
     Inl err \<Rightarrow> go_ret (Inl (Errorf (err_text ErrDecode @ '': unmarshal into '' @ ty_name T @ '': '' @ err_text err)
                   [ErrDecode, err]))
   | Inr v \<Rightarrow> go_ret (Inr (ty_any T v))))"

definition route_handler :: "('t, 'd, 'w) gotype \<Rightarrow> (ctx \<Rightarrow> 't \<Rightarrow> ('w henv, bytes option \<times> goerr option) go)
    \<Rightarrow> ('d, 'w) handler_func" where
  "route_handler T fn c data = (case ty_assert T data of
     None \<Rightarrow> go_ret (None, Some (NewNonRetryableError
       (errors_new (''eventmux: route expects '' @ ty_name T @ '', got '' @ ty_dynamic T data))))
   | Some v \<Rightarrow> fn c v)"

definition Handle :: "('t, 'd, 'w) gotype \<Rightarrow> ('ev, 'w) publisher option \<Rightarrow> ('ev, 'w) filter_impl option
    \<Rightarrow> (ctx \<Rightarrow> 't \<Rightarrow> ('w henv, bytes option \<times> goerr option) go) \<Rightarrow> (('ev, 'd, 'w) app, unit) go" where
  "Handle T pub flt fn =
     go_seq (mustBeOpen ''Handle'')
     (go_bind (go_get app_mux) (\<lambda>mx.
      if list_ex (\<lambda>existing. identical (rt_filter existing) flt) (mux_routes mx) then
        go_panic ''eventmux: duplicate route''
      else
        (let rt = \<lparr>rt_pub = map_option BarePub pub, rt_filter = flt, rt_decode = route_decode T,
                   rt_handler = route_handler T fn, rt_chain = None\<rparr>
         in go_seq (on_mux (\<lambda>mx. mx\<lparr>mux_routes := mux_routes mx @ [rt]\<rparr>))
              (app_info ''route registered'' [AInt KeyMuxRoutesTotal (int (length (mux_routes mx) + 1))]))))"

definition Use :: "('d, 'w) middleware list \<Rightarrow> (('ev, 'd, 'w) app, unit) go" where
  "Use mws = go_seq (mustBeOpen ''Use'')
     (on_mux (\<lambda>mx. mx\<lparr>mux_middlewares := mux_middlewares mx @ mws\<rparr>))"

definition UsePreflight :: "('d, 'w) middleware list \<Rightarrow> (('ev, 'd, 'w) app, unit) go" where
  "UsePreflight mws = go_seq (mustBeOpen ''UsePreflight'')
     (on_mux (\<lambda>mx. mx\<lparr>mux_preflightMiddlewares := mux_preflightMiddlewares mx @ mws\<rparr>))"

subsection \<open>Start and Stop\<close>

fun observed :: "('ev, 'w) pub \<Rightarrow> ('ev, 'w) pub" where
  "observed (BarePub f) = ObservedPub f"
| "observed (ObservedPub f) = ObservedPub f"

definition observePublishers :: "('ev, 'd, 'w) mux \<Rightarrow> ('ev, 'd, 'w) mux" where
  "observePublishers mx =
     (if cfg_Observer (mux_cfg mx) = None then mx
      else mx\<lparr>mux_routes := map (\<lambda>rt. rt\<lparr>rt_pub := map_option observed (rt_pub rt)\<rparr>) (mux_routes mx),
              mux_cfg := (mux_cfg mx)\<lparr>cfg_DeadLetter := map_option observed (cfg_DeadLetter (mux_cfg mx))\<rparr>\<rparr>)"

definition freeze :: "('ev, 'd, 'w) mux \<Rightarrow> ('ev, 'd, 'w) mux" where
  "freeze mx =
     (if mux_frozen mx then mx
      else observePublishers (mx\<lparr>mux_frozen := True,
        mux_preflight := Some (Chain noopHandler (mux_preflightMiddlewares mx)),
        mux_routes := map (\<lambda>rt. rt\<lparr>rt_chain := Some (Chain (rt_handler rt) (mux_middlewares mx))\<rparr>)
          (mux_routes mx)\<rparr>))"

definition sub_start :: "('ev, 'd, 'w) mux \<Rightarrow> ctx \<Rightarrow> ('w, goerr option) go" where
  "sub_start mx c = (case cfg_Subscription (mux_cfg mx) of
     None \<Rightarrow> go_panic ''runtime error: invalid memory address or nil pointer dereference''
   | Some sub \<Rightarrow> sub_Start sub c)"

definition sub_stop :: "('ev, 'd, 'w) mux \<Rightarrow> ctx \<Rightarrow> ('w, goerr option) go" where
  "sub_stop mx c = (case cfg_Subscription (mux_cfg mx) of
     None \<Rightarrow> go_panic ''runtime error: invalid memory address or nil pointer dereference''
   | Some sub \<Rightarrow> sub_Stop sub c)"

definition mux_Start :: "ctx \<Rightarrow> (('ev, 'd, 'w) app, goerr option) go" where
  "mux_Start c =
     go_bind (go_get app_mux) (\<lambda>mx.
     if mux_started mx then go_ret (Some ErrAlreadyStarted)
     else
       go_seq (on_mux freeze)
       (go_bind (on_app_world (sub_start mx c)) (\<lambda>err.
        (case err of
           Some e \<Rightarrow> go_ret (Some (wrap_prefix (''eventmux '' @ mux_Name mx @ '': start'') e))
         | None \<Rightarrow>
             go_seq (on_mux (\<lambda>mx. mx\<lparr>mux_started := True\<rparr>))
             (go_seq (app_info ''mux started'' []) (go_ret None))))))"

definition mux_Stop :: "ctx \<Rightarrow> (('ev, 'd, 'w) app, goerr option) go" where
  "mux_Stop c =
     go_bind (go_get app_mux) (\<lambda>mx.
     if \<not> mux_started mx then go_ret None
     else
       go_bind (on_app_world (sub_stop mx c)) (\<lambda>err.
        (case err of
           Some e \<Rightarrow> go_seq (app_info ''mux stopped'' [AErr e])
             (go_ret (Some (wrap_prefix (''eventmux '' @ mux_Name mx @ '': stop'') e)))
         | None \<Rightarrow>
             go_seq (on_mux (\<lambda>mx. mx\<lparr>mux_started := False\<rparr>))
             (go_seq (app_info ''mux stopped'' []) (go_ret None)))))"

definition subscriptionFailed :: "(goerr \<Rightarrow> (('ev, 'd, 'w) app, unit) go) option \<Rightarrow> goerr
    \<Rightarrow> (('ev, 'd, 'w) app, unit) go" where
  "subscriptionFailed onError err = (case onError of
     None \<Rightarrow> go_modify (\<lambda>a. a\<lparr>app_log := app_log a
       @ [\<lparr>log_level = LevelError, log_message = ''subscription failed'', log_attrs = [AErr err]\<rparr>]\<rparr>)
   | Some f \<Rightarrow> f err)"

subsection \<open>Routing\<close>

fun findMatchingRoute :: "('ev, 'd, 'w) route list \<Rightarrow> (('ev, 'w) st, ('ev, 'd, 'w) route option) go" where
  "findMatchingRoute [] = go_ret None"
| "findMatchingRoute (rt # rts) = (case rt_filter rt of
     None \<Rightarrow> go_ret (Some rt)
   | Some f \<Rightarrow>
       go_bind (go_get st_msg) (\<lambda>m.
       go_bind (on_world (flt_Match f m)) (\<lambda>b.
       if b then go_ret (Some rt) else findMatchingRoute rts)))"

definition handleNoRouteFound :: "('ev, 'w) env \<Rightarrow> ('ev, 'd, 'w) mux \<Rightarrow> (('ev, 'w) st, unit) go" where
  "handleNoRouteFound E mx =
     go_bind (go_get st_msg) (\<lambda>m.
     go_seq (log_rec LevelInfo ''no route matched''
         [AStr KeyMessagingMessageID (msg_ID E m),
          AStr KeyCloudEventsType (event_type (env_sdk E) (msg_event m)),
          correlationAttr E m, outcome_Attr LogDiscarded])
       (settle E mx LogDiscarded None (Discard ErrNoRoute)))"

subsection \<open>The result event\<close>

definition reservedExtensions :: "string list" where
  "reservedExtensions = [ExtCorrelationID, ExtCausationID, ExtDeadLetterReason, ExtDeadLetterError]"

fun drop_reserved :: "('ev, 'w) env \<Rightarrow> ('ev, 'w) message \<Rightarrow> string list \<Rightarrow> store \<Rightarrow> (('ev, 'w) st, store) go" where
  "drop_reserved E m [] meta = go_ret meta"
| "drop_reserved E m (k # ks) meta =
     (if has_key meta k then
        go_seq (log_rec LevelWarn ''reserved extension ignored''
            [AStr KeyCloudEventsExtension k, AStr KeyMessagingMessageID (msg_ID E m), correlationAttr E m])
          (drop_reserved E m ks (AList.delete k meta))
      else drop_reserved E m ks meta)"

definition set_meta :: "'ev sdk \<Rightarrow> store \<Rightarrow> 'ev \<Rightarrow> 'ev" where
  "set_meta S meta ce = fold (\<lambda>(k, v) ce. set_ext S k (XString v) ce) meta ce"

definition carry_over :: "'ev sdk \<Rightarrow> store \<Rightarrow> exts \<Rightarrow> 'ev \<Rightarrow> 'ev" where
  "carry_over S meta orig ce =
     fold (\<lambda>(k, v) ce.
       if has_key meta k \<or> k = ExtCausationID \<or> k = ExtDeadLetterReason \<or> k = ExtDeadLetterError then ce
       else set_ext S k v ce) orig ce"

definition result_base :: "'ev sdk \<Rightarrow> string \<Rightarrow> gotime \<Rightarrow> 'ev \<Rightarrow> 'ev" where
  "result_base S uid now orig =
     (let ce = event_new S;
          ce = set_id S uid ce;
          ce = set_source S (event_source S orig) ce;
          ce = set_type S (event_type S orig @ ''.result'') ce
      in set_time S now ce)"

definition result_exts :: "'ev sdk \<Rightarrow> store \<Rightarrow> 'ev \<Rightarrow> 'ev \<Rightarrow> 'ev" where
  "result_exts S meta orig ce =
     (let ce = set_meta S meta ce;
          ce = carry_over S meta (extensions S orig) ce
      in if event_id S orig \<noteq> [] then set_ext S ExtCausationID (XString (event_id S orig)) ce else ce)"

definition publishResult :: "('ev, 'w) env \<Rightarrow> ('ev, 'd, 'w) mux \<Rightarrow> ctx \<Rightarrow> bytes \<Rightarrow> store \<Rightarrow> ('ev, 'w) pub
    \<Rightarrow> (('ev, 'w) st, goerr option) go" where
  "publishResult E mx c data store pub =
     go_bind (go_get st_msg) (\<lambda>m.
     go_bind (on_world (go_total (env_uuid E))) (\<lambda>uid.
     go_bind (on_world (go_total (env_now E))) (\<lambda>now.
     (case set_data (env_sdk E) ApplicationJSON (JsonValue data)
             (result_base (env_sdk E) uid now (msg_event m)) of
        Inl err \<Rightarrow> go_ret (Some (NewNonRetryableError (wrap_prefix ''encode result data'' err)))
      | Inr ce \<Rightarrow>
          go_bind (drop_reserved E m reservedExtensions (Store_All store)) (\<lambda>meta.
          pub_Publish E mx pub c (result_exts (env_sdk E) meta (msg_event m) ce))))))"

subsection \<open>handle\<close>

text \<open>
  A handler runs on the world, its metadata store and the log.  The store is a local variable
  of \<open>processAndHandle\<close>: the call returns it beside the result.
\<close>

definition on_handler :: "store \<Rightarrow> ('w henv, 'a) go \<Rightarrow> (('ev, 'w) st, 'a \<times> store) go" where
  "on_handler b m = go_zoom (\<lambda>s. \<lparr>h_world = st_world s, h_store = b, h_log = st_log s\<rparr>)
     (\<lambda>h s. s\<lparr>st_world := h_world h, st_log := h_log h\<rparr>)
     (go_bind m (\<lambda>a. go_bind (go_get h_store) (\<lambda>b. go_ret (a, b))))"

text \<open>\<open>processAndHandle\<close> in the order of its parts: the tail first.\<close>

definition ack_processed :: "('ev, 'w) env \<Rightarrow> ('ev, 'd, 'w) mux \<Rightarrow> ('ev, 'd, 'w) route \<Rightarrow> ('ev, 'w) message \<Rightarrow> ctx
    \<Rightarrow> bytes option \<Rightarrow> store \<Rightarrow> (('ev, 'w) st, unit) go" where
  "ack_processed E mx rt m handlerCtx data store =
     go_seq (settle E mx LogAcked None Ack)
     (go_seq (log_rec LevelInfo ''message processed''
        [AStr KeyMessagingMessageID (msg_ID E m), correlationAttr E m, deliveryAttr m, outcome_Attr LogAcked])
     (if cfg_PublishAfterAck (mux_cfg mx) \<and> rt_pub rt \<noteq> None \<and> data \<noteq> None then
        go_bind (publishResult E mx (WithoutCancel handlerCtx) (the data) store (the (rt_pub rt)))
        (\<lambda>err. (case err of
           None \<Rightarrow> go_ret ()
         | Some e \<Rightarrow> log_rec LevelError ''result publish failed''
             [AErr e, AStr KeyMessagingMessageID (msg_ID E m), correlationAttr E m]))
      else go_ret ()))"

definition publish_and_ack :: "('ev, 'w) env \<Rightarrow> ('ev, 'd, 'w) mux \<Rightarrow> ('ev, 'd, 'w) route \<Rightarrow> ('ev, 'w) message \<Rightarrow> ctx
    \<Rightarrow> bytes option \<Rightarrow> store \<Rightarrow> (('ev, 'w) st, unit) go" where
  "publish_and_ack E mx rt m handlerCtx data store =
     go_bind
       (if \<not> cfg_PublishAfterAck (mux_cfg mx) \<and> rt_pub rt \<noteq> None \<and> data \<noteq> None then
          publishResult E mx handlerCtx (the data) store (the (rt_pub rt))
        else go_ret None)
     (\<lambda>perr. (case perr of
        Some err \<Rightarrow> fail E mx (classifyPublish mx m err) (wrap_both ErrPublicationFailed err) None
      | None \<Rightarrow> ack_processed E mx rt m handlerCtx data store))"

definition processAndHandle :: "('ev, 'w) env \<Rightarrow> ('ev, 'd, 'w) mux \<Rightarrow> ('ev, 'd, 'w) route
    \<Rightarrow> (('ev, 'w) st, unit) go" where
  "processAndHandle E mx rt =
     go_bind (go_get st_msg) (\<lambda>m.
     go_bind (on_world (rt_decode rt (event_data (env_sdk E) (msg_event m)))) (\<lambda>decoded.
     (case decoded of
        Inl err \<Rightarrow> fail E mx (Some ReasonDecode) err None
      | Inr payload \<Rightarrow>
          (let handlerCtx = (if rt_pub rt = None then msg_ctx m else NewContext (msg_ctx m)) in
          go_bind (on_handler NewStore (invoke E mx rt handlerCtx payload)) (\<lambda>((data, herr), store).
          (case herr of
             Some err \<Rightarrow> (case unwrapFailure err of (stack, cause) \<Rightarrow> fail E mx (classify mx m err) cause stack)
           | None \<Rightarrow> publish_and_ack E mx rt m handlerCtx data store))))))"

text \<open>The first event of a chain identifies the chain.\<close>

definition mint_correlation :: "'ev sdk \<Rightarrow> ('ev, 'w) message \<Rightarrow> ('ev, 'w) message" where
  "mint_correlation S m =
     (if CorrelationID S (msg_event m) = [] \<and> event_id S (msg_event m) \<noteq> [] then
        m\<lparr>msg_event := set_ext S ExtCorrelationID (XString (event_id S (msg_event m))) (msg_event m)\<rparr>
      else m)"

definition handle_body :: "('ev, 'w) env \<Rightarrow> ('ev, 'd, 'w) mux \<Rightarrow> (('ev, 'w) st, unit) go" where
  "handle_body E mx =
     go_seq (go_modify (\<lambda>s. s\<lparr>st_msg := mint_correlation (env_sdk E) (st_msg s)\<rparr>))
     (go_bind (go_get st_msg) (\<lambda>m.
      go_seq (go_when (cfg_DebugEnabled (mux_cfg mx))
        (log_rec LevelDebug ''message received''
          [AStr KeyMessagingMessageID (msg_ID E m),
           AStr KeyCloudEventsType (event_type (env_sdk E) (msg_event m)),
           AStr KeyCloudEventsSource (event_source (env_sdk E) (msg_event m))]))
      (go_bind (go_get st_warned) (\<lambda>warned.
      go_seq (go_when (cfg_MaxRetries (mux_cfg mx) > 0 \<and> \<not> snd (DeliveryCount m) \<and> \<not> warned)
        (go_seq (go_modify (\<lambda>s. s\<lparr>st_warned := True\<rparr>))
          (log_rec LevelWarn ''MaxRetries set but transport reports no delivery count'' [])))
      (case DecodeError m of
         Some err \<Rightarrow> fail E mx (Some ReasonDecode) err None
       | None \<Rightarrow>
           go_bind (findMatchingRoute (mux_routes mx)) (\<lambda>matching.
           (case matching of
              None \<Rightarrow> handleNoRouteFound E mx
            | Some rt \<Rightarrow> processAndHandle E mx rt)))))))"

definition handle :: "('ev, 'w) env \<Rightarrow> ('ev, 'd, 'w) mux \<Rightarrow> (('ev, 'w) st, unit) go" where
  "handle E mx = go_recover (handle_body E mx) (recoverOutsideHandler E mx)"

end
