(* ===== verification/MuxSpec.thy ===== *)
theory MuxSpec
  imports Mux
begin

text \<open>
  The abstract specification of the router and the refinement proof: which verdicts a message
  may get, given what filters, decoders, handlers and publishers answered (\<open>permitted\<close>), and
  that \<open>handle\<close> settles every message by a permitted verdict.
\<close>

subsection \<open>Verdicts\<close>

text \<open>What the Observer is told, and the decision applied to the message.\<close>

type_synonym verdict = "log_outcome \<times> reason option \<times> decision"

text \<open>The failure policy: \<open>pubErr\<close> is what the dead-letter publisher answered.\<close>

definition failure_policy :: "('ev, 'd, 'w) mux \<Rightarrow> ('ev, 'w) message \<Rightarrow> reason option \<Rightarrow> goerr
    \<Rightarrow> goerr option \<Rightarrow> verdict" where
  "failure_policy mx m reason cause pubErr =
     (case (reason, pubErr) of
        (None, _) \<Rightarrow> (LogNacked, None, DNack cause)
      | (Some r, None) \<Rightarrow> (LogDiscarded, Some r, DDiscard cause)
      | (Some r, Some pe) \<Rightarrow>
          if isNonRetryable pe \<or> \<not> redeliveryBounded mx m then (LogDiscarded, Some r, DDiscard cause)
          else (LogNacked, None, DNack (dead_letter_failed cause pe)))"

text \<open>An outside call gives this answer in some state of the world.\<close>

definition answers :: "('s, 'a) go \<Rightarrow> 'a \<Rightarrow> bool" where
  "answers f a \<longleftrightarrow> (\<exists>w w'. f w = (Ret a, w'))"

fun bare :: "('ev, 'w) pub \<Rightarrow> ('ev, 'w) publisher" where
  "bare (BarePub f) = f"
| "bare (ObservedPub f) = f"

text \<open>The dead-letter publisher is asked only for a failure with a reason.\<close>

definition dl_answers :: "('ev, 'd, 'w) mux \<Rightarrow> reason option \<Rightarrow> goerr option \<Rightarrow> bool" where
  "dl_answers mx reason pe = (case (reason, cfg_DeadLetter (mux_cfg mx)) of
     (Some r, Some dl) \<Rightarrow> \<exists>c ce. answers (bare dl c ce) pe
   | _ \<Rightarrow> pe = None)"

definition accepts :: "('ev, 'w) message \<Rightarrow> ('ev, 'd, 'w) route \<Rightarrow> bool" where
  "accepts m rt = (case rt_filter rt of None \<Rightarrow> True | Some f \<Rightarrow> answers (flt_Match f m) True)"

definition rejects :: "('ev, 'w) message \<Rightarrow> ('ev, 'd, 'w) route \<Rightarrow> bool" where
  "rejects m rt = (case rt_filter rt of None \<Rightarrow> False | Some f \<Rightarrow> answers (flt_Match f m) False)"

text \<open>\<open>rt\<close> is the first route of the table that takes \<open>m\<close>.\<close>

definition selects :: "('ev, 'd, 'w) route list \<Rightarrow> ('ev, 'w) message \<Rightarrow> ('ev, 'd, 'w) route \<Rightarrow> bool" where
  "selects rts m rt \<longleftrightarrow> (\<exists>pre post. rts = pre @ rt # post \<and> (\<forall>r \<in> set pre. rejects m r) \<and> accepts m rt)"

definition publish_due :: "('ev, 'd, 'w) route \<Rightarrow> bytes option \<Rightarrow> bool" where
  "publish_due rt data \<longleftrightarrow> rt_pub rt \<noteq> None \<and> data \<noteq> None"

text \<open>What publishing a result can answer: the publisher's word, or a NonRetryable encoding error.\<close>

definition publish_answers :: "('ev, 'd, 'w) route \<Rightarrow> goerr option \<Rightarrow> bool" where
  "publish_answers rt pe = (case rt_pub rt of
     None \<Rightarrow> False
   | Some p \<Rightarrow> (\<exists>c ce. answers (bare p c ce) pe) \<or> (\<exists>e. pe = Some (NonRetryableError e)))"

definition handled :: "('ev, 'w) env \<Rightarrow> ('ev, 'd, 'w) mux \<Rightarrow> ('ev, 'w) message \<Rightarrow> ('ev, 'd, 'w) route
    \<Rightarrow> bytes option \<times> goerr option \<Rightarrow> bool" where
  "handled E mx m rt res \<longleftrightarrow>
     DecodeError m = None \<and> selects (mux_routes mx) m rt \<and>
     (\<exists>payload c. answers (rt_decode rt (event_data (env_sdk E) (msg_event m))) (Inr payload)
                \<and> answers (invoke E mx rt c payload) res)"

text \<open>The dead-letter publisher never panics; some user code the message meets may.\<close>

definition dead_letter_total :: "('ev, 'd, 'w) mux \<Rightarrow> bool" where
  "dead_letter_total mx \<longleftrightarrow>
     (\<forall>p \<in> set_option (cfg_DeadLetter (mux_cfg mx)). \<forall>c ce. no_panic (bare p c ce))"

definition route_may_panic :: "('ev, 'w) env \<Rightarrow> ('ev, 'w) message \<Rightarrow> ('ev, 'd, 'w) route \<Rightarrow> bool" where
  "route_may_panic E m rt \<longleftrightarrow>
     (\<exists>f \<in> set_option (rt_filter rt). \<not> no_panic (flt_Match f m))
     \<or> \<not> no_panic (rt_decode rt (event_data (env_sdk E) (msg_event m)))
     \<or> (\<exists>p \<in> set_option (rt_pub rt). \<exists>c ce. \<not> no_panic (bare p c ce))"

definition may_panic :: "('ev, 'w) env \<Rightarrow> ('ev, 'd, 'w) mux \<Rightarrow> ('ev, 'w) message \<Rightarrow> bool" where
  "may_panic E mx m \<longleftrightarrow>
     (\<exists>rt \<in> set (mux_routes mx). route_may_panic E m rt) \<or> \<not> dead_letter_total mx"

inductive permitted :: "('ev, 'w) env \<Rightarrow> ('ev, 'd, 'w) mux \<Rightarrow> ('ev, 'w) message \<Rightarrow> verdict \<Rightarrow> bool"
  for E mx m where
  undecodable: "DecodeError m = Some err \<Longrightarrow> dl_answers mx (Some ReasonDecode) pe
    \<Longrightarrow> permitted E mx m (failure_policy mx m (Some ReasonDecode) err pe)"
| no_route: "DecodeError m = None \<Longrightarrow> \<forall>r \<in> set (mux_routes mx). rejects m r
    \<Longrightarrow> permitted E mx m (LogDiscarded, None, DDiscard ErrNoRoute)"
| bad_payload: "DecodeError m = None \<Longrightarrow> selects (mux_routes mx) m rt
    \<Longrightarrow> answers (rt_decode rt (event_data (env_sdk E) (msg_event m))) (Inl err)
    \<Longrightarrow> dl_answers mx (Some ReasonDecode) pe
    \<Longrightarrow> permitted E mx m (failure_policy mx m (Some ReasonDecode) err pe)"
| handler_failed: "handled E mx m rt (data, Some err) \<Longrightarrow> dl_answers mx (classify mx m err) pe
    \<Longrightarrow> permitted E mx m (failure_policy mx m (classify mx m err) (snd (unwrapFailure err)) pe)"
| publish_failed: "handled E mx m rt (data, None) \<Longrightarrow> \<not> cfg_PublishAfterAck (mux_cfg mx)
    \<Longrightarrow> publish_due rt data \<Longrightarrow> publish_answers rt (Some err)
    \<Longrightarrow> dl_answers mx (classifyPublish mx m err) pe
    \<Longrightarrow> permitted E mx m
          (failure_policy mx m (classifyPublish mx m err) (wrap_both ErrPublicationFailed err) pe)"
| processed: "handled E mx m rt (data, None)
    \<Longrightarrow> \<not> cfg_PublishAfterAck (mux_cfg mx) \<and> publish_due rt data \<longrightarrow> publish_answers rt None
    \<Longrightarrow> permitted E mx m (LogAcked, None, DAck)"
| panicked: "may_panic E mx m \<Longrightarrow> dl_answers mx (Some ReasonPanic) pe
    \<Longrightarrow> permitted E mx m (failure_policy mx m (Some ReasonPanic) (panicCause p) pe)"

inductive_cases permitted_ackE: "permitted E mx m (LogAcked, r, d)"

subsection \<open>What settling does\<close>

definition decided_by :: "decision \<Rightarrow> ('ev, 'w) message \<Rightarrow> ('ev, 'w) message \<Rightarrow> bool" where
  "decided_by d m m' \<longleftrightarrow> msg_once m' \<and> Outcome m' = decision_outcome d
     \<and> msg_told m' = msg_told m @ calls_owed (decision_callback d m)
     \<and> msg_delivery m' = msg_delivery m \<and> msg_event m' = msg_event m"

lemma decided_byD:
  assumes "decided_by d m m'"
  shows "msg_outcome m' = fst (decision_outcome d)" "msg_cause m' = snd (decision_outcome d)"
    "msg_outcome m' \<noteq> OutcomePending" "msg_delivery m' = msg_delivery m" "msg_event m' = msg_event m"
  using assms decision_outcome_not_pending [of d] unfolding decided_by_def Outcome_def
  by (metis fst_conv snd_conv)+

lemma decided_by_inv:
  assumes "decided_by d m m'" and "msg_told m = []"
  shows "message_inv m'" "msg_told m' = calls_owed (outcome_callback (msg_outcome m') (msg_delivery m'))"
  using assms(1) decided_byD [OF assms(1)] assms(2)
  by (simp_all add: decided_by_def message_inv_def decision_callback_outcome)

text \<open>The callbacks of the transport never panic.\<close>

definition callbacks_total :: "('ev, 'w) message \<Rightarrow> bool" where
  "callbacks_total m \<longleftrightarrow>
     (\<forall>f \<in> set_option (dl_ack (msg_delivery m)) \<union> set_option (dl_nack (msg_delivery m))
         \<union> set_option (dl_discard (msg_delivery m)). no_panic f)"

lemma callbacks_total_callback: "callbacks_total m \<Longrightarrow> decision_callback d m = Some f \<Longrightarrow> no_panic f"
  by (cases d) (auto simp: callbacks_total_def)

text \<open>Nothing decided, nothing observed.\<close>

definition quiet :: "('ev, 'w) st \<Rightarrow> ('ev, 'w) st \<Rightarrow> bool" where
  "quiet s s' \<longleftrightarrow> st_msg s' = st_msg s \<and> st_seen s' = st_seen s"

lemma quiet_refl [simp]: "quiet s s"
  by (simp add: quiet_def)

lemma quiet_trans: "quiet s t \<Longrightarrow> quiet t u \<Longrightarrow> quiet s u"
  by (simp add: quiet_def)

lemma quiet_updates [simp]:
  "quiet s (s\<lparr>st_world := w\<rparr>)" "quiet s (s\<lparr>st_world := w, st_log := l\<rparr>)" "quiet s (s\<lparr>st_log := l\<rparr>)"
  "quiet s (s\<lparr>st_warned := b\<rparr>)"
  by (simp_all add: quiet_def)

text \<open>The message got its verdict, or was decided while the callback panicked.\<close>

fun settles :: "verdict \<Rightarrow> ('ev, 'w) st \<Rightarrow> ('ev, 'w) st \<Rightarrow> bool" where
  "settles (out, r, d) s s' \<longleftrightarrow>
     decided_by d (st_msg s) (st_msg s') \<and> st_seen s' = st_seen s @ [(out, r)]"

fun half_settles :: "verdict \<Rightarrow> ('ev, 'w) st \<Rightarrow> ('ev, 'w) st \<Rightarrow> bool" where
  "half_settles (out, r, d) s s' \<longleftrightarrow>
     decided_by d (st_msg s) (st_msg s') \<and> st_seen s' = st_seen s \<and> \<not> callbacks_total (st_msg s)"

lemma settles_quiet:
  assumes "quiet s t"
  shows "settles v t u = settles v s u" "half_settles v t u = half_settles v s u"
  using assms by (cases v; simp add: quiet_def)+

lemma settles_then_quiet: "settles v s t \<Longrightarrow> quiet t u \<Longrightarrow> settles v s u"
  by (cases v) (simp add: quiet_def)

lemma go_wp_decision:
  assumes "\<not> msg_once m"
    and "\<And>err m' w'. decided_by d m m' \<Longrightarrow> Q err (m', w')"
    and "\<And>p m' w'. decided_by d m m' \<Longrightarrow> \<not> callbacks_total m \<Longrightarrow> X p (m', w')"
  shows "go_wp (apply_decision d) Q X (m, w)"
proof -
  obtain r m' w' where step: "apply_decision d (m, w) = (r, (m', w'))"
    by (metis prod.exhaust_sel)
  note eq = step [unfolded apply_decision_decide fst_conv]
  have by_d: "decided_by d m m'"
    using decide_pending [OF assms(1) eq] by (simp add: decided_by_def Outcome_def)
  show ?thesis
  proof (cases r)
    case (Ret err)
    with step assms(2) [OF by_d] show ?thesis by (simp add: go_wp_def)
  next
    case (Panic p)
    have "\<not> callbacks_total m"
    proof
      assume total: "callbacks_total m"
      show False
      proof (cases "decision_callback d m")
        case None
        with eq assms(1) Panic show False by (auto simp: decide_def Let_def)
      next
        case (Some f)
        with eq Panic have "\<exists>w'. f w = (Panic p, w')" by (auto dest: decide_panics_only_if)
        with callbacks_total_callback [OF total Some] show False
          by (metis no_panic_def prod.inject res.distinct(1))
      qed
    qed
    with step Panic assms(3) [OF by_d] show ?thesis by (simp add: go_wp_def)
  qed
qed

lemma go_wp_settle:
  assumes "\<not> msg_once (st_msg s)"
    and "\<And>s'. settles (out, r, d) s s' \<Longrightarrow> Q () s'"
    and "\<And>p s'. half_settles (out, r, d) s s' \<Longrightarrow> X p s'"
  shows "go_wp (settle E mx out r (apply_decision d)) Q X s"
proof -
  have after: "go_wp (observe E mx f) Q X (s\<lparr>st_msg := m, st_world := w, st_log := l, st_seen := st_seen s @ [(out, r)]\<rparr>)"
    if "decided_by d (st_msg s) m" for f m w l
    by (rule go_wp_observe) (use that in \<open>simp add: assms(2)\<close>)
  have "go_wp (observe E mx f) Q X (s\<lparr>st_msg := m, st_world := w, st_seen := st_seen s @ [(out, r)]\<rparr>)"
    if "decided_by d (st_msg s) m" for f m w
    using after [OF that, where l = "st_log s"] by simp
  with after show ?thesis
    unfolding settle_def go_wp_bind go_wp_on_message
    by (intro go_wp_decision [OF assms(1)]) (auto simp: go_wps assms(3) split: option.splits)
qed

subsection \<open>Steps that settle nothing\<close>

lemma go_wp_world_call:
  assumes "\<And>a w. answers f a \<Longrightarrow> Q a (s\<lparr>st_world := w\<rparr>)"
    and "\<And>p w. \<not> no_panic f \<Longrightarrow> X p (s\<lparr>st_world := w\<rparr>)"
  shows "go_wp (on_world f) Q X s"
proof -
  obtain r w' where step: "f (st_world s) = (r, w')" by fastforce
  show ?thesis
  proof (cases r)
    case (Ret a)
    with step have "answers f a" by (auto simp: answers_def)
    with step Ret show ?thesis by (simp add: go_wp_on_world go_wp_def [of f] assms(1))
  next
    case (Panic p)
    with step have "\<not> no_panic f" unfolding no_panic_def by (metis prod.inject res.distinct(1))
    with step Panic show ?thesis by (simp add: go_wp_on_world go_wp_def [of f] assms(2))
  qed
qed

lemma go_wp_publish:
  assumes "\<And>e s'. quiet s s' \<Longrightarrow> answers (bare p c ce) e \<Longrightarrow> Q e s'"
    and "\<And>r s'. quiet s s' \<Longrightarrow> \<not> no_panic (bare p c ce) \<Longrightarrow> X r s'"
  shows "go_wp (pub_Publish E mx p c ce) Q X s"
proof (cases p)
  case (BarePub f)
  show ?thesis
    unfolding pub_Publish_def BarePub pub.case
    by (rule go_wp_world_call) (simp_all add: assms BarePub)
next
  case (ObservedPub f)
  have "go_wp (observe E mx (\<lambda>obs. OnPublish obs c ce e)) (\<lambda>_. Q e) X (s\<lparr>st_world := w\<rparr>)"
    if "answers (f c ce) e" for e w
    by (rule go_wp_observe) (simp add: assms(1) that ObservedPub)
  then show ?thesis
    unfolding pub_Publish_def ObservedPub pub.case go_wp_bind go_wp_seq go_wp_ret
    by (intro go_wp_world_call) (simp_all add: assms(2) ObservedPub)
qed

lemma go_wp_drop_reserved:
  assumes "\<And>meta' s'. quiet s s' \<Longrightarrow> Q meta' s'"
  shows "go_wp (drop_reserved E m ks meta) Q X s"
  using assms
proof (induction ks arbitrary: meta s)
  case Nil
  then show ?case by (simp add: go_wps)
next
  case (Cons k ks)
  have "go_wp (drop_reserved E m ks (AList.delete k meta)) Q X (s\<lparr>st_log := l\<rparr>)" for l
    by (rule Cons.IH) (rule Cons.prems, erule quiet_trans [rotated], simp)
  with Cons show ?case by (simp add: go_wps)
qed

lemma go_wp_publishResult:
  assumes "rt_pub rt = Some p"
    and "\<And>e s'. quiet s s' \<Longrightarrow> publish_answers rt e \<Longrightarrow> Q e s'"
    and "\<And>r s'. quiet s s' \<Longrightarrow> route_may_panic E (st_msg s) rt \<Longrightarrow> X r s'"
  shows "go_wp (publishResult E mx c data store p) Q X s"
proof -
  have pub: "go_wp (pub_Publish E mx p c ce) Q X t" if "quiet s t" for ce t
  proof (rule go_wp_publish)
    show "Q e s'" if "quiet t s'" "answers (bare p c ce) e" for e s'
      using that assms(1) quiet_trans [OF \<open>quiet s t\<close> that(1)]
      by (intro assms(2)) (auto simp: publish_answers_def)
    show "X r s'" if "quiet t s'" "\<not> no_panic (bare p c ce)" for r s'
      by (rule assms(3) [OF quiet_trans [OF \<open>quiet s t\<close> that(1)]])
        (use that(2) assms(1) in \<open>auto simp: route_may_panic_def\<close>)
  qed
  have "go_wp (drop_reserved E m ks meta) (\<lambda>meta. go_wp (pub_Publish E mx p c (f meta)) Q X) X (s\<lparr>st_world := w\<rparr>)"
    for m ks meta f w
    by (rule go_wp_drop_reserved) (rule pub, erule quiet_trans [rotated], simp)
  with assms(1,2) show ?thesis
    by (auto simp: publishResult_def go_wps publish_answers_def NewNonRetryableError_def split: sum.splits)
qed

lemma go_wp_findMatchingRoute:
  assumes "\<And>s'. quiet s s' \<Longrightarrow> \<forall>r \<in> set rts. rejects (st_msg s) r \<Longrightarrow> Q None s'"
    and "\<And>rt s'. quiet s s' \<Longrightarrow> selects rts (st_msg s) rt \<Longrightarrow> Q (Some rt) s'"
    and "\<And>r p s'. quiet s s' \<Longrightarrow> r \<in> set rts \<Longrightarrow> route_may_panic E (st_msg s) r \<Longrightarrow> X p s'"
  shows "go_wp (findMatchingRoute rts) Q X s"
  using assms
proof (induction rts arbitrary: s)
  case Nil
  then show ?case by (simp add: go_wps)
next
  case (Cons rt rts)
  have here: "selects (rt # rts) m rt" if "accepts m rt" for m
    unfolding selects_def by (rule exI [of _ "[]"]) (simp add: that)
  have later: "selects (rt # rts) m r" if sel: "selects rts m r" and rej: "rejects m rt" for m r
  proof -
    from sel obtain pre post where "rts = pre @ r # post" "\<forall>r \<in> set pre. rejects m r" "accepts m r"
      by (auto simp: selects_def)
    with rej show ?thesis
      unfolding selects_def by (intro exI [of _ "rt # pre"] exI [of _ post]) simp
  qed
  show ?case
  proof (cases "rt_filter rt")
    case None
    then show ?thesis by (simp add: go_wps Cons.prems(2) here accepts_def)
  next
    case (Some f)
    have "go_wp (findMatchingRoute rts) Q X (s\<lparr>st_world := w\<rparr>)" if "answers (flt_Match f (st_msg s)) False" for w
    proof (rule Cons.IH)
      have rej: "rejects (st_msg s) rt" using that Some by (simp add: rejects_def)
      show "Q None s'" if "quiet (s\<lparr>st_world := w\<rparr>) s'" "\<forall>r \<in> set rts. rejects (st_msg (s\<lparr>st_world := w\<rparr>)) r" for s'
        using that rej by (intro Cons.prems(1)) (auto simp: quiet_def)
      show "Q (Some r) s'" if "quiet (s\<lparr>st_world := w\<rparr>) s'" "selects rts (st_msg (s\<lparr>st_world := w\<rparr>)) r" for r s'
        using that rej by (intro Cons.prems(2) later) (auto simp: quiet_def)
      show "X p s'" if "quiet (s\<lparr>st_world := w\<rparr>) s'" "r \<in> set rts"
        "route_may_panic E (st_msg (s\<lparr>st_world := w\<rparr>)) r" for r p s'
        by (rule Cons.prems(3) [of _ r]) (use that in \<open>auto simp: quiet_def\<close>)
    qed
    then show ?thesis
      unfolding findMatchingRoute.simps Some option.case go_wp_bind go_wp_get
      by (intro go_wp_world_call)
        (auto simp: go_wps Some accepts_def route_may_panic_def intro!: Cons.prems(2) here
          intro: Cons.prems(3) [of _ rt])
  qed
qed

lemma go_wp_on_handler:
  assumes "\<And>a b s'. quiet s s' \<Longrightarrow> answers f a \<Longrightarrow> Q (a, b) s'"
    and "no_panic f"
  shows "go_wp (on_handler store f) Q X s"
proof -
  let ?h = "\<lparr>h_world = st_world s, h_store = store, h_log = st_log s\<rparr>"
  obtain a h where step: "f ?h = (Ret a, h)"
    using assms(2) unfolding no_panic_def by blast
  then have "answers f a" by (auto simp: answers_def)
  with step show ?thesis
    by (simp add: on_handler_def go_wps go_wp_def [of f] assms(1))
qed

lemma invoke_no_panic: "no_panic (invoke E mx rt c payload)"
  by (rule no_panicI) (simp add: invoke_def go_wps go_wp_any)

subsection \<open>Failures\<close>

lemma go_wp_fail:
  assumes "\<not> msg_once (st_msg s)"
    and "\<And>pe s'. dl_answers mx reason pe \<Longrightarrow> settles (failure_policy mx (st_msg s) reason cause pe) s s' \<Longrightarrow> Q () s'"
    and "\<And>pe r s'. dl_answers mx reason pe \<Longrightarrow> half_settles (failure_policy mx (st_msg s) reason cause pe) s s' \<Longrightarrow> X r s'"
    and "\<And>r s'. quiet s s' \<Longrightarrow> \<not> dead_letter_total mx \<Longrightarrow> X r s'"
  shows "go_wp (fail E mx reason cause stack) Q X s"
proof -
  have settle: "go_wp (settle E mx out r (apply_decision d)) Q X t"
    if quiet: "quiet s t" and dl: "dl_answers mx reason pe"
      and pol: "failure_policy mx (st_msg s) reason cause pe = (out, r, d)" for t pe out r d
  proof (rule go_wp_settle)
    show "\<not> msg_once (st_msg t)" using assms(1) quiet by (simp add: quiet_def)
    show "Q () s'" if "settles (out, r, d) t s'" for s'
      by (rule assms(2) [OF dl]) (use that in \<open>simp only: pol settles_quiet [OF quiet]\<close>)
    show "X p s'" if "half_settles (out, r, d) t s'" for p s'
      by (rule assms(3) [OF dl]) (use that in \<open>simp only: pol settles_quiet [OF quiet]\<close>)
  qed
  note nack = settle [where d = "DNack e" for e, simplified apply_decision.simps]
  note discard = settle [where d = "DDiscard e" for e, simplified apply_decision.simps]
  show ?thesis
  proof (cases reason)
    case None
    then show ?thesis
      by (auto simp: fail_def go_wps Let_def failure_policy_def dl_answers_def intro!: nack [where pe = None])
  next
    case (Some r)
    have disc: "go_wp (fail_discard E mx lm attrs r cause) Q X t"
      if "quiet s t" "dl_answers mx reason pe"
        "failure_policy mx (st_msg s) reason cause pe = (LogDiscarded, Some r, DDiscard cause)" for t pe lm attrs
      unfolding fail_discard_def go_wp_seq go_wp_log_rec
      by (rule discard [OF _ that(2,3)]) (rule quiet_trans [OF that(1)], simp)
    show ?thesis
    proof (cases "cfg_DeadLetter (mux_cfg mx)")
      case None
      have "go_wp (fail_discard E mx lm attrs r cause) Q X s" for lm attrs
        by (rule disc [where pe = None]) (simp_all add: Some None failure_policy_def dl_answers_def)
      with Some None show ?thesis
        by (simp add: fail_def go_wps Let_def)
    next
      case (Some dl)
      have answer: "go_wp
          (case pubErr of
             None \<Rightarrow> fail_discard E mx ''message dead-lettered'' attrs r cause
           | Some pe \<Rightarrow>
               if isNonRetryable pe \<or> \<not> redeliveryBounded mx (st_msg s) then
                 fail_discard E mx ''message discarded''
                   (attrs @ [AStr KeyDeadLetterPublishError (err_text pe)]) r cause
               else
                 go_seq (log_rec LevelError ''dead-letter publish failed''
                     (attrs @ [AStr KeyDeadLetterPublishError (err_text pe), outcome_Attr LogNacked]))
                   (settle E mx LogNacked None (Nack (dead_letter_failed cause pe)))) Q X t"
        if "quiet s t" "answers (bare dl c ce) pubErr" for pubErr c ce t attrs
      proof -
        have dl: "dl_answers mx reason pubErr"
          using that(2) Some \<open>reason = Some r\<close> by (auto simp: dl_answers_def)
        have quiet_log: "quiet s (t\<lparr>st_log := l\<rparr>)" for l
          using quiet_trans [OF that(1)] by simp
        show ?thesis
          using \<open>reason = Some r\<close>
          by (auto simp: failure_policy_def go_wps quiet_log split: option.splits
              intro!: disc [OF that(1) dl] nack [OF _ dl])
      qed
      have "go_wp (pub_Publish E mx dl c ce) (\<lambda>pubErr. go_wp
          (case pubErr of
             None \<Rightarrow> fail_discard E mx ''message dead-lettered'' attrs r cause
           | Some pe \<Rightarrow>
               if isNonRetryable pe \<or> \<not> redeliveryBounded mx (st_msg s) then
                 fail_discard E mx ''message discarded''
                   (attrs @ [AStr KeyDeadLetterPublishError (err_text pe)]) r cause
               else
                 go_seq (log_rec LevelError ''dead-letter publish failed''
                     (attrs @ [AStr KeyDeadLetterPublishError (err_text pe), outcome_Attr LogNacked]))
                   (settle E mx LogNacked None (Nack (dead_letter_failed cause pe)))) Q X) X s" for c ce attrs
        by (rule go_wp_publish) (use Some in \<open>auto intro: answer assms(4) simp: dead_letter_total_def\<close>)
      then show ?thesis
        by (simp add: fail_def go_wp_bind go_wp_get Let_def \<open>reason = Some r\<close> Some publishDeadLetter_def)
    qed
  qed
qed

end
