(* ===== verification/MuxProofs.thy ===== *)
theory MuxProofs
  imports MuxSpec
begin

text \<open>
  \<open>handle\<close> refines the specification of \<open>MuxSpec\<close>, and what follows for every message.
\<close>

subsection \<open>The branches of \<open>processAndHandle\<close> and \<open>handle_body\<close>\<close>

definition concluded :: "('ev, 'w) env \<Rightarrow> ('ev, 'd, 'w) mux \<Rightarrow> ('ev, 'w) st \<Rightarrow> ('ev, 'w) st \<Rightarrow> bool" where
  "concluded E mx s s' \<longleftrightarrow> (\<exists>v. permitted E mx (st_msg s) v \<and> settles v s s')"

definition half_concluded :: "('ev, 'w) env \<Rightarrow> ('ev, 'd, 'w) mux \<Rightarrow> ('ev, 'w) st \<Rightarrow> ('ev, 'w) st \<Rightarrow> bool" where
  "half_concluded E mx s s' \<longleftrightarrow> (\<exists>v. permitted E mx (st_msg s) v \<and> half_settles v s s')"

lemma concluded_quiet:
  "quiet s t \<Longrightarrow> concluded E mx t u = concluded E mx s u"
  "quiet s t \<Longrightarrow> half_concluded E mx t u = half_concluded E mx s u"
  by (simp_all add: concluded_def half_concluded_def settles_quiet) (simp_all add: quiet_def)

lemma concluded_then_quiet: "concluded E mx s t \<Longrightarrow> quiet t u \<Longrightarrow> concluded E mx s u"
  unfolding concluded_def using settles_then_quiet by blast

text \<open>The failure branches, from any state reached without settling.\<close>

lemma go_wp_fail_branch:
  assumes "\<not> msg_once (st_msg s)" and "quiet s t"
    and "\<And>pe. dl_answers mx reason pe \<Longrightarrow> permitted E mx (st_msg s) (failure_policy mx (st_msg s) reason cause pe)"
    and "\<And>s'. concluded E mx s s' \<Longrightarrow> Q () s'" and "\<And>p s'. half_concluded E mx s s' \<Longrightarrow> X p s'"
    and "\<And>p s'. quiet s s' \<Longrightarrow> may_panic E mx (st_msg s) \<Longrightarrow> X p s'"
  shows "go_wp (fail E mx reason cause stack) Q X t"
proof (rule go_wp_fail)
  have msg: "st_msg t = st_msg s" using assms(2) by (simp add: quiet_def)
  show "\<not> msg_once (st_msg t)" using assms(1) msg by simp
  show "Q () s'" if "dl_answers mx reason pe" "settles (failure_policy mx (st_msg t) reason cause pe) t s'" for pe s'
    using that assms(3) unfolding msg settles_quiet(1) [OF assms(2)]
    by (intro assms(4)) (metis concluded_def)
  show "X r s'" if "dl_answers mx reason pe" "half_settles (failure_policy mx (st_msg t) reason cause pe) t s'" for pe r s'
    using that assms(3) unfolding msg settles_quiet(2) [OF assms(2)]
    by (intro assms(5)) (metis half_concluded_def)
  show "X r s'" if "quiet t s'" "\<not> dead_letter_total mx" for r s'
    by (rule assms(6) [OF quiet_trans [OF assms(2) that(1)]]) (simp add: may_panic_def that(2))
qed

lemma go_wp_settle_branch:
  assumes "\<not> msg_once (st_msg s)" and "quiet s t" and "permitted E mx (st_msg s) (out, r, d)"
    and "\<And>s'. concluded E mx s s' \<Longrightarrow> Q () s'" and "\<And>p s'. half_concluded E mx s s' \<Longrightarrow> X p s'"
  shows "go_wp (settle E mx out r (apply_decision d)) Q X t"
proof (rule go_wp_settle)
  show "\<not> msg_once (st_msg t)" using assms(1,2) by (simp add: quiet_def)
  show "Q () s'" if "settles (out, r, d) t s'" for s'
    using that assms(3) unfolding settles_quiet(1) [OF assms(2)]
    by (intro assms(4)) (metis concluded_def)
  show "X p s'" if "half_settles (out, r, d) t s'" for p s'
    using that assms(3) unfolding settles_quiet(2) [OF assms(2)]
    by (intro assms(5)) (metis half_concluded_def)
qed

lemmas go_wp_ack_branch = go_wp_settle_branch [where d = DAck, simplified apply_decision.simps]
lemmas go_wp_discard_branch = go_wp_settle_branch [where d = "DDiscard e" for e, simplified apply_decision.simps]

text \<open>After the message is acked: the completion record and, if so configured, the result.\<close>

lemma go_wp_ack_processed:
  assumes "\<not> msg_once (st_msg s)" and "quiet s t" and "permitted E mx (st_msg s) (LogAcked, None, DAck)"
    and Q: "\<And>s'. concluded E mx s s' \<Longrightarrow> Q () s'"
    and X: "\<And>p s'. concluded E mx s s' \<or> half_concluded E mx s s' \<Longrightarrow> X p s'"
  shows "go_wp (ack_processed E mx rt m c data store) Q X t"
proof -
  let ?log = "\<lambda>err. case err of None \<Rightarrow> go_ret ()
     | Some e \<Rightarrow> log_rec LevelError ''result publish failed''
         [AErr e, AStr KeyMessagingMessageID (msg_ID E m), correlationAttr E m]"
  have publish: "go_wp (publishResult E mx c' b store p) (\<lambda>err. go_wp (?log err) Q X) X u"
    if "rt_pub rt = Some p" "concluded E mx s u" for u p c' b
  proof (rule go_wp_publishResult [OF that(1)])
    show "go_wp (?log e) Q X s'" if "quiet u s'" for e s'
      using concluded_then_quiet [OF \<open>concluded E mx s u\<close> that]
        concluded_then_quiet [OF \<open>concluded E mx s u\<close> quiet_trans [OF that]]
      by (auto simp: go_wps Q split: option.splits)
    show "X r s'" if "quiet u s'" for r s'
      using concluded_then_quiet [OF \<open>concluded E mx s u\<close> that] X by blast
  qed
  show ?thesis
    unfolding ack_processed_def go_wp_seq [of "settle E mx LogAcked None Ack"]
  proof (rule go_wp_ack_branch [OF assms(1,2,3)])
    show "X p s'" if "half_concluded E mx s s'" for p s' using that X by blast
    fix u assume "concluded E mx s u"
    then have "concluded E mx s (u\<lparr>st_log := l\<rparr>)" for l
      using concluded_then_quiet quiet_updates(3) by blast
    then show "go_wp (go_seq (log_rec LevelInfo ''message processed''
        [AStr KeyMessagingMessageID (msg_ID E m), correlationAttr E m, deliveryAttr m, outcome_Attr LogAcked])
      (if cfg_PublishAfterAck (mux_cfg mx) \<and> rt_pub rt \<noteq> None \<and> data \<noteq> None then
         go_bind (publishResult E mx (WithoutCancel c) (the data) store (the (rt_pub rt))) ?log
       else go_ret ())) Q X u"
      by (auto simp: go_wps Q publish)
  qed
qed

text \<open>What each branch may assume of the post-conditions it has to establish.\<close>

lemma go_wp_publish_and_ack:
  assumes "\<not> msg_once (st_msg s)" and "quiet s t" and handled: "handled E mx (st_msg s) rt (data, None)"
    and Q: "\<And>s'. concluded E mx s s' \<Longrightarrow> Q () s'"
    and X: "\<And>p s'. quiet s s' \<and> may_panic E mx (st_msg s) \<or> concluded E mx s s' \<or> half_concluded E mx s s' \<Longrightarrow> X p s'"
  shows "go_wp (publish_and_ack E mx rt (st_msg s) c data store) Q X t"
proof -
  have may: "route_may_panic E (st_msg s) rt \<Longrightarrow> may_panic E mx (st_msg s)"
    using handled by (auto simp: handled_def selects_def may_panic_def)
  have ack: "go_wp (ack_processed E mx rt (st_msg s) c data store) Q X u"
    if "quiet s u" "\<not> cfg_PublishAfterAck (mux_cfg mx) \<and> publish_due rt data \<longrightarrow> publish_answers rt None" for u
    by (rule go_wp_ack_processed [OF assms(1) that(1) processed [OF handled that(2)]]) (auto intro: Q X)
  have failed: "go_wp (fail E mx (classifyPublish mx (st_msg s) err) (wrap_both ErrPublicationFailed err) None) Q X u"
    if "quiet s u" "\<not> cfg_PublishAfterAck (mux_cfg mx)" "publish_due rt data" "publish_answers rt (Some err)" for u err
    by (rule go_wp_fail_branch [OF assms(1) that(1) publish_failed [OF handled that(2-4)]]) (auto intro: Q X)
  show ?thesis
  proof (cases "\<not> cfg_PublishAfterAck (mux_cfg mx) \<and> rt_pub rt \<noteq> None \<and> data \<noteq> None")
    case True
    then obtain p where p: "rt_pub rt = Some p" by blast
    from True have due: "publish_due rt data" by (simp add: publish_due_def)
    have "go_wp (publishResult E mx c b store p) (\<lambda>perr. go_wp (case perr of
          Some err \<Rightarrow> fail E mx (classifyPublish mx (st_msg s) err) (wrap_both ErrPublicationFailed err) None
        | None \<Rightarrow> ack_processed E mx rt (st_msg s) c data store) Q X) X t" for b
    proof (rule go_wp_publishResult [OF p])
      show "X r s'" if "quiet t s'" "route_may_panic E (st_msg t) rt" for r s'
        using X quiet_trans [OF assms(2) that(1)] may that(2) assms(2) by (auto simp: quiet_def)
      show "go_wp (case perr of
          Some err \<Rightarrow> fail E mx (classifyPublish mx (st_msg s) err) (wrap_both ErrPublicationFailed err) None
        | None \<Rightarrow> ack_processed E mx rt (st_msg s) c data store) Q X s'"
        if "quiet t s'" "publish_answers rt perr" for perr s'
        using that(2) True due ack [OF quiet_trans [OF assms(2) that(1)]]
          failed [OF quiet_trans [OF assms(2) that(1)]]
        by (cases perr) simp_all
    qed
    with True p show ?thesis
      by (simp add: publish_and_ack_def go_wp_bind)
  next
    case False
    then have "go_wp (ack_processed E mx rt (st_msg s) c data store) Q X t"
      by (intro ack [OF assms(2)]) (auto simp: publish_due_def)
    then show ?thesis
      unfolding publish_and_ack_def if_not_P [OF False] by (simp add: go_wps)
  qed
qed

lemma go_wp_processAndHandle:
  assumes "\<not> msg_once (st_msg s)" and "quiet s t"
    and dec: "DecodeError (st_msg s) = None" and sel: "selects (mux_routes mx) (st_msg s) rt"
    and Q: "\<And>s'. concluded E mx s s' \<Longrightarrow> Q () s'"
    and X: "\<And>p s'. quiet s s' \<and> may_panic E mx (st_msg s) \<or> concluded E mx s s' \<or> half_concluded E mx s s' \<Longrightarrow> X p s'"
  shows "go_wp (processAndHandle E mx rt) Q X t"
proof -
  let ?m = "st_msg s" and ?data = "event_data (env_sdk E) (msg_event (st_msg s))"
  have msg: "st_msg t = ?m" using assms(2) by (simp add: quiet_def)
  have bad: "go_wp (fail E mx (Some ReasonDecode) err None) Q X u"
    if "quiet s u" "answers (rt_decode rt ?data) (Inl err)" for u err
    by (rule go_wp_fail_branch [OF assms(1) that(1) bad_payload [OF dec sel that(2)]]) (auto intro: Q X)
  have run: "go_wp (on_handler NewStore (invoke E mx rt c payload)) (\<lambda>((data, herr), store). go_wp (case herr of
        Some err \<Rightarrow> (case unwrapFailure err of (stack, cause) \<Rightarrow> fail E mx (classify mx ?m err) cause stack)
      | None \<Rightarrow> publish_and_ack E mx rt ?m c data store) Q X) X u"
    if "quiet s u" "answers (rt_decode rt ?data) (Inr payload)" for u c payload
  proof (rule go_wp_on_handler [OF _ invoke_no_panic])
    fix res b u'
    assume "quiet u u'" and ans: "answers (invoke E mx rt c payload) res"
    obtain data herr where res: "res = (data, herr)" by (cases res)
    from \<open>quiet u u'\<close> have q: "quiet s u'" by (rule quiet_trans [OF that(1)])
    have handled: "handled E mx ?m rt (data, herr)"
      using ans that(2) dec sel unfolding handled_def res by blast
    show "(\<lambda>((data, herr), store). go_wp (case herr of
        Some err \<Rightarrow> (case unwrapFailure err of (stack, cause) \<Rightarrow> fail E mx (classify mx ?m err) cause stack)
      | None \<Rightarrow> publish_and_ack E mx rt ?m c data store) Q X) (res, b) u'"
    proof (cases herr)
      case None
      have "go_wp (publish_and_ack E mx rt ?m c data b) Q X u'"
        by (rule go_wp_publish_and_ack [OF assms(1) q]) (use handled None Q X in auto)
      with None show ?thesis by (simp add: res)
    next
      case (Some err)
      have "go_wp (fail E mx (classify mx ?m err) (snd (unwrapFailure err)) stack) Q X u'" for stack
        by (rule go_wp_fail_branch [OF assms(1) q handler_failed])
          (use handled Some in \<open>auto intro: Q X\<close>)
      then show ?thesis by (simp add: res Some case_prod_unfold)
    qed
  qed
  have "go_wp (on_world (rt_decode rt ?data)) (\<lambda>decoded. go_wp (case decoded of
        Inl err \<Rightarrow> fail E mx (Some ReasonDecode) err None
      | Inr payload \<Rightarrow> (let c = f in go_bind (on_handler NewStore (invoke E mx rt c payload))
          (\<lambda>((data, herr), store). (case herr of
             Some err \<Rightarrow> (case unwrapFailure err of (stack, cause) \<Rightarrow> fail E mx (classify mx ?m err) cause stack)
           | None \<Rightarrow> publish_and_ack E mx rt ?m c data store)))) Q X) X t" for f
  proof (rule go_wp_world_call)
    have q: "quiet s (t\<lparr>st_world := w\<rparr>)" for w by (rule quiet_trans [OF assms(2)]) simp
    have may: "route_may_panic E ?m rt \<Longrightarrow> may_panic E mx ?m"
      using sel by (auto simp: selects_def may_panic_def)
    show "X p (t\<lparr>st_world := w\<rparr>)" if "\<not> no_panic (rt_decode rt ?data)" for p w
      using X q may that by (auto simp: route_may_panic_def)
    fix decoded w
    assume "answers (rt_decode rt ?data) decoded"
    with bad [OF q] run [OF q] show "go_wp (case decoded of
        Inl err \<Rightarrow> fail E mx (Some ReasonDecode) err None
      | Inr payload \<Rightarrow> (let c = f in go_bind (on_handler NewStore (invoke E mx rt c payload))
          (\<lambda>((data, herr), store). (case herr of
             Some err \<Rightarrow> (case unwrapFailure err of (stack, cause) \<Rightarrow> fail E mx (classify mx ?m err) cause stack)
           | None \<Rightarrow> publish_and_ack E mx rt ?m c data store)))) Q X (t\<lparr>st_world := w\<rparr>)"
      by (cases decoded) (simp_all add: Let_def go_wp_bind case_prod_unfold)
  qed
  then show ?thesis
    unfolding processAndHandle_def go_wp_bind go_wp_get msg by simp
qed

subsection \<open>handle\<close>

text \<open>The message as the router sees it once \<open>handle\<close> has minted the correlation id.\<close>

definition minted :: "('ev, 'w) env \<Rightarrow> ('ev, 'w) st \<Rightarrow> ('ev, 'w) st" where
  "minted E s = s\<lparr>st_msg := mint_correlation (env_sdk E) (st_msg s)\<rparr>"

lemma mint_correlation_frame [simp]:
  "msg_once (mint_correlation S m) = msg_once m" "msg_told (mint_correlation S m) = msg_told m"
  "msg_delivery (mint_correlation S m) = msg_delivery m" "msg_outcome (mint_correlation S m) = msg_outcome m"
  "msg_cause (mint_correlation S m) = msg_cause m" "msg_decode_err (mint_correlation S m) = msg_decode_err m"
  "msg_cancelled (mint_correlation S m) = msg_cancelled m"
  by (simp_all add: mint_correlation_def)

lemma minted_frame [simp]:
  "st_msg (minted E s) = mint_correlation (env_sdk E) (st_msg s)" "st_seen (minted E s) = st_seen s"
  by (simp_all add: minted_def)

lemma go_wp_handle_body:
  assumes "\<not> msg_once (st_msg s)"
    and Q: "\<And>s'. concluded E mx (minted E s) s' \<Longrightarrow> Q () s'"
    and X: "\<And>p s'. quiet (minted E s) s' \<and> may_panic E mx (st_msg (minted E s))
      \<or> concluded E mx (minted E s) s' \<or> half_concluded E mx (minted E s) s'
      \<Longrightarrow> X p s'"
  shows "go_wp (handle_body E mx) Q X s"
proof -
  let ?s = "minted E s" and ?m = "mint_correlation (env_sdk E) (st_msg s)"
  have once: "\<not> msg_once (st_msg ?s)" using assms(1) by simp
  let ?route = "case DecodeError ?m of
      Some err \<Rightarrow> fail E mx (Some ReasonDecode) err None
    | None \<Rightarrow> go_bind (findMatchingRoute (mux_routes mx)) (\<lambda>matching. (case matching of
        None \<Rightarrow> handleNoRouteFound E mx | Some rt \<Rightarrow> processAndHandle E mx rt))"
  have route: "go_wp ?route Q X t" if "quiet ?s t" for t
  proof (cases "DecodeError ?m")
    case None
    then have dec: "DecodeError (st_msg ?s) = None" by simp
    have msg: "st_msg t = st_msg ?s" using that by (simp add: quiet_def)
    have "go_wp (findMatchingRoute (mux_routes mx)) (\<lambda>matching. go_wp (case matching of
        None \<Rightarrow> handleNoRouteFound E mx | Some rt \<Rightarrow> processAndHandle E mx rt) Q X) X t"
    proof (rule go_wp_findMatchingRoute)
      fix u assume "quiet t u"
      with that have q: "quiet ?s u" by (rule quiet_trans)
      show "X p u" if "r \<in> set (mux_routes mx)" "route_may_panic E (st_msg t) r" for r p
        using X q that msg by (auto simp: may_panic_def)
      show "go_wp (case Some rt of None \<Rightarrow> handleNoRouteFound E mx | Some rt \<Rightarrow> processAndHandle E mx rt) Q X u"
        if "selects (mux_routes mx) (st_msg t) rt" for rt
        using go_wp_processAndHandle [OF once q dec that [unfolded msg]] Q X by simp
      assume rej: "\<forall>r \<in> set (mux_routes mx). rejects (st_msg t) r"
      have q': "quiet ?s (u\<lparr>st_log := l\<rparr>)" for l by (rule quiet_trans [OF q]) simp
      show "go_wp (case None of None \<Rightarrow> handleNoRouteFound E mx | Some rt \<Rightarrow> processAndHandle E mx rt) Q X u"
        unfolding option.case handleNoRouteFound_def go_wp_bind go_wp_get go_wp_seq go_wp_log_rec
        by (rule go_wp_discard_branch [OF once q' no_route [OF dec rej [unfolded msg]]]) (auto intro: Q X)
    qed
    with None show ?thesis by (simp add: go_wp_bind)
  next
    case (Some err)
    have "go_wp (fail E mx (Some ReasonDecode) err None) Q X t"
      by (rule go_wp_fail_branch [OF once that undecodable]) (use Some in \<open>auto intro: Q X\<close>)
    with Some show ?thesis by simp
  qed
  have q: "quiet ?s (t\<lparr>st_log := l\<rparr>)" "quiet ?s (t\<lparr>st_warned := b, st_log := l\<rparr>)"
    if "quiet ?s t" for t l b
    using that by (simp_all add: quiet_def)
  show ?thesis
    unfolding handle_body_def go_wp_seq go_wp_modify go_wp_bind go_wp_get go_wp_when go_wp_log_rec
      minted_def [symmetric] minted_frame
    by (auto intro!: route q)
qed

lemma half_concluded_then_quiet: "half_concluded E mx s t \<Longrightarrow> quiet t u \<Longrightarrow> half_concluded E mx s u"
  unfolding half_concluded_def by (auto simp: quiet_def)

lemma concluded_not_pending:
  assumes "concluded E mx s t \<or> half_concluded E mx s t"
  shows "fst (Outcome (st_msg t)) \<noteq> OutcomePending"
  using assms decision_outcome_not_pending
  by (fastforce simp: concluded_def half_concluded_def decided_by_def)

lemma go_wp_recoverOutsideHandler:
  assumes undecided: "\<not> msg_once (st_msg s)" "message_inv (st_msg s)"
    and t: "quiet s t \<and> may_panic E mx (st_msg s) \<or> concluded E mx s t \<or> half_concluded E mx s t"
    and conc: "\<And>s'. concluded E mx s s' \<Longrightarrow> Q () s'" and half: "\<And>s'. half_concluded E mx s s' \<Longrightarrow> Q () s'"
    and pend: "\<And>s'. quiet s s' \<Longrightarrow> \<not> dead_letter_total mx \<Longrightarrow> Q () s'"
  shows "go_wp (recoverOutsideHandler E mx r) Q X t"
proof (cases "quiet s t \<and> may_panic E mx (st_msg s)")
  case both: True
  then have True: "quiet s t" and may: "may_panic E mx (st_msg s)" by simp_all
  then have pending: "fst (Outcome (st_msg t)) = OutcomePending" and once: "\<not> msg_once (st_msg t)"
    using undecided by (simp_all add: quiet_def message_inv_def Outcome_def)
  have "go_wp (fail E mx (Some ReasonPanic) (panicCause r) stack) Q
      (\<lambda>again u. Q () (u\<lparr>st_log := st_log u @ [lr again]\<rparr>)) t" for stack lr
  proof (rule go_wp_fail [OF once])
    have msg: "st_msg t = st_msg s" using True by (simp add: quiet_def)
    have perm: "permitted E mx (st_msg s) (failure_policy mx (st_msg s) (Some ReasonPanic) (panicCause r) pe)"
      if "dl_answers mx (Some ReasonPanic) pe" for pe
      by (rule panicked [OF may that])
    show "Q () u" if "dl_answers mx (Some ReasonPanic) pe"
      "settles (failure_policy mx (st_msg t) (Some ReasonPanic) (panicCause r) pe) t u" for pe u
      using that perm [OF that(1)] unfolding msg settles_quiet(1) [OF True]
      by (intro conc) (metis concluded_def)
    show "Q () (u\<lparr>st_log := st_log u @ [lr again]\<rparr>)" if "dl_answers mx (Some ReasonPanic) pe"
      "half_settles (failure_policy mx (st_msg t) (Some ReasonPanic) (panicCause r) pe) t u" for pe again u
    proof -
      have "half_concluded E mx s u"
        using that(2) perm [OF that(1)] unfolding msg settles_quiet(2) [OF True] half_concluded_def by blast
      from half_concluded_then_quiet [OF this quiet_updates(3)] show ?thesis by (rule half)
    qed
    show "Q () (u\<lparr>st_log := st_log u @ [lr again]\<rparr>)" if "quiet t u" "\<not> dead_letter_total mx" for again u
      by (rule pend [OF _ that(2)]) (rule quiet_trans [OF quiet_trans [OF True that(1)]], simp)
  qed
  with pending show ?thesis
    by (simp add: recoverOutsideHandler_def go_wps)
next
  case False
  with t have done_: "concluded E mx s t \<or> half_concluded E mx s t" by blast
  with concluded_not_pending have np: "fst (Outcome (st_msg t)) \<noteq> OutcomePending" by blast
  have "Q () (t\<lparr>st_log := l\<rparr>)" for l
    using done_ conc half concluded_then_quiet half_concluded_then_quiet quiet_updates(3) by blast
  with np show ?thesis
    by (simp add: recoverOutsideHandler_def go_wps)
qed

text \<open>What \<open>handle\<close> leaves behind, in all cases.\<close>

lemma go_wp_handle:
  assumes "\<not> msg_once (st_msg s)" and "message_inv (st_msg s)"
  shows "go_wp (handle E mx)
    (\<lambda>_ s'. concluded E mx (minted E s) s' \<or> half_concluded E mx (minted E s) s'
       \<or> quiet (minted E s) s' \<and> \<not> dead_letter_total mx) (\<lambda>_ _. False) s"
  unfolding handle_def go_wp_recover
proof (rule go_wp_handle_body [OF assms(1)])
  fix p s'
  assume "quiet (minted E s) s' \<and> may_panic E mx (st_msg (minted E s)) \<or> concluded E mx (minted E s) s' \<or> half_concluded E mx (minted E s) s'"
  moreover have "\<not> msg_once (st_msg (minted E s))" "message_inv (st_msg (minted E s))"
    using assms by (simp_all add: message_inv_def)
  ultimately show "go_wp (recoverOutsideHandler E mx p)
    (\<lambda>_ s'. concluded E mx (minted E s) s' \<or> half_concluded E mx (minted E s) s'
       \<or> quiet (minted E s) s' \<and> \<not> dead_letter_total mx) (\<lambda>_ _. False) s'"
    by (intro go_wp_recoverOutsideHandler [where s = "minted E s"]) blast+
qed simp

end
