(* ===== verification/Sample.thy ===== *)
theory Sample
  imports MuxProofs
begin

text \<open>
  Concrete parameters for the witnesses: an event type that satisfies \<open>sdk_laws\<close>, an
  environment, and small routers.  Nothing here models the program.
\<close>

subsection \<open>A CloudEvent\<close>

record sev =
  se_id :: string
  se_type :: string
  se_source :: string
  se_specversion :: string
  se_subject :: string
  se_dataschema :: string
  se_ctype :: string
  se_time :: "gotime option"
  se_data :: bytes
  se_exts :: exts

definition sev_exts :: "sev \<Rightarrow> exts" where
  "sev_exts e = filter (\<lambda>(k, v). ext_name_ok k) (AList.clearjunk (se_exts e))"

definition sev_set_ext :: "string \<Rightarrow> extval \<Rightarrow> sev \<Rightarrow> sev" where
  "sev_set_ext n v e = (if ext_name_ok n then e\<lparr>se_exts := AList.update n v (se_exts e)\<rparr> else e)"

definition sample_sdk :: "sev sdk" where
  "sample_sdk = \<lparr>
     event_new = \<lparr>se_id = [], se_type = [], se_source = [], se_specversion = ''1.0'', se_subject = [],
       se_dataschema = [], se_ctype = [], se_time = None, se_data = [], se_exts = []\<rparr>,
     event_id = se_id, event_type = se_type, event_source = se_source, event_specversion = se_specversion,
     event_subject = se_subject, event_dataschema = se_dataschema, event_datacontenttype = se_ctype,
     event_time = (\<lambda>e. Option.bind (se_time e) (\<lambda>t. if t = 0 then None else Some t)), event_data = se_data, event_exts = sev_exts, event_v1_exts = (\<lambda>e. None),
     set_id = (\<lambda>x e. e\<lparr>se_id := x\<rparr>), set_type = (\<lambda>x e. e\<lparr>se_type := x\<rparr>),
     set_source = (\<lambda>x e. e\<lparr>se_source := x\<rparr>), set_specversion = (\<lambda>x e. e\<lparr>se_specversion := x\<rparr>),
     set_subject = (\<lambda>x e. e\<lparr>se_subject := x\<rparr>), set_dataschema = (\<lambda>x e. e\<lparr>se_dataschema := x\<rparr>),
     set_time = (\<lambda>t e. e\<lparr>se_time := Some t\<rparr>), set_ext = sev_set_ext,
     set_data = (\<lambda>ct d e. case d of RawBytes b \<Rightarrow> Inr (e\<lparr>se_ctype := ct, se_data := b\<rparr>)
       | JsonValue j \<Rightarrow> Inr (e\<lparr>se_ctype := ct, se_data := j\<rparr>)),
     event_clone = (\<lambda>e. e),
     event_validate = (\<lambda>e. if se_id e = [] then Some (errors_new ''id: MUST be a non-empty string'') else None),
     attr_value = (\<lambda>n x. Some x), event_faults = (\<lambda>e. {})\<rparr>"

lemma extension_sample: "extension sample_sdk e k = (if ext_name_ok k then map_of (se_exts e) k else None)"
  by (simp add: extension_def extensions_def sample_sdk_def sev_exts_def map_of_filter_key map_of_clearjunk)

lemma sample_fields [simp]:
  "event_id sample_sdk = se_id" "event_type sample_sdk = se_type" "event_source sample_sdk = se_source"
  "event_data sample_sdk = se_data" "event_clone sample_sdk e = e" "set_ext sample_sdk = sev_set_ext"
  "set_id sample_sdk x e = e\<lparr>se_id := x\<rparr>" "set_type sample_sdk x e = e\<lparr>se_type := x\<rparr>"
  "set_source sample_sdk x e = e\<lparr>se_source := x\<rparr>" "set_time sample_sdk t e = e\<lparr>se_time := Some t\<rparr>"
  "set_data sample_sdk ct d e
     = Inr (e\<lparr>se_ctype := ct, se_data := (case d of RawBytes b \<Rightarrow> b | JsonValue j \<Rightarrow> j)\<rparr>)"
  "set_specversion sample_sdk x e = e\<lparr>se_specversion := x\<rparr>" "set_subject sample_sdk x e = e\<lparr>se_subject := x\<rparr>"
  "set_dataschema sample_sdk x e = e\<lparr>se_dataschema := x\<rparr>" "event_datacontenttype sample_sdk = se_ctype"
  "event_specversion sample_sdk = se_specversion" "event_subject sample_sdk = se_subject"
  "event_dataschema sample_sdk = se_dataschema" "attr_value sample_sdk n x = Some x" "event_faults sample_sdk e = {}"
  "event_time sample_sdk e = Option.bind (se_time e) (\<lambda>t. if t = 0 then None else Some t)"
  "event_validate sample_sdk e = (if se_id e = [] then Some (errors_new ''id: MUST be a non-empty string'') else None)"
  "stored sample_sdk n x old = x" "accepted sample_sdk n x"
  "se_exts (event_new sample_sdk) = []" "extensions sample_sdk e = sev_exts e"
  by (simp_all add: sample_sdk_def extensions_def stored_def accepted_def split: data_value.split)

lemma distinct_sev_exts: "distinct (map fst (sev_exts e))"
  unfolding sev_exts_def by (rule distinct_map_filter) (rule distinct_clearjunk)

lemma sample_sdk_laws: "sdk_laws sample_sdk"
proof -
  have setter: "extension sample_sdk (sev_set_ext n v e) k
      = (if ext_name_ok n \<and> k = n then Some v else extension sample_sdk e k)" for n v e k
    by (simp add: extension_sample sev_set_ext_def)
  have same: "extension sample_sdk e = extension sample_sdk e'" if "se_exts e = se_exts e'" for e e'
    by (rule ext) (simp add: extension_sample that)
  have keys: "list_all (\<lambda>(k, v). ext_name_ok k) (sev_exts e)" for e
    by (auto simp: sev_exts_def list_all_iff)
  show ?thesis
    unfolding sdk_laws_def
    by (intro conjI allI impI)
      (auto simp: setter extension_sample sev_set_ext_def distinct_sev_exts keys intro: same)
qed

definition sample_event :: "string \<Rightarrow> exts \<Rightarrow> sev" where
  "sample_event i xs = \<lparr>se_id = i, se_type = ''order.created'', se_source = ''/orders'', se_specversion = ''1.0'',
     se_subject = [], se_dataschema = [], se_ctype = ''application/json'', se_time = None, se_data = ''{}'',
     se_exts = xs\<rparr>"

subsection \<open>An environment, deliveries and routers\<close>

text \<open>The world counts calls.\<close>

definition sample_env :: "(sev, nat) env" where
  "sample_env = \<lparr>env_sdk = sample_sdk, env_uuid = (\<lambda>w. (''uuid'', w)), env_now = (\<lambda>w. (0, w)), env_stack = ''stack''\<rparr>"

definition tick :: "(nat, goerr option) go" where
  "tick w = (Ret None, Suc w)"

definition sample_delivery :: "u64 \<Rightarrow> nat delivery" where
  "sample_delivery n = \<lparr>dl_ack = Some tick, dl_nack = Some tick, dl_discard = Some tick, dl_count = n\<rparr>"

definition sample_config :: "(sev, nat) config" where
  "sample_config = \<lparr>cfg_Name = ''sample'', cfg_Subscription = Some \<lparr>sub_Start = (\<lambda>c. tick), sub_Stop = (\<lambda>c. tick)\<rparr>,
     cfg_DebugEnabled = False, cfg_MaxRetries = 3, cfg_DeadLetter = None, cfg_PublishAfterAck = False,
     cfg_Observer = None\<rparr>"

definition sample_route :: "(unit, nat) handler_func \<Rightarrow> (sev, unit, nat) route" where
  "sample_route h = \<lparr>rt_pub = None, rt_filter = None, rt_decode = (\<lambda>b. go_ret (Inr ())), rt_handler = h,
     rt_chain = Some h\<rparr>"

definition sample_mux :: "(sev, nat) config \<Rightarrow> (sev, unit, nat) route list \<Rightarrow> (sev, unit, nat) mux" where
  "sample_mux cfg rts = \<lparr>mux_cfg = cfg, mux_routes = rts, mux_middlewares = [], mux_preflightMiddlewares = [],
     mux_started = True, mux_frozen = True, mux_preflight = Some noopHandler\<rparr>"

lemmas sample_defs = sample_env_def sample_delivery_def sample_config_def sample_route_def sample_mux_def
  tick_def noopHandler_def

definition sample_failing :: "goerr \<Rightarrow> (unit, nat) handler_func" where
  "sample_failing e c d = go_ret (None, Some e)"

definition sample_run_st :: "(sev, nat) config \<Rightarrow> (unit, nat) handler_func \<Rightarrow> (sev, nat) message \<Rightarrow> (sev, nat) st" where
  "sample_run_st cfg h m = snd (handle sample_env (sample_mux cfg [sample_route h])
     \<lparr>st_world = 0, st_msg = m, st_log = [], st_warned = False, st_seen = []\<rparr>)"

end
