(* ===== verification/MuxTheorems.thy ===== *)
theory MuxTheorems
  imports Sample
begin

text \<open>
  What the router guarantees for every message, whatever filters, decoders, handlers,
  publishers, observers and delivery callbacks do.
\<close>

subsection \<open>A message arrives\<close>

definition received :: "ctx option \<Rightarrow> 'ev \<Rightarrow> 'w delivery \<Rightarrow> goerr option \<Rightarrow> ('ev, 'w) message" where
  "received p ce dl derr = (case derr of None \<Rightarrow> NewMessage p ce dl | Some e \<Rightarrow> NewUndecodable p ce dl e)"

definition deliver :: "('ev, 'w) message \<Rightarrow> 'w \<Rightarrow> logrec list \<Rightarrow> bool \<Rightarrow> ('ev, 'w) st" where
  "deliver m w l b = \<lparr>st_world = w, st_msg = m, st_log = l, st_warned = b, st_seen = []\<rparr>"

lemma deliver_simps [simp]:
  "st_msg (deliver m w l b) = m" "st_seen (deliver m w l b) = []"
  by (simp_all add: deliver_def)

lemma received_fresh [simp]:
  "\<not> msg_once (received p ce dl derr)" "message_inv (received p ce dl derr)"
  "msg_told (received p ce dl derr) = []" "msg_outcome (received p ce dl derr) = OutcomePending"
  by (auto simp: received_def split: option.splits) (auto simp: NewMessage_def NewUndecodable_def Let_def)

abbreviation seen_by_router :: "('ev, 'w) env \<Rightarrow> ('ev, 'w) message \<Rightarrow> ('ev, 'w) message" where
  "seen_by_router E m \<equiv> mint_correlation (env_sdk E) m"

subsection \<open>Panics\<close>

lemma handle_no_panic: "no_panic (handle E mx)"
  by (rule no_panicI) (simp add: handle_def recoverOutsideHandler_def go_wps go_wp_any)

text \<open>
  C3. No panic leaves \<open>handle\<close>: whatever panics (filter, decoder, preflight, handler, publisher,
  dead-letter publisher, observer, delivery callback), the broker SDK's goroutine survives, from
  any state of the message.
\<close>

theorem handle_never_panics:
  "\<exists>s'. handle E mx s = (Ret (), s')"
  using handle_no_panic [of E mx] by (simp add: no_panic_def)

subsection \<open>Refinement\<close>

lemma permitted_outcome:
  "permitted E mx m (out, r, d) \<Longrightarrow> log_outcome_string out = outcome_String (fst (decision_outcome d))"
  by (erule permitted.cases) (auto simp: failure_policy_def split: option.splits if_splits)

lemma handle_cases:
  obtains
    (settled) s' out r d where "handle E mx (deliver (received p ce dl derr) w l b) = (Ret (), s')"
      and "permitted E mx (seen_by_router E (received p ce dl derr)) (out, r, d)"
      and "decided_by d (seen_by_router E (received p ce dl derr)) (st_msg s')"
      and "st_seen s' = [(out, r)] \<or> st_seen s' = [] \<and> \<not> callbacks_total (received p ce dl derr)"
  | (pending) s' where "handle E mx (deliver (received p ce dl derr) w l b) = (Ret (), s')"
      and "st_msg s' = seen_by_router E (received p ce dl derr)" and "st_seen s' = []"
      and "\<not> dead_letter_total mx"
proof -
  let ?s = "deliver (received p ce dl derr) w l b"
  have total: "callbacks_total (seen_by_router E m) = callbacks_total m" for m
    by (simp add: callbacks_total_def)
  obtain s' where step: "handle E mx ?s = (Ret (), s')"
    using handle_no_panic [of E mx] unfolding no_panic_def by auto
  have "go_wp (handle E mx)
    (\<lambda>_ s'. concluded E mx (minted E ?s) s' \<or> half_concluded E mx (minted E ?s) s'
       \<or> quiet (minted E ?s) s' \<and> \<not> dead_letter_total mx) (\<lambda>_ _. False) ?s"
    by (rule go_wp_handle) simp_all
  from go_wp_RetD [OF this step] show thesis
    using settled [OF step] pending [OF step]
    by (auto simp: concluded_def half_concluded_def quiet_def total)
qed

text \<open>
  C1. Refinement: every message the router handles ends with a verdict the specification permits
  for what filters, decoder, handler and publishers answered, and the Observer is told exactly that
  verdict once.  Two panics break this.  When one of the message's delivery callbacks can panic, the
  message may end with a permitted verdict of which the Observer is told nothing; when the
  dead-letter publisher can panic, it may end with nothing decided and nothing reported.
\<close>

theorem handle_refines_policy:
  "let m = seen_by_router E (received p ce dl derr);
       s' = snd (handle E mx (deliver (received p ce dl derr) w l b)) in
   (\<exists>out r d. permitted E mx m (out, r, d) \<and> decided_by d m (st_msg s')
      \<and> (st_seen s' = [(out, r)] \<or> st_seen s' = [] \<and> \<not> callbacks_total (received p ce dl derr)))
   \<or> st_msg s' = m \<and> st_seen s' = [] \<and> \<not> dead_letter_total mx"
  by (rule handle_cases [of E mx p ce dl derr w l b]) (auto simp: Let_def)

text \<open>The exception for delivery callbacks is real: an ack that panics leaves an acked message unreported.\<close>

lemma panicking_ack_unreported:
  "let dl = (sample_delivery 1)\<lparr>dl_ack := Some (go_panic ''boom'')\<rparr>;
       s' = snd (handle sample_env (sample_mux sample_config [sample_route noopHandler])
         (deliver (received None (sample_event ''1'' []) dl None) 0 [] False))
   in msg_outcome (st_msg s') = OutcomeAcked \<and> st_seen s' = []"
  by code_simp

text \<open>
  C2. Every message is decided and reported exactly once: when neither the dead-letter publisher
  nor a delivery callback panics, the message leaves the pending state and the Observer saw one
  \<open>OnMessage\<close>, with the outcome that was decided.
\<close>

theorem handle_decides_and_reports_once:
  assumes "dead_letter_total mx" and "callbacks_total (received p ce dl derr)"
  shows "let s' = snd (handle E mx (deliver (received p ce dl derr) w l b)) in
    \<exists>out r. st_seen s' = [(out, r)] \<and> msg_outcome (st_msg s') \<noteq> OutcomePending
      \<and> log_outcome_string out = outcome_String (msg_outcome (st_msg s'))"
  by (rule handle_cases [of E mx p ce dl derr w l b])
    (use assms in \<open>auto simp: Let_def decided_byD decision_outcome_not_pending dest: permitted_outcome\<close>)

theorem handle_decides_and_reports_once_witness:
  "let s' = snd (handle sample_env (sample_mux sample_config [sample_route noopHandler])
      (deliver (received None (sample_event ''1'' []) (sample_delivery 1) None) 0 [] False)) in
    \<exists>out r. st_seen s' = [(out, r)] \<and> msg_outcome (st_msg s') \<noteq> OutcomePending
      \<and> log_outcome_string out = outcome_String (msg_outcome (st_msg s'))"
  by (rule handle_decides_and_reports_once)
    (simp_all add: dead_letter_total_def callbacks_total_def received_def NewMessage_def Let_def no_panic_def
      sample_defs)

text \<open>The callback of a received message for each outcome, as its transport gave it.\<close>

lemma received_callback:
  "outcome_callback out (msg_delivery (received p ce dl derr)) =
    (case out of
       OutcomePending \<Rightarrow> None
     | OutcomeAcked \<Rightarrow> dl_ack dl
     | OutcomeNacked \<Rightarrow> dl_nack dl
     | OutcomeDiscarded \<Rightarrow> (if dl_discard dl = None then dl_ack dl else dl_discard dl))"
  by (cases out) (auto simp: received_def NewMessage_def NewUndecodable_def Let_def split: option.split)

lemma told_calls: "calls_owed fn = (case fn of None \<Rightarrow> [] | Some f \<Rightarrow> [f])"
  by (rule calls_owed_def)

text \<open>
  C6. At most one delivery callback runs per message, and it is the one the transport gave for the
  outcome that was decided: the ack callback for an acked message, the nack callback for a nacked
  one, the discard callback (the ack callback when the transport has none) for a discarded one, none
  for an undecided one.  The router never changes what was delivered besides minting the correlation
  id.
\<close>

theorem handle_tells_broker_once:
  "let m' = st_msg (snd (handle E mx (deliver (received p ce dl derr) w l b))) in
   message_inv m'
   \<and> msg_told m' = (case (case msg_outcome m' of
         OutcomePending \<Rightarrow> None
       | OutcomeAcked \<Rightarrow> dl_ack dl
       | OutcomeNacked \<Rightarrow> dl_nack dl
       | OutcomeDiscarded \<Rightarrow> (if dl_discard dl = None then dl_ack dl else dl_discard dl)) of
       None \<Rightarrow> [] | Some f \<Rightarrow> [f])
   \<and> length (msg_told m') \<le> 1
   \<and> msg_delivery m' = msg_delivery (received p ce dl derr)
   \<and> msg_event m' = msg_event (seen_by_router E (received p ce dl derr))"
proof (rule handle_cases [of E mx p ce dl derr w l b])
  fix s' out r d
  assume step: "handle E mx (deliver (received p ce dl derr) w l b) = (Ret (), s')"
    and by_d: "decided_by d (seen_by_router E (received p ce dl derr)) (st_msg s')"
  from decided_by_inv [OF by_d] decided_byD [OF by_d] show ?thesis
    unfolding received_callback [symmetric, where p = p and ce = ce and dl = dl and derr = derr] told_calls [symmetric]
    by (simp add: step Let_def calls_owed_le)
next
  fix s'
  assume "handle E mx (deliver (received p ce dl derr) w l b) = (Ret (), s')"
    and "st_msg s' = seen_by_router E (received p ce dl derr)"
  with received_fresh(2) [of p ce dl derr] show ?thesis
    by (simp add: Let_def message_inv_def)
qed

lemma failure_policy_nack:
  assumes "failure_policy mx m reason cause pe = (out, r, d)" and "fst (decision_outcome d) = OutcomeNacked"
  shows "reason = None \<or> redeliveryBounded mx m"
  using assms by (auto simp: failure_policy_def split: option.splits if_splits)

lemma classify_None: "classify mx m err = None \<Longrightarrow> CanNack m \<and> \<not> pastMaxRetries mx m"
  by (simp add: classify_def split: if_splits)

lemma classifyPublish_None: "classifyPublish mx m err = None \<Longrightarrow> CanNack m \<and> \<not> pastMaxRetries mx m"
  by (simp add: classifyPublish_def split: if_splits)

lemma redeliveryBounded_can: "redeliveryBounded mx m \<Longrightarrow> CanNack m \<and> \<not> pastMaxRetries mx m"
  by (simp add: redeliveryBounded_def split: prod.splits)

lemma permitted_nack:
  assumes "permitted E mx m (out, r, d)" and "fst (decision_outcome d) = OutcomeNacked"
  shows "CanNack m \<and> \<not> pastMaxRetries mx m"
  using assms
  by (cases rule: permitted.cases)
    (auto dest!: sym [of "(_, _)" "failure_policy _ _ _ _ _"] failure_policy_nack
      dest: classify_None classifyPublish_None redeliveryBounded_can)

text \<open>
  C5. A message is nacked only where a redelivery makes sense: the transport can redeliver and
  the delivery count is not past \<open>MaxRetries\<close>.
\<close>

theorem nacked_only_if_redelivery_bounded:
  assumes "msg_outcome (st_msg (snd (handle E mx (deliver (received p ce dl derr) w l b)))) = OutcomeNacked"
  shows "CanNack (received p ce dl derr) \<and> \<not> pastMaxRetries mx (received p ce dl derr)"
proof (rule handle_cases [of E mx p ce dl derr w l b])
  fix s' out r d
  assume step: "handle E mx (deliver (received p ce dl derr) w l b) = (Ret (), s')"
    and perm: "permitted E mx (seen_by_router E (received p ce dl derr)) (out, r, d)"
    and by_d: "decided_by d (seen_by_router E (received p ce dl derr)) (st_msg s')"
  from permitted_nack [OF perm] decided_byD(1) [OF by_d] assms show ?thesis
    by (simp add: step CanNack_def pastMaxRetries_def DeliveryCount_def)
next
  fix s'
  assume "handle E mx (deliver (received p ce dl derr) w l b) = (Ret (), s')"
    and "st_msg s' = seen_by_router E (received p ce dl derr)"
  with assms show ?thesis by simp
qed

theorem nacked_only_if_redelivery_bounded_witness:
  "let mx = sample_mux sample_config [sample_route (sample_failing (errors_new ''boom''))];
       m = received None (sample_event ''1'' []) (sample_delivery 1) None in
   CanNack m \<and> \<not> pastMaxRetries mx m"
  unfolding Let_def
  by (rule nacked_only_if_redelivery_bounded [of sample_env _ _ _ _ _ 0 "[]" False]) code_simp

lemma permitted_ack:
  assumes "permitted E mx m (out, r, d)" and "fst (decision_outcome d) = OutcomeAcked"
  shows "\<exists>rt data. handled E mx m rt (data, None)
    \<and> (\<not> cfg_PublishAfterAck (mux_cfg mx) \<and> publish_due rt data \<longrightarrow> publish_answers rt None)"
  using assms
  by (cases rule: permitted.cases) (auto simp: failure_policy_def split: option.splits if_splits)

text \<open>
  C4. A message is acked only after success: the first route that takes the message decoded its
  payload, its preflight and handler chain returned without error, and, unless results are
  published after the ack, the result (if any is due) was accepted by the publisher.
\<close>

theorem acked_only_after_success:
  assumes "msg_outcome (st_msg (snd (handle E mx (deliver (received p ce dl derr) w l b)))) = OutcomeAcked"
  shows "\<exists>rt data. handled E mx (seen_by_router E (received p ce dl derr)) rt (data, None)
    \<and> (\<not> cfg_PublishAfterAck (mux_cfg mx) \<and> publish_due rt data \<longrightarrow> publish_answers rt None)"
proof (rule handle_cases [of E mx p ce dl derr w l b])
  fix s' out r d
  assume step: "handle E mx (deliver (received p ce dl derr) w l b) = (Ret (), s')"
    and perm: "permitted E mx (seen_by_router E (received p ce dl derr)) (out, r, d)"
    and by_d: "decided_by d (seen_by_router E (received p ce dl derr)) (st_msg s')"
  show ?thesis
    by (rule permitted_ack [OF perm]) (use decided_byD(1) [OF by_d] assms in \<open>simp add: step\<close>)
next
  fix s'
  assume "handle E mx (deliver (received p ce dl derr) w l b) = (Ret (), s')"
    and "st_msg s' = seen_by_router E (received p ce dl derr)"
  with assms show ?thesis by simp
qed

theorem acked_only_after_success_witness:
  "\<exists>rt data. handled sample_env (sample_mux sample_config [sample_route noopHandler])
      (seen_by_router sample_env (received None (sample_event ''1'' []) (sample_delivery 1) None)) rt (data, None)
    \<and> (\<not> cfg_PublishAfterAck (mux_cfg (sample_mux sample_config [sample_route noopHandler])) \<and> publish_due rt data
        \<longrightarrow> publish_answers rt None)"
  by (rule acked_only_after_success [of _ _ _ _ _ _ 0 "[]" False]) code_simp

lemma answers_no_panic: "no_panic f \<Longrightarrow> \<exists>a. answers f a"
  by (metis answers_def no_panic_def)

lemma not_all_reject_derr [simp]: "DecodeError (seen_by_router E (received p ce dl None)) = None"
  by (simp add: received_def DecodeError_def NewMessage_def Let_def)

text \<open>
  C7. The failure of a handler is decided by its classification.  Take a decodable message that
  some route is bound to take, whose selected route always decodes it and whose preflight or handler
  chain always fails, while no filter, decoder, publisher or delivery callback panics (a panic of
  the handler and a preflight error arrive here wrapped by \<open>invoke\<close>).  Then it is settled for an
  error \<open>err\<close> the chain returned: nacked when \<open>classify\<close> finds no reason; otherwise discarded
  with that reason when there is no dead-letter publisher, when it took the copy, or when its own
  error is final or no redelivery is bounded; and nacked with both causes when its error is worth a
  retry.  The Observer is told the same.
\<close>

theorem handler_error_decided_by_class:
  assumes m: "m = seen_by_router E (received p ce dl None)"
    and taken: "\<exists>rt \<in> set (mux_routes mx). \<not> rejects m rt"
    and decodes: "\<And>rt e. selects (mux_routes mx) m rt
      \<Longrightarrow> \<not> answers (rt_decode rt (event_data (env_sdk E) (msg_event m))) (Inl e)"
    and fails: "\<And>rt res. handled E mx m rt res \<Longrightarrow> snd res \<noteq> None"
    and quietly: "\<not> may_panic E mx m" "callbacks_total m"
  shows "let s' = snd (handle E mx (deliver (received p ce dl None) w l b)) in
    \<exists>rt data err pe. handled E mx m rt (data, Some err) \<and> dl_answers mx (classify mx m err) pe \<and>
      (let cause = snd (unwrapFailure err) in
       case (classify mx m err, pe) of
         (None, _) \<Rightarrow> Outcome (st_msg s') = (OutcomeNacked, Some cause) \<and> st_seen s' = [(LogNacked, None)]
       | (Some r, None) \<Rightarrow>
           Outcome (st_msg s') = (OutcomeDiscarded, Some cause) \<and> st_seen s' = [(LogDiscarded, Some r)]
       | (Some r, Some e) \<Rightarrow>
           if isNonRetryable e \<or> \<not> redeliveryBounded mx m then
             Outcome (st_msg s') = (OutcomeDiscarded, Some cause) \<and> st_seen s' = [(LogDiscarded, Some r)]
           else Outcome (st_msg s') = (OutcomeNacked, Some (dead_letter_failed cause e))
             \<and> st_seen s' = [(LogNacked, None)])"
proof -
  have total: "callbacks_total (received p ce dl None)"
    using quietly(2) by (simp add: m callbacks_total_def)
  have verdict: "\<exists>rt data err pe. handled E mx m rt (data, Some err) \<and> dl_answers mx (classify mx m err) pe
      \<and> (out, r, d) = failure_policy mx m (classify mx m err) (snd (unwrapFailure err)) pe"
    if "permitted E mx m (out, r, d)" for out r d
    using that
  proof (cases rule: permitted.cases)
    case (bad_payload r e pe)
    with decodes show ?thesis by blast
  next
    case (publish_failed r data e pe)
    with fails [OF publish_failed(2)] show ?thesis by simp
  next
    case (processed r data)
    with fails [OF processed(4)] show ?thesis by simp
  qed (use taken quietly(1) in \<open>auto simp: m\<close>)
  show ?thesis
  proof (rule handle_cases [of E mx p ce dl None w l b])
    fix s' out r d
    assume step: "handle E mx (deliver (received p ce dl None) w l b) = (Ret (), s')"
      and perm: "permitted E mx (seen_by_router E (received p ce dl None)) (out, r, d)"
      and by_d: "decided_by d (seen_by_router E (received p ce dl None)) (st_msg s')"
      and seen: "st_seen s' = [(out, r)] \<or> st_seen s' = [] \<and> \<not> callbacks_total (received p ce dl None)"
    obtain rt data err pe where h: "handled E mx m rt (data, Some err)" "dl_answers mx (classify mx m err) pe"
      and v: "(out, r, d) = failure_policy mx m (classify mx m err) (snd (unwrapFailure err)) pe"
      using verdict [OF perm [folded m]] by blast
    have "Outcome (st_msg s') = decision_outcome d" "st_seen s' = [(out, r)]"
      using by_d seen total by (simp_all add: decided_by_def)
    with v have "let cause = snd (unwrapFailure err) in
       case (classify mx m err, pe) of
         (None, _) \<Rightarrow> Outcome (st_msg s') = (OutcomeNacked, Some cause) \<and> st_seen s' = [(LogNacked, None)]
       | (Some r, None) \<Rightarrow>
           Outcome (st_msg s') = (OutcomeDiscarded, Some cause) \<and> st_seen s' = [(LogDiscarded, Some r)]
       | (Some r, Some e) \<Rightarrow>
           if isNonRetryable e \<or> \<not> redeliveryBounded mx m then
             Outcome (st_msg s') = (OutcomeDiscarded, Some cause) \<and> st_seen s' = [(LogDiscarded, Some r)]
           else Outcome (st_msg s') = (OutcomeNacked, Some (dead_letter_failed cause e))
             \<and> st_seen s' = [(LogNacked, None)]"
      by (cases "classify mx m err"; cases pe) (simp_all add: failure_policy_def Let_def split: if_splits)
    with h show ?thesis unfolding step snd_conv Let_def by blast
  next
    fix s' assume "\<not> dead_letter_total mx"
    with quietly(1) show ?thesis by (simp add: may_panic_def)
  qed
qed

text \<open>A handler gives up for good, and the dead-letter publisher fails in a way worth a retry.\<close>

theorem handler_error_decided_by_class_witness:
  "let e = NonRetryableError (errors_new ''boom'');
       mx = sample_mux (sample_config\<lparr>cfg_DeadLetter := Some (BarePub (\<lambda>c ce. go_ret (Some (errors_new ''down''))))\<rparr>)
         [sample_route (sample_failing e)];
       s' = snd (handle sample_env mx
         (deliver (received None (sample_event ''1'' []) (sample_delivery 1) None) 0 [] False)) in
   Outcome (st_msg s') = (OutcomeNacked, Some (dead_letter_failed e (errors_new ''down'')))
   \<and> st_seen s' = [(LogNacked, None)]"
proof -
  let ?e = "NonRetryableError (errors_new ''boom'')"
  let ?dl = "BarePub (\<lambda>c ce. go_ret (Some (errors_new ''down'')))"
  let ?rt = "sample_route (sample_failing ?e)"
  let ?mx = "sample_mux (sample_config\<lparr>cfg_DeadLetter := Some ?dl\<rparr>) [?rt]"
  let ?m = "received None (sample_event ''1'' []) (sample_delivery 1) None"
  let ?n = "seen_by_router sample_env ?m"
  have cls: "classify ?mx ?n ?e = Some ReasonNonRetryable" by code_simp
  have cause: "unwrapFailure ?e = (None, ?e)" by code_simp
  have retry: "\<not> isNonRetryable (errors_new ''down'')" "redeliveryBounded ?mx ?n" by code_simp+
  have only: "data = None \<and> err = ?e" if "handled sample_env ?mx ?n rt (data, Some err)" for rt data err
    using that by (auto simp: handled_def selects_def answers_def invoke_def call_handler_def sample_failing_def
        sample_defs go_defs Cons_eq_append_conv)
  have down: "pe = Some (errors_new ''down'')" if "dl_answers ?mx (Some ReasonNonRetryable) pe" for pe
    using that by (auto simp: dl_answers_def sample_mux_def answers_def go_ret_def)
  note * = handler_error_decided_by_class [where E = sample_env and mx = ?mx and p = None and ce = "sample_event ''1'' []"
      and dl = "sample_delivery 1" and w = 0 and l = "[]" and b = False, OF refl]
  have "let s' = snd (handle sample_env ?mx (deliver ?m 0 [] False)) in
    \<exists>rt data err pe. handled sample_env ?mx ?n rt (data, Some err) \<and> dl_answers ?mx (classify ?mx ?n err) pe \<and>
      (let cause = snd (unwrapFailure err) in
       case (classify ?mx ?n err, pe) of
         (None, _) \<Rightarrow> Outcome (st_msg s') = (OutcomeNacked, Some cause) \<and> st_seen s' = [(LogNacked, None)]
       | (Some r, None) \<Rightarrow>
           Outcome (st_msg s') = (OutcomeDiscarded, Some cause) \<and> st_seen s' = [(LogDiscarded, Some r)]
       | (Some r, Some e) \<Rightarrow>
           if isNonRetryable e \<or> \<not> redeliveryBounded ?mx ?n then
             Outcome (st_msg s') = (OutcomeDiscarded, Some cause) \<and> st_seen s' = [(LogDiscarded, Some r)]
           else Outcome (st_msg s') = (OutcomeNacked, Some (dead_letter_failed cause e))
             \<and> st_seen s' = [(LogNacked, None)])"
  proof (rule *)
    show "snd res \<noteq> None" if "handled sample_env ?mx ?n rt res" for rt res
      using that by (auto simp: handled_def selects_def answers_def invoke_def call_handler_def sample_failing_def
          sample_defs go_defs Cons_eq_append_conv)
    show "\<not> may_panic sample_env ?mx ?n"
      by (simp add: may_panic_def route_may_panic_def dead_letter_total_def sample_defs no_panic_def go_ret_def)
    show "callbacks_total ?n"
      by (simp add: callbacks_total_def received_def NewMessage_def Let_def sample_defs no_panic_def)
  qed (auto simp: sample_defs answers_def go_ret_def rejects_def selects_def Cons_eq_append_conv)
  then obtain rt data err pe where h: "handled sample_env ?mx ?n rt (data, Some err)"
      and dl: "dl_answers ?mx (classify ?mx ?n err) pe"
      and out: "let s' = snd (handle sample_env ?mx (deliver ?m 0 [] False)); cause = snd (unwrapFailure err) in
       case (classify ?mx ?n err, pe) of
         (None, _) \<Rightarrow> Outcome (st_msg s') = (OutcomeNacked, Some cause) \<and> st_seen s' = [(LogNacked, None)]
       | (Some r, None) \<Rightarrow>
           Outcome (st_msg s') = (OutcomeDiscarded, Some cause) \<and> st_seen s' = [(LogDiscarded, Some r)]
       | (Some r, Some e) \<Rightarrow>
           if isNonRetryable e \<or> \<not> redeliveryBounded ?mx ?n then
             Outcome (st_msg s') = (OutcomeDiscarded, Some cause) \<and> st_seen s' = [(LogDiscarded, Some r)]
           else Outcome (st_msg s') = (OutcomeNacked, Some (dead_letter_failed cause e))
             \<and> st_seen s' = [(LogNacked, None)]"
    unfolding Let_def by blast
  have err: "err = ?e" using only [OF h] by simp
  have pe: "pe = Some (errors_new ''down'')" using down dl cls err by simp
  show ?thesis using out retry unfolding err pe cls cause Let_def by simp
qed

subsection \<open>What a panicking dead-letter publisher leaves behind\<close>

text \<open>
  A message that ends in the dead-letter publisher whatever its user code answers (or whatever of it
  panics): it could not be decoded, or some route is bound to take it and everything that can come
  of it is a failure with a reason.  A payload that does not decode is one.
\<close>

definition fails_with_reason :: "('ev, 'w) env \<Rightarrow> ('ev, 'd, 'w) mux \<Rightarrow> ('ev, 'w) message \<Rightarrow> bool" where
  "fails_with_reason E mx m \<longleftrightarrow> DecodeError m \<noteq> None \<or>
     (\<exists>rt \<in> set (mux_routes mx). \<not> rejects m rt) \<and>
     (\<forall>rt data err. handled E mx m rt (data, Some err) \<longrightarrow> classify mx m err \<noteq> None) \<and>
     (\<forall>rt data. handled E mx m rt (data, None) \<longrightarrow>
        \<not> cfg_PublishAfterAck (mux_cfg mx) \<and> publish_due rt data \<and> \<not> publish_answers rt None
        \<and> (\<forall>err. publish_answers rt (Some err) \<longrightarrow> classifyPublish mx m err \<noteq> None))"

lemma fails_with_reason_asks_dead_letter:
  assumes "fails_with_reason E mx m" and "permitted E mx m (out, r, d)"
  shows "\<exists>reason pe. dl_answers mx (Some reason) pe"
  using assms(2)
proof (cases rule: permitted.cases)
  case (handler_failed rt data err pe)
  with assms(1) show ?thesis by (force simp: fails_with_reason_def handled_def)
next
  case (publish_failed rt data err pe)
  with assms(1) show ?thesis by (force simp: fails_with_reason_def handled_def)
next
  case (processed rt data)
  with assms(1) show ?thesis by (force simp: fails_with_reason_def handled_def)
qed (use assms(1) in \<open>auto simp: fails_with_reason_def\<close>)

text \<open>
  C8. A dead-letter publisher that panics does so before the decision.  For a message whose failure
  has a reason, whether its envelope or payload did not decode, its preflight or handler failed or
  panicked, or its result could not be published, the message stays undecided, the broker is told
  nothing and no Observer call is made, although every message is meant to be reported exactly once
  and such a panic to come after the decision.
\<close>

theorem panicking_dead_letter_leaves_pending:
  assumes "cfg_DeadLetter (mux_cfg mx) = Some pub"
    and "\<And>c ce w. \<exists>r w'. bare pub c ce w = (Panic r, w')"
    and "fails_with_reason E mx (seen_by_router E (received p ce dl derr))"
  shows "let s' = snd (handle E mx (deliver (received p ce dl derr) w l b)) in
    msg_outcome (st_msg s') = OutcomePending \<and> msg_told (st_msg s') = [] \<and> st_seen s' = []"
proof -
  have silent: "\<not> dl_answers mx (Some reason) pe" for reason pe
    using assms(1,2) unfolding dl_answers_def answers_def
    by (simp add: not_ex) (metis prod.inject res.distinct(1))
  show ?thesis
  proof (rule handle_cases [of E mx p ce dl derr w l b])
    fix s' out r d
    assume "permitted E mx (seen_by_router E (received p ce dl derr)) (out, r, d)"
    from fails_with_reason_asks_dead_letter [OF assms(3) this] silent show ?thesis by blast
  qed (simp add: Let_def)
qed

theorem panicking_dead_letter_leaves_pending_witness:
  "let s' = snd (handle sample_env
      (sample_mux (sample_config\<lparr>cfg_DeadLetter := Some (BarePub (\<lambda>c ce. go_panic ''boom''))\<rparr>)
        [sample_route (sample_failing (NonRetryableError (errors_new ''boom'')))])
      (deliver (received None (sample_event ''1'' []) (sample_delivery 1) None) 0 [] False)) in
    msg_outcome (st_msg s') = OutcomePending \<and> msg_told (st_msg s') = [] \<and> st_seen s' = []"
proof (rule panicking_dead_letter_leaves_pending [where pub = "BarePub (\<lambda>c ce. go_panic ''boom'')"])
  let ?e = "NonRetryableError (errors_new ''boom'')"
  let ?mx = "sample_mux (sample_config\<lparr>cfg_DeadLetter := Some (BarePub (\<lambda>c ce. go_panic ''boom''))\<rparr>)
    [sample_route (sample_failing ?e)]"
  let ?m = "seen_by_router sample_env (received None (sample_event ''1'' []) (sample_delivery 1) None)"
  have cls: "classify ?mx ?m ?e = Some ReasonNonRetryable" by code_simp
  have "snd res = Some ?e" if "handled sample_env ?mx ?m rt res" for rt res
    using that by (auto simp: handled_def selects_def answers_def invoke_def call_handler_def sample_failing_def
        sample_defs go_defs Cons_eq_append_conv)
  with cls show "fails_with_reason sample_env ?mx ?m"
    by (fastforce simp: fails_with_reason_def rejects_def sample_mux_def sample_route_def)
qed (simp_all add: sample_mux_def go_panic_def)

end
