(* ===== verification/Registration.thy ===== *)
theory Registration
  imports Contracts MuxTheorems
begin

text \<open>
  The route table and the lifecycle of the router: what registration keeps invariant, what
  \<open>Start\<close> fixes, and that the router meets the start/stop contract.
\<close>

subsection \<open>The invariant\<close>

definition chains_built :: "('ev, 'd, 'w) mux \<Rightarrow> bool" where
  "chains_built mx \<longleftrightarrow>
     mux_preflight mx = Some (Chain noopHandler (mux_preflightMiddlewares mx))
     \<and> (\<forall>rt \<in> set (mux_routes mx). rt_chain rt = Some (Chain (rt_handler rt) (mux_middlewares mx)))"

definition mux_inv :: "('ev, 'd, 'w) mux \<Rightarrow> bool" where
  "mux_inv mx \<longleftrightarrow>
     sorted_wrt (\<lambda>a b. \<not> identical (rt_filter a) (rt_filter b)) (mux_routes mx)
     \<and> (mux_started mx \<longrightarrow> mux_frozen mx)
     \<and> (mux_frozen mx \<longrightarrow> chains_built mx)
     \<and> cfg_Subscription (mux_cfg mx) \<noteq> None"

lemma New_inv: "New cfg = Inr mx \<Longrightarrow> mux_inv mx \<and> \<not> mux_started mx \<and> \<not> mux_frozen mx"
  by (auto simp: New_def mux_inv_def split: if_splits)

lemma sorted_wrt_map_filter:
  assumes "\<And>rt. rt_filter (f rt) = rt_filter rt"
  shows "sorted_wrt (\<lambda>a b. \<not> identical (rt_filter a) (rt_filter b)) (map f rts)
    = sorted_wrt (\<lambda>a b. \<not> identical (rt_filter a) (rt_filter b)) rts"
  by (simp add: sorted_wrt_map assms)

lemma freeze_facts:
  "mux_frozen (freeze mx)" "mux_started (freeze mx) = mux_started mx"
  "map rt_filter (mux_routes (freeze mx)) = map rt_filter (mux_routes mx)"
  "map rt_handler (mux_routes (freeze mx)) = map rt_handler (mux_routes mx)"
  "cfg_Subscription (mux_cfg (freeze mx)) = cfg_Subscription (mux_cfg mx)"
  by (auto simp: freeze_def observePublishers_def)

lemma freeze_inv: "mux_inv mx \<Longrightarrow> mux_inv (freeze mx) \<and> chains_built (freeze mx)"
  by (auto simp: freeze_def observePublishers_def mux_inv_def chains_built_def sorted_wrt_map_filter)

text \<open>What a registration call did: it panicked and changed nothing, or kept the invariant.\<close>

lemma Handle_cases:
  "Handle T pub flt fn a =
     (if mux_frozen (app_mux a) then (Panic ''eventmux: Handle after Start'', a)
      else if \<exists>rt \<in> set (mux_routes (app_mux a)). identical (rt_filter rt) flt then
        (Panic ''eventmux: duplicate route'', a)
      else (Ret (), a\<lparr>app_mux := (app_mux a)\<lparr>mux_routes := mux_routes (app_mux a)
                @ [\<lparr>rt_pub = map_option BarePub pub, rt_filter = flt, rt_decode = route_decode T,
                    rt_handler = route_handler T fn, rt_chain = None\<rparr>]\<rparr>,
              app_log := app_log a @ [\<lparr>log_level = LevelInfo, log_message = ''route registered'',
                log_attrs = [AInt KeyMuxRoutesTotal (int (length (mux_routes (app_mux a)) + 1))]\<rparr>]\<rparr>))"
  by (auto simp: Handle_def mustBeOpen_def go_defs list_ex_iff Let_def)

lemma Handle_inv: "mux_inv (app_mux a) \<Longrightarrow> mux_inv (app_mux (snd (Handle T pub flt fn a)))"
  by (auto simp: Handle_cases mux_inv_def sorted_wrt_append)

lemma Use_inv: "mux_inv (app_mux a) \<Longrightarrow> mux_inv (app_mux (snd (Use mws a)))"
  "mux_inv (app_mux a) \<Longrightarrow> mux_inv (app_mux (snd (UsePreflight mws a)))"
  by (auto simp: Use_def UsePreflight_def mustBeOpen_def go_defs mux_inv_def)

lemma Start_inv:
  assumes "mux_inv (app_mux a)"
  shows "mux_inv (app_mux (snd (mux_Start c a)))"
  using assms freeze_inv [OF assms] freeze_facts(1) [of "app_mux a"]
  by (auto simp: mux_Start_def go_defs split: prod.splits res.splits option.splits)
    (auto simp: mux_inv_def chains_built_def)

lemma Stop_inv: "mux_inv (app_mux a) \<Longrightarrow> mux_inv (app_mux (snd (mux_Stop c a)))"
  by (auto simp: mux_Stop_def go_defs mux_inv_def chains_built_def split: prod.splits res.splits option.splits)

subsection \<open>The start/stop contract\<close>

lemma mux_Start_running:
  "mux_started (app_mux a) \<Longrightarrow> mux_Start c a = (Ret (Some ErrAlreadyStarted), a)"
  by (simp add: mux_Start_def go_defs)

lemma mux_Start_idle:
  "\<not> mux_started (app_mux a) \<Longrightarrow> mux_Start c a = (r, a') \<Longrightarrow> mux_started (app_mux a') \<longleftrightarrow> r = Ret None"
  by (auto simp: mux_Start_def go_defs freeze_facts split: prod.splits res.splits option.splits)

lemma mux_Stop_idle: "\<not> mux_started (app_mux a) \<Longrightarrow> mux_Stop c a = (Ret None, a)"
  by (simp add: mux_Stop_def go_defs)

lemma mux_Stop_running:
  "mux_started (app_mux a) \<Longrightarrow> mux_Stop c a = (r, a') \<Longrightarrow> mux_started (app_mux a') \<longleftrightarrow> r \<noteq> Ret None"
  by (auto simp: mux_Stop_def go_defs split: prod.splits res.splits option.splits)

interpretation router: startable mux_Start mux_Stop "\<lambda>a. mux_started (app_mux a)" "\<lambda>a. mux_inv (app_mux a)"
  by unfold_locales
    (erule mux_Start_running mux_Stop_idle Start_inv Stop_inv
      | erule (1) mux_Start_idle | erule (1) mux_Stop_running)+

text \<open>
  The router runs exactly when the last Start or Stop that returned nil was a Start: a Start
  that failed, a Stop that failed, a second Start and calls that panicked leave it as it was, over
  any sequence of calls.  The route invariant survives all of them.
\<close>

theorem router_lifecycle:
  assumes "New cfg = Inr mx" and "router.history ops \<lparr>app_mux = mx, app_world = w, app_log = l\<rparr> = (h, a)"
  shows "mux_started (app_mux a) = foldl router.effect False h \<and> mux_inv (app_mux a) \<and> map fst h = ops"
  using router.running_after [OF _ assms(2)] New_inv [OF assms(1)] by simp

theorem router_lifecycle_witness:
  "\<exists>mx h a. New sample_config = Inr mx
     \<and> router.history [OpStart Background, OpStart Background, OpStop Background]
         \<lparr>app_mux = (mx :: (sev, unit, nat) mux), app_world = 0, app_log = []\<rparr> = (h, a)
     \<and> \<not> mux_started (app_mux a) \<and> map snd h = [Ret None, Ret (Some ErrAlreadyStarted), Ret None]"
proof -
  obtain mx :: "(sev, unit, nat) mux" where new: "New sample_config = Inr mx"
    by (simp add: New_def sample_config_def)
  obtain h a where hist: "router.history [OpStart Background, OpStart Background, OpStop Background]
         \<lparr>app_mux = mx, app_world = 0, app_log = []\<rparr> = (h, a)" by fastforce
  have "map snd h = [Ret None, Ret (Some ErrAlreadyStarted), Ret None]"
    using hist new
    by (auto simp: New_def mux_Start_def mux_Stop_def go_defs sub_start_def sub_stop_def sample_config_def tick_def
        freeze_def observePublishers_def)
  moreover from this obtain e1 e2 e3 where "h = [(e1, Ret None), (e2, Ret (Some ErrAlreadyStarted)), (e3, Ret None)]"
    by auto
  ultimately show ?thesis
    using router_lifecycle [OF new hist] new hist
    by (intro exI [of _ mx] exI [of _ h] exI [of _ a]) (auto simp: router.effect_def)
qed

text \<open>
  What \<open>Start\<close> fixes: every route keeps its place, filter and handler, and its chain is the
  handler wrapped by the registered middlewares in order, the first registered outermost; later
  registration panics and changes nothing.
\<close>

theorem start_freezes_routes:
  assumes "mux_inv (app_mux a)" and "\<not> mux_frozen (app_mux a)" and "mux_Start c a = (r, a')"
  shows "map rt_filter (mux_routes (app_mux a')) = map rt_filter (mux_routes (app_mux a))
    \<and> map rt_chain (mux_routes (app_mux a'))
        = map (\<lambda>rt. Some (foldr (\<lambda>mw h. mw h) (mux_middlewares (app_mux a)) (rt_handler rt))) (mux_routes (app_mux a))
    \<and> mux_preflight (app_mux a') = Some (foldr (\<lambda>mw h. mw h) (mux_preflightMiddlewares (app_mux a)) noopHandler)
    \<and> (\<forall>T pub flt fn. Handle T pub flt fn a' = (Panic ''eventmux: Handle after Start'', a'))
    \<and> (\<forall>mws. Use mws a' = (Panic ''eventmux: Use after Start'', a'))
    \<and> (\<forall>mws. UsePreflight mws a' = (Panic ''eventmux: UsePreflight after Start'', a'))"
proof -
  have chain: "Chain h mws = foldr (\<lambda>mw h. mw h) mws h" for h :: "('b, 'c) handler_func" and mws
    by (induction mws) simp_all
  have "mux_frozen (app_mux a') \<and> mux_routes (app_mux a') = mux_routes (freeze (app_mux a))
      \<and> mux_preflight (app_mux a') = mux_preflight (freeze (app_mux a))"
    using assms(1,3) freeze_facts(1) [of "app_mux a"]
    by (auto simp: mux_Start_def go_defs mux_inv_def assms(2) split: prod.splits res.splits option.splits if_splits)
  with assms(2) show ?thesis
    by (simp add: Handle_cases Use_def UsePreflight_def mustBeOpen_def go_defs)
      (auto simp: freeze_def observePublishers_def chain)
qed

theorem start_freezes_routes_witness:
  "\<exists>r a'. mux_Start Background \<lparr>app_mux = (sample_mux sample_config [])\<lparr>mux_frozen := False, mux_started := False\<rparr>,
       app_world = 0, app_log = []\<rparr> = (r, a')
     \<and> Use [] a' = (Panic ''eventmux: Use after Start'', a')"
proof -
  let ?a = "\<lparr>app_mux = (sample_mux sample_config [])\<lparr>mux_frozen := False, mux_started := False\<rparr>,
    app_world = 0, app_log = []\<rparr>"
  have inv: "mux_inv (app_mux ?a)" "\<not> mux_frozen (app_mux ?a)"
    by (simp_all add: mux_inv_def sample_defs)
  obtain r a' where step: "mux_Start Background ?a = (r, a')" by fastforce
  from start_freezes_routes [OF inv step] have "Use [] a' = (Panic ''eventmux: Use after Start'', a')" by blast
  with step show ?thesis by blast
qed

text \<open>
  No two routes of a router share a filter by identity: registering one that is already there
  panics and changes nothing, so no registered route is unreachable for that reason; the route
  that gets a message is the first in the table that takes it.
\<close>

theorem duplicate_route_refused:
  assumes "mux_inv (app_mux a)"
  shows "mux_inv (app_mux (snd (Handle T pub flt fn a)))
    \<and> ((\<exists>rt \<in> set (mux_routes (app_mux a)). identical (rt_filter rt) flt) \<and> \<not> mux_frozen (app_mux a) \<longrightarrow>
         Handle T pub flt fn a = (Panic ''eventmux: duplicate route'', a))
    \<and> (fst (Handle T pub flt fn a) = Ret () \<longrightarrow>
         (\<exists>rt. mux_routes (app_mux (snd (Handle T pub flt fn a))) = mux_routes (app_mux a) @ [rt] \<and> rt_filter rt = flt))"
  by (intro conjI, rule Handle_inv [OF assms]) (auto simp: Handle_cases)

theorem duplicate_route_refused_witness:
  "let a = \<lparr>app_mux = (sample_mux sample_config [sample_route noopHandler])\<lparr>mux_frozen := False, mux_started := False\<rparr>,
        app_world = 0, app_log = []\<rparr>;
       T = \<lparr>ty_name = ''int'', ty_unmarshal = (\<lambda>b. go_ret (Inr ())), ty_any = id, ty_assert = Some,
            ty_dynamic = (\<lambda>d. ''int'')\<rparr>
   in Handle T None None (\<lambda>c d. go_ret (None, None)) a = (Panic ''eventmux: duplicate route'', a)"
proof -
  let ?a = "\<lparr>app_mux = (sample_mux sample_config [sample_route noopHandler])\<lparr>mux_frozen := False, mux_started := False\<rparr>,
    app_world = 0, app_log = []\<rparr>"
  have "mux_inv (app_mux ?a)" by (simp add: mux_inv_def sample_defs)
  moreover have "\<exists>rt \<in> set (mux_routes (app_mux ?a)). identical (rt_filter rt) None" "\<not> mux_frozen (app_mux ?a)"
    by (simp_all add: sample_defs identical_def)
  ultimately show ?thesis
    unfolding Let_def using duplicate_route_refused [of ?a _ None None] by blast
qed

text \<open>
  C22. A registered handler only ever sees values of its own type.  For a Go type whose values survive
  a trip through \<open>any\<close>, \<open>Handle\<close> appends one route.  What the route decodes is exactly the value
  \<open>json.Unmarshal\<close> produced, and its handler runs \<open>fn\<close> on it; a payload that does not decode is
  an \<open>ErrDecode\<close>.  On any payload at all, also one a middleware swapped in, the route's handler
  runs \<open>fn\<close> on the value of the type the payload holds, or, when it holds another type, does not
  run \<open>fn\<close>: it answers a non-retryable "route expects" error, which \<open>classify\<close> never retries.
\<close>

theorem handler_gets_its_type:
  assumes any: "\<And>v. ty_assert T (ty_any T v) = Some v" and reg: "Handle T pub flt fn a = (Ret (), a')"
  shows "\<exists>rt. mux_routes (app_mux a') = mux_routes (app_mux a) @ [rt]
    \<and> (\<forall>bytes w. case rt_decode rt bytes w of
          (Ret (Inr d), w') \<Rightarrow> (\<exists>v. ty_unmarshal T bytes w = (Ret (Inr v), w') \<and> d = ty_any T v
            \<and> (\<forall>c. rt_handler rt c d = fn c v))
        | (Ret (Inl e), w') \<Rightarrow> errors_is ''ErrDecode'' e \<and> (\<exists>e0. ty_unmarshal T bytes w = (Ret (Inl e0), w'))
        | (Panic p, w') \<Rightarrow> ty_unmarshal T bytes w = (Panic p, w'))
    \<and> (\<forall>c d. case ty_assert T d of
          Some v \<Rightarrow> rt_handler rt c d = fn c v
        | None \<Rightarrow> \<exists>e. rt_handler rt c d = go_ret (None, Some e)
            \<and> err_text e = ''eventmux: route expects '' @ ty_name T @ '', got '' @ ty_dynamic T d
            \<and> (\<forall>(mx :: ('ev, 'd, 'w) mux) (m :: ('ev, 'w) message). classify mx m e = Some ReasonNonRetryable))"
proof -
  define rt where "rt = \<lparr>rt_pub = map_option BarePub pub, rt_filter = flt, rt_decode = route_decode T,
    rt_handler = route_handler T fn, rt_chain = None\<rparr>"
  have routes: "mux_routes (app_mux a') = mux_routes (app_mux a) @ [rt]"
    using reg by (auto simp: Handle_def mustBeOpen_def go_defs Let_def rt_def split: if_splits)
  have "case rt_decode rt bytes w of
          (Ret (Inr d), w') \<Rightarrow> (\<exists>v. ty_unmarshal T bytes w = (Ret (Inr v), w') \<and> d = ty_any T v
            \<and> (\<forall>c. rt_handler rt c d = fn c v))
        | (Ret (Inl e), w') \<Rightarrow> errors_is ''ErrDecode'' e \<and> (\<exists>e0. ty_unmarshal T bytes w = (Ret (Inl e0), w'))
        | (Panic p, w') \<Rightarrow> ty_unmarshal T bytes w = (Panic p, w')" for bytes w
    by (auto simp: rt_def route_decode_def route_handler_def any go_basic_defs ErrDecode_def
        split: prod.splits res.splits sum.splits)
  moreover have "case ty_assert T d of
          Some v \<Rightarrow> rt_handler rt c d = fn c v
        | None \<Rightarrow> \<exists>e. rt_handler rt c d = go_ret (None, Some e)
            \<and> err_text e = ''eventmux: route expects '' @ ty_name T @ '', got '' @ ty_dynamic T d
            \<and> (\<forall>(mx :: ('ev, 'd, 'w) mux) (m :: ('ev, 'w) message). classify mx m e = Some ReasonNonRetryable)" for c d
  proof (cases "ty_assert T d")
    case None
    let ?e = "NonRetryableError (errors_new (''eventmux: route expects '' @ ty_name T @ '', got '' @ ty_dynamic T d))"
    have "errors_as P (NonRetryableError (errors_new s)) = (if P (NonRetryableError (errors_new s)) then Some (NonRetryableError (errors_new s))
        else if P (errors_new s) then Some (errors_new s) else None)" for P s
      by (simp add: errors_as_def errors_new_def err_tree.simps)
    then have "classify mx m ?e = Some ReasonNonRetryable" for mx :: "('ev, 'd, 'w) mux" and m
      by (simp add: classify_def isNonRetryable_def) (simp add: errors_new_def)
    moreover have "rt_handler rt c d = go_ret (None, Some ?e)"
      by (simp add: rt_def route_handler_def None NewNonRetryableError_def)
    ultimately show ?thesis using None by (auto intro!: exI [of _ ?e] simp: errors_new_def)
  qed (simp add: rt_def route_handler_def)
  ultimately show ?thesis using routes by blast
qed

text \<open>A Go string type, every text but the empty one being its JSON, in an \<open>any\<close> that can hold something else.\<close>

definition sample_gotype :: "(string, string + unit, nat) gotype" where
  "sample_gotype = \<lparr>ty_name = ''main.Order'',
     ty_unmarshal = (\<lambda>b w. (Ret (if b = [] then Inl (errors_new ''unexpected end of JSON input'') else Inr b), Suc w)),
     ty_any = Inl, ty_assert = (\<lambda>d. case d of Inl v \<Rightarrow> Some v | Inr u \<Rightarrow> None), ty_dynamic = (\<lambda>_. ''main.Order'')\<rparr>"

theorem handler_gets_its_type_witness:
  "\<exists>(mx :: (sev, string + unit, nat) mux) a' rt. New sample_config = Inr mx
     \<and> Handle sample_gotype None None (\<lambda>c v. go_ret (Some v, None)) \<lparr>app_mux = mx, app_world = 0, app_log = []\<rparr> = (Ret (), a')
     \<and> mux_routes (app_mux a') = [rt] \<and> rt_decode rt ''x'' 0 = (Ret (Inr (Inl ''x'')), 1)
     \<and> rt_handler rt Background (Inl ''x'') = go_ret (Some ''x'', None)
     \<and> (\<exists>e. rt_handler rt Background (Inr ()) = go_ret (None, Some e))"
proof -
  let ?fn = "\<lambda>(c :: ctx) v. go_ret (Some v, None) :: (nat henv, bytes option \<times> goerr option) go"
  obtain mx :: "(sev, string + unit, nat) mux" where new: "New sample_config = Inr mx" and none: "mux_routes mx = []" "\<not> mux_frozen mx"
    by (auto simp: New_def sample_config_def)
  let ?a = "\<lparr>app_mux = mx, app_world = 0, app_log = []\<rparr> :: (sev, string + unit, nat) app"
  obtain a' where reg: "Handle sample_gotype None None ?fn ?a = (Ret (), a')"
    using none by (simp add: Handle_def mustBeOpen_def go_defs Let_def)
  have any: "ty_assert sample_gotype (ty_any sample_gotype v) = Some v" for v by (simp add: sample_gotype_def)
  from handler_gets_its_type [OF any reg] none obtain rt where rt: "mux_routes (app_mux a') = [rt]"
    and run: "\<And>(c :: ctx) d. case ty_assert sample_gotype d of
          Some v \<Rightarrow> rt_handler rt c d = ?fn c v
        | None \<Rightarrow> \<exists>e. rt_handler rt c d = go_ret (None, Some e)
            \<and> err_text e = ''eventmux: route expects '' @ ty_name sample_gotype @ '', got '' @ ty_dynamic sample_gotype d
            \<and> (\<forall>(mx :: (sev, string + unit, nat) mux) m. classify mx m e = Some ReasonNonRetryable)"
    by auto
  have decode: "rt_decode rt ''x'' 0 = (Ret (Inr (Inl ''x'')), 1)"
    using reg rt none by (auto simp: Handle_def mustBeOpen_def go_defs Let_def route_decode_def sample_gotype_def)
  from run [where d = "Inl ''x''" and c = Background] run [where d = "Inr ()" and c = Background]
  have "rt_handler rt Background (Inl ''x'') = go_ret (Some ''x'', None)"
    "\<exists>e. rt_handler rt Background (Inr ()) = go_ret (None, Some e)"
    by (auto simp: sample_gotype_def)
  with new reg rt decode show ?thesis by blast
qed

end
