(* ===== verification/EventTheorems.thy ===== *)
theory EventTheorems
  imports MuxTheorems
begin

text \<open>
  The events the router produces: the dead-letter copy, the result event and the minted
  correlation id.  The SDK is a parameter; \<open>sdk_laws\<close> is what is relied on.
\<close>

subsection \<open>The dead-letter copy\<close>

text \<open>
  C14. The dead-letter copy is the original event (same id, type, source, data and other
  extensions) with the reason and an error text that any broker accepts: at most 256 bytes, valid
  UTF-8, no control characters other than tab, newline and carriage return.
\<close>

theorem dead_letter_copy:
  assumes S: "sdk_laws S" and dl: "dl = deadLetterEvent S ce r cause"
  shows "event_id S dl = event_id S ce \<and> event_type S dl = event_type S ce
    \<and> event_source S dl = event_source S ce \<and> event_data S dl = event_data S ce
    \<and> extension S dl ExtDeadLetterReason = Some (XString (reason_string r))
    \<and> (\<exists>t. extension S dl ExtDeadLetterError = Some (XString t)
        \<and> length t \<le> 256 \<and> valid_utf8 t \<and> printable t)
    \<and> (\<forall>k. ascii_lower k \<notin> {ExtDeadLetterReason, ExtDeadLetterError} \<longrightarrow> extension S dl k = extension S ce k)"
proof -
  let ?t = "truncate_str (sanitize (err_text cause)) MaxDeadLetterErrorLen"
  have "length ?t \<le> 256" "valid_utf8 ?t" "printable ?t"
    using truncate_length [of "sanitize (err_text cause)" MaxDeadLetterErrorLen]
    by (simp_all add: MaxDeadLetterErrorLen_def truncate_valid sanitize_valid truncate_printable sanitize_printable)
  then show ?thesis
    using S by (simp add: dl deadLetterEvent_def Let_def sdk_set_ext sdk_misc)
qed

theorem dead_letter_copy_witness:
  "let dl = deadLetterEvent sample_sdk (sample_event ''1'' []) ReasonPanic (errors_new ''boom'') in
   extension sample_sdk dl ExtDeadLetterReason = Some (XString ''panic'')"
  using dead_letter_copy [OF sample_sdk_laws refl, of "sample_event ''1'' []" ReasonPanic "errors_new ''boom''"]
  by (simp add: Let_def)

subsection \<open>The result event\<close>

definition kept_meta :: "store \<Rightarrow> store" where
  "kept_meta meta = fold AList.delete reservedExtensions meta"

lemma go_wp_drop_reserved_result:
  "(\<And>s'. quiet s s' \<Longrightarrow> Q (fold AList.delete ks meta) s') \<Longrightarrow> go_wp (drop_reserved E m ks meta) Q X s"
proof (induction ks arbitrary: meta s)
  case Nil
  then show ?case by (simp add: go_wps)
next
  case (Cons k ks)
  have absent: "\<not> has_key meta k \<Longrightarrow> AList.delete k meta = meta"
    by (simp add: has_key_iff delete_id)
  have q: "quiet s s'" if "quiet (s\<lparr>st_log := l\<rparr>) s'" for s' l
    using that by (simp add: quiet_def)
  show ?case
    using Cons.prems q absent by (auto simp: go_wps intro!: Cons.IH)
qed

lemma map_of_kept: "map_of (kept_meta meta) k = (if k \<in> set reservedExtensions then None else map_of meta k)"
  by (simp add: kept_meta_def reservedExtensions_def)

lemma has_key_kept: "has_key (kept_meta meta) k \<longleftrightarrow> has_key meta k \<and> k \<notin> set reservedExtensions"
  by (simp add: has_key_def map_of_kept)

lemma extension_set_ext:
  assumes "sdk_laws S" and "ext_name_ok n" and "ext_name_ok k"
  shows "extension S (set_ext S n v ce) k = (if k = n then Some v else extension S ce k)"
  using sdk_set_ext [OF assms(1)] assms(2,3) by (auto simp: ascii_lower_ok)

lemma set_meta_frame:
  assumes "sdk_laws S"
  shows "event_id S (set_meta S meta ce) = event_id S ce" "event_type S (set_meta S meta ce) = event_type S ce"
    "event_source S (set_meta S meta ce) = event_source S ce"
  unfolding set_meta_def using assms
  by (induction meta arbitrary: ce) (auto simp: sdk_set_ext)

lemma carry_over_frame:
  assumes "sdk_laws S"
  shows "event_id S (carry_over S meta orig ce) = event_id S ce"
    "event_type S (carry_over S meta orig ce) = event_type S ce"
    "event_source S (carry_over S meta orig ce) = event_source S ce"
  unfolding carry_over_def using assms
  by (induction orig arbitrary: ce) (auto simp: sdk_set_ext)

lemma set_meta_other:
  assumes "sdk_laws S" and "\<forall>(n, v) \<in> set meta. ascii_lower k \<noteq> ascii_lower n"
  shows "extension S (set_meta S meta ce) k = extension S ce k"
  unfolding set_meta_def using assms(2)
  by (induction meta arbitrary: ce) (auto simp: sdk_set_ext(2) [OF assms(1)])

lemma set_meta_set:
  assumes "sdk_laws S" and "\<forall>(n, v) \<in> set meta. ext_name_ok n" and "distinct (map fst meta)"
    and "map_of meta k = Some v"
  shows "extension S (set_meta S meta ce) k = Some (XString v)"
  unfolding set_meta_def using assms(2-)
proof (induction meta arbitrary: ce)
  case (Cons nv meta)
  obtain n w where nv: "nv = (n, w)" by (cases nv)
  show ?case
  proof (cases "k = n")
    case True
    with Cons.prems nv have "w = v" and absent: "\<forall>(n', v') \<in> set meta. n' \<noteq> k"
      by (auto simp: image_iff)
    have "extension S (set_meta S meta (set_ext S k (XString v) ce)) k
        = extension S (set_ext S k (XString v) ce) k"
      using Cons.prems(1) absent nv True
      by (intro set_meta_other [OF assms(1)]) (fastforce simp: ascii_lower_ok)
    with Cons.prems nv True \<open>w = v\<close> show ?thesis
      by (simp add: set_meta_def extension_set_ext [OF assms(1)])
  next
    case False
    with Cons nv show ?thesis by simp
  qed
qed simp

lemma extension_carry_over:
  assumes "sdk_laws S" and "list_all (\<lambda>(n, v). ext_name_ok n) orig" and "distinct (map fst orig)" and "ext_name_ok k"
  shows "extension S (carry_over S meta orig ce) k =
    (if has_key meta k \<or> k = ExtCausationID \<or> k = ExtDeadLetterReason \<or> k = ExtDeadLetterError
     then extension S ce k
     else case map_of orig k of Some v \<Rightarrow> Some v | None \<Rightarrow> extension S ce k)"
  unfolding carry_over_def using assms(2,3)
proof (induction orig arbitrary: ce)
  case (Cons nv orig)
  obtain n w where nv: "nv = (n, w)" by (cases nv)
  have "n \<notin> fst ` set orig" and n: "ext_name_ok n" using Cons.prems nv by auto
  then have "map_of orig n = None" by (simp add: map_of_eq_None_iff)
  with Cons n assms(4) show ?case
    by (auto simp: nv extension_set_ext [OF assms(1)] split: option.splits)
qed simp

text \<open>What every extension of the result is, by name.\<close>

lemma result_exts_extension:
  assumes S: "sdk_laws S" and k: "ext_name_ok k"
  shows "extension S (result_exts S meta orig ce) k =
    (if k = ExtCausationID \<and> event_id S orig \<noteq> [] then Some (XString (event_id S orig))
     else if has_key meta k \<or> k = ExtCausationID \<or> k = ExtDeadLetterReason \<or> k = ExtDeadLetterError
     then extension S (set_meta S meta ce) k
     else case extension S orig k of Some v \<Rightarrow> Some v | None \<Rightarrow> extension S (set_meta S meta ce) k)"
  using sdk_misc(3,4) [OF S, of orig] k
  by (simp add: result_exts_def Let_def extension_set_ext [OF S] extension_carry_over [OF S] extension_def [of S orig])

lemma result_exts_frame:
  assumes "sdk_laws S"
  shows "event_id S (result_exts S meta orig ce) = event_id S ce"
    "event_type S (result_exts S meta orig ce) = event_type S ce"
    "event_source S (result_exts S meta orig ce) = event_source S ce"
  using assms by (simp_all add: result_exts_def Let_def sdk_set_ext set_meta_frame carry_over_frame)

definition result_accepted :: "'ev sdk \<Rightarrow> string \<Rightarrow> 'ev \<Rightarrow> bool" where
  "result_accepted S uid orig \<longleftrightarrow> accepted S ''id'' uid \<and> accepted S ''source'' (event_source S orig)
     \<and> accepted S ''type'' (event_type S orig @ ''.result'')"

lemma result_base_frame:
  assumes "sdk_laws S" and "result_accepted S uid orig"
  shows "event_id S (result_base S uid now orig) = uid"
    "event_type S (result_base S uid now orig) = event_type S orig @ ''.result''"
    "event_source S (result_base S uid now orig) = event_source S orig"
    "extension S (result_base S uid now orig) k = None"
  using assms by (simp_all add: result_base_def Let_def sdk_set_attr sdk_misc result_accepted_def)

text \<open>\<open>publishResult\<close> hands exactly one event to the publisher.\<close>

lemma publishResult_event:
  assumes "env_uuid E (st_world s) = (uid, w1)" and "env_now E w1 = (now, w2)"
    and "set_data (env_sdk E) ApplicationJSON (JsonValue data)
           (result_base (env_sdk E) uid now (msg_event (st_msg s))) = Inr ce"
  obtains s' where "quiet s s'"
    and "publishResult E mx c data store p s
      = pub_Publish E mx p c (result_exts (env_sdk E) (kept_meta (Store_All store)) (msg_event (st_msg s)) ce) s'"
proof -
  let ?s = "s\<lparr>st_world := w2\<rparr>"
  have "go_wp (drop_reserved E (st_msg s) reservedExtensions (Store_All store))
      (\<lambda>meta s'. meta = kept_meta (Store_All store) \<and> quiet s s') (\<lambda>_ _. False) ?s"
    by (rule go_wp_drop_reserved_result) (simp add: kept_meta_def quiet_def)
  then obtain s' where "drop_reserved E (st_msg s) reservedExtensions (Store_All store) ?s
      = (Ret (kept_meta (Store_All store)), s')" and "quiet s s'"
    by (auto simp: go_wp_def split: prod.splits res.splits)
  with assms that show thesis
    by (simp add: publishResult_def go_bind_def go_get_def on_world_def go_zoom_def go_total_def)
qed

text \<open>
  C13. Lineage of a result event.  Whatever metadata the handler sets, the published result has a
  fresh id, the source of the original and its type with \<open>.result\<close> (all three being values the SDK accepts); its correlation id is the
  original's, its causation id the id of the original; and, as long as the handler uses lower
  case names (as CloudEvents requires), it carries no dead-letter mark and every other extension
  is the handler's where it set one and the original's where it did not.
\<close>

theorem result_event_lineage:
  assumes S: "sdk_laws (env_sdk E)" and store: "store_inv store"
    and ids: "env_uuid E (st_world s) = (uid, w1)" "env_now E w1 = (now, w2)"
    and acc: "result_accepted (env_sdk E) uid (msg_event (st_msg s))"
    and data: "set_data (env_sdk E) ApplicationJSON (JsonValue data)
       (result_base (env_sdk E) uid now (msg_event (st_msg s))) = Inr ce"
  shows "\<exists>ev s'. publishResult E mx c data store p s = pub_Publish E mx p c ev s'
    \<and> event_id (env_sdk E) ev = uid \<and> event_source (env_sdk E) ev = event_source (env_sdk E) (msg_event (st_msg s))
    \<and> event_type (env_sdk E) ev = event_type (env_sdk E) (msg_event (st_msg s)) @ ''.result''
    \<and> (extension (env_sdk E) (msg_event (st_msg s)) ExtCorrelationID \<noteq> None \<longrightarrow>
        extension (env_sdk E) ev ExtCorrelationID = extension (env_sdk E) (msg_event (st_msg s)) ExtCorrelationID)
    \<and> (event_id (env_sdk E) (msg_event (st_msg s)) \<noteq> [] \<longrightarrow>
        extension (env_sdk E) ev ExtCausationID = Some (XString (event_id (env_sdk E) (msg_event (st_msg s)))))
    \<and> ((\<forall>k \<in> fst ` set store. ext_name_ok k) \<longrightarrow>
        extension (env_sdk E) ev ExtDeadLetterReason = None \<and> extension (env_sdk E) ev ExtDeadLetterError = None
        \<and> (\<forall>k. ext_name_ok k \<and> k \<notin> set reservedExtensions \<longrightarrow>
             extension (env_sdk E) ev k = (case map_of store k of Some v \<Rightarrow> Some (XString v)
               | None \<Rightarrow> extension (env_sdk E) (msg_event (st_msg s)) k)))"
proof -
  let ?S = "env_sdk E" and ?orig = "msg_event (st_msg s)" and ?meta = "kept_meta (Store_All store)"
  let ?ev = "result_exts ?S ?meta ?orig ce"
  obtain s' where pub: "publishResult E mx c data store p s = pub_Publish E mx p c ?ev s'"
    by (rule publishResult_event [OF ids data])
  have ce: "event_id ?S ce = uid" "event_type ?S ce = event_type ?S ?orig @ ''.result''"
    "event_source ?S ce = event_source ?S ?orig" "extension ?S ce k = None" for k
    using sdk_set_data [OF S data] by (simp_all add: result_base_frame [OF S acc])
  note ext = result_exts_extension [OF S]
  have nocorr: "\<not> has_key ?meta ExtCorrelationID"
    by (simp add: has_key_kept reservedExtensions_def)
  have lower: "extension ?S ?ev ExtDeadLetterReason = None \<and> extension ?S ?ev ExtDeadLetterError = None
      \<and> (\<forall>k. ext_name_ok k \<and> k \<notin> set reservedExtensions \<longrightarrow>
             extension ?S ?ev k = (case map_of store k of Some v \<Rightarrow> Some (XString v) | None \<Rightarrow> extension ?S ?orig k))"
    if ok: "\<forall>k \<in> fst ` set store. ext_name_ok k"
  proof -
    have keys: "ext_name_ok n \<and> n \<notin> set reservedExtensions" if "(n, v) \<in> set ?meta" for n v
    proof -
      have "has_key ?meta n" using that by (force simp: has_key_iff)
      then have "n \<notin> set reservedExtensions" "map_of store n \<noteq> None"
        by (simp_all add: has_key_kept) (simp add: has_key_def Store_All_map_of [OF store])
      with ok show ?thesis by (auto simp: map_of_eq_None_iff simp del: not_None_eq)
    qed
    have dist: "distinct (map fst ?meta)"
      unfolding kept_meta_def reservedExtensions_def by (simp add: distinct_delete Store_All_distinct)
    have none: "extension ?S (set_meta ?S ?meta ce) k = None" if "ext_name_ok k" "map_of ?meta k = None" for k
      using that keys by (subst set_meta_other [OF S])
        (fastforce simp: ascii_lower_ok ce map_of_eq_None_iff rev_image_eqI)+
    have some: "extension ?S (set_meta ?S ?meta ce) k = Some (XString v)" if "map_of ?meta k = Some v" for k v
      using set_meta_set [OF S _ dist that] keys by blast
    have "map_of ?meta k = map_of store k" if "k \<notin> set reservedExtensions" for k
      using that by (simp add: map_of_kept Store_All_map_of [OF store])
    then show ?thesis
      using some none by (auto simp: ext map_of_kept reservedExtensions_def has_key_def split: option.splits)
  qed
  show ?thesis
    by (rule exI [of _ ?ev], rule exI [of _ s'])
      (use pub ce lower nocorr in \<open>auto simp: ext result_exts_frame [OF S]\<close>)
qed

definition sample_pub :: "(sev, nat) pub" where
  "sample_pub = BarePub (\<lambda>c ce. tick)"

theorem result_event_lineage_witness:
  "\<exists>ev s'. publishResult sample_env (sample_mux sample_config []) Background ''1'' [(''tenant'', ''a'')] sample_pub
      (deliver (received None (sample_event ''1'' [(''correlationid'', XString ''c'')]) (sample_delivery 1) None) 0 [] False)
      = pub_Publish sample_env (sample_mux sample_config []) sample_pub Background ev s'
    \<and> extension sample_sdk ev ExtCorrelationID = Some (XString ''c'')
    \<and> extension sample_sdk ev ''tenant'' = Some (XString ''a'')"
proof -
  let ?S = "env_sdk sample_env" and ?store = "[(''tenant'', ''a'')]"
  let ?orig = "sample_event ''1'' [(''correlationid'', XString ''c'')]"
  let ?s = "deliver (received None ?orig (sample_delivery 1) None) 0 [] False"
  have E: "?S = sample_sdk" by (simp add: sample_env_def)
  have ev: "msg_event (st_msg ?s) = ?orig"
    by (simp add: received_def NewMessage_def Let_def)
  have orig: "extension sample_sdk ?orig ExtCorrelationID = Some (XString ''c'')" by code_simp
  have names: "ext_name_ok ''tenant''" "''tenant'' \<notin> set reservedExtensions" by code_simp+
  have laws: "sdk_laws ?S" by (simp add: E sample_sdk_laws)
  have store: "store_inv ?store" by (simp add: store_inv_def)
  have uuid: "env_uuid sample_env (st_world ?s) = (''uuid'', 0)" by (simp add: sample_env_def deliver_def)
  have now: "env_now sample_env 0 = (0, 0)" by (simp add: sample_env_def)
  have acc: "result_accepted ?S ''uuid'' (msg_event (st_msg ?s))"
    by (simp add: result_accepted_def accepted_def E sample_sdk_def)
  obtain ce where data: "set_data ?S ApplicationJSON (JsonValue ''1'') (result_base ?S ''uuid'' 0 (msg_event (st_msg ?s))) = Inr ce"
    by (simp add: E)
  obtain ev s' where pub: "publishResult sample_env (sample_mux sample_config []) Background ''1'' ?store sample_pub ?s
      = pub_Publish sample_env (sample_mux sample_config []) sample_pub Background ev s'"
    and corr: "extension ?S ?orig ExtCorrelationID \<noteq> None \<longrightarrow>
        extension ?S ev ExtCorrelationID = extension ?S ?orig ExtCorrelationID"
    and low: "(\<forall>k \<in> fst ` set ?store. ext_name_ok k) \<longrightarrow>
        extension ?S ev ExtDeadLetterReason = None \<and> extension ?S ev ExtDeadLetterError = None
        \<and> (\<forall>k. ext_name_ok k \<and> k \<notin> set reservedExtensions \<longrightarrow>
             extension ?S ev k = (case map_of ?store k of Some v \<Rightarrow> Some (XString v) | None \<Rightarrow> extension ?S ?orig k))"
    using result_event_lineage [OF laws store uuid now acc data, of "sample_mux sample_config []" Background sample_pub]
    unfolding ev by (elim exE conjE) (rule that, assumption+)
  from low names(1) have "extension ?S ev ''tenant''
      = (case map_of ?store ''tenant'' of Some v \<Rightarrow> Some (XString v) | None \<Rightarrow> extension ?S ?orig ''tenant'')"
    using names(2) by simp
  with pub corr orig show ?thesis
    unfolding E by (intro exI [of _ ev] exI [of _ s']) simp
qed

subsection \<open>The correlation id\<close>

text \<open>
  The first event of a chain identifies it: after \<open>handle\<close> the message carries the correlation
  id it came with or, when it came without one, its own id; so every redelivery of the same event
  gets the same one, and nothing else about its extensions changes.
\<close>

theorem correlation_minted:
  assumes S: "sdk_laws (env_sdk E)" and "event_id (env_sdk E) ce \<noteq> []"
  shows "let ce' = msg_event (st_msg (snd (handle E mx (deliver (received p ce dl derr) w l b)))) in
    CorrelationID (env_sdk E) ce'
      = (if CorrelationID (env_sdk E) ce = [] then event_id (env_sdk E) ce else CorrelationID (env_sdk E) ce)
    \<and> event_id (env_sdk E) ce' = event_id (env_sdk E) ce
    \<and> (\<forall>k. ascii_lower k \<noteq> ExtCorrelationID \<longrightarrow> extension (env_sdk E) ce' k = extension (env_sdk E) ce k)"
proof -
  have ce: "msg_event (received p ce dl derr) = ce"
    by (auto simp: received_def NewMessage_def NewUndecodable_def Let_def split: option.splits)
  have "msg_event (st_msg (snd (handle E mx (deliver (received p ce dl derr) w l b))))
      = msg_event (seen_by_router E (received p ce dl derr))"
    by (rule handle_cases [of E mx p ce dl derr w l b]) (auto dest: decided_byD(5))
  then show ?thesis
    using assms(2) by (simp add: Let_def mint_correlation_def ce CorrelationID_def sdk_set_ext [OF S])
qed

theorem correlation_minted_witness:
  "CorrelationID sample_sdk (msg_event (st_msg (snd (handle sample_env (sample_mux sample_config [])
     (deliver (received None (sample_event ''1'' []) (sample_delivery 1) None) 0 [] False))))) = ''1''"
proof -
  have "CorrelationID sample_sdk (sample_event ''1'' []) = []" by code_simp
  then show ?thesis
    using correlation_minted [of sample_env "sample_event ''1'' []" "sample_mux sample_config []" None
        "sample_delivery 1" None 0 "[]" False]
    by (simp add: Let_def sample_env_def sample_sdk_laws) (simp add: sample_event_def)
qed

end
