(* ===== verification/Envelope.thy ===== *)
theory Envelope
  imports CloudEvents
begin

text \<open>
  \<open>pkg/transport/internal/envelope\<close>: CloudEvents in binary mode ("ce-*" pairs and a body) and in
  structured mode (one JSON document).

  The SDK stays a parameter.  \<open>sdk_view\<close> is what can be observed of an event; \<open>view_laws\<close> says
  that each setter changes one field of it, and records whether the SDK took the value.  \<open>types.Format\<close>, the JSON codec of the SDK's event
  and the RFC 3339 formatting of times are the remaining fields of \<open>codec\<close>.  Attribute keys
  are lower-cased byte by byte (\<open>ascii_lower\<close>): keys outside ASCII are kept as they are.
\<close>

subsection \<open>Observing an event\<close>

record view =
  v_id :: string
  v_type :: string
  v_source :: string
  v_specversion :: string
  v_subject :: string
  v_dataschema :: string
  v_time :: "gotime option"
  v_ext :: "string \<Rightarrow> extval option"
  v_faults :: "string set"

definition sdk_view :: "'ev sdk \<Rightarrow> 'ev \<Rightarrow> view" where
  "sdk_view S ce = \<lparr>v_id = event_id S ce, v_type = event_type S ce, v_source = event_source S ce,
     v_specversion = event_specversion S ce, v_subject = event_subject S ce,
     v_dataschema = event_dataschema S ce, v_time = event_time S ce, v_ext = extension S ce,
     v_faults = event_faults S ce\<rparr>"

text \<open>A value the SDK rejects is recorded under the attribute's name, an accepted one clears the record.\<close>

definition noted :: "'ev sdk \<Rightarrow> string \<Rightarrow> string \<Rightarrow> string set \<Rightarrow> string set" where
  "noted S n x F = (if attr_value S n x = None then insert n F else F - {n})"

definition nonzero :: "gotime \<Rightarrow> gotime option" where
  "nonzero t = (if t = 0 then None else Some t)"

definition view_laws :: "'ev sdk \<Rightarrow> bool" where
  "view_laws S \<longleftrightarrow>
     accepted S ''specversion'' CloudEventsVersionV1 \<and> accepted S ''datacontenttype'' ApplicationJSON \<and>
     (\<forall>ce. event_time S ce \<noteq> Some 0) \<and>
     sdk_view S (event_new S) = \<lparr>v_id = [], v_type = [], v_source = [], v_specversion = CloudEventsVersionV1,
       v_subject = [], v_dataschema = [], v_time = None, v_ext = (\<lambda>_. None), v_faults = {}\<rparr> \<and>
     (\<forall>x ce. sdk_view S (set_id S x ce) = (sdk_view S ce)
        \<lparr>v_id := stored S ''id'' x (v_id (sdk_view S ce)), v_faults := noted S ''id'' x (v_faults (sdk_view S ce))\<rparr>) \<and>
     (\<forall>x ce. sdk_view S (set_type S x ce) = (sdk_view S ce)
        \<lparr>v_type := stored S ''type'' x (v_type (sdk_view S ce)), v_faults := noted S ''type'' x (v_faults (sdk_view S ce))\<rparr>) \<and>
     (\<forall>x ce. sdk_view S (set_source S x ce) = (sdk_view S ce)
        \<lparr>v_source := stored S ''source'' x (v_source (sdk_view S ce)), v_faults := noted S ''source'' x (v_faults (sdk_view S ce))\<rparr>) \<and>
     (\<forall>ce. sdk_view S (set_specversion S CloudEventsVersionV1 ce)
        = (sdk_view S ce)\<lparr>v_specversion := CloudEventsVersionV1, v_faults := v_faults (sdk_view S ce) - {''specversion''}\<rparr>) \<and>
     (\<forall>x ce. sdk_view S (set_subject S x ce) = (sdk_view S ce)
        \<lparr>v_subject := stored S ''subject'' x (v_subject (sdk_view S ce)), v_faults := noted S ''subject'' x (v_faults (sdk_view S ce))\<rparr>) \<and>
     (\<forall>x ce. sdk_view S (set_dataschema S x ce) = (sdk_view S ce)
        \<lparr>v_dataschema := stored S ''dataschema'' x (v_dataschema (sdk_view S ce)), v_faults := noted S ''dataschema'' x (v_faults (sdk_view S ce))\<rparr>) \<and>
     (\<forall>t ce. sdk_view S (set_time S t ce) = (sdk_view S ce)\<lparr>v_time := nonzero t\<rparr>) \<and>
     (\<forall>n v ce. ext_name_ok n \<longrightarrow>
        sdk_view S (set_ext S n v ce) = (sdk_view S ce)\<lparr>v_ext := (v_ext (sdk_view S ce))(n \<mapsto> v)\<rparr>) \<and>
     (\<forall>ct b ce. \<exists>ce'. set_data S ct (RawBytes b) ce = Inr ce' \<and> sdk_view S ce' = sdk_view S ce
        \<and> event_data S ce' = b
        \<and> event_datacontenttype S ce' = stored S ''datacontenttype'' ct [])"

lemma view_setters:
  assumes "view_laws S"
  shows "sdk_view S (set_id S x ce) = (sdk_view S ce)
        \<lparr>v_id := stored S ''id'' x (v_id (sdk_view S ce)), v_faults := noted S ''id'' x (v_faults (sdk_view S ce))\<rparr>"
    "sdk_view S (set_type S x ce) = (sdk_view S ce)
        \<lparr>v_type := stored S ''type'' x (v_type (sdk_view S ce)), v_faults := noted S ''type'' x (v_faults (sdk_view S ce))\<rparr>"
    "sdk_view S (set_source S x ce) = (sdk_view S ce)
        \<lparr>v_source := stored S ''source'' x (v_source (sdk_view S ce)), v_faults := noted S ''source'' x (v_faults (sdk_view S ce))\<rparr>"
    "sdk_view S (set_specversion S CloudEventsVersionV1 ce)
       = (sdk_view S ce)\<lparr>v_specversion := CloudEventsVersionV1, v_faults := v_faults (sdk_view S ce) - {''specversion''}\<rparr>"
    "sdk_view S (set_subject S x ce) = (sdk_view S ce)
        \<lparr>v_subject := stored S ''subject'' x (v_subject (sdk_view S ce)), v_faults := noted S ''subject'' x (v_faults (sdk_view S ce))\<rparr>"
    "sdk_view S (set_dataschema S x ce) = (sdk_view S ce)
        \<lparr>v_dataschema := stored S ''dataschema'' x (v_dataschema (sdk_view S ce)), v_faults := noted S ''dataschema'' x (v_faults (sdk_view S ce))\<rparr>"
    "sdk_view S (set_time S t ce) = (sdk_view S ce)\<lparr>v_time := nonzero t\<rparr>"
    "ext_name_ok n \<Longrightarrow> sdk_view S (set_ext S n v ce) = (sdk_view S ce)\<lparr>v_ext := (v_ext (sdk_view S ce))(n \<mapsto> v)\<rparr>"
    "sdk_view S (event_new S) = \<lparr>v_id = [], v_type = [], v_source = [], v_specversion = CloudEventsVersionV1,
       v_subject = [], v_dataschema = [], v_time = None, v_ext = (\<lambda>_. None), v_faults = {}\<rparr>"
  using assms unfolding view_laws_def by (elim conjE, simp)+

lemma view_accepts:
  assumes "view_laws S"
  shows "attr_value S ''specversion'' CloudEventsVersionV1 = Some CloudEventsVersionV1"
    "attr_value S ''datacontenttype'' ApplicationJSON = Some ApplicationJSON"
    "event_time S ce \<noteq> Some 0"
  using assms unfolding view_laws_def accepted_def by (elim conjE, simp)+

lemma view_set_data:
  assumes "view_laws S"
  obtains ce' where "set_data S ct (RawBytes b) ce = Inr ce'" and "sdk_view S ce' = sdk_view S ce"
    and "event_data S ce' = b"
    and "event_datacontenttype S ce' = stored S ''datacontenttype'' ct []"
proof -
  have "\<forall>ct b ce. \<exists>ce'. set_data S ct (RawBytes b) ce = Inr ce' \<and> sdk_view S ce' = sdk_view S ce
        \<and> event_data S ce' = b
        \<and> event_datacontenttype S ce' = stored S ''datacontenttype'' ct []"
    using assms unfolding view_laws_def by (elim conjE)
  then show thesis using that by blast
qed

subsection \<open>Constants and codec\<close>

definition Prefix :: string where
  "Prefix = ''ce-''"

definition keyID :: string where "keyID = Prefix @ ''id''"
definition keySpecVersion :: string where "keySpecVersion = Prefix @ ''specversion''"
definition keyType :: string where "keyType = Prefix @ ''type''"
definition keySource :: string where "keySource = Prefix @ ''source''"
definition keySubject :: string where "keySubject = Prefix @ ''subject''"
definition keyTime :: string where "keyTime = Prefix @ ''time''"
definition keyDataSchema :: string where "keyDataSchema = Prefix @ ''dataschema''"
definition keyDataContentType :: string where "keyDataContentType = Prefix @ ''datacontenttype''"

lemmas key_defs = Prefix_def keyID_def keySpecVersion_def keyType_def keySource_def keySubject_def keyTime_def
  keyDataSchema_def keyDataContentType_def

definition ApplicationCloudEventsJSON :: string where
  "ApplicationCloudEventsJSON = ''application/cloudevents+json''"

definition TextJSON :: string where
  "TextJSON = ''text/json''"

record Defaults =
  def_ID :: string
  def_Type :: string
  def_Source :: string

record 'ev codec =
  cd_sdk :: "'ev sdk"
  cd_format :: "extval \<Rightarrow> goerr + string"
  cd_time_format :: "gotime \<Rightarrow> string"
  cd_time_parse :: "string \<Rightarrow> goerr + gotime"
  cd_marshal :: "'ev \<Rightarrow> goerr + bytes"
  cd_unmarshal :: "bytes \<Rightarrow> goerr + 'ev"
  cd_base64 :: "'ev \<Rightarrow> bool"
  cd_set_base64 :: "bool \<Rightarrow> 'ev \<Rightarrow> 'ev"
  cd_media_type :: "'ev \<Rightarrow> string"
  cd_json_valid :: "bytes \<Rightarrow> bool"

subsection \<open>Encoding\<close>

fun encode_exts :: "'ev codec \<Rightarrow> exts \<Rightarrow> (string \<times> string) list \<Rightarrow> goerr + (string \<times> string) list" where
  "encode_exts C [] attrs = Inr attrs"
| "encode_exts C ((name, v) # xs) attrs =
     (case cd_format C v of
        Inl err \<Rightarrow> Inl (wrap_prefix (''envelope: extension '' @ go_quote name) err)
      | Inr s \<Rightarrow> encode_exts C xs (AList.update (Prefix @ name) s attrs))"

definition encode_attributes :: "'ev codec \<Rightarrow> 'ev \<Rightarrow> (string \<times> string) list" where
  "encode_attributes C ce =
     (let S = cd_sdk C;
          attrs = [(keyID, event_id S ce), (keySpecVersion, event_specversion S ce),
                   (keyType, event_type S ce), (keySource, event_source S ce)];
          attrs = (if event_subject S ce \<noteq> [] then AList.update keySubject (event_subject S ce) attrs else attrs);
          attrs = (case event_time S ce of Some t \<Rightarrow> AList.update keyTime (cd_time_format C t) attrs | None \<Rightarrow> attrs)
      in if event_dataschema S ce \<noteq> [] then AList.update keyDataSchema (event_dataschema S ce) attrs else attrs)"

definition Encode :: "'ev codec \<Rightarrow> 'ev \<Rightarrow> goerr + (string \<times> string) list" where
  "Encode C ce = encode_exts C (extensions (cd_sdk C) ce) (encode_attributes C ce)"

definition ContentType :: "'ev codec \<Rightarrow> 'ev \<Rightarrow> string" where
  "ContentType C ce =
     (let ct = event_datacontenttype (cd_sdk C) ce in if ct \<noteq> [] then ct else ApplicationJSON)"

definition isJSONMediaType :: "string \<Rightarrow> bool" where
  "isJSONMediaType mt = (mt = [] \<or> mt = ApplicationJSON \<or> mt = TextJSON)"

definition EncodeStructured :: "'ev codec \<Rightarrow> 'ev \<Rightarrow> goerr + bytes" where
  "EncodeStructured C ce =
     (let ce = (if cd_base64 C ce \<and> isJSONMediaType (cd_media_type C ce)
                  \<and> cd_json_valid C (event_data (cd_sdk C) ce)
                then cd_set_base64 C False ce else ce)
      in (case cd_marshal C ce of
            Inl err \<Rightarrow> Inl (wrap_prefix ''structured envelope'' err)
          | Inr body \<Rightarrow> Inr body))"

subsection \<open>Decoding\<close>

definition decode_error :: "string \<Rightarrow> goerr \<Rightarrow> goerr" where
  "decode_error what err = Errorf (err_text ErrDecode @ '': '' @ what @ err_text err) [ErrDecode, err]"

definition setAttribute :: "'ev codec \<Rightarrow> string \<Rightarrow> string \<Rightarrow> 'ev \<Rightarrow> goerr + 'ev" where
  "setAttribute C name val ce =
     (let S = cd_sdk C; key = Prefix @ name in
      if key = keyID then Inr (set_id S val ce)
      else if key = keySpecVersion then Inr (set_specversion S val ce)
      else if key = keyType then Inr (set_type S val ce)
      else if key = keySource then Inr (set_source S val ce)
      else if key = keySubject then Inr (set_subject S val ce)
      else if key = keyDataSchema then Inr (set_dataschema S val ce)
      else if key = keyDataContentType then Inr ce
      else if key = keyTime then
        (case cd_time_parse C val of
           Inl err \<Rightarrow> Inl (decode_error (''ce-time '' @ go_quote val @ '': '') err)
         | Inr t \<Rightarrow> Inr (set_time S t ce))
      else Inr (set_ext S name (XString val) ce))"

text \<open>\<open>strings.CutPrefix(strings.ToLower(key), Prefix)\<close>\<close>

definition attribute_name :: "string \<Rightarrow> string option" where
  "attribute_name key =
     (if has_prefix (ascii_lower key) Prefix then Some (drop (length Prefix) (ascii_lower key)) else None)"

text \<open>The loop over the attribute pairs, in the order the transport yields them.\<close>

fun decode_attrs :: "'ev codec \<Rightarrow> string list \<Rightarrow> (string \<times> string) list \<Rightarrow> 'ev \<Rightarrow> goerr + 'ev" where
  "decode_attrs C seen [] ce = Inr ce"
| "decode_attrs C seen ((key, val) # attrs) ce =
     (case attribute_name key of
        None \<Rightarrow> decode_attrs C seen attrs ce
      | Some name \<Rightarrow>
          if name \<in> set seen then
            Inl (Errorf (err_text ErrDecode @ '': duplicate attribute '' @ Prefix @ name) [ErrDecode])
          else (case setAttribute C name val ce of
              Inl err \<Rightarrow> Inl err
            | Inr ce \<Rightarrow> decode_attrs C (name # seen) attrs ce))"

definition default_event :: "'ev codec \<Rightarrow> Defaults \<Rightarrow> 'ev" where
  "default_event C def =
     (let S = cd_sdk C in
      set_source S (def_Source def) (set_type S (def_Type def) (set_id S (def_ID def)
        (set_specversion S CloudEventsVersionV1 (event_new S)))))"

definition Decode :: "'ev codec \<Rightarrow> string \<Rightarrow> (string \<times> string) list \<Rightarrow> bytes \<Rightarrow> Defaults \<Rightarrow> goerr + 'ev" where
  "Decode C contentType attrs data def =
     (let S = cd_sdk C in
      if contentType = ApplicationCloudEventsJSON then
        (case cd_unmarshal C data of
           Inl err \<Rightarrow> Inl (decode_error ''structured envelope: '' err)
         | Inr ce \<Rightarrow>
             (case event_validate S ce of
                Some err \<Rightarrow> Inl (decode_error ''structured envelope: '' err)
              | None \<Rightarrow> Inr ce))
      else
        (case decode_attrs C [] attrs (default_event C def) of
           Inl err \<Rightarrow> Inl err
         | Inr ce \<Rightarrow>
             (let contentType = (if contentType = [] then ApplicationJSON else contentType) in
              (case set_data S contentType (RawBytes data) ce of
                 Inl err \<Rightarrow> Inl (decode_error ''set data: '' err)
               | Inr ce \<Rightarrow>
                   (case event_validate S ce of
                      Some err \<Rightarrow> Inl (decode_error [] err)
                    | None \<Rightarrow> Inr ce)))))"

definition Rescue :: "'ev codec \<Rightarrow> Defaults \<Rightarrow> string \<Rightarrow> bytes \<Rightarrow> 'ev" where
  "Rescue C def contentType data =
     (let ce = default_event C def;
          contentType = (if contentType = [] then ApplicationJSON else contentType)
      in (case set_data (cd_sdk C) contentType (RawBytes data) ce of Inl err \<Rightarrow> ce | Inr ce \<Rightarrow> ce))"

subsection \<open>Every decoding error is a decode error\<close>

lemma setAttribute_err: "setAttribute C n v ce = Inl e \<Longrightarrow> errors_is ''ErrDecode'' e"
  by (auto simp: setAttribute_def Let_def decode_error_def ErrDecode_def split: if_splits sum.splits)

lemma decode_attrs_err: "decode_attrs C seen attrs ce = Inl e \<Longrightarrow> errors_is ''ErrDecode'' e"
proof (induction C seen attrs ce rule: decode_attrs.induct)
  case (2 C seen key val attrs ce)
  show ?case
  proof (cases "attribute_name key")
    case None
    with 2 show ?thesis by simp
  next
    case (Some name)
    with 2 show ?thesis
      by (auto simp: ErrDecode_def split: if_splits sum.splits dest: setAttribute_err)
  qed
qed simp

subsection \<open>What a binary-mode message means\<close>

text \<open>The attribute pairs by lower-case name, and the view they describe over the defaults.\<close>

definition named :: "(string \<times> string) list \<Rightarrow> (string \<times> string) list" where
  "named attrs = List.map_filter (\<lambda>(k, v). map_option (\<lambda>n. (n, v)) (attribute_name k)) attrs"

definition core_names :: "string list" where
  "core_names = [''id'', ''specversion'', ''type'', ''source'', ''subject'', ''dataschema'', ''datacontenttype'', ''time'']"

definition faultable :: "string list" where
  "faultable = [''id'', ''specversion'', ''type'', ''source'', ''subject'', ''dataschema'']"

definition described :: "'ev codec \<Rightarrow> (string \<rightharpoonup> string) \<Rightarrow> view \<Rightarrow> view" where
  "described C a d =
     \<lparr>v_id = (case a ''id'' of Some x \<Rightarrow> stored (cd_sdk C) ''id'' x (v_id d) | None \<Rightarrow> v_id d),
      v_type = (case a ''type'' of Some x \<Rightarrow> stored (cd_sdk C) ''type'' x (v_type d) | None \<Rightarrow> v_type d),
      v_source = (case a ''source'' of Some x \<Rightarrow> stored (cd_sdk C) ''source'' x (v_source d) | None \<Rightarrow> v_source d),
      v_specversion = (case a ''specversion'' of Some x \<Rightarrow> x | None \<Rightarrow> v_specversion d),
      v_subject = (case a ''subject'' of Some x \<Rightarrow> stored (cd_sdk C) ''subject'' x (v_subject d) | None \<Rightarrow> v_subject d),
      v_dataschema = (case a ''dataschema'' of Some x \<Rightarrow> stored (cd_sdk C) ''dataschema'' x (v_dataschema d) | None \<Rightarrow> v_dataschema d),
      v_time = (case a ''time'' of Some x \<Rightarrow> (case cd_time_parse C x of Inr t \<Rightarrow> nonzero t | Inl e \<Rightarrow> v_time d)
                 | None \<Rightarrow> v_time d),
      v_ext = (\<lambda>k. if k \<in> set core_names then v_ext d k
                 else case a k of Some x \<Rightarrow> Some (XString x) | None \<Rightarrow> v_ext d k),
      v_faults = {f. if f \<in> set faultable
        then (case a f of Some x \<Rightarrow> attr_value (cd_sdk C) f x = None | None \<Rightarrow> f \<in> v_faults d)
        else f \<in> v_faults d}\<rparr>"

definition times_ok :: "'ev codec \<Rightarrow> (string \<times> string) list \<Rightarrow> bool" where
  "times_ok C ps = (\<forall>(n, v) \<in> set ps. n = ''time'' \<longrightarrow> (\<exists>t. cd_time_parse C v = Inr t))"

definition names_ok :: "(string \<times> string) list \<Rightarrow> bool" where
  "names_ok ps = (\<forall>(n, v) \<in> set ps. (n \<in> set core_names \<or> ext_name_ok n)
     \<and> (n = ''specversion'' \<longrightarrow> v = CloudEventsVersionV1))"

lemma setAttribute_cases:
  "setAttribute C ''id'' v ce = Inr (set_id (cd_sdk C) v ce)"
  "setAttribute C ''specversion'' v ce = Inr (set_specversion (cd_sdk C) v ce)"
  "setAttribute C ''type'' v ce = Inr (set_type (cd_sdk C) v ce)"
  "setAttribute C ''source'' v ce = Inr (set_source (cd_sdk C) v ce)"
  "setAttribute C ''subject'' v ce = Inr (set_subject (cd_sdk C) v ce)"
  "setAttribute C ''dataschema'' v ce = Inr (set_dataschema (cd_sdk C) v ce)"
  "setAttribute C ''datacontenttype'' v ce = Inr ce"
  "setAttribute C ''time'' v ce = (case cd_time_parse C v of
      Inl err \<Rightarrow> Inl (decode_error (''ce-time '' @ go_quote v @ '': '') err) | Inr t \<Rightarrow> Inr (set_time (cd_sdk C) t ce))"
  "n \<notin> set core_names \<Longrightarrow> setAttribute C n v ce = Inr (set_ext (cd_sdk C) n (XString v) ce)"
  by (simp_all add: setAttribute_def Let_def key_defs core_names_def)

text \<open>One pair at a time: a step of the loop refines a step of the description.\<close>

lemma named_Cons:
  "named ((k, v) # attrs) = (case attribute_name k of None \<Rightarrow> named attrs | Some n \<Rightarrow> (n, v) # named attrs)"
  by (simp add: named_def List.map_filter_simps split: option.splits)

lemma core_cases:
  assumes "n \<in> set core_names"
  obtains "n = ''id''" | "n = ''specversion''" | "n = ''type''" | "n = ''source''" | "n = ''subject''"
    | "n = ''dataschema''" | "n = ''datacontenttype''" | "n = ''time''"
  using assms unfolding core_names_def list.set by (elim insertE emptyE) blast+

lemma core_members:
  "''id'' \<in> set core_names" "''type'' \<in> set core_names" "''source'' \<in> set core_names"
  "''specversion'' \<in> set core_names" "''subject'' \<in> set core_names" "''dataschema'' \<in> set core_names"
  "''datacontenttype'' \<in> set core_names" "''time'' \<in> set core_names"
  by (simp_all add: core_names_def)

lemma core_ext_part:
  "n \<in> set core_names \<Longrightarrow>
     (\<lambda>k. if k \<in> set core_names then f k else case [n \<mapsto> v] k of Some x \<Rightarrow> Some (XString x) | None \<Rightarrow> f k) = f"
  by (auto simp: fun_eq_iff)

lemma faults_part:
  "n \<in> set faultable \<Longrightarrow> {f. if f \<in> set faultable
     then (case [n \<mapsto> v] f of Some x \<Rightarrow> attr_value S f x = None | None \<Rightarrow> f \<in> F) else f \<in> F} = noted S n v F"
  "n \<notin> set faultable \<Longrightarrow> {f. if f \<in> set faultable
     then (case [n \<mapsto> v] f of Some x \<Rightarrow> attr_value S f x = None | None \<Rightarrow> f \<in> F) else f \<in> F} = F"
  by (auto simp: noted_def split: if_splits)

lemma faultable_members:
  "''id'' \<in> set faultable" "''type'' \<in> set faultable" "''source'' \<in> set faultable"
  "''specversion'' \<in> set faultable" "''subject'' \<in> set faultable" "''dataschema'' \<in> set faultable"
  "''datacontenttype'' \<notin> set faultable" "''time'' \<notin> set faultable" "set faultable \<subseteq> set core_names"
  by (simp_all add: faultable_def core_names_def)

lemma described_core:
  "described C [''id'' \<mapsto> v] V = V\<lparr>v_id := stored (cd_sdk C) ''id'' v (v_id V), v_faults := noted (cd_sdk C) ''id'' v (v_faults V)\<rparr>"
  "described C [''type'' \<mapsto> v] V = V\<lparr>v_type := stored (cd_sdk C) ''type'' v (v_type V), v_faults := noted (cd_sdk C) ''type'' v (v_faults V)\<rparr>"
  "described C [''source'' \<mapsto> v] V = V\<lparr>v_source := stored (cd_sdk C) ''source'' v (v_source V), v_faults := noted (cd_sdk C) ''source'' v (v_faults V)\<rparr>"
  "described C [''specversion'' \<mapsto> v] V = V\<lparr>v_specversion := v, v_faults := noted (cd_sdk C) ''specversion'' v (v_faults V)\<rparr>"
  "described C [''subject'' \<mapsto> v] V = V\<lparr>v_subject := stored (cd_sdk C) ''subject'' v (v_subject V), v_faults := noted (cd_sdk C) ''subject'' v (v_faults V)\<rparr>"
  "described C [''dataschema'' \<mapsto> v] V = V\<lparr>v_dataschema := stored (cd_sdk C) ''dataschema'' v (v_dataschema V), v_faults := noted (cd_sdk C) ''dataschema'' v (v_faults V)\<rparr>"
  "described C [''datacontenttype'' \<mapsto> v] V = V"
  "cd_time_parse C v = Inr t \<Longrightarrow> described C [''time'' \<mapsto> v] V = V\<lparr>v_time := nonzero t\<rparr>"
  by (simp_all add: described_def core_ext_part core_members faults_part faultable_members del: fun_upd_apply)
    simp_all

lemma described_ext:
  assumes "n \<notin> set core_names"
  shows "described C [n \<mapsto> v] V = V\<lparr>v_ext := (v_ext V)(n \<mapsto> XString v)\<rparr>"
proof -
  have none: "[n \<mapsto> v] c = None" if "c \<in> set core_names" for c
    using assms that by auto
  have exts: "(\<lambda>k. if k \<in> set core_names then v_ext V k
      else case [n \<mapsto> v] k of Some x \<Rightarrow> Some (XString x) | None \<Rightarrow> v_ext V k) = (v_ext V)(n \<mapsto> XString v)"
    using assms by (auto simp: fun_eq_iff)
  have "n \<notin> set faultable" using assms faultable_members(9) by (rule contra_subsetD [rotated])
  note faults = faults_part(2) [OF this]
  show ?thesis
    unfolding described_def none [OF core_members(1)] none [OF core_members(2)] none [OF core_members(3)]
      none [OF core_members(4)] none [OF core_members(5)] none [OF core_members(6)] none [OF core_members(8)]
      exts faults
    by (simp del: fun_upd_apply)
qed

lemma setAttribute_view:
  assumes "view_laws (cd_sdk C)" and "setAttribute C n v ce = Inr ce'"
    and "n \<in> set core_names \<or> ext_name_ok n" and "n = ''specversion'' \<longrightarrow> v = CloudEventsVersionV1"
  shows "sdk_view (cd_sdk C) ce' = described C [n \<mapsto> v] (sdk_view (cd_sdk C) ce)"
proof (cases "n \<in> set core_names")
  case True
  note set_view = view_setters [OF assms(1)]
  from True show ?thesis
  proof (cases rule: core_cases)
    case 1
    with assms(2) show ?thesis by (simp add: setAttribute_cases(1) described_core(1) set_view [symmetric])
  next
    case 2
    with assms(2,4) show ?thesis
      by (auto simp: setAttribute_cases(2) described_core(4) set_view noted_def accepted_def
          simp: view_accepts [OF assms(1)])
  next
    case 3
    with assms(2) show ?thesis by (simp add: setAttribute_cases(3) described_core(2) set_view [symmetric])
  next
    case 4
    with assms(2) show ?thesis by (simp add: setAttribute_cases(4) described_core(3) set_view [symmetric])
  next
    case 5
    with assms(2) show ?thesis by (simp add: setAttribute_cases(5) described_core(5) set_view [symmetric])
  next
    case 6
    with assms(2) show ?thesis by (simp add: setAttribute_cases(6) described_core(6) set_view [symmetric])
  next
    case 7
    with assms(2) show ?thesis by (simp add: setAttribute_cases(7) described_core(7))
  next
    case 8
    with assms(2) show ?thesis
      by (auto simp: setAttribute_cases(8) described_core(8) set_view split: sum.splits)
  qed
next
  case False
  with assms show ?thesis
    by (auto simp: setAttribute_cases(9) described_ext view_setters [OF assms(1)])
qed

lemma described_fields:
  "v_id (described C m V) = (case m ''id'' of Some x \<Rightarrow> stored (cd_sdk C) ''id'' x (v_id V) | None \<Rightarrow> v_id V)"
  "v_type (described C m V) = (case m ''type'' of Some x \<Rightarrow> stored (cd_sdk C) ''type'' x (v_type V) | None \<Rightarrow> v_type V)"
  "v_source (described C m V) = (case m ''source'' of Some x \<Rightarrow> stored (cd_sdk C) ''source'' x (v_source V) | None \<Rightarrow> v_source V)"
  "v_specversion (described C m V) = (case m ''specversion'' of Some x \<Rightarrow> x | None \<Rightarrow> v_specversion V)"
  "v_subject (described C m V) = (case m ''subject'' of Some x \<Rightarrow> stored (cd_sdk C) ''subject'' x (v_subject V) | None \<Rightarrow> v_subject V)"
  "v_dataschema (described C m V) = (case m ''dataschema'' of Some x \<Rightarrow> stored (cd_sdk C) ''dataschema'' x (v_dataschema V) | None \<Rightarrow> v_dataschema V)"
  "v_time (described C m V) = (case m ''time'' of
     Some x \<Rightarrow> (case cd_time_parse C x of Inr t \<Rightarrow> nonzero t | Inl e \<Rightarrow> v_time V) | None \<Rightarrow> v_time V)"
  "v_ext (described C m V) k = (if k \<in> set core_names then v_ext V k
     else case m k of Some x \<Rightarrow> Some (XString x) | None \<Rightarrow> v_ext V k)"
  "f \<in> v_faults (described C m V) \<longleftrightarrow> (if f \<in> set faultable
     then (case m f of Some x \<Rightarrow> attr_value (cd_sdk C) f x = None | None \<Rightarrow> f \<in> v_faults V) else f \<in> v_faults V)"
  by (simp_all add: described_def)

lemma described_compose:
  assumes "m n = None" and "n = ''time'' \<longrightarrow> (\<exists>t. cd_time_parse C v = Inr t)"
  shows "described C m (described C [n \<mapsto> v] V) = described C (m(n \<mapsto> v)) V"
proof (rule view.equality)
  show "v_time (described C m (described C [n \<mapsto> v] V)) = v_time (described C (m(n \<mapsto> v)) V)"
    using assms by (auto simp: described_fields split: option.splits sum.splits)
  show "v_ext (described C m (described C [n \<mapsto> v] V)) = v_ext (described C (m(n \<mapsto> v)) V)"
    using assms by (auto simp: described_fields fun_eq_iff split: option.splits)
  show "v_faults (described C m (described C [n \<mapsto> v] V)) = v_faults (described C (m(n \<mapsto> v)) V)"
    using assms by (auto simp: described_fields set_eq_iff split: option.splits if_splits)
qed (use assms in \<open>auto simp: described_fields split: option.splits\<close>)

lemma described_empty [simp]: "described C Map.empty V = V"
  by (rule view.equality) (auto simp: described_fields fun_eq_iff set_eq_iff)

lemma setAttribute_defined:
  "(\<exists>ce'. setAttribute C n v ce = Inr ce') \<longleftrightarrow> (n = ''time'' \<longrightarrow> (\<exists>t. cd_time_parse C v = Inr t))"
proof (cases "n \<in> set core_names")
  case True
  then show ?thesis
    by (cases rule: core_cases) (simp_all add: setAttribute_cases(1-8) split: sum.splits)
next
  case False
  moreover from False core_members(8) have "n \<noteq> ''time''" by blast
  ultimately show ?thesis by (simp add: setAttribute_cases(9))
qed

lemma decode_attrs_defined:
  "(\<exists>ce'. decode_attrs C seen attrs ce = Inr ce') \<longleftrightarrow>
     distinct (map fst (named attrs)) \<and> set (map fst (named attrs)) \<inter> set seen = {} \<and> times_ok C (named attrs)"
proof (induction attrs arbitrary: seen ce)
  case Nil
  then show ?case by (simp add: named_def times_ok_def List.map_filter_simps)
next
  case (Cons kv attrs)
  obtain k v where kv: "kv = (k, v)" by (cases kv)
  show ?case
  proof (cases "attribute_name k")
    case None
    with Cons.IH [of seen ce] show ?thesis by (simp add: kv named_Cons)
  next
    case (Some n)
    show ?thesis
    proof (cases "setAttribute C n v ce")
      case (Inl e)
      with setAttribute_defined [of C n v ce] have "n = ''time'' \<and> (\<forall>t. cd_time_parse C v \<noteq> Inr t)" by auto
      with Inl Some show ?thesis by (auto simp: kv named_Cons times_ok_def)
    next
      case (Inr ce1)
      with setAttribute_defined [of C n v ce] have "n = ''time'' \<longrightarrow> (\<exists>t. cd_time_parse C v = Inr t)" by blast
      with Inr Some Cons.IH [of "n # seen" ce1] show ?thesis
        by (auto simp: kv named_Cons times_ok_def)
    qed
  qed
qed

lemma decode_attrs_view:
  assumes "view_laws (cd_sdk C)" and "names_ok (named attrs)" and "decode_attrs C seen attrs ce = Inr ce'"
  shows "sdk_view (cd_sdk C) ce' = described C (map_of (named attrs)) (sdk_view (cd_sdk C) ce)"
  using assms(2,3)
proof (induction attrs arbitrary: seen ce)
  case Nil
  then show ?case by (auto simp: named_def List.map_filter_simps)
next
  case (Cons kv attrs)
  obtain k v where kv: "kv = (k, v)" by (cases kv)
  show ?case
  proof (cases "attribute_name k")
    case None
    with Cons kv show ?thesis by (simp add: named_Cons)
  next
    case (Some n)
    with Cons.prems(2) kv obtain ce1 where set1: "setAttribute C n v ce = Inr ce1" and "n \<notin> set seen"
      and rest: "decode_attrs C (n # seen) attrs ce1 = Inr ce'"
      by (auto split: if_splits sum.splits)
    from decode_attrs_defined [of C "n # seen" attrs ce1] rest have "n \<notin> fst ` set (named attrs)" by auto
    then have new: "map_of (named attrs) n = None" by (simp add: map_of_eq_None_iff)
    have time: "n = ''time'' \<longrightarrow> (\<exists>t. cd_time_parse C v = Inr t)"
      by (rule iffD1 [OF setAttribute_defined exI, OF set1])
    have "names_ok ((n, v) # named attrs)"
      using Cons.prems(1) unfolding kv named_Cons Some option.case .
    then have ok: "names_ok (named attrs)" "n \<in> set core_names \<or> ext_name_ok n"
      "n = ''specversion'' \<longrightarrow> v = CloudEventsVersionV1"
      unfolding names_ok_def list.set by blast+
    have "map_of (named (kv # attrs)) = (map_of (named attrs))(n \<mapsto> v)"
      unfolding kv named_Cons Some option.case map_of.simps fst_conv snd_conv ..
    then show ?thesis
      unfolding Cons.IH [OF ok(1) rest] setAttribute_view [OF assms(1) set1 ok(2,3)]
      by (simp only: described_compose [where m = "map_of (named attrs)" and n = n, OF new time])
  qed
qed

definition default_view :: "'ev sdk \<Rightarrow> Defaults \<Rightarrow> view" where
  "default_view S def = \<lparr>v_id = stored S ''id'' (def_ID def) [], v_type = stored S ''type'' (def_Type def) [],
     v_source = stored S ''source'' (def_Source def) [], v_specversion = CloudEventsVersionV1, v_subject = [],
     v_dataschema = [], v_time = None, v_ext = (\<lambda>_. None),
     v_faults = noted S ''source'' (def_Source def) (noted S ''type'' (def_Type def) (noted S ''id'' (def_ID def) {}))\<rparr>"

lemma default_event_view: "view_laws (cd_sdk C) \<Longrightarrow> sdk_view (cd_sdk C) (default_event C def) = default_view (cd_sdk C) def"
  by (simp add: default_event_def Let_def view_setters default_view_def)

text \<open>What \<open>Decode\<close> accepts in binary mode, and the event it returns.\<close>

lemma Decode_binary:
  assumes "view_laws (cd_sdk C)" and "names_ok (named attrs)" and "ct \<noteq> ApplicationCloudEventsJSON"
    and "Decode C ct attrs data def = Inr ce"
  shows "distinct (map fst (named attrs)) \<and> times_ok C (named attrs)
    \<and> sdk_view (cd_sdk C) ce = described C (map_of (named attrs)) (default_view (cd_sdk C) def)
    \<and> event_data (cd_sdk C) ce = data
    \<and> event_datacontenttype (cd_sdk C) ce
        = stored (cd_sdk C) ''datacontenttype'' (if ct = [] then ApplicationJSON else ct) []
    \<and> event_validate (cd_sdk C) ce = None"
proof -
  let ?ct = "if ct = [] then ApplicationJSON else ct"
  from assms(3,4) obtain ce1 where attrs: "decode_attrs C [] attrs (default_event C def) = Inr ce1"
    by (auto simp: Decode_def Let_def split: sum.splits)
  obtain ce2 where data: "set_data (cd_sdk C) ?ct (RawBytes data) ce1 = Inr ce2" "sdk_view (cd_sdk C) ce2 = sdk_view (cd_sdk C) ce1"
    "event_data (cd_sdk C) ce2 = data"
    "event_datacontenttype (cd_sdk C) ce2 = stored (cd_sdk C) ''datacontenttype'' ?ct []"
    by (rule view_set_data [OF assms(1)])
  from assms(3,4) attrs data(1) have "ce = ce2" "event_validate (cd_sdk C) ce2 = None"
    by (auto simp: Decode_def Let_def split: option.splits if_splits)
  with data attrs decode_attrs_defined [of C "[]" attrs "default_event C def"]
    decode_attrs_view [OF assms(1,2) attrs] default_event_view [OF assms(1)]
  show ?thesis by auto
qed

lemma Decode_err: "Decode C ct attrs data def = Inl e \<Longrightarrow> errors_is ''ErrDecode'' e"
  by (auto simp: Decode_def Let_def decode_error_def ErrDecode_def split: if_splits sum.splits option.splits
      dest: decode_attrs_err)

end
