(* ===== verification/Transport.thy ===== *)
theory Transport
  imports Envelope Message Logfields
begin

text \<open>
  What the transports under \<open>pkg/transport\<close> share: the surroundings they run in, the loggers of
  \<open>pkg/kit/logfields/logger.go\<close>, and the standard library functions they use
  (\<open>strconv.ParseUint\<close>, \<open>time.Duration.String\<close>, \<open>strings.Cut\<close>, \<open>strings.Join\<close>).

  A record reaches the log through \<open>tp_emit\<close>, which stores it in the world.  A message handler
  works on the message, which it shares with the transport, and on the world.
\<close>

record ('ev, 'w) surroundings =
  tp_codec :: "'ev codec"
  tp_tracer :: "'w tracer"
  tp_header :: string
  tp_emit :: "logrec \<Rightarrow> 'w \<Rightarrow> 'w"

abbreviation tp_sdk :: "('ev, 'w) surroundings \<Rightarrow> 'ev sdk" where
  "tp_sdk W \<equiv> cd_sdk (tp_codec W)"

type_synonym ('ev, 'w) msg_handler = "(('ev, 'w) message \<times> 'w, unit) go"

text \<open>The handler gets a fresh message; afterwards the transport drops it.\<close>

definition hand_over :: "('ev, 'w) msg_handler \<Rightarrow> ('ev, 'w) message \<Rightarrow> ('w, unit) go" where
  "hand_over h m w = (case h (m, w) of (r, (m', w')) \<Rightarrow> (r, w'))"

subsection \<open>Pointers\<close>

text \<open>\<open>awssdk.ToString\<close>: a nil pointer reads as the empty string.\<close>

definition ToString :: "string option \<Rightarrow> string" where
  "ToString p = (case p of Some s \<Rightarrow> s | None \<Rightarrow> [])"

definition nil_dereference :: string where
  "nil_dereference = ''runtime error: invalid memory address or nil pointer dereference''"

subsection \<open>Standard library\<close>

text \<open>\<open>strconv.ParseUint(s, 10, 64)\<close>; \<open>None\<close> is any of its errors.\<close>

definition is_digit :: "char \<Rightarrow> bool" where
  "is_digit c = (48 \<le> byte c \<and> byte c \<le> 57)"

definition digits_value :: "string \<Rightarrow> nat" where
  "digits_value s = foldl (\<lambda>n c. 10 * n + (byte c - 48)) 0 s"

definition ParseUint10 :: "string \<Rightarrow> u64 option" where
  "ParseUint10 s =
     (if s = [] \<or> \<not> list_all is_digit s \<or> digits_value s \<ge> 2 ^ 64 then None
      else Some (word_of_nat (digits_value s)))"

text \<open>\<open>strings.Cut\<close> at a single byte, and \<open>strings.Split\<close>.\<close>

fun cut_byte :: "char \<Rightarrow> string \<Rightarrow> string \<times> string option" where
  "cut_byte sep [] = ([], None)"
| "cut_byte sep (c # s) =
     (if c = sep then ([], Some s) else (case cut_byte sep s of (a, r) \<Rightarrow> (c # a, r)))"

fun split_byte :: "char \<Rightarrow> string \<Rightarrow> string list" where
  "split_byte sep [] = [[]]"
| "split_byte sep (c # s) =
     (case split_byte sep s of
        [] \<Rightarrow> []
      | p # ps \<Rightarrow> if c = sep then [] # p # ps else (c # p) # ps)"

fun join_with :: "string \<Rightarrow> string list \<Rightarrow> string" where
  "join_with sep [] = []"
| "join_with sep [s] = s"
| "join_with sep (s # ss) = s @ sep @ join_with sep ss"

text \<open>\<open>time.Duration.String\<close>: the fraction without trailing zeros, then the units from hours down.\<close>

fun pad_digits :: "nat \<Rightarrow> nat \<Rightarrow> string" where
  "pad_digits 0 n = []"
| "pad_digits (Suc k) n = pad_digits k (n div 10) @ [char_of (48 + n mod 10)]"

definition duration_fraction :: "nat \<Rightarrow> nat \<Rightarrow> string" where
  "duration_fraction prec n =
     (case rev (dropWhile (\<lambda>c. c = CHR ''0'') (rev (pad_digits prec (n mod 10 ^ prec)))) of
        [] \<Rightarrow> [] | ds \<Rightarrow> CHR ''.'' # ds)"

definition micro_sign :: string where
  "micro_sign = [char_of (0xC2 :: nat), char_of (0xB5 :: nat)]"

definition duration_text :: "nat \<Rightarrow> string" where
  "duration_text u =
     (if u < 10 ^ 9 then
        (if u = 0 then ''0s''
         else if u < 10 ^ 3 then show_nat u @ ''ns''
         else if u < 10 ^ 6 then show_nat (u div 10 ^ 3) @ duration_fraction 3 u @ micro_sign @ ''s''
         else show_nat (u div 10 ^ 6) @ duration_fraction 6 u @ ''ms'')
      else
        (let secs = u div 10 ^ 9; mins = secs div 60; hours = mins div 60 in
         (if hours > 0 then show_nat hours @ ''h'' else [])
         @ (if mins > 0 then show_nat (mins mod 60) @ ''m'' else [])
         @ show_nat (secs mod 60) @ duration_fraction 9 u @ ''s''))"

definition Duration_String :: "int \<Rightarrow> string" where
  "Duration_String d = (if d < 0 then ''-'' @ duration_text (nat (- d)) else duration_text (nat d))"

subsection \<open>Contexts of the standard library\<close>

definition Canceled :: goerr where
  "Canceled = Sentinel ''context.Canceled'' ''context canceled''"

definition DeadlineExceeded :: goerr where
  "DeadlineExceeded = Sentinel ''context.DeadlineExceeded'' ''context deadline exceeded''"

subsection \<open>Loggers\<close>

text \<open>A logger is what it adds to every record; \<open>lg_discard\<close> is \<open>slog.DiscardHandler\<close>.\<close>

record logger =
  lg_discard :: bool
  lg_with :: "log_attr list"

definition KeyLogLogger :: string where
  "KeyLogLogger = ''log.logger''"

definition KeyMessagingSystem :: string where
  "KeyMessagingSystem = ''messaging.system''"

definition KeyMessagingDestination :: string where
  "KeyMessagingDestination = ''messaging.destination.name''"

definition KeyMessagingBrokerID :: string where
  "KeyMessagingBrokerID = ''messaging.message.broker_id''"

definition KeyConsumerWorkers :: string where
  "KeyConsumerWorkers = ''messaging.consumer.workers''"

definition KeyConsumerMaxOutstanding :: string where
  "KeyConsumerMaxOutstanding = ''messaging.consumer.max_outstanding''"

definition KeyConsumerGoroutines :: string where
  "KeyConsumerGoroutines = ''messaging.consumer.goroutines''"

definition KeyConsumerGroup :: string where
  "KeyConsumerGroup = ''messaging.consumer.group''"

definition KeyNATSStream :: string where
  "KeyNATSStream = ''messaging.nats.stream''"

definition KeyNATSSequence :: string where
  "KeyNATSSequence = ''messaging.nats.sequence''"

definition KeyNATSFilterSubject :: string where
  "KeyNATSFilterSubject = ''messaging.nats.filter_subject''"

definition KeyServerAddress :: string where
  "KeyServerAddress = ''server.address''"

definition KeyURLFull :: string where
  "KeyURLFull = ''url.full''"

definition SystemAWSSNS :: string where
  "SystemAWSSNS = ''aws_sns''"

definition SystemAWSSQS :: string where
  "SystemAWSSQS = ''aws_sqs''"

definition SystemGCPPubSub :: string where
  "SystemGCPPubSub = ''gcp_pubsub''"

definition SystemNATS :: string where
  "SystemNATS = ''nats''"

definition SystemHTTP :: string where
  "SystemHTTP = ''http''"

definition logger_With :: "logger \<Rightarrow> log_attr list \<Rightarrow> logger" where
  "logger_With l as = l\<lparr>lg_with := lg_with l @ as\<rparr>"

definition Component :: "logger option \<Rightarrow> string \<Rightarrow> logger" where
  "Component l name =
     logger_With (case l of Some l \<Rightarrow> l | None \<Rightarrow> \<lparr>lg_discard = True, lg_with = []\<rparr>) [AStr KeyLogLogger name]"

definition Transport :: "logger option \<Rightarrow> string \<Rightarrow> string \<Rightarrow> string \<Rightarrow> logger" where
  "Transport l name system destination =
     logger_With (Component l name) [AStr KeyMessagingSystem system, AStr KeyMessagingDestination destination]"

definition emit :: "('ev, 'w) surroundings \<Rightarrow> logger \<Rightarrow> log_level \<Rightarrow> string \<Rightarrow> log_attr list \<Rightarrow> ('w, unit) go" where
  "emit W l lvl msg attrs = go_when (\<not> lg_discard l)
     (go_modify (tp_emit W \<lparr>log_level = lvl, log_message = msg, log_attrs = lg_with l @ attrs\<rparr>))"

lemma go_wp_emit [go_wps]:
  "go_wp (emit W l lvl msg attrs) Q X s =
     (if lg_discard l then Q () s
      else Q () (tp_emit W \<lparr>log_level = lvl, log_message = msg, log_attrs = lg_with l @ attrs\<rparr> s))"
  by (simp add: emit_def go_wps)

lemma Component_discards [simp]: "lg_discard (Component None name)"
  by (simp add: Component_def logger_With_def)

subsection \<open>What a transport hands to the router\<close>

text \<open>
  Every subscriber does the same with a broker message it decoded or failed to decode: the
  context of the trace, then a message or an undecodable one.
\<close>

definition deliver_event :: "('ev, 'w) surroundings \<Rightarrow> ('ev, 'w) msg_handler \<Rightarrow> string \<Rightarrow> 'ev \<Rightarrow> 'w delivery
    \<Rightarrow> ('w, unit) go" where
  "deliver_event W h traceparent ce d =
     go_bind (ContextWithTrace (tp_tracer W) (tp_sdk W) (Some Background) traceparent (Some ce)) (\<lambda>c.
     hand_over h (NewMessage (Some c) ce d))"

definition deliver_undecodable :: "('ev, 'w) surroundings \<Rightarrow> ('ev, 'w) msg_handler \<Rightarrow> string \<Rightarrow> 'ev \<Rightarrow> 'w delivery
    \<Rightarrow> goerr \<Rightarrow> ('w, unit) go" where
  "deliver_undecodable W h traceparent rescue d err =
     go_bind (ContextWithTrace (tp_tracer W) (tp_sdk W) (Some Background) traceparent None) (\<lambda>c.
     hand_over h (NewUndecodable (Some c) rescue d err))"

text \<open>The rescued event: the broker's id, the transport's type and source, the raw body.\<close>

lemma Rescue_view:
  assumes "view_laws (cd_sdk C)"
  shows "sdk_view (cd_sdk C) (Rescue C def ct body) = default_view (cd_sdk C) def
    \<and> event_data (cd_sdk C) (Rescue C def ct body) = body"
proof -
  let ?ct = "if ct = [] then ApplicationJSON else ct"
  obtain ce' where "set_data (cd_sdk C) ?ct (RawBytes body) (default_event C def) = Inr ce'"
    and "sdk_view (cd_sdk C) ce' = sdk_view (cd_sdk C) (default_event C def)" and "event_data (cd_sdk C) ce' = body"
    by (rule view_set_data [OF assms])
  then show ?thesis by (simp add: Rescue_def Let_def default_event_view [OF assms])
qed

end
