(* ===== verification/Retry.thy ===== *)
theory Retry
  imports Middleware Transport
begin

text \<open>
  \<open>pkg/middleware/retry/retry.go\<close>: the backoff middleware.  Durations are Go's signed 64-bit
  \<open>time.Duration\<close>, kept at their width: the shift and the additions of \<open>delayFor\<close> and
  \<open>jittered\<close> are shown not to wrap.

  The timer and the random source are parameters: \<open>tm_wait\<close> is the \<open>select\<close> on
  \<open>time.After\<close> and \<open>ctx.Done\<close> (\<open>None\<close> when the timer fires first, the context's error
  otherwise), \<open>tm_jitter\<close> is the value of \<open>time.Duration(rand.Float64() * float64(delay) * 0.2)\<close>.
\<close>

record 'w timers =
  tm_wait :: "i64 \<Rightarrow> ctx \<Rightarrow> ('w, goerr option) go"
  tm_jitter :: "i64 \<Rightarrow> ('w, i64) go"

record retry_options =
  ro_logger :: bool
  ro_skipOnRedelivery :: bool

record backoff = retry_options +
  bo_base :: i64
  bo_maxDelay :: i64
  bo_maxRetries :: int

subsection \<open>Options and configuration\<close>

definition WithLogger :: "bool \<Rightarrow> retry_options \<Rightarrow> retry_options" where
  "WithLogger l o' = o'\<lparr>ro_logger := l\<rparr>"

definition SkipOnRedelivery :: "retry_options \<Rightarrow> retry_options" where
  "SkipOnRedelivery o' = o'\<lparr>ro_skipOnRedelivery := True\<rparr>"

definition redelivered :: "ctx \<Rightarrow> bool" where
  "redelivered c = (case DeliveryCountFromContext c of (count, known) \<Rightarrow> known \<and> count > 1)"

subsection \<open>Delays\<close>

definition delayFor :: "i64 \<Rightarrow> i64 \<Rightarrow> nat \<Rightarrow> i64" where
  "delayFor baseDelay maxDelay attempt =
     (if attempt \<ge> 62 \<or> signed_drop_bit attempt maxDelay <s baseDelay then maxDelay
      else push_bit attempt baseDelay)"

definition jittered :: "i64 \<Rightarrow> i64 \<Rightarrow> i64 \<Rightarrow> i64" where
  "jittered delay maxDelay jitter =
     (let room = maxDelay - delay;
          jitter = (if room <s jitter then room else jitter)
      in delay + jitter)"

subsection \<open>The loop\<close>

definition retry_wait :: "'w timers \<Rightarrow> backoff \<Rightarrow> ctx \<Rightarrow> nat \<Rightarrow> goerr \<Rightarrow> ('w henv, goerr option) go" where
  "retry_wait tm b c attempt cause =
     (let raw = delayFor (bo_base b) (bo_maxDelay b) attempt in
      go_bind (on_h_world (tm_jitter tm raw)) (\<lambda>jitter.
      let delay = jittered raw (bo_maxDelay b) jitter in
      go_seq (go_when (ro_logger b)
        (h_log_add \<lparr>log_level = LevelWarn, log_message = ''retrying handler'',
           log_attrs = [AErr cause, AInt KeyRetryAttempt (int attempt + 1), AInt KeyRetryDelay (sint delay)]\<rparr>))
      (on_h_world (tm_wait tm delay c))))"

text \<open>
  The loop of \<open>run\<close>.  \<open>left\<close> is \<open>retries - attempt\<close>: the test \<open>attempt == retries\<close> is
  \<open>left = 0\<close>, and each pass decreases it.
\<close>

fun retry_loop :: "'w timers \<Rightarrow> backoff \<Rightarrow> ctx \<Rightarrow> 'd \<Rightarrow> ('d, 'w) handler_func \<Rightarrow> nat \<Rightarrow> nat
    \<Rightarrow> ('w henv, bytes option \<times> goerr option) go" where
  "retry_loop tm b c data nxt attempt left =
     go_bind (nxt c data) (\<lambda>(result, err).
       (case err of
          None \<Rightarrow> go_ret (result, None)
        | Some e \<Rightarrow>
            if left = 0 \<or> isNonRetryable e then go_ret (None, Some e)
            else go_bind (retry_wait tm b c attempt e) (\<lambda>werr.
              (case werr of
                 Some we \<Rightarrow> go_ret (None, Some we)
               | None \<Rightarrow> retry_loop tm b c data nxt (Suc attempt) (left - 1)))))"

declare retry_loop.simps [simp del]

definition effective_retries :: "backoff \<Rightarrow> ctx \<Rightarrow> nat" where
  "effective_retries b c =
     (if ro_skipOnRedelivery b \<and> redelivered c then 0 else nat (bo_maxRetries b))"

definition retry_run :: "'w timers \<Rightarrow> backoff \<Rightarrow> ('d, 'w) handler_func \<Rightarrow> ('d, 'w) handler_func" where
  "retry_run tm b nxt c data = retry_loop tm b c data nxt 0 (effective_retries b c)"

text \<open>\<open>Backoff\<close> panics on a configuration that would spin or never call the handler.\<close>

definition Backoff :: "'w timers \<Rightarrow> i64 \<Rightarrow> i64 \<Rightarrow> int \<Rightarrow> (retry_options \<Rightarrow> retry_options) list
    \<Rightarrow> ('d, 'w) middleware res" where
  "Backoff tm baseDelay maxDelay maxRetries opts =
     (if maxRetries < 0 \<or> baseDelay \<le>s 0 \<or> maxDelay <s baseDelay then
        Panic (''retry: invalid config: baseDelay='' @ Duration_String (sint baseDelay) @ '' maxDelay=''
          @ Duration_String (sint maxDelay) @ '' maxRetries='' @ show_int maxRetries)
      else
        (let o' = fold (\<lambda>opt. opt) opts \<lparr>ro_logger = False, ro_skipOnRedelivery = False\<rparr>;
             policy = \<lparr>ro_logger = ro_logger o', ro_skipOnRedelivery = ro_skipOnRedelivery o',
               bo_base = baseDelay, bo_maxDelay = maxDelay, bo_maxRetries = maxRetries\<rparr>
         in Ret (retry_run tm policy)))"

subsection \<open>The delays do not wrap\<close>

lemma sint_i64_range: "- (2 ^ 63) \<le> sint (x :: i64) \<and> sint (x :: i64) < 2 ^ 63"
  using sint_ge [of x] sint_lt [of x] by simp

lemma sint_of_int_i64:
  assumes "- (2 ^ 63) \<le> k" and "k < 2 ^ 63"
  shows "sint (word_of_int k :: i64) = k"
  using assms by (simp add: signed_of_int signed_take_bit_int_eq_self)

lemma sint_add_i64:
  assumes "- (2 ^ 63) \<le> sint a + sint b" and "sint a + sint b < 2 ^ 63"
  shows "sint (a + b :: i64) = sint a + sint b"
  using sint_of_int_i64 [OF assms] by simp

lemma sint_diff_i64:
  assumes "- (2 ^ 63) \<le> sint a - sint b" and "sint a - sint b < 2 ^ 63"
  shows "sint (a - b :: i64) = sint a - sint b"
  using sint_of_int_i64 [OF assms] by simp

lemma sint_push_bit_i64:
  assumes "0 \<le> sint a" and "sint a * 2 ^ n < 2 ^ 63"
  shows "sint (push_bit n a :: i64) = sint a * 2 ^ n"
proof -
  have "push_bit n a = word_of_int (sint a * 2 ^ n)"
    by (simp add: push_bit_eq_mult)
  moreover have "- (2 ^ 63) \<le> sint a * 2 ^ n"
    using assms(1) by (meson mult_nonneg_nonneg neg_le_0_iff_le order.trans zero_le_numeral zero_le_power)
  ultimately show ?thesis
    using sint_of_int_i64 [OF _ assms(2)] by metis
qed

lemma shifted_less_iff:
  fixes m b :: int
  shows "m div 2 ^ n < b \<longleftrightarrow> m < b * 2 ^ n"
proof -
  have d: "0 < (2 :: int) ^ n" by simp
  show ?thesis
  proof
    assume "m div 2 ^ n < b"
    then have "(m div 2 ^ n + 1) * 2 ^ n \<le> b * 2 ^ n" by (intro mult_right_mono) auto
    moreover have "m < (m div 2 ^ n + 1) * 2 ^ n"
      using pos_mod_bound [OF d, of m] div_mult_mod_eq [of m "2 ^ n"]
      by (simp only: distrib_right mult_1_left)
    ultimately show "m < b * 2 ^ n" by (rule less_le_trans [rotated])
  next
    assume less: "m < b * 2 ^ n"
    show "m div 2 ^ n < b"
    proof (rule ccontr)
      assume "\<not> m div 2 ^ n < b"
      then have "b * 2 ^ n \<le> (m div 2 ^ n) * 2 ^ n" by (intro mult_right_mono) auto
      also have "\<dots> \<le> m"
        using pos_mod_sign [OF d, of m] div_mult_mod_eq [of m "2 ^ n"] by linarith
      finally show False using less by simp
    qed
  qed
qed

lemma delayFor_value:
  assumes "0 < sint base" and "sint base \<le> sint maxDelay"
  shows "sint (delayFor base maxDelay n) =
           (if n < 62 then min (sint base * 2 ^ n) (sint maxDelay) else sint maxDelay)"
proof (cases "n < 62 \<and> sint base * 2 ^ n \<le> sint maxDelay")
  case True
  then have "\<not> sint maxDelay div 2 ^ n < sint base"
    using shifted_less_iff [of "sint maxDelay" n "sint base"] by simp
  moreover have "sint base * 2 ^ n < 2 ^ 63"
    using True sint_i64_range [of maxDelay] by linarith
  ultimately show ?thesis
    using True assms sint_push_bit_i64 [of base n]
    by (simp add: delayFor_def word_sless_alt sint_signed_drop_bit_eq drop_bit_eq_div)
next
  case False
  then have "62 \<le> n \<or> sint maxDelay div 2 ^ n < sint base"
    using shifted_less_iff [of "sint maxDelay" n "sint base"] by auto
  with False show ?thesis
    by (auto simp: delayFor_def word_sless_alt sint_signed_drop_bit_eq drop_bit_eq_div)
qed

lemma delayFor_range:
  assumes "0 < sint base" and "sint base \<le> sint maxDelay"
  shows "0 < sint (delayFor base maxDelay n) \<and> sint (delayFor base maxDelay n) \<le> sint maxDelay"
  using assms by (simp add: delayFor_value min_def)

lemma jittered_value:
  assumes "0 \<le> sint delay" and "sint delay \<le> sint maxDelay" and "0 \<le> sint jitter"
  shows "sint (jittered delay maxDelay jitter) = min (sint delay + sint jitter) (sint maxDelay)"
proof -
  have room: "sint (maxDelay - delay) = sint maxDelay - sint delay"
    using assms sint_i64_range [of maxDelay] by (intro sint_diff_i64) auto
  show ?thesis
  proof (cases "sint maxDelay - sint delay < sint jitter")
    case True
    then have "jittered delay maxDelay jitter = maxDelay"
      by (simp add: jittered_def word_sless_alt room)
    with True show ?thesis by simp
  next
    case False
    then have "sint delay + sint jitter < 2 ^ 63"
      using sint_i64_range [of maxDelay] by linarith
    with False assms show ?thesis
      using sint_add_i64 [of delay jitter] by (simp add: jittered_def word_sless_alt room)
  qed
qed

text \<open>
  C28. Every delay the middleware sleeps is the doubled base delay plus its jitter, computed
  without overflow and never above \<open>maxDelay\<close>: for any configuration \<open>Backoff\<close> accepts, any
  attempt and any non-negative jitter, the 64-bit result equals the mathematical value
  \<open>min (d + jitter) maxDelay\<close> where \<open>d\<close> is \<open>base * 2^attempt\<close> capped at \<open>maxDelay\<close> (and
  \<open>maxDelay\<close> itself from attempt 62 on).
\<close>

theorem delay_never_wraps:
  assumes "0 < sint base" and "sint base \<le> sint maxDelay" and "0 \<le> sint jitter"
  shows "sint (jittered (delayFor base maxDelay n) maxDelay jitter) =
           min ((if n < 62 then min (sint base * 2 ^ n) (sint maxDelay) else sint maxDelay) + sint jitter)
               (sint maxDelay)"
  using jittered_value [of "delayFor base maxDelay n" maxDelay jitter] delayFor_range [OF assms(1,2), of n]
    assms(3) by (simp add: delayFor_value [OF assms(1,2)])

theorem delay_never_wraps_witness:
  "sint (jittered (delayFor 200 5000 3) 5000 (100 :: i64)) = 1700"
  using delay_never_wraps [of 200 5000 100 3] by simp

subsection \<open>How often the handler runs\<close>

text \<open>
  A measure \<open>cnt\<close> of the handler's environment that a call of the handler raises by at most
  one, and that the timer, the random source and the log leave alone.
\<close>

definition counts_calls :: "('w henv \<Rightarrow> nat) \<Rightarrow> ('d, 'w) handler_func \<Rightarrow> bool" where
  "counts_calls cnt nxt \<longleftrightarrow>
     (\<forall>c d h. cnt (snd (nxt c d h)) \<le> cnt h + 1) \<and>
     (\<forall>h w l. cnt (h\<lparr>h_world := w, h_log := l\<rparr>) = cnt h)"

lemma counts_calls_frame:
  assumes "counts_calls cnt nxt"
  shows "cnt (snd (retry_wait tm b c k e h)) = cnt h"
proof -
  have any: "cnt (h'\<lparr>h_world := w, h_log := l\<rparr>) = cnt h'" for h' w l
    using assms unfolding counts_calls_def by blast
  have "cnt (h'\<lparr>h_world := w\<rparr>) = cnt h'" "cnt (h'\<lparr>h_log := l\<rparr>) = cnt h'" for h' w l
    using any [of "h_log h'" w h'] any [of l "h_world h'" h'] by simp_all
  then show ?thesis
    by (auto simp: retry_wait_def Let_def go_defs split: prod.splits res.splits)
qed

lemma retry_loop_calls:
  assumes "counts_calls cnt nxt"
  shows "cnt (snd (retry_loop tm b c data nxt k n h)) \<le> cnt h + n + 1"
proof (induction n arbitrary: k h)
  case 0
  obtain r h1 where nx: "nxt c data h = (r, h1)" by fastforce
  have "cnt h1 \<le> cnt h + 1"
    using assms nx by (metis counts_calls_def snd_conv)
  with nx show ?case
    by (subst retry_loop.simps)
      (auto simp: go_bind_def go_ret_def split: res.splits prod.splits option.splits)
next
  case (Suc n)
  obtain r h1 where nx: "nxt c data h = (r, h1)" by fastforce
  have h1: "cnt h1 \<le> cnt h + 1"
    using assms nx by (metis counts_calls_def snd_conv)
  show ?case
  proof (cases "\<exists>d e. r = Ret (d, Some e) \<and> \<not> isNonRetryable e")
    case False
    with nx h1 show ?thesis
      by (subst retry_loop.simps)
        (auto simp: go_bind_def go_ret_def split: res.splits prod.splits option.splits)
  next
    case True
    then obtain d e where r: "r = Ret (d, Some e)" "\<not> isNonRetryable e" by blast
    obtain wr h2 where wt: "retry_wait tm b c k e h1 = (wr, h2)" by fastforce
    have h2: "cnt h2 = cnt h1"
      using counts_calls_frame [OF assms] wt by (metis snd_conv)
    have "cnt (snd (retry_loop tm b c data nxt (Suc k) n h2)) \<le> cnt h2 + n + 1"
      by (rule Suc.IH)
    with nx r wt h1 h2 show ?thesis
      by (subst retry_loop.simps)
        (auto simp: go_bind_def go_ret_def split: res.splits option.splits)
  qed
qed

text \<open>
  C27. The middleware calls the handler at most \<open>maxRetries + 1\<close> times, and once when the broker
  reports a redelivery and \<open>SkipOnRedelivery\<close> is set.
\<close>

theorem retry_call_bound:
  assumes "counts_calls cnt nxt"
  shows "cnt (snd (retry_run tm b nxt c data h)) \<le> cnt h + effective_retries b c + 1"
  unfolding retry_run_def by (rule retry_loop_calls [OF assms])

definition failing_handler :: "(unit, nat) handler_func" where
  "failing_handler c d h = (Ret (None, Some (errors_new ''boom'')), h\<lparr>h_store := (''call'', []) # h_store h\<rparr>)"

definition sample_timers :: "nat timers" where
  "sample_timers = \<lparr>tm_wait = (\<lambda>d c. go_ret None), tm_jitter = (\<lambda>d. go_ret 0)\<rparr>"

definition sample_backoff :: backoff where
  "sample_backoff = \<lparr>ro_logger = True, ro_skipOnRedelivery = False, bo_base = 200, bo_maxDelay = 1000,
     bo_maxRetries = 2\<rparr>"

theorem retry_call_bound_witness:
  "length (h_store (snd (retry_run sample_timers sample_backoff failing_handler Background ()
     \<lparr>h_world = 0, h_store = [], h_log = []\<rparr>))) \<le> 3"
proof -
  have "counts_calls (\<lambda>h. length (h_store h)) failing_handler"
    by (simp add: counts_calls_def failing_handler_def)
  from retry_call_bound [OF this, of sample_timers sample_backoff Background "()"
      "\<lparr>h_world = 0, h_store = [], h_log = []\<rparr>"]
  show ?thesis
    by (simp add: effective_retries_def sample_backoff_def)
qed

subsection \<open>What the middleware returns\<close>

lemma retry_loop_result:
  assumes "retry_loop tm b c data nxt k n h = (Ret (r, err), h')"
  shows "(case err of
            None \<Rightarrow> (\<exists>h1. nxt c data h1 = (Ret (r, None), h'))
          | Some e \<Rightarrow> r = None \<and>
              ((\<exists>h1 r'. nxt c data h1 = (Ret (r', Some e), h')) \<or>
               (\<exists>h1 k' cause. retry_wait tm b c k' cause h1 = (Ret (Some e), h'))))"
  using assms
proof (induction n arbitrary: k h)
  case 0
  then show ?case
    by (subst (asm) retry_loop.simps)
      (auto simp: go_bind_def go_ret_def split: res.splits prod.splits option.splits if_splits)
next
  case (Suc n)
  obtain x h1 where nx: "nxt c data h = (x, h1)" by fastforce
  show ?case
  proof (cases "\<exists>d e. x = Ret (d, Some e) \<and> \<not> isNonRetryable e")
    case False
    with nx Suc.prems show ?thesis
      by (subst (asm) retry_loop.simps)
        (auto simp: go_bind_def go_ret_def split: res.splits prod.splits option.splits if_splits)
  next
    case True
    then obtain d e where x: "x = Ret (d, Some e)" "\<not> isNonRetryable e" by blast
    obtain wr h2 where wt: "retry_wait tm b c k e h1 = (wr, h2)" by fastforce
    have unfolded: "retry_loop tm b c data nxt k (Suc n) h =
        (case wr of Panic p \<Rightarrow> (Panic p, h2) | Ret (Some we) \<Rightarrow> (Ret (None, Some we), h2)
         | Ret None \<Rightarrow> retry_loop tm b c data nxt (Suc k) n h2)"
      using nx x wt
      by (subst retry_loop.simps) (simp add: go_bind_def go_ret_def split: res.splits option.splits)
    show ?thesis
    proof (cases "wr = Ret None")
      case True
      with unfolded Suc.prems have "retry_loop tm b c data nxt (Suc k) n h2 = (Ret (r, err), h')"
        by simp
      then show ?thesis by (rule Suc.IH)
    next
      case False
      with unfolded Suc.prems wt show ?thesis
        by (auto split: res.splits option.splits)
    qed
  qed
qed

text \<open>
  The middleware invents nothing: a success it returns is the last call's success, data
  included, and an error it returns is either the handler's last error or the context's error
  while waiting, with no data.  In particular a failing handler is never acknowledged because
  the retries ran out.
\<close>

theorem retry_result_is_handlers:
  assumes "retry_run tm b nxt c data h = (Ret (r, err), h')"
  shows "(case err of
            None \<Rightarrow> (\<exists>h1. nxt c data h1 = (Ret (r, None), h'))
          | Some e \<Rightarrow> r = None \<and>
              ((\<exists>h1 r'. nxt c data h1 = (Ret (r', Some e), h')) \<or>
               (\<exists>h1 k cause. retry_wait tm b c k cause h1 = (Ret (Some e), h'))))"
  by (rule retry_loop_result [OF assms [unfolded retry_run_def]])

theorem retry_result_is_handlers_witness:
  "\<exists>h' h1. retry_run sample_timers sample_backoff (\<lambda>c d. go_ret (Some ''{}'', None)) Background ()
     \<lparr>h_world = 0, h_store = [], h_log = []\<rparr> = (Ret (Some ''{}'', None), h') \<and>
     go_ret (Some ''{}'', None) h1 = (Ret (Some ''{}'', None :: goerr option), h')"
proof -
  have run: "retry_run sample_timers sample_backoff (\<lambda>c d. go_ret (Some ''{}'', None)) Background ()
     \<lparr>h_world = 0, h_store = [], h_log = []\<rparr>
     = (Ret (Some ''{}'', None), \<lparr>h_world = 0, h_store = [], h_log = []\<rparr>)"
    unfolding retry_run_def by (subst retry_loop.simps) (simp add: go_bind_def go_ret_def)
  show ?thesis
    using retry_result_is_handlers [OF run] run by auto
qed

text \<open>A first error that is definitive, or a policy without retries, means a single call.\<close>

lemma retry_single_call:
  assumes "effective_retries b c = 0 \<or> (\<exists>r e h1. nxt c data h = (Ret (r, Some e), h1) \<and> isNonRetryable e)"
  shows "retry_run tm b nxt c data h =
    (case nxt c data h of
       (Ret (r, None), h1) \<Rightarrow> (Ret (r, None), h1)
     | (Ret (r, Some e), h1) \<Rightarrow> (Ret (None, Some e), h1)
     | (Panic p, h1) \<Rightarrow> (Panic p, h1))"
  using assms unfolding retry_run_def
  by (subst retry_loop.simps) (auto simp: go_bind_def go_ret_def split: res.splits prod.splits option.splits)

text \<open>What \<open>Backoff\<close> accepts satisfies the hypotheses of the delay theorem.\<close>

lemma Backoff_accepts:
  "Backoff tm base maxDelay n opts = Ret mw \<Longrightarrow>
     0 \<le> n \<and> 0 < sint base \<and> sint base \<le> sint maxDelay"
  by (auto simp: Backoff_def word_sless_alt word_sle_eq split: if_splits)

end
