(* ===== verification/Skiperr.thy ===== *)
theory Skiperr
  imports Middleware
begin

text \<open>
  \<open>pkg/middleware/skiperr/skiperr.go\<close> and \<open>pkg/middleware/validate/validate.go\<close>: the
  middleware that swallows matching handler errors, and the one that validates the payload
  before the handler runs.
\<close>

subsection \<open>skiperr\<close>

record predicate =
  Description :: string
  Matches :: "goerr \<Rightarrow> bool"

text \<open>A zero \<open>Skipper{}\<close> has no logger; \<open>New\<close> always sets one.\<close>

record skipper =
  predicates :: "predicate list"
  sk_logger :: bool

definition Skipper_New :: "predicate list \<Rightarrow> skipper" where
  "Skipper_New ps = \<lparr>predicates = ps, sk_logger = True\<rparr>"

definition ByErr :: "string \<Rightarrow> string \<Rightarrow> predicate" where
  "ByErr name target = \<lparr>Description = ''Err: ('' @ name @ '')'', Matches = (\<lambda>err. errors_is target err)\<rparr>"

definition ByErrType :: "(goerr \<Rightarrow> bool) \<Rightarrow> string \<Rightarrow> predicate" where
  "ByErrType is_T name =
     \<lparr>Description = ''ErrType: ('' @ name @ '')'', Matches = (\<lambda>err. errors_as is_T err \<noteq> None)\<rparr>"

fun skip_loop :: "bool \<Rightarrow> bytes option \<Rightarrow> goerr \<Rightarrow> predicate list
    \<Rightarrow> ('w henv, bytes option \<times> goerr option) go" where
  "skip_loop logger result err [] = go_ret (result, Some err)"
| "skip_loop logger result err (p # ps) =
     (if Matches p err then
        go_seq (go_when logger (h_log_add \<lparr>log_level = LevelInfo, log_message = ''error skipped'',
            log_attrs = [AErr err, AStr KeyPredicate (Description p)]\<rparr>))
          (go_ret (result, None))
      else skip_loop logger result err ps)"

definition Skipper_Middleware :: "skipper \<Rightarrow> ('d, 'w) middleware" where
  "Skipper_Middleware i nxt c data =
     go_bind (nxt c data) (\<lambda>(result, err).
       (case err of
          None \<Rightarrow> go_ret (result, None)
        | Some e \<Rightarrow> skip_loop (sk_logger i) result e (predicates i)))"

lemma skip_loop_result:
  "\<exists>h'. skip_loop lg r e ps h =
     (Ret (r, if \<exists>p \<in> set ps. Matches p e then None else Some e), h') \<and> h_world h' = h_world h \<and> h_store h' = h_store h"
  by (induction ps) (auto simp: go_defs)

text \<open>
  The skipping middleware changes the handler's verdict only where a predicate matches: the
  error is dropped exactly when some predicate matches it, and the result data, the world and
  the metadata are the handler's own in every case; a panic passes through.
\<close>

theorem skipper_verdict:
  "case nxt c data h of
     (Panic p, h1) \<Rightarrow> Skipper_Middleware i nxt c data h = (Panic p, h1)
   | (Ret (r, err), h1) \<Rightarrow>
       (\<exists>h2. Skipper_Middleware i nxt c data h =
          (Ret (r, case err of None \<Rightarrow> None
             | Some e \<Rightarrow> if list_ex (\<lambda>p. Matches p e) (predicates i) then None else Some e), h2)
        \<and> h_world h2 = h_world h1 \<and> h_store h2 = h_store h1)"
proof -
  obtain x h1 where nx: "nxt c data h = (x, h1)" by fastforce
  show ?thesis
  proof (cases x)
    case (Panic p)
    with nx show ?thesis by (simp add: Skipper_Middleware_def go_bind_def)
  next
    case (Ret y)
    obtain r err where y: "y = (r, err)" by fastforce
    show ?thesis
    proof (cases err)
      case None
      with nx Ret y show ?thesis by (simp add: Skipper_Middleware_def go_bind_def go_ret_def)
    next
      case (Some e)
      with nx Ret y skip_loop_result [of "sk_logger i" r e "predicates i" h1] show ?thesis
        by (auto simp: Skipper_Middleware_def go_bind_def list_ex_iff)
    qed
  qed
qed

subsection \<open>validate\<close>

text \<open>
  \<open>validator.Struct\<close> is the third-party validator: a parameter from the payload to its error.
\<close>

definition validate_New :: "('d \<Rightarrow> goerr option) \<Rightarrow> ('d, 'w) middleware" where
  "validate_New validator nxt c data =
     (case validator data of
        Some err \<Rightarrow> go_ret (None, Some (ValidateError err))
      | None \<Rightarrow> nxt c data)"

fun is_ValidateError :: "goerr \<Rightarrow> bool" where
  "is_ValidateError (ValidateError e) = True"
| "is_ValidateError _ = False"

definition ClientDetail :: "goerr \<Rightarrow> string" where
  "ClientDetail e = (case e of ValidateError orig \<Rightarrow> err_text orig | _ \<Rightarrow> [])"

text \<open>An invalid payload never reaches the handler.\<close>

lemma validate_blocks:
  "validator data = Some err \<Longrightarrow>
     validate_New validator nxt c data h = (Ret (None, Some (ValidateError err)), h)"
  by (simp add: validate_New_def go_ret_def)

lemma validate_passes: "validator data = None \<Longrightarrow> validate_New validator nxt c data = nxt c data"
  by (simp add: validate_New_def fun_eq_iff)

end
