(* ===== verification/Lifecycle.thy ===== *)
theory Lifecycle
  imports Middleware
begin

text \<open>
  \<open>pkg/kit/lifecycle\<close>: the group that starts components in order and stops them in reverse.

  Concurrency is modelled at the grain of the group's lock.  A \<open>Start\<close> call is a thread that
  takes one \<open>start_step\<close> at a time: the locked sections and the calls of a component's \<open>Start\<close>,
  which run without the lock, are separate steps; \<open>Stop\<close> and \<open>Add\<close> hold the lock throughout and
  are one step each.  \<open>gr_trace\<close> is a ghost field: the component calls made, with what they
  returned.
\<close>

subsection \<open>Components and the group\<close>

record 'w component =
  cp_Start :: "ctx \<Rightarrow> ('w, goerr option) go"
  cp_Stop :: "ctx \<Rightarrow> ('w, goerr option) go"

record 'w member =
  mb_name :: string
  mb_c :: "'w component"

datatype component_call = Called_Start nat "goerr option" | Called_Stop nat "goerr option"

record 'w grp =
  gr_shutdownTimeout :: int
  gr_members :: "'w member list"
  gr_started :: bool
  gr_running :: nat
  gr_stopping :: bool
  gr_world :: 'w
  gr_log :: "logrec list"
  gr_trace :: "component_call list"

definition defaultShutdownTimeout :: int where
  "defaultShutdownTimeout = 25 * 10 ^ 9"

definition NewGroup :: "int \<Rightarrow> 'w \<Rightarrow> 'w grp" where
  "NewGroup shutdownTimeout w =
     \<lparr>gr_shutdownTimeout = (if shutdownTimeout \<le> 0 then defaultShutdownTimeout else shutdownTimeout),
      gr_members = [], gr_started = False, gr_running = 0, gr_stopping = False, gr_world = w,
      gr_log = [], gr_trace = []\<rparr>"

definition ErrComponentFailed :: goerr where
  "ErrComponentFailed = Sentinel ''ErrComponentFailed'' ''lifecycle: component failed''"

definition ErrStoppedDuringStart :: goerr where
  "ErrStoppedDuringStart = Sentinel ''ErrStoppedDuringStart'' ''lifecycle: group stopped during start''"

definition KeyComponentName :: string where
  "KeyComponentName = ''lifecycle.component''"

text \<open>A nil component is \<open>None\<close>.\<close>

definition Add :: "string \<Rightarrow> 'w component option \<Rightarrow> ('w grp, unit) go" where
  "Add name c =
     (case c of
        None \<Rightarrow> go_panic ''lifecycle: Add of a nil component''
      | Some c \<Rightarrow>
          if name = [] then go_panic ''lifecycle: Add with an empty name''
          else go_bind (go_get gr_started) (\<lambda>started.
            if started then go_panic ''lifecycle: Add after Start''
            else go_modify (\<lambda>g. g\<lparr>gr_members := gr_members g @ [\<lparr>mb_name = name, mb_c = c\<rparr>]\<rparr>)))"

subsection \<open>Calls of a component\<close>

definition on_gr_world :: "('w, 'a) go \<Rightarrow> ('w grp, 'a) go" where
  "on_gr_world = go_zoom gr_world (\<lambda>w g. g\<lparr>gr_world := w\<rparr>)"

definition gr_debug :: "string \<Rightarrow> string \<Rightarrow> ('w grp, unit) go" where
  "gr_debug msg name = go_modify (\<lambda>g. g\<lparr>gr_log := gr_log g
     @ [\<lparr>log_level = LevelDebug, log_message = msg, log_attrs = [AStr KeyComponentName name]\<rparr>]\<rparr>)"

definition call_Start :: "ctx \<Rightarrow> nat \<Rightarrow> 'w member \<Rightarrow> ('w grp, goerr option) go" where
  "call_Start c i m = go_bind (on_gr_world (cp_Start (mb_c m) c)) (\<lambda>err.
     go_seq (go_modify (\<lambda>g. g\<lparr>gr_trace := gr_trace g @ [Called_Start i err]\<rparr>)) (go_ret err))"

definition call_Stop :: "ctx \<Rightarrow> nat \<Rightarrow> 'w member \<Rightarrow> ('w grp, goerr option) go" where
  "call_Stop c i m = go_bind (on_gr_world (cp_Stop (mb_c m) c)) (\<lambda>err.
     go_seq (go_modify (\<lambda>g. g\<lparr>gr_trace := gr_trace g @ [Called_Stop i err]\<rparr>)) (go_ret err))"

lemmas group_defs [go_defs] = on_gr_world_def gr_debug_def call_Start_def call_Stop_def

subsection \<open>Stop\<close>

text \<open>The loop of \<open>stopLocked\<close> from index \<open>i - 1\<close> down; indexing past the members panics.\<close>

fun stop_loop :: "ctx \<Rightarrow> nat \<Rightarrow> goerr list \<Rightarrow> ('w grp, goerr list) go" where
  "stop_loop c 0 errs = go_ret errs"
| "stop_loop c (Suc i) errs =
     go_bind (go_get gr_members) (\<lambda>ms.
     if i \<ge> length ms then go_panic ''runtime error: index out of range''
     else
       go_bind (call_Stop c i (ms ! i)) (\<lambda>err.
       (case err of
          Some e \<Rightarrow> stop_loop c i (errs @ [wrap_prefix (''lifecycle: stop '' @ mb_name (ms ! i)) e])
        | None \<Rightarrow> go_seq (gr_debug ''component stopped'' (mb_name (ms ! i))) (stop_loop c i errs))))"

definition stopLocked :: "ctx \<Rightarrow> ('w grp, goerr option) go" where
  "stopLocked c =
     go_seq (go_modify (\<lambda>g. g\<lparr>gr_stopping := True\<rparr>))
     (go_bind (go_get gr_running) (\<lambda>n.
      go_bind (stop_loop c n []) (\<lambda>errs.
      go_seq (go_modify (\<lambda>g. g\<lparr>gr_started := False, gr_running := 0\<rparr>))
        (go_ret (errors_Join (map Some errs))))))"

definition Group_Stop :: "ctx \<Rightarrow> ('w grp, goerr option) go" where
  "Group_Stop c = go_bind (go_get gr_started) (\<lambda>started.
     if \<not> started then go_ret None else stopLocked c)"

subsection \<open>Start, one step at a time\<close>

text \<open>
  Where a \<open>Start\<close> call is: at its beginning, about to start member \<open>k\<close> of its copy of the
  members, member \<open>k\<close> having returned, having to stop member \<open>k\<close> because the group was stopped
  meanwhile, or returned.
\<close>

datatype 'w start_pc = SBegin | SCall "'w member list" nat | SReturned "'w member list" nat "goerr option"
  | SUnaccounted "'w member list" nat | SDone "goerr option"

definition abortStart :: "ctx \<Rightarrow> string \<Rightarrow> goerr \<Rightarrow> ('w grp, goerr option) go" where
  "abortStart c name err =
     go_bind (go_get gr_shutdownTimeout) (\<lambda>d.
     go_bind (stopLocked (context_WithTimeout d (WithoutCancel c))) (\<lambda>stopErr.
     go_ret (errors_Join [Some (wrap_prefix (''lifecycle: start '' @ name) err), stopErr])))"

definition stopUnaccounted :: "ctx \<Rightarrow> nat \<Rightarrow> 'w member \<Rightarrow> ('w grp, goerr option) go" where
  "stopUnaccounted c k m =
     (let err = wrap_prefix (''lifecycle: start '' @ mb_name m) ErrStoppedDuringStart in
      go_bind (go_get gr_shutdownTimeout) (\<lambda>d.
      go_bind (call_Stop (context_WithTimeout d (WithoutCancel c)) k m) (\<lambda>stopErr.
      (case stopErr of
         Some se \<Rightarrow> go_ret (errors_Join [Some err, Some (wrap_prefix (''lifecycle: stop '' @ mb_name m) se)])
       | None \<Rightarrow> go_ret (Some err)))))"

fun start_step :: "ctx \<Rightarrow> 'w start_pc \<Rightarrow> ('w grp, 'w start_pc) go" where
  "start_step c SBegin =
     go_bind (go_get (\<lambda>g. g)) (\<lambda>g.
     if gr_started g then go_ret (SDone (Some (errors_new ''lifecycle: already started'')))
     else go_seq (go_modify (\<lambda>g. g\<lparr>gr_started := True, gr_running := 0, gr_stopping := False\<rparr>))
            (go_ret (SCall (gr_members g) 0)))"
| "start_step c (SCall ms k) =
     (if k \<ge> length ms then go_ret (SDone None)
      else go_bind (call_Start c k (ms ! k)) (\<lambda>err. go_ret (SReturned ms k err)))"
| "start_step c (SReturned ms k err) =
     (case err of
        Some e \<Rightarrow> go_bind (abortStart c (mb_name (ms ! k)) e) (\<lambda>r. go_ret (SDone r))
      | None \<Rightarrow>
          go_bind (go_get gr_started) (\<lambda>started.
          if \<not> started then go_ret (SUnaccounted ms k)
          else go_seq (go_modify (\<lambda>g. g\<lparr>gr_running := gr_running g + 1\<rparr>))
            (go_seq (gr_debug ''component started'' (mb_name (ms ! k))) (go_ret (SCall ms (Suc k))))))"
| "start_step c (SUnaccounted ms k) = go_bind (stopUnaccounted c k (ms ! k)) (\<lambda>r. go_ret (SDone r))"
| "start_step c (SDone r) = go_ret (SDone r)"

text \<open>\<open>Start\<close> with nothing else running: steps until it returns.\<close>

fun pc_measure :: "'w start_pc \<Rightarrow> nat" where
  "pc_measure SBegin = 0"
| "pc_measure (SCall ms k) = 2 * (length ms - k) + 2"
| "pc_measure (SReturned ms k err) = 2 * (length ms - k) + 1"
| "pc_measure (SUnaccounted ms k) = 1"
| "pc_measure (SDone r) = 0"

fun start_steps :: "nat \<Rightarrow> ctx \<Rightarrow> 'w start_pc \<Rightarrow> ('w grp, 'w start_pc) go" where
  "start_steps 0 c pc = go_ret pc"
| "start_steps (Suc n) c pc = go_bind (start_step c pc) (start_steps n c)"

definition Group_Start :: "ctx \<Rightarrow> ('w grp, goerr option) go" where
  "Group_Start c = go_bind (go_get gr_members) (\<lambda>ms.
     go_bind (start_steps (2 * length ms + 3) c SBegin) (\<lambda>pc.
     go_ret (case pc of SDone r \<Rightarrow> r | _ \<Rightarrow> None)))"

subsection \<open>Failure reports and Run\<close>

text \<open>
  The closure handed to a component: \<open>reported\<close> is the \<open>once\<close> of this \<open>Start\<close> call; the result
  is what \<open>onFatal\<close> is called with, if it is.
\<close>

definition report :: "bool \<Rightarrow> bool \<Rightarrow> string \<Rightarrow> goerr \<Rightarrow> bool \<times> goerr option" where
  "report stopping reported name err =
     (if stopping \<or> reported then (reported, None)
      else (True, Some (Errorf (err_text ErrComponentFailed @ '': '' @ name @ '': '' @ err_text err)
              [ErrComponentFailed, err])))"

text \<open>
  \<open>run\<close>: \<open>fatal\<close> reads the first failure recorded by \<open>onFatal\<close>; \<open>await\<close> stands for the wait (it
  ends by a signal, by \<open>ctx\<close> or by the first failure) and reads it again; \<open>ctxErr\<close> says whether
  \<open>ctx.Err()\<close> is set after Start returned.
\<close>

definition Group_run :: "ctx \<Rightarrow> ('w, goerr option) go \<Rightarrow> ('w, goerr option) go \<Rightarrow> bool
    \<Rightarrow> ('w grp, goerr option) go" where
  "Group_run c fatal await ctxErr =
     go_bind (Group_Start c) (\<lambda>startErr.
     go_bind (on_gr_world fatal) (\<lambda>f.
     (case (startErr, f) of
        (Some e, Some f) \<Rightarrow> go_ret (errors_Join [Some f, Some e])
      | (Some e, None) \<Rightarrow> if ctxErr then go_ret None else go_ret (Some e)
      | (None, _) \<Rightarrow>
          go_bind (on_gr_world await) (\<lambda>f.
          go_bind (go_get gr_shutdownTimeout) (\<lambda>d.
          go_bind (Group_Stop (context_WithTimeout d (WithoutCancel c))) (\<lambda>stopErr.
          (case f of Some f \<Rightarrow> go_ret (errors_Join [Some f, stopErr]) | None \<Rightarrow> go_ret stopErr)))))))"

subsection \<open>Closer\<close>

text \<open>
  \<open>cl_ran\<close> is the \<open>once\<close>; \<open>expired\<close> says that \<open>ctx.Done()\<close> fires before \<open>fn\<close> returns (\<open>fn\<close> then
  still runs to its end, unobserved).
\<close>

record 'w closer =
  cl_ran :: bool
  cl_world :: 'w

definition Closer :: "'w \<Rightarrow> 'w closer" where
  "Closer w = \<lparr>cl_ran = False, cl_world = w\<rparr>"

definition closer_Start :: "('w closer, goerr option) go" where
  "closer_Start = go_ret None"

definition closer_Stop :: "('w, goerr option) go \<Rightarrow> goerr option \<Rightarrow> ('w closer, goerr option) go" where
  "closer_Stop fn expired =
     go_bind (go_get cl_ran) (\<lambda>ran.
     if ran then go_ret None
     else go_seq (go_modify (\<lambda>s. s\<lparr>cl_ran := True\<rparr>))
       (go_bind (go_zoom cl_world (\<lambda>w s. s\<lparr>cl_world := w\<rparr>) fn) (\<lambda>err.
        (case expired of None \<Rightarrow> go_ret err | Some e \<Rightarrow> go_ret (Some (wrap_prefix ''lifecycle: close'' e))))))"

end
