(* ===== verification/LifecycleProofs.thy ===== *)
theory LifecycleProofs
  imports Lifecycle "HOL-Library.Sublist"
begin

text \<open>
  The group: starting is all or nothing, no component leaks under any interleaving of one
  \<open>Start\<close> with \<open>Stop\<close> and \<open>Add\<close>, and what two overlapping \<open>Start\<close> calls can do.
\<close>

subsection \<open>Starts that succeeded minus stops, per component\<close>

fun call_weight :: "nat \<Rightarrow> component_call \<Rightarrow> int" where
  "call_weight i (Called_Start j err) = of_bool (j = i \<and> err = None)"
| "call_weight i (Called_Stop j err) = - of_bool (j = i)"

definition balance :: "component_call list \<Rightarrow> nat \<Rightarrow> int" where
  "balance tr i = sum_list (map (call_weight i) tr)"

lemma balance_simps [simp]:
  "balance [] i = 0" "balance (xs @ ys) i = balance xs i + balance ys i"
  "balance [x] i = call_weight i x"
  by (simp_all add: balance_def)

subsection \<open>stopLocked\<close>

lemma stop_loop_spec:
  assumes "stop_loop c n errs g = (Ret errs', g')"
  shows "n \<le> length (gr_members g) \<and> gr_members g' = gr_members g \<and> gr_started g' = gr_started g
    \<and> gr_running g' = gr_running g \<and> gr_stopping g' = gr_stopping g
    \<and> (\<exists>es. length es = n \<and> gr_trace g' = gr_trace g @ map2 Called_Stop (rev [0..<n]) es)"
  using assms
proof (induction n arbitrary: errs g)
  case 0
  then show ?case by (simp add: go_defs)
next
  case (Suc i)
  from Suc.prems have i: "i < length (gr_members g)"
    by (auto simp: go_defs split: if_splits)
  from Suc.prems i obtain err w errs1 g1 where
    "cp_Stop (mb_c (gr_members g ! i)) c (gr_world g) = (Ret err, w)"
    and rest: "stop_loop c i errs1 g1 = (Ret errs', g')"
    and g1: "gr_members g1 = gr_members g" "gr_started g1 = gr_started g" "gr_running g1 = gr_running g"
      "gr_stopping g1 = gr_stopping g" "gr_trace g1 = gr_trace g @ [Called_Stop i err]"
    by (auto simp: go_defs split: prod.splits res.splits option.splits)
  from Suc.IH [OF rest] obtain es where "length es = i" "gr_trace g' = gr_trace g1 @ map2 Called_Stop (rev [0..<i]) es"
    by blast
  with Suc.IH [OF rest] g1 i show ?case
    by (auto intro!: exI [of _ "err # es"])
qed

lemma balance_stops:
  "length es = n \<Longrightarrow> balance (map2 Called_Stop (rev [0..<n]) es) i = - of_bool (i < n)"
proof (induction n arbitrary: es)
  case (Suc n)
  then obtain e es' where "es = e # es'" "length es' = n" by (cases es) auto
  with Suc.IH [of es'] show ?case by (auto simp: balance_def)
qed simp

lemma stopLocked_spec:
  assumes "stopLocked c g = (Ret r, g')"
  shows "gr_running g \<le> length (gr_members g) \<and> gr_members g' = gr_members g \<and> \<not> gr_started g'
    \<and> gr_running g' = 0 \<and> gr_stopping g'
    \<and> (\<exists>es. length es = gr_running g \<and> gr_trace g' = gr_trace g @ map2 Called_Stop (rev [0..<gr_running g]) es)"
proof -
  from assms obtain errs g1 where "stop_loop c (gr_running g) [] (g\<lparr>gr_stopping := True\<rparr>) = (Ret errs, g1)"
    and "g' = g1\<lparr>gr_started := False, gr_running := 0\<rparr>"
    by (auto simp: stopLocked_def go_defs split: prod.splits res.splits)
  with stop_loop_spec [OF this(1)] show ?thesis by auto
qed

lemma stopLocked_balance:
  "stopLocked c g = (Ret r, g') \<Longrightarrow>
     balance (gr_trace g') i = balance (gr_trace g) i - of_bool (i < gr_running g)"
  using stopLocked_spec [of c g r g'] by (auto simp: balance_stops)

subsection \<open>Interleavings\<close>

datatype 'w act = AStep nat | AStop | AAdd string "'w component option"

text \<open>One action of the group and its Start threads; a panic ends the program.\<close>

fun act_step :: "ctx \<Rightarrow> 'w act \<Rightarrow> 'w grp \<times> 'w start_pc list \<Rightarrow> ('w grp \<times> 'w start_pc list) res" where
  "act_step c (AStep i) (g, pcs) =
     (if i \<ge> length pcs then Ret (g, pcs)
      else (case start_step c (pcs ! i) g of
         (Ret pc, g') \<Rightarrow> Ret (g', pcs[i := pc]) | (Panic p, g') \<Rightarrow> Panic p))"
| "act_step c AStop (g, pcs) = (case Group_Stop c g of (Ret r, g') \<Rightarrow> Ret (g', pcs) | (Panic p, g') \<Rightarrow> Panic p)"
| "act_step c (AAdd n cp) (g, pcs) = (case Add n cp g of (Ret u, g') \<Rightarrow> Ret (g', pcs) | (Panic p, g') \<Rightarrow> Panic p)"

inductive reach :: "ctx \<Rightarrow> 'w grp \<times> 'w start_pc list \<Rightarrow> 'w grp \<times> 'w start_pc list \<Rightarrow> bool" for c s0 where
  init: "reach c s0 s0"
| act: "reach c s0 s \<Longrightarrow> act_step c a s = Ret s' \<Longrightarrow> reach c s0 s'"

fun run_acts :: "ctx \<Rightarrow> 'w act list \<Rightarrow> 'w grp \<times> 'w start_pc list \<Rightarrow> ('w grp \<times> 'w start_pc list) res" where
  "run_acts c [] s = Ret s"
| "run_acts c (a # as) s = (case act_step c a s of Ret s' \<Rightarrow> run_acts c as s' | Panic p \<Rightarrow> Panic p)"

lemma run_acts_reach: "reach c s0 s \<Longrightarrow> run_acts c as s = Ret s' \<Longrightarrow> reach c s0 s'"
  by (induction as arbitrary: s) (auto split: res.splits intro: reach.act)

text \<open>
  The invariant of a group with one \<open>Start\<close> call: which components are up, at every point of
  that call.
\<close>

definition up_is :: "'w grp \<Rightarrow> (nat \<Rightarrow> bool) \<Rightarrow> bool" where
  "up_is g P \<longleftrightarrow> (\<forall>i. balance (gr_trace g) i = of_bool (P i))"

fun starter_inv :: "'w grp \<Rightarrow> 'w start_pc \<Rightarrow> bool" where
  "starter_inv g SBegin = (\<not> gr_started g \<and> gr_running g = 0 \<and> up_is g (\<lambda>i. False))"
| "starter_inv g (SCall ms k) =
     (k \<le> length ms \<and> prefix ms (gr_members g) \<and>
      (if gr_started g then gr_running g = k \<and> up_is g (\<lambda>i. i < k)
       else gr_running g = 0 \<and> up_is g (\<lambda>i. False)))"
| "starter_inv g (SReturned ms k err) =
     (k < length ms \<and> prefix ms (gr_members g) \<and>
      (if gr_started g then gr_running g = k \<and> up_is g (\<lambda>i. i < k \<or> i = k \<and> err = None)
       else gr_running g = 0 \<and> up_is g (\<lambda>i. i = k \<and> err = None)))"
| "starter_inv g (SUnaccounted ms k) =
     (k < length ms \<and> prefix ms (gr_members g) \<and> \<not> gr_started g \<and> gr_running g = 0 \<and> up_is g (\<lambda>i. i = k))"
| "starter_inv g (SDone r) =
     (gr_running g \<le> length (gr_members g) \<and> (\<not> gr_started g \<longrightarrow> gr_running g = 0) \<and> up_is g (\<lambda>i. i < gr_running g))"

lemma prefix_snoc: "prefix ms xs \<Longrightarrow> prefix ms (xs @ [x])"
  by (auto simp: prefix_def)

lemma less_Suc_or: "(i < Suc k) = (i < k \<or> i = k)"
  by auto

lemma start_step_inv:
  assumes "starter_inv g pc" and "start_step c pc g = (Ret pc', g')"
  shows "starter_inv g' pc'"
proof (cases pc)
  case SBegin
  with assms show ?thesis by (auto simp: go_defs up_is_def split: if_splits)
next
  case (SCall ms k)
  show ?thesis
  proof (cases "k \<ge> length ms")
    case True
    with assms SCall show ?thesis
      by (auto simp: go_defs dest: prefix_length_le split: if_splits)
  next
    case False
    with assms SCall show ?thesis
      by (auto simp: go_defs up_is_def split: prod.splits res.splits if_splits)
  qed
next
  case (SReturned ms k err)
  show ?thesis
  proof (cases err)
    case None
    with assms SReturned show ?thesis
      by (auto simp: go_defs up_is_def less_Suc_or split: if_splits)
  next
    case (Some e)
    with assms SReturned obtain r where r: "stopLocked (context_WithTimeout (gr_shutdownTimeout g) (WithoutCancel c)) g = (Ret r, g')" and pc': "\<exists>r. pc' = SDone r"
      by (auto simp: abortStart_def go_defs split: prod.splits res.splits)
    from stopLocked_spec [OF r] stopLocked_balance [OF r] assms(1) SReturned Some pc' show ?thesis
      by (auto simp: up_is_def split: if_splits)
  qed
next
  case (SUnaccounted ms k)
  with assms show ?thesis
    by (auto simp: stopUnaccounted_def go_defs up_is_def Let_def split: prod.splits res.splits option.splits)
next
  case (SDone r)
  with assms show ?thesis by (auto simp: go_defs)
qed

lemma Group_Stop_inv:
  assumes "starter_inv g pc" and "Group_Stop c g = (Ret r, g')"
  shows "starter_inv g' pc"
proof (cases "gr_started g")
  case False
  with assms show ?thesis by (simp add: Group_Stop_def go_defs)
next
  case True
  with assms(2) have stop: "stopLocked c g = (Ret r, g')" by (simp add: Group_Stop_def go_defs)
  from stopLocked_spec [OF stop] stopLocked_balance [OF stop] assms(1) True show ?thesis
    by (cases pc) (auto simp: up_is_def)
qed

lemma Add_inv:
  assumes "starter_inv g pc" and "Add n cp g = (Ret u, g')"
  shows "starter_inv g' pc"
  using assms
  by (cases pc) (auto simp: Add_def go_defs up_is_def prefix_snoc split: option.splits if_splits)

definition fresh_group :: "'w grp \<Rightarrow> bool" where
  "fresh_group g \<longleftrightarrow> \<not> gr_started g \<and> gr_running g = 0 \<and> gr_trace g = []"

lemma reach_starter_inv:
  assumes "reach c (g0, [SBegin]) s" and "fresh_group g0"
  shows "\<exists>g pc. s = (g, [pc]) \<and> starter_inv g pc"
  using assms(1)
proof (induction rule: reach.induct)
  case init
  from assms(2) show ?case by (simp add: fresh_group_def up_is_def)
next
  case (act s a s')
  then obtain g pc where s: "s = (g, [pc])" and "starter_inv g pc" by blast
  with act.hyps(2) show ?case
    by (cases a) (auto simp: Suc_le_eq split: prod.splits res.splits if_splits
      dest: start_step_inv Group_Stop_inv Add_inv)
qed

text \<open>
  C15. No component leaks, whatever the interleaving of one \<open>Start\<close> with any number of \<open>Stop\<close> and
  \<open>Add\<close> calls, and whatever components return: once \<open>Start\<close> has returned, a component is up
  (started and not yet stopped, each exactly once) if and only if it is one of the first
  \<open>running\<close> members, which are the ones the next \<open>Stop\<close> walks back; after a \<open>Stop\<close> none is up.
\<close>

theorem group_leaks_no_component:
  assumes "fresh_group g0" and "reach c (g0, [SBegin]) (g, [SDone r])"
  shows "gr_running g \<le> length (gr_members g) \<and> (\<not> gr_started g \<longrightarrow> gr_running g = 0)
    \<and> (\<forall>i. balance (gr_trace g) i = of_bool (i < gr_running g))
    \<and> (\<forall>c' r' g'. Group_Stop c' g = (Ret r', g') \<longrightarrow> \<not> gr_started g' \<and> (\<forall>i. balance (gr_trace g') i = 0))"
proof -
  from reach_starter_inv [OF assms(2,1)]
  have "starter_inv g (SDone r)" by simp
  moreover have "\<not> gr_started g' \<and> gr_running g' = 0" if "Group_Stop c' g = (Ret r', g')" "starter_inv g (SDone r)"
    for c' r' g'
    using that stopLocked_spec [of c' g r' g'] by (cases "gr_started g") (auto simp: Group_Stop_def go_defs)
  moreover have "starter_inv g' (SDone r)" if "Group_Stop c' g = (Ret r', g')" "starter_inv g (SDone r)" for c' r' g'
    using Group_Stop_inv [OF that(2,1)] .
  ultimately show ?thesis by (fastforce simp: up_is_def)
qed

text \<open>A component and a group for the witnesses: the world counts calls.\<close>

definition counting_component :: "nat component" where
  "counting_component = \<lparr>cp_Start = (\<lambda>c w. (Ret None, Suc w)), cp_Stop = (\<lambda>c w. (Ret None, Suc w))\<rparr>"

definition failing_component :: "nat component" where
  "failing_component = counting_component\<lparr>cp_Start := (\<lambda>c w. (Ret (Some (errors_new ''boom'')), Suc w))\<rparr>"

definition group_of :: "nat component list \<Rightarrow> nat grp" where
  "group_of cs = (NewGroup 0 0)\<lparr>gr_members := map (\<lambda>cp. \<lparr>mb_name = ''m'', mb_c = cp\<rparr>) cs\<rparr>"

lemma fresh_group_of [simp]: "fresh_group (group_of cs)"
  by (simp add: fresh_group_def group_of_def NewGroup_def)

theorem group_leaks_no_component_witness:
  "\<exists>g r. run_acts Background [AStep 0, AStep 0, AStep 0, AStop, AStep 0, AStep 0, AStep 0]
       (group_of [counting_component, counting_component], [SBegin]) = Ret (g, [SDone r])
     \<and> gr_running g = 0 \<and> (\<forall>i. balance (gr_trace g) i = 0)"
proof -
  let ?s0 = "(group_of [counting_component, counting_component], [SBegin])"
  let ?acts = "[AStep 0, AStep 0, AStep 0, AStop, AStep 0, AStep 0, AStep 0]"
  obtain g r where run: "run_acts Background ?acts ?s0 = Ret (g, [SDone r])" "\<not> gr_started g"
    by (simp add: group_of_def NewGroup_def counting_component_def go_defs Group_Stop_def stopLocked_def
        stopUnaccounted_def Let_def eval_nat_numeral)
  from run_acts_reach [OF reach.init run(1)]
  have "reach Background ?s0 (g, [SDone r])" .
  from group_leaks_no_component [OF fresh_group_of this] run show ?thesis by auto
qed

text \<open>
  C25. Two overlapping \<open>Start\<close> calls with a \<open>Stop\<close> in between defeat the accounting: the first one
  finds the group started again (by the second) and counts its component for it, so the second
  starts it twice and \<open>running\<close> exceeds the number of members; the next \<open>Stop\<close> indexes past the
  members and panics.
\<close>

theorem restart_during_start_breaks_stop:
  "\<exists>g r1 r2. reach Background (group_of [counting_component], [SBegin, SBegin]) (g, [SDone r1, SDone r2])
     \<and> r1 = None \<and> r2 = None \<and> gr_running g = 2 \<and> length (gr_members g) = 1
     \<and> act_step Background AStop (g, [SDone r1, SDone r2]) = Panic ''runtime error: index out of range''"
proof -
  let ?s0 = "(group_of [counting_component], [SBegin, SBegin])"
  let ?acts = "[AStep 0, AStep 0, AStop, AStep 1, AStep 0, AStep 0, AStep 1, AStep 1, AStep 1]"
  obtain g where "run_acts Background ?acts ?s0 = Ret (g, [SDone None, SDone None])"
    and "gr_running g = 2 \<and> length (gr_members g) = 1
     \<and> act_step Background AStop (g, [SDone None, SDone None]) = Panic ''runtime error: index out of range''"
    by (simp add: group_of_def NewGroup_def counting_component_def go_defs Group_Stop_def stopLocked_def
        Let_def eval_nat_numeral)
  with run_acts_reach [OF reach.init] show ?thesis by blast
qed

subsection \<open>Start alone\<close>

text \<open>From member \<open>k\<close> on, with nothing interfering.\<close>

definition starts_ok :: "nat \<Rightarrow> component_call list" where
  "starts_ok n = map (\<lambda>i. Called_Start i None) [0..<n]"

lemma starts_ok_Suc [simp]: "starts_ok (Suc n) = starts_ok n @ [Called_Start n None]" "starts_ok 0 = []"
  by (simp_all add: starts_ok_def)

definition started_all :: "'w grp \<Rightarrow> nat \<Rightarrow> bool" where
  "started_all g n \<longleftrightarrow> gr_started g \<and> gr_running g = n \<and> gr_trace g = starts_ok n"

definition rolled_back :: "'w grp \<Rightarrow> nat \<Rightarrow> bool" where
  "rolled_back g n \<longleftrightarrow> \<not> gr_started g \<and> gr_running g = 0 \<and>
     (\<exists>k e es. k < n \<and> length es = k
        \<and> gr_trace g = starts_ok k @ [Called_Start k (Some e)] @ map2 Called_Stop (rev [0..<k]) es)"

lemma start_steps_done: "start_steps n c (SDone r) g = (Ret (SDone r), g)"
  by (induction n) (simp_all add: go_defs)

lemma start_steps_from:
  assumes "k \<le> length ms" and "gr_members g = ms" and "started_all g k"
    and "start_steps (2 * (length ms - k) + m + 1) c (SCall ms k) g = (Ret pc, g')"
  shows "\<exists>r. pc = SDone r \<and> (if r = None then started_all g' (length ms) else rolled_back g' (length ms))"
  using assms
proof (induction "length ms - k" arbitrary: k g)
  case 0
  then have "pc = SDone None" "g' = g" "k = length ms"
    by (simp_all add: go_bind_def go_ret_def start_steps_done)
  with 0 show ?case by simp
next
  case (Suc n)
  then have k: "k < length ms" and fuel: "2 * (length ms - k) + m + 1 = Suc (Suc (2 * (length ms - Suc k) + m + 1))"
    by simp_all
  obtain err w where call: "cp_Start (mb_c (ms ! k)) c (gr_world g) = (Ret err, w)"
    using Suc.prems(4) k unfolding fuel by (auto simp: go_defs split: prod.splits res.splits)
  define g1 where "g1 = g\<lparr>gr_world := w, gr_trace := gr_trace g @ [Called_Start k err]\<rparr>"
  have step: "start_steps (Suc (2 * (length ms - Suc k) + m + 1)) c (SReturned ms k err) g1 = (Ret pc, g')"
    using Suc.prems(4) k call unfolding fuel by (simp add: go_defs g1_def)
  show ?case
  proof (cases err)
    case None
    define g2 where "g2 = g1\<lparr>gr_running := gr_running g1 + 1, gr_log := gr_log g1
      @ [\<lparr>log_level = LevelDebug, log_message = ''component started'', log_attrs = [AStr KeyComponentName (mb_name (ms ! k))]\<rparr>]\<rparr>"
    have "gr_started g1" using Suc.prems(3) by (simp add: g1_def started_all_def)
    with step None have "start_steps (2 * (length ms - Suc k) + m + 1) c (SCall ms (Suc k)) g2 = (Ret pc, g')"
      by (simp add: go_defs g2_def)
    moreover have "started_all g2 (Suc k)" "gr_members g2 = ms"
      using Suc.prems(2,3) None by (simp_all add: started_all_def g1_def g2_def)
    ultimately show ?thesis
      using Suc.hyps(1) [of "Suc k" g2] Suc.hyps(2) k by simp
  next
    case (Some e)
    from step Some obtain r1 g2 where stop: "stopLocked (context_WithTimeout (gr_shutdownTimeout g1) (WithoutCancel c)) g1 = (Ret r1, g2)"
      by (auto simp: abortStart_def go_defs split: prod.splits res.splits)
    with step Some have pc: "pc = SDone (errors_Join [Some (wrap_prefix (''lifecycle: start '' @ mb_name (ms ! k)) e), r1])"
      and g': "g' = g2"
      by (simp_all add: abortStart_def go_bind_def go_get_def go_ret_def start_steps_done)
    obtain j where "errors_Join [Some (wrap_prefix (''lifecycle: start '' @ mb_name (ms ! k)) e), r1] = Some j"
      using errors_Join_None_iff by (metis list.set_intros(1) not_Some_eq option.distinct(1))
    moreover have "rolled_back g2 (length ms)"
      using stopLocked_spec [OF stop] Suc.prems(3) k Some
      by (auto simp: rolled_back_def started_all_def g1_def)
    ultimately show ?thesis using pc g' by simp
  qed
qed

lemma start_steps_inv:
  "starter_inv g pc \<Longrightarrow> start_steps n c pc g = (Ret pc', g') \<Longrightarrow> starter_inv g' pc'"
  by (induction n arbitrary: pc g) (auto simp: go_ret_def go_bind_def dest: start_step_inv split: prod.splits res.splits)

lemma Group_Start_outcome:
  assumes "fresh_group g" and "Group_Start c g = (Ret r, g')"
  shows "(if r = None then started_all g' (length (gr_members g)) else rolled_back g' (length (gr_members g)))
    \<and> starter_inv g' (SDone r)"
proof -
  define g1 where "g1 = g\<lparr>gr_started := True, gr_running := 0, gr_stopping := False\<rparr>"
  let ?ms = "gr_members g"
  have fuel: "2 * length ?ms + 3 = Suc (2 * (length ?ms - 0) + 1 + 1)" by simp
  have first: "start_step c SBegin g = (Ret (SCall ?ms 0), g1)"
    using assms(1) by (simp add: fresh_group_def g1_def go_defs)
  have enter: "start_steps (2 * length ?ms + 3) c SBegin g = start_steps (2 * (length ?ms - 0) + 1 + 1) c (SCall ?ms 0) g1"
    unfolding fuel start_steps.simps(2) go_bind_def first by simp
  obtain pc where steps: "start_steps (2 * (length ?ms - 0) + 1 + 1) c (SCall ?ms 0) g1 = (Ret pc, g')"
    and r: "r = (case pc of SDone r \<Rightarrow> r | _ \<Rightarrow> None)"
    using assms(2) unfolding Group_Start_def go_bind_def go_get_def
    by (simp add: enter go_ret_def split: prod.splits res.splits)
  have "started_all g1 0" "gr_members g1 = ?ms"
    using assms(1) by (simp_all add: started_all_def g1_def fresh_group_def)
  from start_steps_from [OF _ this(2,1) steps] obtain r' where pc: "pc = SDone r'"
    and out: "if r' = None then started_all g' (length ?ms) else rolled_back g' (length ?ms)" by auto
  have "starter_inv g SBegin" using assms(1) by (simp add: fresh_group_def up_is_def)
  from start_steps_inv [OF this, of "2 * length ?ms + 3" c pc g'] steps have "starter_inv g' pc"
    by (simp only: enter)
  with out r show ?thesis by (simp add: pc)
qed

text \<open>
  C17. \<open>Start\<close> is all or nothing: it returns nil only after every component was started, in the
  order of \<open>Add\<close>; when one fails, exactly the ones started before it are stopped, in reverse
  order, and the group is not started; it never stops half way (the fuel of the model suffices).
\<close>

theorem group_start_all_or_nothing:
  assumes "fresh_group g" and "Group_Start c g = (Ret r, g')"
  shows "if r = None then started_all g' (length (gr_members g)) else rolled_back g' (length (gr_members g))"
  using Group_Start_outcome [OF assms] by blast

theorem group_start_all_or_nothing_witness:
  "\<exists>r g'. Group_Start Background (group_of [counting_component, failing_component]) = (Ret r, g')
     \<and> r \<noteq> None \<and> rolled_back g' 2"
proof -
  obtain r g' where run: "Group_Start Background (group_of [counting_component, failing_component]) = (Ret r, g')"
    and "r \<noteq> None"
    by (simp add: Group_Start_def group_of_def NewGroup_def counting_component_def failing_component_def go_defs
        abortStart_def stopLocked_def eval_nat_numeral errors_Join_def List.map_filter_def)
  with group_start_all_or_nothing [OF fresh_group_of run] show ?thesis
    by (auto simp: group_of_def numeral_2_eq_2)
qed

subsection \<open>Run\<close>

lemma starter_inv_down: "starter_inv g (SDone r) \<Longrightarrow> \<not> gr_started g \<Longrightarrow> gr_running g = 0 \<and> (\<forall>i. balance (gr_trace g) i = 0)"
  by (simp add: up_is_def)

lemma Group_Stop_down:
  assumes "starter_inv g (SDone r)" and "Group_Stop c g = (Ret r', g')"
  shows "\<not> gr_started g' \<and> gr_running g' = 0 \<and> (\<forall>i. balance (gr_trace g') i = 0)"
proof -
  have "\<not> gr_started g'"
    using assms(2) stopLocked_spec [of c g r' g'] by (cases "gr_started g") (auto simp: Group_Stop_def go_defs)
  with starter_inv_down [OF Group_Stop_inv [OF assms]] show ?thesis by blast
qed

lemma on_gr_world_effect: "on_gr_world f g = (r, g') \<Longrightarrow> \<exists>w. g' = g\<lparr>gr_world := w\<rparr>"
  by (auto simp: on_gr_world_def go_zoom_def split: prod.splits)

lemma starter_inv_world: "starter_inv g (SDone r) \<Longrightarrow> starter_inv (g\<lparr>gr_world := w\<rparr>) (SDone r)"
  by (simp add: up_is_def)

lemma Group_run_down:
  assumes "fresh_group g" and "Group_run c fatal await ctxErr g = (Ret r, g')"
  shows "\<not> gr_started g' \<and> gr_running g' = 0 \<and> (\<forall>i. balance (gr_trace g') i = 0)
    \<and> (r = None \<and> \<not> ctxErr \<longrightarrow> (\<exists>g1. Group_Start c g = (Ret None, g1) \<and> started_all g1 (length (gr_members g))))"
proof -
  obtain e g1 where start: "Group_Start c g = (Ret e, g1)"
    using assms(2) by (auto simp: Group_run_def go_bind_def split: prod.splits res.splits)
  obtain f g2 where fatal: "on_gr_world fatal g1 = (Ret f, g2)"
    using assms(2) start by (auto simp: Group_run_def go_bind_def split: prod.splits res.splits)
  obtain w where g2: "g2 = g1\<lparr>gr_world := w\<rparr>" using on_gr_world_effect [OF fatal] ..
  from Group_Start_outcome [OF assms(1) start]
  have out: "if e = None then started_all g1 (length (gr_members g)) else rolled_back g1 (length (gr_members g))"
    and "starter_inv g1 (SDone e)" by blast+
  then have inv: "starter_inv g2 (SDone e)" unfolding g2 by (intro starter_inv_world)
  have same: "gr_started g2 = gr_started g1" by (simp add: g2)
  show ?thesis
  proof (cases e)
    case (Some x)
    with out same have "\<not> gr_started g2" by (simp add: rolled_back_def)
    moreover have "g' = g2" and "r = None \<Longrightarrow> ctxErr"
      using assms(2) start fatal Some errors_Join_None_iff [of "[f, Some x]"]
      by (auto simp: Group_run_def go_bind_def go_ret_def split: option.splits if_splits)
    ultimately show ?thesis using starter_inv_down [OF inv] by auto
  next
    case None
    obtain f' g3 where await: "on_gr_world await g2 = (Ret f', g3)"
      using assms(2) start fatal None by (auto simp: Group_run_def go_bind_def split: prod.splits res.splits)
    then have inv3: "starter_inv g3 (SDone e)" using on_gr_world_effect starter_inv_world [OF inv] by blast
    obtain c' s where "Group_Stop c' g3 = (Ret s, g')"
      using assms(2) start fatal None await
      by (auto simp: Group_run_def go_bind_def go_get_def go_ret_def split: prod.splits res.splits option.splits)
    from Group_Stop_down [OF inv3 this] start out None show ?thesis by auto
  qed
qed

text \<open>
  C18. When \<open>run\<close> returns, nothing is up: every component it started was stopped exactly once, whether
  the start failed, a component failed later or a shutdown was asked for.  A failed start is
  swallowed only when the context had ended; otherwise \<open>nil\<close> means that every component started.
\<close>

theorem run_leaves_nothing_up:
  assumes "fresh_group g" and "Group_run c fatal await ctxErr g = (Ret r, g')"
  shows "\<not> gr_started g' \<and> gr_running g' = 0 \<and> (\<forall>i. balance (gr_trace g') i = 0)
    \<and> (r = None \<and> \<not> ctxErr \<longrightarrow> (\<exists>g1. Group_Start c g = (Ret None, g1) \<and> started_all g1 (length (gr_members g))))"
  by (rule Group_run_down [OF assms])

theorem run_leaves_nothing_up_witness:
  "\<exists>r g'. Group_run Background (go_ret None) (go_ret (Some ErrComponentFailed)) False
       (group_of [counting_component, counting_component]) = (Ret r, g')
     \<and> r \<noteq> None \<and> gr_running g' = 0 \<and> (\<forall>i. balance (gr_trace g') i = 0)"
proof -
  obtain r g' where run: "Group_run Background (go_ret None) (go_ret (Some ErrComponentFailed)) False
       (group_of [counting_component, counting_component]) = (Ret r, g')" and "r \<noteq> None"
    by (simp add: Group_run_def Group_Start_def group_of_def NewGroup_def counting_component_def go_defs Group_Stop_def
        stopLocked_def eval_nat_numeral errors_Join_def List.map_filter_def)
  with run_leaves_nothing_up [OF fresh_group_of run] show ?thesis by blast
qed

subsection \<open>Termination\<close>

text \<open>How many steps a \<open>Start\<close> thread may still take while the group has at most \<open>N\<close> members.\<close>

fun steps_left :: "nat \<Rightarrow> 'w start_pc \<Rightarrow> nat" where
  "steps_left N SBegin = 2 * N + 3"
| "steps_left N pc = pc_measure pc"

fun pc_ok :: "'w start_pc \<Rightarrow> bool" where
  "pc_ok (SReturned ms k err) = (k < length ms)"
| "pc_ok pc = True"

lemma steps_left_0: "steps_left N pc = 0 \<Longrightarrow> \<exists>r. pc = SDone r"
  by (cases pc) simp_all

lemma start_step_members: "start_step c pc g = (Ret pc', g') \<Longrightarrow> gr_members g' = gr_members g"
  by (cases pc)
    (auto simp: go_defs abortStart_def stopUnaccounted_def Let_def dest!: stopLocked_spec
      split: prod.splits res.splits option.splits if_splits)

lemma start_step_decreases:
  assumes "start_step c pc g = (Ret pc', g')" and "pc_ok pc" and "length (gr_members g) \<le> N"
  shows "pc_ok pc' \<and> steps_left N pc' \<le> steps_left N pc - 1"
  using assms
  by (cases pc)
    (auto simp: go_defs abortStart_def stopUnaccounted_def Let_def split: prod.splits res.splits option.splits if_splits)

lemma act_step_members:
  assumes "act_step c a (g, pcs) = Ret (g', pcs')"
  shows "length (gr_members g) \<le> length (gr_members g') \<and> length pcs' = length pcs"
proof (cases a)
  case (AStep i)
  with assms show ?thesis by (auto dest: start_step_members split: prod.splits res.splits if_splits)
next
  case AStop
  with assms show ?thesis by (auto simp: Group_Stop_def go_defs dest!: stopLocked_spec split: prod.splits res.splits if_splits)
next
  case (AAdd n cp)
  with assms show ?thesis by (auto simp: Add_def go_defs split: prod.splits res.splits option.splits if_splits)
qed

lemma act_step_left:
  assumes "act_step c a (g, pcs) = Ret (g', pcs')" and "list_all pc_ok pcs" and "length (gr_members g) \<le> N" and "i < length pcs"
  shows "list_all pc_ok pcs' \<and> steps_left N (pcs' ! i) \<le> steps_left N (pcs ! i) - of_bool (a = AStep i)"
proof (cases a)
  case (AStep j)
  show ?thesis
  proof (cases "j < length pcs")
    case True
    with AStep assms(1) obtain pc where step: "start_step c (pcs ! j) g = (Ret pc, g')" and pcs': "pcs' = pcs[j := pc]"
      by (auto split: prod.splits res.splits)
    have "pc_ok (pcs ! j)" using assms(2) True by (simp add: list_all_length)
    from start_step_decreases [OF step this assms(3)] assms(2,4) AStep True show ?thesis
      by (auto simp: pcs' list_all_length nth_list_update)
  qed (use AStep assms in auto)
qed (use assms in \<open>auto split: prod.splits res.splits\<close>)

lemma run_acts_left:
  assumes "run_acts c as (g, pcs) = Ret (g', pcs')" and "list_all pc_ok pcs" and "i < length pcs"
  shows "length (gr_members g) \<le> length (gr_members g') \<and> length pcs' = length pcs
    \<and> steps_left (length (gr_members g')) (pcs' ! i)
        \<le> steps_left (length (gr_members g')) (pcs ! i) - count_list as (AStep i)"
  using assms
proof (induction as arbitrary: g pcs)
  case (Cons a as)
  then obtain g1 pcs1 where a: "act_step c a (g, pcs) = Ret (g1, pcs1)" and rest: "run_acts c as (g1, pcs1) = Ret (g', pcs')"
    by (auto split: res.splits)
  note grow = act_step_members [OF a]
  have "list_all pc_ok pcs1" using act_step_left [OF a Cons.prems(2) order.refl Cons.prems(3)] by simp
  with Cons.IH [OF rest] grow Cons.prems(3) have IH: "length (gr_members g1) \<le> length (gr_members g')"
    "length pcs' = length pcs1" "steps_left (length (gr_members g')) (pcs' ! i)
        \<le> steps_left (length (gr_members g')) (pcs1 ! i) - count_list as (AStep i)" by auto
  from act_step_left [OF a Cons.prems(2) _ Cons.prems(3)] IH(1) grow
  have "steps_left (length (gr_members g')) (pcs1 ! i) \<le> steps_left (length (gr_members g')) (pcs ! i) - of_bool (a = AStep i)"
    by auto
  with IH grow show ?case by (cases "a = AStep i") auto
qed simp

text \<open>
  C21. Every \<open>Start\<close> call returns, and soon: with any number of \<open>Start\<close>, \<open>Stop\<close> and \<open>Add\<close> calls
  interleaved in any way, a \<open>Start\<close> thread that was scheduled \<open>2 n + 3\<close> times has returned, where
  \<open>n\<close> is the number of members by then.  No \<open>Stop\<close> can keep it going, and none can block it.
\<close>

theorem start_terminates:
  assumes "run_acts c as (g0, replicate m SBegin) = Ret (g, pcs)" and "i < m"
    and "2 * length (gr_members g) + 3 \<le> count_list as (AStep i)"
  shows "\<exists>r. pcs ! i = SDone r"
proof -
  have "list_all pc_ok (replicate m SBegin)" by (simp add: list_all_length)
  from run_acts_left [OF assms(1) this, of i] assms(2,3) have "steps_left (length (gr_members g)) (pcs ! i) = 0"
    by simp
  then show ?thesis by (rule steps_left_0)
qed

theorem start_terminates_witness:
  "\<exists>g pcs r. run_acts Background [AStep 0, AStep 0, AStop, AStep 0, AStep 0, AStep 0]
      (group_of [counting_component], replicate 1 SBegin) = Ret (g, pcs) \<and> pcs ! 0 = SDone r"
proof -
  let ?acts = "[AStep 0, AStep 0, AStop, AStep 0, AStep 0, AStep 0] :: nat act list"
  obtain g pcs where run: "run_acts Background ?acts (group_of [counting_component], replicate 1 SBegin) = Ret (g, pcs)"
    and one: "length (gr_members g) = 1"
    by (simp add: group_of_def NewGroup_def counting_component_def go_defs Group_Stop_def stopLocked_def
        stopUnaccounted_def Let_def eval_nat_numeral)
  from start_terminates [OF run, of 0] one have "\<exists>r. pcs ! 0 = SDone r" by simp
  with run show ?thesis by blast
qed

end
