(* ===== verification/Fxmux.thy ===== *)
theory Fxmux
  imports Lifecycle Transport
begin

text \<open>
  \<open>pkg/kit/fxmux\<close>: a group under one hook of the fx framework, and the logger that turns fx events
  into records.  Requesting a shutdown from fx is a parameter; the events are those the logger
  tells apart, every other one being \<open>OtherEvent\<close>.
\<close>

subsection \<open>module.go\<close>

record 'w fx_hook =
  fx_OnStart :: "ctx \<Rightarrow> ('w grp, goerr option) go"
  fx_OnStop :: "ctx \<Rightarrow> ('w grp, goerr option) go"

text \<open>
  What a component's failure after startup does (the \<open>onFatal\<close> that \<open>OnStart\<close> gives to the group):
  \<open>shutdown\<close> is \<open>sd.Shutdown\<close> with an exit code.
\<close>

definition component_failed :: "('ev, 'w) surroundings \<Rightarrow> (int \<Rightarrow> ('w, goerr option) go) \<Rightarrow> logger option \<Rightarrow> goerr \<Rightarrow> ('w, unit) go" where
  "component_failed W shutdown lg err =
     (let lg = (case lg of None \<Rightarrow> \<lparr>lg_discard = True, lg_with = []\<rparr> | Some l \<Rightarrow> l) in
      go_seq (emit W lg LevelError ''component failed'' [AErr err])
      (go_bind (shutdown 1) (\<lambda>serr.
       (case serr of
          None \<Rightarrow> go_ret ()
        | Some e \<Rightarrow> emit W lg LevelError ''shutdown request failed'' [AErr e]))))"

definition BindGroup :: "'w fx_hook" where
  "BindGroup =
     \<lparr>fx_OnStart = (\<lambda>c. go_bind (Group_Start c) (\<lambda>err.
        (case err of Some e \<Rightarrow> go_ret (Some (wrap_prefix ''fxmux'' e)) | None \<Rightarrow> go_ret None))),
      fx_OnStop = (\<lambda>c. go_bind (Group_Stop c) (\<lambda>err.
        (case err of Some e \<Rightarrow> go_ret (Some (wrap_prefix ''fxmux'' e)) | None \<Rightarrow> go_ret None)))\<rparr>"

subsection \<open>logger.go\<close>

definition KeyProcessSignal :: string where
  "KeyProcessSignal = ''process.signal''"

definition KeyCodeFunction :: string where
  "KeyCodeFunction = ''code.function.name''"

datatype fxevent =
    Started "goerr option"
  | Stopping "string option"
  | Stopped "goerr option"
  | RolledBack "goerr option"
  | Provided string "goerr option"
  | Invoked string "goerr option"
  | LoggerInitialized "goerr option"
  | OtherEvent

definition fx_NewLogger :: "logger option \<Rightarrow> logger" where
  "fx_NewLogger lg = Component lg ''fx''"

text \<open>\<open>strings.ToUpper\<close> on the ASCII names that signals have.\<close>

definition upper_byte :: "char \<Rightarrow> char" where
  "upper_byte c = (if 97 \<le> byte c \<and> byte c \<le> 122 then char_of (byte c - 32) else c)"

definition if_error :: "goerr option \<Rightarrow> (goerr \<Rightarrow> ('w, unit) go) \<Rightarrow> ('w, unit) go" where
  "if_error err f = (case err of None \<Rightarrow> go_ret () | Some e \<Rightarrow> f e)"

fun LogEvent :: "('ev, 'w) surroundings \<Rightarrow> logger \<Rightarrow> fxevent \<Rightarrow> ('w, unit) go" where
  "LogEvent W lg (Started err) =
     (case err of
        Some e \<Rightarrow> emit W lg LevelError ''app start failed'' [AErr e]
      | None \<Rightarrow> emit W lg LevelInfo ''app started'' [])"
| "LogEvent W lg (Stopping signal) =
     (case signal of
        Some s \<Rightarrow> emit W lg LevelInfo ''app stopping'' [AStr KeyProcessSignal (map upper_byte s)]
      | None \<Rightarrow> emit W lg LevelInfo ''app stopping'' [])"
| "LogEvent W lg (Stopped err) = if_error err (\<lambda>e. emit W lg LevelError ''app stop failed'' [AErr e])"
| "LogEvent W lg (RolledBack err) = if_error err (\<lambda>e. emit W lg LevelError ''rollback failed'' [AErr e])"
| "LogEvent W lg (Provided constructor err) =
     if_error err (\<lambda>e. emit W lg LevelError ''provide failed'' [AStr KeyCodeFunction constructor, AErr e])"
| "LogEvent W lg (Invoked function_name err) =
     if_error err (\<lambda>e. emit W lg LevelError ''invoke failed'' [AStr KeyCodeFunction function_name, AErr e])"
| "LogEvent W lg (LoggerInitialized err) =
     if_error err (\<lambda>e. emit W lg LevelError ''logger initialization failed'' [AErr e])"
| "LogEvent W lg OtherEvent = go_ret ()"

text \<open>The error an event carries, among the events that are looked at.\<close>

fun fx_error :: "fxevent \<Rightarrow> goerr option" where
  "fx_error (Started err) = err"
| "fx_error (Stopped err) = err"
| "fx_error (RolledBack err) = err"
| "fx_error (Provided _ err) = err"
| "fx_error (Invoked _ err) = err"
| "fx_error (LoggerInitialized err) = err"
| "fx_error _ = None"

text \<open>
  At most one record per event, at the level Error exactly when the event carries an error, which
  the record then shows.
\<close>

lemma LogEvent_one_record:
  assumes "\<not> lg_discard lg"
  shows "(\<exists>r. LogEvent W lg e w = (Ret (), tp_emit W r w) \<and> (log_level r = LevelError \<longleftrightarrow> fx_error e \<noteq> None)
            \<and> (\<forall>err. fx_error e = Some err \<longrightarrow> AErr err \<in> set (log_attrs r)))
    \<or> LogEvent W lg e w = (Ret (), w) \<and> fx_error e = None"
  using assms
  by (cases e) (auto simp: emit_def if_error_def go_basic_defs split: option.split)

text \<open>The hooks change the group as its own \<open>Start\<close> and \<open>Stop\<close> do; they fail exactly when these fail.\<close>

lemma BindGroup_results:
  "fx_OnStart BindGroup c g = (Ret r, g') \<Longrightarrow> \<exists>r0. Group_Start c g = (Ret r0, g') \<and> r = map_option (wrap_prefix ''fxmux'') r0"
  "fx_OnStop BindGroup c g = (Ret r, g') \<Longrightarrow> \<exists>r0. Group_Stop c g = (Ret r0, g') \<and> r = map_option (wrap_prefix ''fxmux'') r0"
  by (auto simp: BindGroup_def go_basic_defs split: prod.splits res.splits option.splits)

end
