(* ===== verification/EnvelopeTheorems.thy ===== *)
theory EnvelopeTheorems
  imports Envelope Sample "HOL-Library.Multiset"
begin

text \<open>
  What the envelope guarantees: the order in which a broker lists the attributes does not matter,
  anything undecodable is a decode error, and what \<open>Encode\<close> writes \<open>Decode\<close> reads back.
\<close>

subsection \<open>Order and duplicates\<close>

text \<open>\<open>Validate\<close> looks only at what can be observed of the event.\<close>

definition validate_by_view :: "'ev sdk \<Rightarrow> bool" where
  "validate_by_view S \<longleftrightarrow> (\<forall>a b. sdk_view S a = sdk_view S b \<longrightarrow>
     event_datacontenttype S a = event_datacontenttype S b \<longrightarrow> event_validate S a = event_validate S b)"

lemma mset_named: "mset xs = mset ys \<Longrightarrow> mset (named xs) = mset (named ys)"
  by (simp add: named_def List.map_filter_def)

lemma Decode_binary_defined:
  assumes "view_laws (cd_sdk C)" and "ct \<noteq> ApplicationCloudEventsJSON"
    and "distinct (map fst (named attrs))" and "times_ok C (named attrs)"
    and "\<And>ce. sdk_view (cd_sdk C) ce = described C (map_of (named attrs)) (default_view (cd_sdk C) def) \<Longrightarrow>
      event_datacontenttype (cd_sdk C) ce
        = stored (cd_sdk C) ''datacontenttype'' (if ct = [] then ApplicationJSON else ct) [] \<Longrightarrow>
      event_validate (cd_sdk C) ce = None"
    and "names_ok (named attrs)"
  shows "\<exists>ce. Decode C ct attrs data def = Inr ce"
proof -
  let ?ct = "if ct = [] then ApplicationJSON else ct"
  from assms(3,4) decode_attrs_defined [of C "[]" attrs "default_event C def"]
  obtain ce1 where attrs: "decode_attrs C [] attrs (default_event C def) = Inr ce1" by auto
  obtain ce2 where data: "set_data (cd_sdk C) ?ct (RawBytes data) ce1 = Inr ce2" "sdk_view (cd_sdk C) ce2 = sdk_view (cd_sdk C) ce1"
    "event_datacontenttype (cd_sdk C) ce2 = stored (cd_sdk C) ''datacontenttype'' ?ct []"
    by (rule view_set_data [OF assms(1)])
  from assms(5) [of ce2] data decode_attrs_view [OF assms(1,6) attrs] default_event_view [OF assms(1)]
  have "event_validate (cd_sdk C) ce2 = None" by simp
  with attrs data(1) assms(2) show ?thesis by (simp add: Decode_def Let_def)
qed

text \<open>
  C23. The order in which a broker lists attributes is irrelevant: if one order decodes, every
  order does, to an event with the same id, type, source, subject, schema, time, extensions and
  data.
\<close>

theorem decode_order_irrelevant:
  assumes S: "view_laws (cd_sdk C)" "validate_by_view (cd_sdk C)" and names: "names_ok (named xs)"
    and ct: "ct \<noteq> ApplicationCloudEventsJSON" and perm: "mset xs = mset ys"
    and dec: "Decode C ct xs data def = Inr ce"
  shows "\<exists>ce'. Decode C ct ys data def = Inr ce' \<and> sdk_view (cd_sdk C) ce' = sdk_view (cd_sdk C) ce
    \<and> event_data (cd_sdk C) ce' = event_data (cd_sdk C) ce"
proof -
  note xs = Decode_binary [OF S(1) names ct dec]
  note view = xs [THEN conjunct2, THEN conjunct2, THEN conjunct1]
  note data = xs [THEN conjunct2, THEN conjunct2, THEN conjunct2, THEN conjunct1]
  note ctype = xs [THEN conjunct2, THEN conjunct2, THEN conjunct2, THEN conjunct2, THEN conjunct1]
  note valid = xs [THEN conjunct2, THEN conjunct2, THEN conjunct2, THEN conjunct2, THEN conjunct2]
  note mset = mset_named [OF perm]
  have set: "set (named ys) = set (named xs)" using mset by (metis set_mset_mset)
  have dist: "distinct (map fst (named ys))"
    using xs [THEN conjunct1] mset by (metis mset_eq_imp_distinct_iff mset_map)
  have map: "map_of (named ys) = map_of (named xs)"
    by (rule iffD2 [OF map_of_inject_set, OF dist xs [THEN conjunct1] set])
  have ok: "names_ok (named ys)"
    using names unfolding names_ok_def set .
  have times: "times_ok C (named ys)"
    using xs [THEN conjunct2, THEN conjunct1] unfolding times_ok_def set .
  have same: "event_validate (cd_sdk C) e = None"
    if "sdk_view (cd_sdk C) e = described C (map_of (named ys)) (default_view (cd_sdk C) def)"
      and "event_datacontenttype (cd_sdk C) e
        = stored (cd_sdk C) ''datacontenttype'' (if ct = [] then ApplicationJSON else ct) []" for e
  proof -
    have "sdk_view (cd_sdk C) e = sdk_view (cd_sdk C) ce" unfolding that(1) view map ..
    moreover have "event_datacontenttype (cd_sdk C) e = event_datacontenttype (cd_sdk C) ce"
      unfolding that(2) ctype ..
    ultimately have "event_validate (cd_sdk C) e = event_validate (cd_sdk C) ce"
      using S(2) unfolding validate_by_view_def by blast
    from this valid show ?thesis by (rule trans)
  qed
  from Decode_binary_defined [OF S(1) ct dist times same ok]
  obtain ce' where dec': "Decode C ct ys data def = Inr ce'" by blast
  note ys = Decode_binary [OF S(1) ok ct dec', THEN conjunct2, THEN conjunct2]
  have "sdk_view (cd_sdk C) ce' = sdk_view (cd_sdk C) ce"
    unfolding view ys [THEN conjunct1] map ..
  moreover have "event_data (cd_sdk C) ce' = event_data (cd_sdk C) ce"
    unfolding data ys [THEN conjunct2, THEN conjunct1] ..
  ultimately show ?thesis using dec' by blast
qed

text \<open>
  C24. Whatever cannot be decoded is a decode error, so the router dead-letters it as such; and an
  attribute that appears twice under names differing only in case is always rejected, in either
  order, instead of one of the values winning.
\<close>

theorem decode_rejects_as_ErrDecode:
  "(case Decode C ct attrs data def of Inl e \<Rightarrow> errors_is ''ErrDecode'' e | Inr ce \<Rightarrow> True)
   \<and> (ct = ApplicationCloudEventsJSON \<or> distinct (map fst (named attrs)) \<or> isl (Decode C ct attrs data def))"
  using Decode_err [of C ct attrs data def] decode_attrs_defined [of C "[]" attrs "default_event C def"]
  by (cases "decode_attrs C [] attrs (default_event C def)")
    (auto simp: Decode_def Let_def split: sum.splits)

subsection \<open>Round trip\<close>

text \<open>The event as it arrives: extension values become their canonical strings.\<close>

definition wire_view :: "'ev codec \<Rightarrow> 'ev \<Rightarrow> view" where
  "wire_view C ce = (sdk_view (cd_sdk C) ce)\<lparr>v_faults := {},
     v_ext := (\<lambda>k. case extension (cd_sdk C) ce k of
       None \<Rightarrow> None | Some v \<Rightarrow> (case cd_format C v of Inr s \<Rightarrow> Some (XString s) | Inl e \<Rightarrow> None))\<rparr>"

text \<open>The event's own attributes are values the SDK takes as they are.\<close>

definition settled :: "'ev sdk \<Rightarrow> 'ev \<Rightarrow> bool" where
  "settled S ce \<longleftrightarrow> event_specversion S ce = CloudEventsVersionV1 \<and> accepted S ''id'' (event_id S ce)
     \<and> accepted S ''type'' (event_type S ce) \<and> accepted S ''source'' (event_source S ce)
     \<and> (event_subject S ce \<noteq> [] \<longrightarrow> accepted S ''subject'' (event_subject S ce))
     \<and> (event_dataschema S ce \<noteq> [] \<longrightarrow> accepted S ''dataschema'' (event_dataschema S ce))
     \<and> (event_datacontenttype S ce \<noteq> [] \<longrightarrow> accepted S ''datacontenttype'' (event_datacontenttype S ce))"

text \<open>
  The codec inverts its own timestamps, and validation does not look at the values of extensions
  nor mind the JSON content type.
\<close>

definition codec_laws :: "'ev codec \<Rightarrow> bool" where
  "codec_laws C \<longleftrightarrow> sdk_laws (cd_sdk C) \<and> view_laws (cd_sdk C)
     \<and> (\<forall>t. t \<noteq> 0 \<longrightarrow> cd_time_parse C (cd_time_format C t) = Inr t)
     \<and> (\<forall>a b f. sdk_view (cd_sdk C) b = (sdk_view (cd_sdk C) a)\<lparr>v_faults := {}, v_ext := f\<rparr> \<longrightarrow>
          dom f = dom (v_ext (sdk_view (cd_sdk C) a)) \<longrightarrow>
          event_datacontenttype (cd_sdk C) b \<in> {event_datacontenttype (cd_sdk C) a, ApplicationJSON} \<longrightarrow>
          event_validate (cd_sdk C) a = None \<longrightarrow> event_validate (cd_sdk C) b = None)"

lemma encode_exts_spec:
  assumes "encode_exts C xs attrs = Inr attrs'" and "distinct (map fst xs)"
  shows "map_of attrs' (Prefix @ k) = (case map_of xs k of
      Some v \<Rightarrow> (case cd_format C v of Inr s \<Rightarrow> Some s | Inl e \<Rightarrow> None) | None \<Rightarrow> map_of attrs (Prefix @ k))"
    and "\<forall>v \<in> snd ` set xs. \<exists>s. cd_format C v = Inr s"
    and "fst ` set attrs' = fst ` set attrs \<union> (\<lambda>n. Prefix @ n) ` fst ` set xs"
    and "distinct (map fst attrs) \<Longrightarrow> distinct (map fst attrs')"
  using assms
proof (induction xs arbitrary: attrs)
  case (Cons nv xs)
  obtain n v where nv: "nv = (n, v)" by (cases nv)
  {
    case 1
    with Cons.IH(1) [of "AList.update (Prefix @ n) _ attrs"] nv show ?case
      by (auto simp: map_of_eq_None_iff [symmetric] split: sum.splits option.splits)
  next
    case 2
    with Cons.IH(2) [of "AList.update (Prefix @ n) _ attrs"] nv show ?case
      by (auto split: sum.splits)
  next
    case 3
    with Cons.IH(3) [of "AList.update (Prefix @ n) _ attrs"] nv show ?case
      by (auto simp: dom_update [unfolded dom_map_of_conv_image_fst] split: sum.splits)
  next
    case 4
    with Cons.IH(4) [of "AList.update (Prefix @ n) _ attrs"] nv show ?case
      by (auto simp: distinct_update split: sum.splits)
  }
qed auto

lemma attribute_name_Prefix: "ascii_lower n = n \<Longrightarrow> attribute_name (Prefix @ n) = Some n"
proof -
  assume n: "ascii_lower n = n"
  have "ascii_lower (Prefix @ n) = Prefix @ ascii_lower n"
    by (simp add: ascii_lower_def Prefix_def)
  then show ?thesis by (simp add: attribute_name_def n)
qed

definition prefixed :: "(string \<times> string) list \<Rightarrow> bool" where
  "prefixed attrs \<longleftrightarrow> (\<forall>k \<in> fst ` set attrs. \<exists>n. k = Prefix @ n \<and> ascii_lower n = n)"

lemma named_prefixed: "prefixed attrs \<Longrightarrow> named attrs = map (\<lambda>(k, v). (drop (length Prefix) k, v)) attrs"
  by (induction attrs)
    (auto simp: prefixed_def named_def List.map_filter_simps attribute_name_Prefix)

lemma map_of_named_prefixed: "prefixed attrs \<Longrightarrow> map_of (named attrs) n = map_of attrs (Prefix @ n)"
  by (induction attrs)
    (auto simp: prefixed_def named_def List.map_filter_simps attribute_name_Prefix)

lemma distinct_named_prefixed:
  assumes "prefixed attrs" and "distinct (map fst attrs)"
  shows "distinct (map fst (named attrs))"
proof -
  have "map fst (named attrs) = map (drop (length Prefix)) (map fst attrs)"
    using named_prefixed [OF assms(1)] by (simp add: case_prod_unfold comp_def)
  moreover have "inj_on (drop (length Prefix)) (set (map fst attrs))"
  proof (rule inj_onI)
    fix x y assume "x \<in> set (map fst attrs)" "y \<in> set (map fst attrs)"
      and eq: "drop (length Prefix) x = drop (length Prefix) y"
    then obtain m n where "x = Prefix @ m" "y = Prefix @ n"
      using assms(1) unfolding prefixed_def by (metis list.set_map)
    with eq show "x = y" by simp
  qed
  ultimately show ?thesis using assms(2) by (simp only: distinct_map simp_thms)
qed


lemma map_of_encode_attributes:
  "map_of (encode_attributes C ce) (Prefix @ k) =
    (let S = cd_sdk C in
     if k = ''id'' then Some (event_id S ce) else if k = ''specversion'' then Some (event_specversion S ce)
     else if k = ''type'' then Some (event_type S ce) else if k = ''source'' then Some (event_source S ce)
     else if k = ''subject'' \<and> event_subject S ce \<noteq> [] then Some (event_subject S ce)
     else if k = ''dataschema'' \<and> event_dataschema S ce \<noteq> [] then Some (event_dataschema S ce)
     else if k = ''time'' then map_option (cd_time_format C) (event_time S ce) else None)"
  by (cases "event_time (cd_sdk C) ce")
    (simp_all add: encode_attributes_def Let_def key_defs update_conv')

lemma encode_attributes_keys:
  "distinct (map fst (encode_attributes C ce))"
  "fst ` set (encode_attributes C ce) \<subseteq> (\<lambda>n. Prefix @ n) ` set core_names"
  by (cases "event_time (cd_sdk C) ce";
      simp add: encode_attributes_def Let_def key_defs core_names_def distinct_update)+

text \<open>The attributes on the wire, by name.\<close>

definition wire :: "'ev codec \<Rightarrow> 'ev \<Rightarrow> string \<Rightarrow> string option" where
  "wire C ce k = (case extension (cd_sdk C) ce k of
     Some v \<Rightarrow> (case cd_format C v of Inr s \<Rightarrow> Some s | Inl e \<Rightarrow> None)
   | None \<Rightarrow> map_of (encode_attributes C ce) (Prefix @ k))"

lemma ext_not_core:
  assumes "sdk_laws S" and "extension S ce k = Some v"
  shows "ext_name_ok k" and "k \<notin> set core_names"
proof -
  from assms(2) have "(k, v) \<in> set (extensions S ce)" by (simp add: extension_def map_of_SomeD)
  then show k: "ext_name_ok k" using sdk_misc(4) [OF assms(1), of ce] by (auto simp: list_all_iff)
  have "set core_names \<subseteq> set spec_attributes" by (simp add: core_names_def spec_attributes_def)
  with k show "k \<notin> set core_names" unfolding ext_name_ok_def by blast
qed

lemma core_lower: "n \<in> set core_names \<Longrightarrow> ascii_lower n = n"
  by (erule core_cases) (simp_all add: ascii_lower_def)

lemma Encode_wire:
  assumes "sdk_laws (cd_sdk C)" and "Encode C ce = Inr attrs"
  shows "distinct (map fst attrs)" and "prefixed attrs" and "map_of attrs (Prefix @ k) = wire C ce k"
    and "extension (cd_sdk C) ce n = Some v \<Longrightarrow> \<exists>s. cd_format C v = Inr s"
proof -
  note spec = encode_exts_spec [OF assms(2) [unfolded Encode_def] sdk_misc(3) [OF assms(1)]]
  show "distinct (map fst attrs)" by (rule spec(4) [OF encode_attributes_keys(1)])
  show "map_of attrs (Prefix @ k) = wire C ce k"
    unfolding spec(1) wire_def extension_def ..
  show "prefixed attrs"
    unfolding prefixed_def spec(3)
  proof
    fix x assume "x \<in> fst ` set (encode_attributes C ce) \<union> (\<lambda>n. Prefix @ n) ` fst ` set (extensions (cd_sdk C) ce)"
    then consider n where "x = Prefix @ n" "n \<in> set core_names"
      | n v where "x = Prefix @ n" "(n, v) \<in> set (extensions (cd_sdk C) ce)"
      using subsetD [OF encode_attributes_keys(2) [of C ce], of x] by (elim UnE) auto
    then show "\<exists>n. x = Prefix @ n \<and> ascii_lower n = n"
    proof cases
      case 1
      with core_lower show ?thesis by blast
    next
      case (2 n v)
      with sdk_misc(4) [OF assms(1), of ce] have "ext_name_ok n" unfolding list_all_iff by blast
      with 2(1) ascii_lower_ok show ?thesis by blast
    qed
  qed
  show "\<exists>s. cd_format C v = Inr s" if "extension (cd_sdk C) ce n = Some v"
    using spec(2) map_of_SomeD [OF that [unfolded extension_def]] by force
qed

lemma wire_core:
  assumes "sdk_laws (cd_sdk C)" and "n \<in> set core_names"
  shows "wire C ce n = map_of (encode_attributes C ce) (Prefix @ n)"
proof -
  have "extension (cd_sdk C) ce n = None"
    using ext_not_core(2) [OF assms(1)] assms(2) by (cases "extension (cd_sdk C) ce n") blast+
  then show ?thesis by (simp add: wire_def)
qed

lemma wire_values:
  assumes "sdk_laws (cd_sdk C)"
  shows "wire C ce ''id'' = Some (event_id (cd_sdk C) ce)"
    "wire C ce ''specversion'' = Some (event_specversion (cd_sdk C) ce)"
    "wire C ce ''type'' = Some (event_type (cd_sdk C) ce)"
    "wire C ce ''source'' = Some (event_source (cd_sdk C) ce)"
    "wire C ce ''subject'' = (if event_subject (cd_sdk C) ce \<noteq> [] then Some (event_subject (cd_sdk C) ce) else None)"
    "wire C ce ''dataschema''
       = (if event_dataschema (cd_sdk C) ce \<noteq> [] then Some (event_dataschema (cd_sdk C) ce) else None)"
    "wire C ce ''time'' = map_option (cd_time_format C) (event_time (cd_sdk C) ce)"
  by (simp_all add: wire_core [OF assms] core_members map_of_encode_attributes Let_def)

lemma wire_ext:
  assumes "n \<notin> set core_names"
  shows "wire C ce n = (case extension (cd_sdk C) ce n of
     Some v \<Rightarrow> (case cd_format C v of Inr s \<Rightarrow> Some s | Inl e \<Rightarrow> None) | None \<Rightarrow> None)"
proof -
  have "map_of (encode_attributes C ce) (Prefix @ n) = None"
    using assms encode_attributes_keys(2) [of C ce] by (auto simp: map_of_eq_None_iff)
  then show ?thesis by (simp add: wire_def split: option.split)
qed

lemma described_wire:
  assumes C: "codec_laws C" and ce: "settled (cd_sdk C) ce"
    and exts: "\<And>n v. extension (cd_sdk C) ce n = Some v \<Longrightarrow> \<exists>s. cd_format C v = Inr s"
  shows "described C (wire C ce) (default_view (cd_sdk C) def) = wire_view C ce"
proof -
  have S: "sdk_laws (cd_sdk C)" and V: "view_laws (cd_sdk C)" using C by (simp_all add: codec_laws_def)
  have parse: "t \<noteq> 0 \<Longrightarrow> cd_time_parse C (cd_time_format C t) = Inr t" for t
    using C by (simp add: codec_laws_def)
  note w = wire_values [OF S, of ce]
  let ?d = "described C (wire C ce) (default_view (cd_sdk C) def)"
  have acc: "attr_value (cd_sdk C) f x \<noteq> None" if "f \<in> set faultable" "wire C ce f = Some x" for f x
    using that ce view_accepts(1) [OF V] unfolding faultable_def list.set
    by (elim insertE emptyE) (simp_all add: w settled_def accepted_def split: if_splits)
  have none: "f \<notin> v_faults ?d" for f
  proof (cases "f \<in> set faultable")
    case True
    have "f \<in> {''id'', ''type'', ''source''} \<Longrightarrow> wire C ce f \<noteq> None" using w by auto
    with True acc show ?thesis
      by (auto simp: described_fields default_view_def noted_def split: option.splits if_splits)
  next
    case False
    then show ?thesis
      using faultable_members(1-3) by (auto simp: described_fields default_view_def noted_def split: if_splits)
  qed
  have ext: "v_ext ?d k = v_ext (wire_view C ce) k" for k
  proof (cases "k \<in> set core_names")
    case True
    with ext_not_core(2) [OF S] have "extension (cd_sdk C) ce k = None" by (cases "extension (cd_sdk C) ce k") blast+
    with True show ?thesis by (simp add: described_fields default_view_def wire_view_def)
  next
    case False
    then show ?thesis
      using exts [of k] by (auto simp: described_fields default_view_def wire_view_def wire_ext split: option.splits sum.splits)
  qed
  have time: "v_time ?d = event_time (cd_sdk C) ce"
    using view_accepts(3) [OF V, of ce]
    by (cases "event_time (cd_sdk C) ce") (auto simp: described_fields w parse nonzero_def default_view_def)
  show ?thesis
  proof (rule view.equality)
    show "v_faults ?d = v_faults (wire_view C ce)" using none by (auto simp: wire_view_def)
    show "v_ext ?d = v_ext (wire_view C ce)" using ext by (rule HOL.ext)
    show "v_time ?d = v_time (wire_view C ce)" using time by (simp add: wire_view_def sdk_view_def)
  qed (use ce in \<open>auto simp: described_fields w wire_view_def sdk_view_def default_view_def settled_def\<close>)
qed

lemma named_permuted:
  assumes "prefixed xs" and "distinct (map fst xs)" and "mset ps = mset (named xs)"
  shows "distinct (map fst ps)" and "map_of ps n = map_of xs (Prefix @ n)"
    and "(n, v) \<in> set ps \<Longrightarrow> map_of xs (Prefix @ n) = Some v"
proof -
  have keys: "set ps = set (named xs)" using assms(3) by (metis set_mset_mset)
  have dist: "distinct (map fst (named xs))" by (rule distinct_named_prefixed [OF assms(1,2)])
  then show d: "distinct (map fst ps)" using assms(3) by (metis mset_eq_imp_distinct_iff mset_map)
  have "map_of ps = map_of (named xs)" by (rule iffD2 [OF map_of_inject_set, OF d dist keys])
  with map_of_named_prefixed [OF assms(1)]
  show m: "map_of ps n = map_of xs (Prefix @ n)" by simp
  show "(n, v) \<in> set ps \<Longrightarrow> map_of xs (Prefix @ n) = Some v"
    using m map_of_is_SomeI [OF d] by simp
qed

lemma ContentType_accepted:
  assumes "view_laws (cd_sdk C)" and "settled (cd_sdk C) ce"
  shows "stored (cd_sdk C) ''datacontenttype'' (ContentType C ce) [] = ContentType C ce"
  using assms(2) view_accepts(2) [OF assms(1)]
  by (auto simp: ContentType_def Let_def settled_def accepted_def stored_def)

lemma encode_exts_err:
  "encode_exts C xs attrs = Inl err \<Longrightarrow> \<exists>n v e. (n, v) \<in> set xs \<and> cd_format C v = Inl e"
  by (induction C xs attrs rule: encode_exts.induct) (auto split: sum.splits)

lemma wire_names_ok:
  assumes "sdk_laws (cd_sdk C)" and "settled (cd_sdk C) ce"
    and wire: "\<And>n v. (n, v) \<in> set ps \<Longrightarrow> wire C ce n = Some v"
  shows "names_ok ps"
  unfolding names_ok_def
proof (rule ballI, clarify, intro conjI impI)
  fix n v assume nv: "(n, v) \<in> set ps"
  show "n \<in> set core_names \<or> ext_name_ok n"
  proof (cases "n \<in> set core_names")
    case False
    with wire [OF nv] obtain w where "extension (cd_sdk C) ce n = Some w"
      by (auto simp: wire_ext split: option.splits)
    with ext_not_core(1) [OF assms(1)] show ?thesis by blast
  qed simp
  show "v = CloudEventsVersionV1" if "n = ''specversion''"
    using wire [OF nv] assms(2) unfolding that wire_values(2) [OF assms(1)] settled_def by simp
qed

lemma wire_times_ok:
  assumes "codec_laws C" and wire: "\<And>n v. (n, v) \<in> set ps \<Longrightarrow> wire C ce n = Some v"
  shows "times_ok C ps"
  unfolding times_ok_def
proof (rule ballI, clarify)
  fix v assume nv: "(''time'', v) \<in> set ps"
  have S: "sdk_laws (cd_sdk C)" and V: "view_laws (cd_sdk C)" using assms(1) by (simp_all add: codec_laws_def)
  from wire [OF nv] wire_values(7) [OF S, of ce] obtain u
    where "event_time (cd_sdk C) ce = Some u" "v = cd_time_format C u" by auto
  moreover have "u \<noteq> 0" using view_accepts(3) [OF V, of ce] calculation(1) by auto
  ultimately show "\<exists>t. cd_time_parse C v = Inr t" using assms(1) unfolding codec_laws_def by blast
qed

lemma wire_valid:
  assumes "codec_laws C" and "event_validate (cd_sdk C) ce = None"
    and exts: "\<And>n v. extension (cd_sdk C) ce n = Some v \<Longrightarrow> \<exists>s. cd_format C v = Inr s"
    and "sdk_view (cd_sdk C) e = wire_view C ce" and "event_datacontenttype (cd_sdk C) e = ContentType C ce"
  shows "event_validate (cd_sdk C) e = None"
proof -
  let ?f = "\<lambda>k. case extension (cd_sdk C) ce k of
       None \<Rightarrow> None | Some v \<Rightarrow> (case cd_format C v of Inr s \<Rightarrow> Some (XString s) | Inl e \<Rightarrow> None)"
  have "dom ?f = dom (v_ext (sdk_view (cd_sdk C) ce))"
  proof (rule set_eqI)
    fix k
    show "k \<in> dom ?f \<longleftrightarrow> k \<in> dom (v_ext (sdk_view (cd_sdk C) ce))"
      using exts [of k] by (cases "extension (cd_sdk C) ce k") (auto simp: sdk_view_def dom_def)
  qed
  moreover have "event_datacontenttype (cd_sdk C) e \<in> {event_datacontenttype (cd_sdk C) ce, ApplicationJSON}"
    using assms(5) by (simp add: ContentType_def Let_def)
  ultimately show ?thesis
    using assms(1,2) assms(4) [unfolded wire_view_def] unfolding codec_laws_def by blast
qed

text \<open>
  What carries every transport's round trip: pairs that mean the encoded ones, in any order and
  among others the envelope ignores, decode to the event.
\<close>

lemma decode_encoded:
  assumes C: "codec_laws C" and ce: "settled (cd_sdk C) ce" and valid: "event_validate (cd_sdk C) ce = None"
    and ct: "ContentType C ce \<noteq> ApplicationCloudEventsJSON" and enc: "Encode C ce = Inr attrs"
    and ys: "mset (named ys) = mset (named attrs)"
  shows "\<exists>ce'. Decode C (ContentType C ce) ys (event_data (cd_sdk C) ce) def = Inr ce'
    \<and> sdk_view (cd_sdk C) ce' = wire_view C ce
    \<and> event_data (cd_sdk C) ce' = event_data (cd_sdk C) ce
    \<and> event_datacontenttype (cd_sdk C) ce' = ContentType C ce"
proof -
  have S: "sdk_laws (cd_sdk C)" and V: "view_laws (cd_sdk C)" using C by (simp_all add: codec_laws_def)
  note enc = Encode_wire [OF S enc]
  note perm = named_permuted [OF enc(2,1) ys, unfolded enc(3)]
  have ct': "(if ContentType C ce = [] then ApplicationJSON else ContentType C ce) = ContentType C ce"
    by (simp add: ContentType_def Let_def)
  have view: "described C (map_of (named ys)) (default_view (cd_sdk C) def) = wire_view C ce"
    using described_wire [OF C ce enc(4)] unfolding perm(2) [abs_def] by simp
  have names: "names_ok (named ys)" by (rule wire_names_ok [OF S ce perm(3)])
  have times: "times_ok C (named ys)" by (rule wire_times_ok [OF C perm(3)])
  have ok: "event_validate (cd_sdk C) e = None"
    if "sdk_view (cd_sdk C) e = described C (map_of (named ys)) (default_view (cd_sdk C) def)"
      and "event_datacontenttype (cd_sdk C) e = stored (cd_sdk C) ''datacontenttype''
        (if ContentType C ce = [] then ApplicationJSON else ContentType C ce) []" for e
    using wire_valid [OF C valid _ that [unfolded ct' view ContentType_accepted [OF V ce]]] enc(4) by blast
  from Decode_binary_defined [OF V ct perm(1) times ok names]
  obtain ce' where dec: "Decode C (ContentType C ce) ys (event_data (cd_sdk C) ce) def = Inr ce'" by blast
  from Decode_binary [OF V names ct dec] show ?thesis
    unfolding ct' view ContentType_accepted [OF V ce] using dec by blast
qed

text \<open>
  C16. Round trip through binary mode.  A valid event whose extensions can be formatted is encoded,
  and whatever order the broker returns the pairs in, and whatever the defaults, decoding them
  with the same body and content type gives the same event back, its extension values in their
  canonical string form.  Encoding fails only on an extension value that has no canonical form.
\<close>

theorem encode_decode_round_trip:
  assumes C: "codec_laws C" and ce: "settled (cd_sdk C) ce" and valid: "event_validate (cd_sdk C) ce = None"
    and ct: "ContentType C ce \<noteq> ApplicationCloudEventsJSON"
  shows "case Encode C ce of
      Inl err \<Rightarrow> \<exists>n v e. (n, v) \<in> set (extensions (cd_sdk C) ce) \<and> cd_format C v = Inl e
    | Inr attrs \<Rightarrow> \<forall>ys. mset ys = mset attrs \<longrightarrow>
        (\<exists>ce'. Decode C (ContentType C ce) ys (event_data (cd_sdk C) ce) def = Inr ce'
          \<and> sdk_view (cd_sdk C) ce' = wire_view C ce
          \<and> event_data (cd_sdk C) ce' = event_data (cd_sdk C) ce
          \<and> event_datacontenttype (cd_sdk C) ce' = ContentType C ce)"
proof (cases "Encode C ce")
  case (Inl err)
  then show ?thesis using encode_exts_err [of C] by (simp add: Encode_def)
next
  case (Inr attrs)
  from decode_encoded [OF C ce valid ct Inr] mset_named show ?thesis
    unfolding Inr sum.case by blast
qed

subsection \<open>A concrete codec\<close>

definition unary :: "gotime \<Rightarrow> string" where
  "unary t = (if t < 0 then ''-'' else ''+'') @ replicate (nat (abs t)) CHR ''i''"

definition unary_parse :: "string \<Rightarrow> goerr + gotime" where
  "unary_parse s = (if s = [] then Inl (errors_new ''bad time'')
     else Inr (if hd s = CHR ''-'' then - int (length (tl s)) else int (length (tl s))))"

definition sample_codec :: "sev codec" where
  "sample_codec = \<lparr>cd_sdk = sample_sdk,
     cd_format = (\<lambda>v. case v of XString s \<Rightarrow> Inr s | XBool b \<Rightarrow> Inr (if b then ''true'' else ''false'')
       | _ \<Rightarrow> Inl (errors_new ''unsupported'')),
     cd_time_format = unary, cd_time_parse = unary_parse,
     cd_marshal = (\<lambda>e. Inr (se_data e)),
     cd_unmarshal = (\<lambda>b. Inl (errors_new ''invalid JSON'')),
     cd_base64 = (\<lambda>e. False), cd_set_base64 = (\<lambda>b e. e), cd_media_type = se_ctype, cd_json_valid = (\<lambda>b. True)\<rparr>"

lemma sample_sdk_view:
  "sdk_view sample_sdk e = \<lparr>v_id = se_id e, v_type = se_type e, v_source = se_source e,
     v_specversion = se_specversion e, v_subject = se_subject e, v_dataschema = se_dataschema e,
     v_time = Option.bind (se_time e) nonzero,
     v_ext = (\<lambda>k. if ext_name_ok k then map_of (se_exts e) k else None), v_faults = {}\<rparr>"
  unfolding sdk_view_def extension_sample [abs_def]
  by (simp add: sample_sdk_def nonzero_def [abs_def])

lemma sample_event_new:
  "event_new sample_sdk = \<lparr>se_id = [], se_type = [], se_source = [], se_specversion = ''1.0'', se_subject = [],
       se_dataschema = [], se_ctype = [], se_time = None, se_data = [], se_exts = []\<rparr>"
  by (simp add: sample_sdk_def)

lemma sample_view_laws: "view_laws sample_sdk"
  unfolding view_laws_def
  by (intro conjI allI impI)
    (auto simp: sample_sdk_view noted_def sev_set_ext_def fun_eq_iff sample_event_new
      CloudEventsVersionV1_def update_conv' nonzero_def split: if_splits Option.bind_splits)

lemma sample_validate_by_view: "validate_by_view sample_sdk"
  by (auto simp: validate_by_view_def sample_sdk_view)

lemma unary_parse_unary: "unary_parse (unary t) = Inr t"
  by (simp add: unary_parse_def unary_def)

lemma sample_codec_laws: "codec_laws sample_codec"
proof -
  have "event_validate sample_sdk b = None" if "event_validate sample_sdk a = None" "se_id b = se_id a" for a b
    using that by (simp split: if_splits)
  then show ?thesis
    by (auto simp: codec_laws_def sample_codec_def sample_sdk_laws sample_view_laws unary_parse_unary sample_sdk_view)
qed

definition sample_defaults :: Defaults where
  "sample_defaults = \<lparr>def_ID = ''m1'', def_Type = ''raw'', def_Source = ''/sqs''\<rparr>"

definition sample_attrs :: "(string \<times> string) list" where
  "sample_attrs = [(''ce-id'', ''1''), (''CE-Tenant'', ''a''), (''other'', ''x'')]"

lemma cd_sdk_sample [simp]: "cd_sdk sample_codec = sample_sdk"
  by (simp add: sample_codec_def)

lemma sample_decodes:
  "Decode sample_codec [] sample_attrs ''{}'' sample_defaults
     = Inr (sample_event ''1'' [(''tenant'', XString ''a'')]\<lparr>se_type := ''raw'', se_source := ''/sqs''\<rparr>)"
  by code_simp

theorem decode_order_irrelevant_witness:
  "\<exists>ce'. Decode sample_codec [] (rev sample_attrs) ''{}'' sample_defaults = Inr ce' \<and> se_data ce' = ''{}''
     \<and> v_id (sdk_view sample_sdk ce') = ''1''"
proof -
  have names: "names_ok (named sample_attrs)" by code_simp
  have ct: "[] \<noteq> ApplicationCloudEventsJSON" by code_simp
  have perm: "mset sample_attrs = mset (rev sample_attrs)" by simp
  have laws: "view_laws (cd_sdk sample_codec)" "validate_by_view (cd_sdk sample_codec)"
    by (simp_all add: sample_view_laws sample_validate_by_view)
  from decode_order_irrelevant [OF laws names ct perm sample_decodes] obtain ce'
    where "Decode sample_codec [] (rev sample_attrs) ''{}'' sample_defaults = Inr ce'"
      and "sdk_view (cd_sdk sample_codec) ce' = sdk_view (cd_sdk sample_codec)
        (sample_event ''1'' [(''tenant'', XString ''a'')]\<lparr>se_type := ''raw'', se_source := ''/sqs''\<rparr>)"
      and "event_data (cd_sdk sample_codec) ce' = event_data (cd_sdk sample_codec)
        (sample_event ''1'' [(''tenant'', XString ''a'')]\<lparr>se_type := ''raw'', se_source := ''/sqs''\<rparr>)" by blast
  then show ?thesis by (intro exI [of _ ce']) (simp add: sample_sdk_view sample_event_def)
qed

theorem encode_decode_round_trip_witness:
  "let e = sample_event ''1'' [(''tenant'', XString ''a''), (''retried'', XBool True)] in
   \<exists>attrs ce'. Encode sample_codec e = Inr attrs
     \<and> Decode sample_codec ''application/json'' (rev attrs) (se_data e) sample_defaults = Inr ce'
     \<and> extension sample_sdk ce' ''retried'' = Some (XString ''true'') \<and> se_data ce' = ''{}''"
proof -
  let ?e = "sample_event ''1'' [(''tenant'', XString ''a''), (''retried'', XBool True)]"
  have settled: "settled (cd_sdk sample_codec) ?e"
    by (simp add: settled_def sample_event_def CloudEventsVersionV1_def)
  have valid: "event_validate (cd_sdk sample_codec) ?e = None" by (simp add: sample_event_def)
  have json: "ContentType sample_codec ?e = ''application/json''" by code_simp
  have ct: "ContentType sample_codec ?e \<noteq> ApplicationCloudEventsJSON" by code_simp
  obtain attrs where enc: "Encode sample_codec ?e = Inr attrs"
    by (cases "Encode sample_codec ?e") (simp_all, code_simp)
  obtain ce' where dec: "Decode sample_codec ''application/json'' (rev attrs) (se_data ?e) sample_defaults = Inr ce'"
    and view: "sdk_view sample_sdk ce' = wire_view sample_codec ?e" and data: "se_data ce' = se_data ?e"
    using encode_decode_round_trip [OF sample_codec_laws settled valid ct, of sample_defaults]
    unfolding enc sum.case json by (auto dest: spec [of _ "rev attrs"])
  have "v_ext (wire_view sample_codec ?e) ''retried'' = Some (XString ''true'')" by code_simp
  then have "extension sample_sdk ce' ''retried'' = Some (XString ''true'')"
    unfolding view [symmetric] by (simp add: sdk_view_def)
  moreover have "se_data ?e = ''{}''" by (simp add: sample_event_def)
  ultimately show ?thesis using enc dec data by (auto simp: Let_def)
qed

end
