(* ===== verification/Slots.thy ===== *)
theory Slots
  imports Contracts "HOL-Library.Multiset"
begin

text \<open>
  The run slot every polling subscriber keeps under its mutex: the run that \<open>Start\<close> began (the
  \<open>cancel\<close>/\<open>done\<close> pair, the \<open>ConsumeContext\<close>) or nothing.  Runs are numbered in the order they
  begin.  \<open>sl_live\<close> holds the runs whose goroutines have not finished (\<open>done\<close> is not closed),
  \<open>sl_cancelled\<close> the runs that were told to stop.
\<close>

record slots =
  sl_cur :: "nat option"
  sl_next :: nat
  sl_live :: "nat list"
  sl_cancelled :: "nat list"

definition no_slots :: slots where
  "no_slots = \<lparr>sl_cur = None, sl_next = 0, sl_live = [], sl_cancelled = []\<rparr>"

definition slot_spawn :: "slots \<Rightarrow> slots" where
  "slot_spawn s = s\<lparr>sl_cur := Some (sl_next s), sl_next := Suc (sl_next s), sl_live := sl_next s # sl_live s\<rparr>"

definition slot_cancel :: "nat \<Rightarrow> slots \<Rightarrow> slots" where
  "slot_cancel r s = s\<lparr>sl_cancelled := List.insert r (sl_cancelled s)\<rparr>"

definition slot_exit :: "nat \<Rightarrow> slots \<Rightarrow> slots" where
  "slot_exit r s = s\<lparr>sl_live := removeAll r (sl_live s)\<rparr>"

text \<open>\<open>if s.done == done { s.cancel, s.done = nil, nil }\<close>\<close>

definition slot_clear :: "nat \<Rightarrow> slots \<Rightarrow> slots" where
  "slot_clear r s = (if sl_cur s = Some r then s\<lparr>sl_cur := None\<rparr> else s)"

definition slots_ok :: "slots \<Rightarrow> bool" where
  "slots_ok s \<longleftrightarrow> (\<forall>r \<in> set (sl_live s). sl_cur s = Some r)"

lemma slots_ok_simps [simp]:
  "slots_ok no_slots"
  "slots_ok (slot_cancel r s) = slots_ok s"
  "sl_cur (slot_cancel r s) = sl_cur s" "sl_live (slot_cancel r s) = sl_live s"
  "sl_cur (slot_exit r s) = sl_cur s" "sl_live (slot_exit r s) = removeAll r (sl_live s)"
  "sl_cur (slot_spawn s) = Some (sl_next s)" "sl_live (slot_spawn s) = sl_next s # sl_live s"
  "sl_live (slot_clear r s) = sl_live s"
  by (auto simp: slots_ok_def no_slots_def slot_cancel_def slot_exit_def slot_spawn_def slot_clear_def)

lemma slots_ok_spawn: "slots_ok s \<Longrightarrow> sl_cur s = None \<Longrightarrow> slots_ok (slot_spawn s)"
  by (auto simp: slots_ok_def)

lemma slots_ok_exit: "slots_ok s \<Longrightarrow> slots_ok (slot_exit r s)"
  by (auto simp: slots_ok_def)

lemma slots_ok_clear: "slots_ok s \<Longrightarrow> r \<notin> set (sl_live s) \<Longrightarrow> slots_ok (slot_clear r s)"
  by (cases "sl_live s") (auto simp: slots_ok_def slot_clear_def)

lemma sl_cur_clear: "sl_cur (slot_clear r s) = (if sl_cur s = Some r then None else sl_cur s)"
  by (simp add: slot_clear_def)

subsection \<open>Interleaved calls\<close>

text \<open>
  What \<open>Start\<close> and \<open>Stop\<close> calls from several goroutines, and the end of runs, may do to the slot:
  a run begins only in an empty slot, the slot is emptied only when its run is over.  Inside the
  locale, whatever the interleaving, no two runs are alive at once and an empty slot means that
  nothing runs.
\<close>

locale run_slot =
  fixes step :: "'s \<Rightarrow> 's \<Rightarrow> bool"
    and slots :: "'s \<Rightarrow> slots"
  assumes step_kinds: "step s t \<Longrightarrow>
    slots t = slots s \<or> (sl_cur (slots s) = None \<and> slots t = slot_spawn (slots s))
    \<or> (\<exists>r. slots t = slot_cancel r (slots s)) \<or> (\<exists>r. slots t = slot_exit r (slots s))
    \<or> (\<exists>r. r \<notin> set (sl_live (slots s)) \<and> slots t = slot_clear r (slots s))"
begin

lemma step_ok: "step s t \<Longrightarrow> slots_ok (slots s) \<Longrightarrow> slots_ok (slots t)"
  using step_kinds [of s t] slots_ok_spawn slots_ok_exit slots_ok_clear by auto

lemma reachable_ok: "step\<^sup>*\<^sup>* s t \<Longrightarrow> slots_ok (slots s) \<Longrightarrow> slots_ok (slots t)"
  by (induction rule: rtranclp_induct) (auto intro: step_ok)

lemma one_run:
  assumes "step\<^sup>*\<^sup>* s t" and "slots_ok (slots s)" and "r \<in> set (sl_live (slots t))" and "r' \<in> set (sl_live (slots t))"
  shows "r = r' \<and> sl_cur (slots t) = Some r"
proof -
  from reachable_ok [OF assms(1,2)] assms(3,4) have "sl_cur (slots t) = Some r" "sl_cur (slots t) = Some r'"
    unfolding slots_ok_def by blast+
  then show ?thesis by simp
qed

lemma idle_is_quiet:
  assumes "step\<^sup>*\<^sup>* s t" and "slots_ok (slots s)" and "sl_cur (slots t) = None"
  shows "sl_live (slots t) = []"
  using reachable_ok [OF assms(1,2)] assms(3) by (cases "sl_live (slots t)") (auto simp: slots_ok_def)

end

subsection \<open>Runs that end by themselves\<close>

text \<open>
  A subscriber that reports the failure of a run watches its end, without a lock: a run that is over
  waits in \<open>ended\<close> for the check whether it was told to stop; a run the check found failed waits in
  \<open>failing\<close> for the report, and calls from other goroutines may come in between.  Inside the locale,
  a run is reported at most once, never while it is alive, and only if the check came before anyone
  told it to stop; a run that was told to stop and is not waiting in \<open>failing\<close> is not reported any
  more.
\<close>

lemma sl_next_simps [simp]:
  "sl_next (slot_spawn s) = Suc (sl_next s)" "sl_next (slot_cancel r s) = sl_next s"
  "sl_next (slot_exit r s) = sl_next s" "sl_next (slot_clear r s) = sl_next s"
  by (simp_all add: slot_spawn_def slot_cancel_def slot_exit_def slot_clear_def)

lemma sl_cancelled_grows [simp]:
  "sl_cancelled (slot_spawn s) = sl_cancelled s" "sl_cancelled (slot_exit r s) = sl_cancelled s"
  "sl_cancelled (slot_clear r s) = sl_cancelled s" "set (sl_cancelled (slot_cancel r s)) = insert r (set (sl_cancelled s))"
  by (simp_all add: slot_spawn_def slot_cancel_def slot_exit_def slot_clear_def)

locale run_watch = run_slot step slots for step :: "'s \<Rightarrow> 's \<Rightarrow> bool" and slots :: "'s \<Rightarrow> slots" +
  fixes ended :: "'s \<Rightarrow> nat list"
    and failing :: "'s \<Rightarrow> nat list"
    and reported :: "'s \<Rightarrow> nat list"
  assumes watch_kinds: "step s t \<Longrightarrow>
      (ended t = ended s \<and> failing t = failing s \<and> reported t = reported s \<and> sl_live (slots t) = sl_live (slots s)
         \<and> sl_next (slots t) = sl_next (slots s))
    \<or> (ended t = ended s \<and> failing t = failing s \<and> reported t = reported s \<and> slots t = slot_spawn (slots s))
    \<or> (\<exists>r \<in> set (sl_live (slots s)). slots t = slot_exit r (slots s) \<and> ended t = r # ended s
         \<and> failing t = failing s \<and> reported t = reported s)
    \<or> (\<exists>r. mset (ended s) = add_mset r (mset (ended t)) \<and> slots t = slots s \<and> reported t = reported s
         \<and> (failing t = failing s \<or> (r \<notin> set (sl_cancelled (slots s)) \<and> failing t = failing s @ [r])))
    \<or> (\<exists>r. mset (failing s) = add_mset r (mset (failing t)) \<and> slots t = slots s \<and> ended t = ended s
         \<and> reported t = reported s @ [r])"
begin

definition all_runs :: "'s \<Rightarrow> nat list" where
  "all_runs s = sl_live (slots s) @ ended s @ failing s @ reported s"

definition watched :: "'s \<Rightarrow> bool" where
  "watched s \<longleftrightarrow> distinct (all_runs s) \<and> (\<forall>r \<in> set (all_runs s). r < sl_next (slots s))"

text \<open>Whose failure was found, reported already or not yet.\<close>

definition judged_failed :: "'s \<Rightarrow> nat set" where
  "judged_failed s = set (failing s) \<union> set (reported s)"

lemma watched_exit:
  assumes "watched s" and "r \<in> set (sl_live (slots s))" and "slots t = slot_exit r (slots s)"
    and "ended t = r # ended s" and "failing t = failing s" and "reported t = reported s"
  shows "watched t"
  using assms by (auto simp: watched_def all_runs_def distinct_removeAll)

lemma watched_move:
  assumes inv: "watched s" and slots: "slots t = slots s" and perm: "mset (all_runs s) = mset (all_runs t @ extra)"
  shows "watched t"
proof -
  from inv have "distinct (all_runs t @ extra)"
    using mset_eq_imp_distinct_iff [OF perm] by (simp add: watched_def)
  moreover have "set (all_runs t) \<subseteq> set (all_runs s)" using mset_eq_setD [OF perm] by auto
  ultimately show ?thesis using inv by (auto simp: watched_def slots)
qed

lemma watched_judge:
  assumes "watched s" and "mset (ended s) = add_mset r (mset (ended t))" and "slots t = slots s"
    and "reported t = reported s" and "failing t = failing s \<or> failing t = failing s @ [r]"
  shows "watched t"
  using assms(5)
proof
  assume "failing t = failing s"
  with assms show ?thesis by (intro watched_move [of s t "[r]"]) (simp_all add: all_runs_def)
next
  assume "failing t = failing s @ [r]"
  with assms show ?thesis by (intro watched_move [of s t "[]"]) (simp_all add: all_runs_def)
qed

lemma watched_report:
  assumes "watched s" and "mset (failing s) = add_mset r (mset (failing t))" and "slots t = slots s"
    and "ended t = ended s" and "reported t = reported s @ [r]"
  shows "watched t"
  using assms by (intro watched_move [of s t "[]"]) (simp_all add: all_runs_def)

lemma step_watched: "step s t \<Longrightarrow> watched s \<Longrightarrow> watched t"
  by (drule watch_kinds, elim disjE bexE exE conjE)
    (auto intro: watched_exit watched_judge watched_report simp: less_Suc_eq,
     auto simp: watched_def all_runs_def less_Suc_eq)

lemma reachable_watched: "step\<^sup>*\<^sup>* s t \<Longrightarrow> watched s \<Longrightarrow> watched t"
  by (induction rule: rtranclp_induct) (auto intro: step_watched)

lemma reported_once: "step\<^sup>*\<^sup>* s t \<Longrightarrow> watched s \<Longrightarrow> distinct (failing t @ reported t)"
  using reachable_watched [of s t] by (simp add: watched_def all_runs_def)

lemma alive_unreported: "step\<^sup>*\<^sup>* s t \<Longrightarrow> watched s \<Longrightarrow> r \<in> set (sl_live (slots t)) \<Longrightarrow> r \<notin> judged_failed t"
  using reachable_watched [of s t] by (auto simp: watched_def all_runs_def judged_failed_def)

lemma step_judged_failed:
  assumes "step s t" and "r \<in> judged_failed t"
  shows "r \<in> judged_failed s \<or> (r \<in> set (ended s) \<and> r \<notin> set (sl_cancelled (slots s)))"
  using watch_kinds [OF assms(1)] assms(2)
  by (elim disjE bexE exE conjE; auto simp: judged_failed_def dest!: arg_cong [where f = set_mset])

lemma step_reported:
  assumes "step s t" and "r \<in> set (reported t)"
  shows "r \<in> judged_failed s"
  using watch_kinds [OF assms(1)] assms(2)
  by (elim disjE bexE exE conjE; auto simp: judged_failed_def dest!: arg_cong [where f = set_mset])

text \<open>Whoever is reported was over, and not told to stop, when it was checked.\<close>

lemma judged_before:
  "step\<^sup>*\<^sup>* s t \<Longrightarrow> r \<in> judged_failed t \<Longrightarrow> r \<notin> judged_failed s \<Longrightarrow>
     \<exists>u. step\<^sup>*\<^sup>* s u \<and> step\<^sup>*\<^sup>* u t \<and> r \<in> set (ended u) \<and> r \<notin> set (sl_cancelled (slots u))"
proof (induction rule: rtranclp_induct)
  case (step t' t'')
  show ?case
  proof (cases "r \<in> judged_failed t'")
    case True
    with step(3,5) obtain u where "step\<^sup>*\<^sup>* s u" "step\<^sup>*\<^sup>* u t'" "r \<in> set (ended u)" "r \<notin> set (sl_cancelled (slots u))"
      by blast
    with step(2) show ?thesis by (meson rtranclp.rtrancl_into_rtrancl)
  next
    case False
    with step_judged_failed [OF step(2,4)] have "r \<in> set (ended t')" "r \<notin> set (sl_cancelled (slots t'))" by simp_all
    with step(1,2) show ?thesis by blast
  qed
qed simp

lemma step_cancelled: "step s t \<Longrightarrow> set (sl_cancelled (slots s)) \<subseteq> set (sl_cancelled (slots t))"
  by (drule step_kinds) (elim disjE exE conjE; auto)

lemma stop_silences:
  "step\<^sup>*\<^sup>* s t \<Longrightarrow> r \<in> set (sl_cancelled (slots s)) \<Longrightarrow> r \<notin> judged_failed s \<Longrightarrow>
     r \<notin> judged_failed t \<and> r \<in> set (sl_cancelled (slots t))"
  by (induction rule: rtranclp_induct) (use step_judged_failed step_cancelled in blast)+

lemma step_keeps_reported: "step s t \<Longrightarrow> set (reported s) \<subseteq> set (reported t)"
  by (drule watch_kinds) (elim disjE bexE exE conjE; auto)

lemma keeps_reported: "step\<^sup>*\<^sup>* s t \<Longrightarrow> set (reported s) \<subseteq> set (reported t)"
  by (induction rule: rtranclp_induct) (use step_keeps_reported in blast)+

end

end
