(* ===== verification/Nats.thy ===== *)
theory Nats
  imports Transport Slots
begin

text \<open>
  \<open>pkg/transport/nats\<close>, the parts both NATS transports share and the core one: the codec, the
  core publisher and subscriber, the connection (\<open>natsconn\<close>) and \<open>pkg/transport/internal/redact\<close>.

  The NATS client library is a parameter: the header operations, the connection's calls.  A header
  is the Go map as an association list, nil being the empty one.
\<close>

subsection \<open>Headers and messages\<close>

type_synonym header = "(string \<times> string list) list"

record nats_msg =
  nm_Subject :: string
  nm_Header :: header
  nm_Data :: bytes

text \<open>\<open>nl_uuid\<close> is \<open>uuid.NewV7().String()\<close>; \<open>nl_MsgIdHdr\<close> the library's name of the dedup header.\<close>

record 'w nats_lib =
  nl_Get :: "header \<Rightarrow> string \<Rightarrow> string"
  nl_Set :: "header \<Rightarrow> string \<Rightarrow> string \<Rightarrow> header"
  nl_MsgIdHdr :: string
  nl_uuid :: "'w \<Rightarrow> string \<times> 'w"

text \<open>
  The documented behaviour of \<open>nats.Header\<close>: \<open>Set\<close> replaces the values of a key by one, \<open>Get\<close> gives
  the first value of a key or the empty string, both case-sensitive.
\<close>

definition first_value :: "header \<Rightarrow> string \<Rightarrow> string" where
  "first_value h k = (case map_of h k of Some (v # vs) \<Rightarrow> v | _ \<Rightarrow> [])"

definition header_laws :: "'w nats_lib \<Rightarrow> bool" where
  "header_laws L \<longleftrightarrow> (\<forall>h k v. nl_Set L h k v = AList.update k [v] h) \<and> (\<forall>h k. nl_Get L h k = first_value h k)"

subsection \<open>codec/marshaler.go\<close>

definition contentTypeHeader :: string where
  "contentTypeHeader = ''Content-Type''"

type_synonym 'ev nats_marshaler = "string \<Rightarrow> 'ev \<Rightarrow> goerr + nats_msg"

definition nats_Marshal :: "'w nats_lib \<Rightarrow> 'ev codec \<Rightarrow> 'ev nats_marshaler" where
  "nats_Marshal L C subject ce =
     (case Encode C ce of
        Inl err \<Rightarrow> Inl (wrap_prefix ''nats: marshal'' err)
      | Inr attrs \<Rightarrow>
          (let h = fold (\<lambda>(k, v) h. nl_Set L h k v) attrs [];
               h = nl_Set L h contentTypeHeader (ContentType C ce)
           in Inr \<lparr>nm_Subject = subject, nm_Header = h, nm_Data = event_data (cd_sdk C) ce\<rparr>))"

subsection \<open>codec/unmarshaler.go\<close>

definition nats_defaults :: "string \<Rightarrow> Defaults" where
  "nats_defaults eid = \<lparr>def_ID = eid, def_Type = ''io.nats.message'', def_Source = ''//nats.io''\<rparr>"

text \<open>The id both \<open>Unmarshal\<close> and \<open>Rescue\<close> fall back on.\<close>

definition fallback_id :: "'w nats_lib \<Rightarrow> header \<Rightarrow> ('w, string) go" where
  "fallback_id L headers =
     (let eid = nl_Get L headers (nl_MsgIdHdr L)
      in if eid = [] then go_total (nl_uuid L) else go_ret eid)"

definition firstValues :: "header \<Rightarrow> (string \<times> string) list" where
  "firstValues h = List.map_filter (\<lambda>(k, vs). case vs of [] \<Rightarrow> None | v # _ \<Rightarrow> Some (k, v)) h"

definition nats_Unmarshal :: "'w nats_lib \<Rightarrow> 'ev codec \<Rightarrow> header \<Rightarrow> bytes \<Rightarrow> ('w, goerr + 'ev) go" where
  "nats_Unmarshal L C headers data =
     go_bind (fallback_id L headers) (\<lambda>eid.
     (case Decode C (nl_Get L headers contentTypeHeader) (firstValues headers) data (nats_defaults eid) of
        Inl err \<Rightarrow> go_ret (Inl (wrap_prefix ''nats: unmarshal'' err))
      | Inr ce \<Rightarrow> go_ret (Inr ce)))"

definition nats_Rescue :: "'w nats_lib \<Rightarrow> 'ev codec \<Rightarrow> header \<Rightarrow> bytes \<Rightarrow> ('w, 'ev) go" where
  "nats_Rescue L C headers data =
     go_bind (fallback_id L headers) (\<lambda>eid.
     go_ret (Rescue C (nats_defaults eid) (nl_Get L headers contentTypeHeader) data))"

text \<open>
  What the core and the JetStream subscribers do with a message: decode it, or rescue it, and hand
  it to the router with the delivery of their transport.
\<close>

definition nats_receive :: "('ev, 'w) surroundings \<Rightarrow> 'w nats_lib \<Rightarrow> ('ev, 'w) msg_handler \<Rightarrow> header \<Rightarrow> bytes
    \<Rightarrow> 'w delivery \<Rightarrow> ('w, unit) go" where
  "nats_receive W L h headers data d =
     (let traceparent = nl_Get L headers (tp_header W) in
      go_bind (nats_Unmarshal L (tp_codec W) headers data) (\<lambda>r.
      (case r of
         Inl err \<Rightarrow> go_bind (nats_Rescue L (tp_codec W) headers data) (\<lambda>rescue.
           deliver_undecodable W h traceparent rescue d err)
       | Inr ce \<Rightarrow> deliver_event W h traceparent ce d)))"

text \<open>The native trace header of both publishers.\<close>

definition nats_traced :: "('ev, 'w) surroundings \<Rightarrow> 'w nats_lib \<Rightarrow> trace_context option \<Rightarrow> nats_msg \<Rightarrow> nats_msg" where
  "nats_traced W L tc m =
     (case tc of None \<Rightarrow> m
      | Some t \<Rightarrow> m\<lparr>nm_Header := nl_Set L (nm_Header m) (tp_header W) (trace_parent (tp_tracer W) t)\<rparr>)"

subsection \<open>core/publisher.go\<close>

text \<open>
  \<open>*nats.Conn\<close>: publishing, subscribing (the callback goes to the server's messages, the queue
  group is empty for a plain \<open>Subscribe\<close>) and draining one subscription.  A subscription is named by
  the number of its \<open>Start\<close>.
\<close>

record 'w nats_conn =
  nc_PublishMsg :: "nats_msg \<Rightarrow> ('w, goerr option) go"
  nc_Subscribe :: "string \<Rightarrow> (nats_msg \<Rightarrow> ('w, unit) go) \<Rightarrow> ('w, goerr option) go"
  nc_QueueSubscribe :: "string \<Rightarrow> string \<Rightarrow> (nats_msg \<Rightarrow> ('w, unit) go) \<Rightarrow> ('w, goerr option) go"
  nc_DrainSub :: "nat \<Rightarrow> ('w, goerr option) go"

record 'ev core_pub_config =
  kp_Subject :: string
  kp_Marshaler :: "'ev nats_marshaler option"

record ('ev, 'w) core_publisher =
  kp_nc :: "'w nats_conn"
  kp_subject :: string
  kp_marshaler :: "'ev nats_marshaler"
  kp_logger :: logger

definition core_NewPublisher :: "('ev, 'w) surroundings \<Rightarrow> 'w nats_lib \<Rightarrow> 'w nats_conn option \<Rightarrow> 'ev core_pub_config
    \<Rightarrow> logger option \<Rightarrow> goerr + ('ev, 'w) core_publisher" where
  "core_NewPublisher W L nc cfg lg =
     (case nc of
        None \<Rightarrow> Inl (errors_new ''core publisher: nil nats connection'')
      | Some nc \<Rightarrow>
          if kp_Subject cfg = [] then Inl (errors_new ''core publisher: empty subject'')
          else Inr \<lparr>kp_nc = nc, kp_subject = kp_Subject cfg,
                 kp_marshaler = (case kp_Marshaler cfg of Some m \<Rightarrow> m | None \<Rightarrow> nats_Marshal L (tp_codec W)),
                 kp_logger = Transport lg ''nats-core-publisher'' SystemNATS (kp_Subject cfg)\<rparr>)"

definition core_Publish :: "('ev, 'w) surroundings \<Rightarrow> 'w nats_lib \<Rightarrow> ('ev, 'w) core_publisher \<Rightarrow> ctx \<Rightarrow> 'ev
    \<Rightarrow> ('w, goerr option) go" where
  "core_Publish W L p c ce =
     (case InjectTraceFromContext (tp_tracer W) (tp_sdk W) c ce of (ce, tc) \<Rightarrow>
     (case kp_marshaler p (kp_subject p) ce of
        Inl err \<Rightarrow> go_ret (Some (wrap_prefix ''core publish marshal'' err))
      | Inr msg \<Rightarrow> go_bind (nc_PublishMsg (kp_nc p) (nats_traced W L tc msg)) (\<lambda>err.
          (case err of
             Some e \<Rightarrow> go_ret (Some (wrap_prefix ''core publish'' e))
           | None \<Rightarrow> go_seq (emit W (kp_logger p) LevelDebug ''event published''
               [AStr KeyMessagingMessageID (event_id (tp_sdk W) ce)]) (go_ret None)))))"

subsection \<open>core/subscriber.go\<close>

record core_sub_config =
  ks_Subject :: string
  ks_QueueGroup :: string

text \<open>
  \<open>ks_slots\<close> holds \<open>s.sub\<close> and the subscriptions the SDK still calls valid; \<open>ks_drains\<close> is a ghost
  field, the subscriptions \<open>Drain\<close> was called on, in order.
\<close>

record 'w core_subscriber =
  ks_nc :: "'w nats_conn"
  ks_cfg :: core_sub_config
  ks_logger :: logger
  ks_slots :: slots
  ks_draining :: bool
  ks_world :: 'w
  ks_drains :: "nat list"

definition core_NewSubscriber :: "'w nats_conn option \<Rightarrow> core_sub_config \<Rightarrow> logger option \<Rightarrow> 'w
    \<Rightarrow> goerr + 'w core_subscriber" where
  "core_NewSubscriber nc cfg lg w =
     (case nc of
        None \<Rightarrow> Inl (errors_new ''core subscriber: nil nats connection'')
      | Some nc \<Rightarrow>
          if ks_Subject cfg = [] then Inl (errors_new ''core subscriber: empty subject'')
          else Inr \<lparr>ks_nc = nc, ks_cfg = cfg,
                 ks_logger = Transport lg ''nats-core-subscriber'' SystemNATS (ks_Subject cfg),
                 ks_slots = no_slots, ks_draining = False, ks_world = w, ks_drains = []\<rparr>)"

definition on_ks_world :: "('w, 'a) go \<Rightarrow> ('w core_subscriber, 'a) go" where
  "on_ks_world = go_zoom ks_world (\<lambda>w s. s\<lparr>ks_world := w\<rparr>)"

definition core_no_delivery :: "'w delivery" where
  "core_no_delivery = \<lparr>dl_ack = None, dl_nack = None, dl_discard = None, dl_count = 0\<rparr>"

definition core_callback :: "('ev, 'w) surroundings \<Rightarrow> 'w nats_lib \<Rightarrow> ('ev, 'w) msg_handler \<Rightarrow> nats_msg \<Rightarrow> ('w, unit) go" where
  "core_callback W L h m = nats_receive W L h (nm_Header m) (nm_Data m) core_no_delivery"

definition core_Start :: "('ev, 'w) surroundings \<Rightarrow> 'w nats_lib \<Rightarrow> ('ev, 'w) msg_handler \<Rightarrow> ctx
    \<Rightarrow> ('w core_subscriber, goerr option) go" where
  "core_Start W L h c =
     go_bind (go_get (\<lambda>s. s)) (\<lambda>s.
     if sl_cur (ks_slots s) \<noteq> None then go_ret (Some ErrAlreadyStarted)
     else
       (let cfg = ks_cfg s; cb = core_callback W L h in
        go_bind (on_ks_world
          (if ks_QueueGroup cfg \<noteq> [] then nc_QueueSubscribe (ks_nc s) (ks_Subject cfg) (ks_QueueGroup cfg) cb
           else nc_Subscribe (ks_nc s) (ks_Subject cfg) cb)) (\<lambda>err.
        (case err of
           Some e \<Rightarrow> go_ret (Some (wrap_prefix (''core subscribe '' @ go_quote (ks_Subject cfg)) e))
         | None \<Rightarrow>
             go_seq (go_modify (\<lambda>s. s\<lparr>ks_slots := slot_spawn (ks_slots s)\<rparr>))
             (go_seq (on_ks_world (emit W (ks_logger s) LevelInfo ''subscription started''
                [AStr KeyConsumerGroup (ks_QueueGroup cfg)]))
             (go_ret None))))))"

text \<open>
  \<open>Stop\<close>: its first locked section gives the subscription to stop and whether a previous \<open>Stop\<close>
  already took the drain upon itself; then the drain, outside the lock; then the wait; then the
  second locked section.
\<close>

definition core_Stop_begin :: "('w core_subscriber, (nat \<times> bool) option) go" where
  "core_Stop_begin =
     go_bind (go_get (\<lambda>s. (sl_cur (ks_slots s), ks_draining s))) (\<lambda>(sub, draining).
     go_seq (go_modify (\<lambda>s. s\<lparr>ks_draining := sub \<noteq> None\<rparr>))
     (case sub of
        None \<Rightarrow> go_ret None
      | Some r \<Rightarrow> go_ret (Some (r, draining))))"

definition core_Stop_drain :: "nat \<Rightarrow> ('w core_subscriber, goerr option) go" where
  "core_Stop_drain r =
     go_bind (go_get (\<lambda>s. s)) (\<lambda>s.
     go_seq (go_modify (\<lambda>s. s\<lparr>ks_drains := ks_drains s @ [r]\<rparr>))
     (go_bind (on_ks_world (nc_DrainSub (ks_nc s) r)) (\<lambda>err.
      go_ret (map_option (wrap_prefix (''core drain '' @ go_quote (ks_Subject (ks_cfg s)))) err))))"

definition core_Stop_finish :: "('ev, 'w) surroundings \<Rightarrow> nat \<Rightarrow> goerr option \<Rightarrow> ('w core_subscriber, goerr option) go" where
  "core_Stop_finish W r ctxErr =
     (case ctxErr of
        Some e \<Rightarrow> go_ret (Some (wrap_prefix ''core subscriber stop'' e))
      | None \<Rightarrow>
          go_seq (go_modify (\<lambda>s. if sl_cur (ks_slots s) = Some r
             then s\<lparr>ks_slots := slot_clear r (ks_slots s), ks_draining := False\<rparr> else s))
          (go_bind (go_get (\<lambda>s. s)) (\<lambda>s.
           go_seq (on_ks_world (emit W (ks_logger s) LevelInfo ''subscription stopped'' [])) (go_ret None))))"

text \<open>A \<open>Stop\<close> with no other call around; \<open>await\<close> is the poll loop.\<close>

definition core_Stop :: "('ev, 'w) surroundings \<Rightarrow> (ctx \<Rightarrow> ('w, goerr option) go) \<Rightarrow> ctx
    \<Rightarrow> ('w core_subscriber, goerr option) go" where
  "core_Stop W await c =
     go_bind core_Stop_begin (\<lambda>sub.
     (case sub of
        None \<Rightarrow> go_ret None
      | Some (r, draining) \<Rightarrow>
          go_bind (if draining then go_ret None else core_Stop_drain r) (\<lambda>err.
          if err \<noteq> None then go_ret err
          else go_bind (on_ks_world (await c)) (\<lambda>ctxErr.
            go_seq (go_when (ctxErr = None) (go_modify (\<lambda>s. s\<lparr>ks_slots := slot_exit r (ks_slots s)\<rparr>)))
              (core_Stop_finish W r ctxErr)))))"

lemmas core_defs = on_ks_world_def core_Start_def core_Stop_begin_def core_Stop_drain_def core_Stop_finish_def core_Stop_def

text \<open>
  Calls interleaved: every goroutine inside \<open>Stop\<close> is about to drain or waits.  A subscription
  becomes invalid at any time: drained, or its connection closed.
\<close>

datatype core_wait = Draining nat | Waiting nat

inductive core_step :: "('ev, 'w) surroundings \<Rightarrow> 'w nats_lib \<Rightarrow> 'w core_subscriber \<times> (nat \<Rightarrow> core_wait option)
    \<Rightarrow> 'w core_subscriber \<times> (nat \<Rightarrow> core_wait option) \<Rightarrow> bool" for W L where
  starting: "core_Start W L h c s = (r, s') \<Longrightarrow> core_step W L (s, ws) (s', ws)"
| stop_idle: "core_Stop_begin s = (Ret None, s') \<Longrightarrow> core_step W L (s, ws) (s', ws)"
| stop_called: "ws t = None \<Longrightarrow> core_Stop_begin s = (Ret (Some (run, draining)), s') \<Longrightarrow>
     core_step W L (s, ws) (s', ws(t := Some (if draining then Waiting run else Draining run)))"
| drained: "ws t = Some (Draining run) \<Longrightarrow> core_Stop_drain run s = (Ret None, s') \<Longrightarrow>
     core_step W L (s, ws) (s', ws(t := Some (Waiting run)))"
| drain_fails: "ws t = Some (Draining run) \<Longrightarrow> core_Stop_drain run s = (r, s') \<Longrightarrow> r \<noteq> Ret None \<Longrightarrow>
     core_step W L (s, ws) (s', ws(t := None))"
| stop_returns: "ws t = Some (Waiting run) \<Longrightarrow> run \<notin> set (sl_live (ks_slots s)) \<Longrightarrow>
     core_Stop_finish W run None s = (r, s') \<Longrightarrow> core_step W L (s, ws) (s', ws(t := None))"
| stop_expires: "ws t = Some (Waiting run) \<Longrightarrow> run \<in> set (sl_live (ks_slots s)) \<Longrightarrow>
     core_Stop_finish W run (Some e) s = (r, s') \<Longrightarrow> core_step W L (s, ws) (s', ws(t := None))"
| invalidated: "run \<in> set (sl_live (ks_slots s)) \<Longrightarrow>
     core_step W L (s, ws) (s\<lparr>ks_slots := slot_exit run (ks_slots s)\<rparr>, ws)"
| working: "core_step W L (s, ws) (s\<lparr>ks_world := w\<rparr>, ws)"

end
