(* ===== verification/Jetstream.thy ===== *)
theory Jetstream
  imports Nats
begin

text \<open>
  \<open>pkg/transport/nats/jetstream\<close>: publisher, delivery, provisioning, subscriber and health checker.
  The JetStream client is a parameter.  A \<open>ConsumeContext\<close> is named by the number of its \<open>Start\<close>;
  the channel \<open>stopping\<close> of a run is closed when the run is in \<open>sl_cancelled\<close>.
\<close>

subsection \<open>publisher.go\<close>

datatype publish_opt = WithMsgID string | ForwardedOpt string

text \<open>\<open>jp_PublishMsg\<close> answers with the stream and the sequence of the acknowledgement.\<close>

record 'w js_publish_api =
  jp_PublishMsg :: "ctx \<Rightarrow> nats_msg \<Rightarrow> publish_opt list \<Rightarrow> ('w, goerr + string \<times> u64) go"
  jp_PublishMsgAsync :: "nats_msg \<Rightarrow> publish_opt list \<Rightarrow> ('w, goerr option) go"

record 'ev js_pub_config =
  jc_Subject :: string
  jc_Marshaler :: "'ev nats_marshaler option"
  jc_AckAsync :: bool
  jc_TrackMsgID :: bool
  jc_PublishOpts :: "publish_opt list"

record ('ev, 'w) js_publisher =
  jp_js :: "'w js_publish_api"
  jp_cfg :: "'ev js_pub_config"
  jp_marshaler :: "'ev nats_marshaler"
  jp_logger :: logger

definition js_NewPublisher :: "('ev, 'w) surroundings \<Rightarrow> 'w nats_lib \<Rightarrow> 'w js_publish_api option \<Rightarrow> 'ev js_pub_config
    \<Rightarrow> logger option \<Rightarrow> goerr + ('ev, 'w) js_publisher" where
  "js_NewPublisher W L js cfg lg =
     (case js of
        None \<Rightarrow> Inl (errors_new ''jetstream publisher: nil JetStream'')
      | Some js \<Rightarrow>
          if jc_Subject cfg = [] then Inl (errors_new ''jetstream publisher: empty subject'')
          else Inr \<lparr>jp_js = js, jp_cfg = cfg,
                 jp_marshaler = (case jc_Marshaler cfg of Some m \<Rightarrow> m | None \<Rightarrow> nats_Marshal L (tp_codec W)),
                 jp_logger = Transport lg ''jetstream-publisher'' SystemNATS (jc_Subject cfg)\<rparr>)"

definition js_Publish :: "('ev, 'w) surroundings \<Rightarrow> 'w nats_lib \<Rightarrow> ('ev, 'w) js_publisher \<Rightarrow> ctx \<Rightarrow> 'ev
    \<Rightarrow> ('w, goerr option) go" where
  "js_Publish W L p c ce =
     (case InjectTraceFromContext (tp_tracer W) (tp_sdk W) c ce of (ce, tc) \<Rightarrow>
     (case jp_marshaler p (jc_Subject (jp_cfg p)) ce of
        Inl err \<Rightarrow> go_ret (Some (wrap_prefix ''jetstream publish marshal'' err))
      | Inr msg \<Rightarrow>
          (let msg = nats_traced W L tc msg;
               opts = jc_PublishOpts (jp_cfg p)
                 @ (if jc_TrackMsgID (jp_cfg p) then [WithMsgID (event_id (tp_sdk W) ce)] else [])
           in if jc_AckAsync (jp_cfg p) then
                go_bind (jp_PublishMsgAsync (jp_js p) msg opts) (\<lambda>err.
                go_ret (map_option (wrap_prefix ''jetstream publish async'') err))
              else
                go_bind (jp_PublishMsg (jp_js p) c msg opts) (\<lambda>ack.
                (case ack of
                   Inl err \<Rightarrow> go_ret (Some (wrap_prefix ''jetstream publish'' err))
                 | Inr (stream, sequence) \<Rightarrow>
                     go_seq (emit W (jp_logger p) LevelDebug ''event published''
                       [AStr KeyNATSStream stream, AUint KeyNATSSequence sequence,
                        AStr KeyMessagingMessageID (event_id (tp_sdk W) ce)])
                     (go_ret None))))))"

subsection \<open>delivery.go\<close>

text \<open>\<open>jm_Metadata\<close> gives \<open>NumDelivered\<close>, or fails for a message that is not JetStream's.\<close>

record 'w js_msg =
  jm_Headers :: header
  jm_Data :: bytes
  jm_Metadata :: "goerr + u64"
  jm_Ack :: "('w, goerr option) go"
  jm_Nak :: "('w, goerr option) go"
  jm_NakWithDelay :: "int \<Rightarrow> ('w, goerr option) go"
  jm_TermWithReason :: "string \<Rightarrow> ('w, goerr option) go"

definition termReasonDiscarded :: string where
  "termReasonDiscarded = ''discarded by eventmux''"

definition js_wrap :: "string \<Rightarrow> ('w, goerr option) go \<Rightarrow> ('w, goerr option) go" where
  "js_wrap op call = go_bind call (\<lambda>err. go_ret (map_option (wrap_prefix (''jetstream: '' @ op)) err))"

definition newDelivery :: "'w js_msg \<Rightarrow> int \<Rightarrow> 'w delivery" where
  "newDelivery m nakDelay =
     \<lparr>dl_ack = Some (js_wrap ''ack'' (jm_Ack m)),
      dl_nack = Some (if nakDelay > 0 then js_wrap ''nak'' (jm_NakWithDelay m nakDelay) else js_wrap ''nak'' (jm_Nak m)),
      dl_discard = Some (js_wrap ''term'' (jm_TermWithReason m termReasonDiscarded)),
      dl_count = (case jm_Metadata m of Inr n \<Rightarrow> n | Inl _ \<Rightarrow> 0)\<rparr>"

subsection \<open>subscriber.go and provision.go\<close>

record consumer_config =
  cf_Name :: string
  cf_FilterSubject :: string
  cf_DeliverNew :: bool
  cf_AckExplicit :: bool
  cf_AckWait :: int
  cf_MaxDeliver :: int
  cf_InactiveThreshold :: int

datatype 'w pull_opt = PullMaxMessages int | ConsumeErrHandler "goerr \<Rightarrow> ('w, unit) go" | PullMaxBytes int

record 'w js_consumer =
  co_Consume :: "('w js_msg \<Rightarrow> ('w, unit) go) \<Rightarrow> 'w pull_opt list \<Rightarrow> ('w, goerr option) go"

record 'w js_stream =
  st_CreateConsumer :: "ctx \<Rightarrow> consumer_config \<Rightarrow> ('w, goerr + 'w js_consumer) go"

text \<open>Of a stream configuration the code reads the name; the rest is the server's.\<close>

record stream_config =
  stc_Name :: string
  stc_Rest :: string

text \<open>\<open>jsc_Drain\<close> is \<open>ConsumeContext.Drain\<close>, which returns nothing.\<close>

record 'w js_client =
  jsc_Stream :: "ctx \<Rightarrow> string \<Rightarrow> ('w, goerr + 'w js_stream) go"
  jsc_CreateOrUpdateStream :: "ctx \<Rightarrow> stream_config \<Rightarrow> ('w, goerr + 'w js_stream) go"
  jsc_Drain :: "nat \<Rightarrow> 'w \<Rightarrow> 'w"

record js_config =
  jcf_Stream :: string
  jcf_FilterSubject :: string
  jcf_MaxOutstandingMessages :: int
  jcf_MaxOutstandingBytes :: int
  jcf_AckWait :: int
  jcf_MaxDeliver :: int
  jcf_NakDelay :: int
  jcf_InactiveThreshold :: int
  jcf_ConsumerName :: string
  jcf_StreamConfig :: "stream_config option"

definition defaultMaxOutstandingMessages :: int where
  "defaultMaxOutstandingMessages = 50"

definition defaultAckWait :: int where
  "defaultAckWait = 30 * 10 ^ 9"

definition defaultInactiveThreshold :: int where
  "defaultInactiveThreshold = 30 * 10 ^ 9"

definition ErrConsumeStopped :: goerr where
  "ErrConsumeStopped = Sentinel ''ErrConsumeStopped'' ''jetstream: consume stopped unexpectedly''"

text \<open>
  \<open>js_ended\<close> holds the runs whose consume context is closed and whose watcher has not looked at
  \<open>stopping\<close> yet, \<open>js_failing\<close> those whose watcher found it open and is about to call \<open>onError\<close>;
  \<open>js_reported\<close> and \<open>js_drains\<close> are ghost fields: the runs reported through
  \<open>onError\<close> and the runs drained.
\<close>

record 'w js_subscriber =
  js_client :: "'w js_client"
  js_cfg :: js_config
  js_logger :: logger
  js_slots :: slots
  js_world :: 'w
  js_ended :: "nat list"
  js_failing :: "nat list"
  js_reported :: "nat list"
  js_drains :: "nat list"

definition js_with_defaults :: "js_config \<Rightarrow> js_config" where
  "js_with_defaults cfg = cfg\<lparr>
     jcf_MaxOutstandingMessages :=
       (if jcf_MaxOutstandingMessages cfg \<le> 0 then defaultMaxOutstandingMessages else jcf_MaxOutstandingMessages cfg),
     jcf_AckWait := (if jcf_AckWait cfg \<le> 0 then defaultAckWait else jcf_AckWait cfg),
     jcf_InactiveThreshold :=
       (if jcf_InactiveThreshold cfg \<le> 0 then defaultInactiveThreshold else jcf_InactiveThreshold cfg)\<rparr>"

definition new_js_subscriber :: "'w js_client \<Rightarrow> js_config \<Rightarrow> logger option \<Rightarrow> 'w \<Rightarrow> 'w js_subscriber" where
  "new_js_subscriber js cfg lg w =
     \<lparr>js_client = js, js_cfg = cfg, js_logger = Transport lg ''jetstream-subscriber'' SystemNATS (jcf_Stream cfg),
      js_slots = no_slots, js_world = w, js_ended = [], js_failing = [], js_reported = [], js_drains = []\<rparr>"

definition js_NewSubscriber :: "'w js_client option \<Rightarrow> js_config \<Rightarrow> logger option \<Rightarrow> 'w \<Rightarrow> goerr + 'w js_subscriber" where
  "js_NewSubscriber js cfg lg w =
     (case js of
        None \<Rightarrow> Inl (errors_new ''jetstream subscriber: nil JetStream'')
      | Some js \<Rightarrow>
          if jcf_Stream cfg = [] then Inl (errors_new ''jetstream subscriber: empty stream'')
          else (case map_option stc_Name (jcf_StreamConfig cfg) of
            Some name \<Rightarrow>
              if name \<noteq> jcf_Stream cfg then
                Inl (errors_new (''jetstream subscriber: StreamConfig.Name '' @ go_quote name
                  @ '' must equal Stream '' @ go_quote (jcf_Stream cfg)))
              else Inr (new_js_subscriber js (js_with_defaults cfg) lg w)
          | None \<Rightarrow> Inr (new_js_subscriber js (js_with_defaults cfg) lg w)))"

definition ensureStream :: "ctx \<Rightarrow> 'w js_client \<Rightarrow> stream_config \<Rightarrow> ('w, goerr + 'w js_stream) go" where
  "ensureStream c js cfg =
     go_bind (jsc_CreateOrUpdateStream js c cfg) (\<lambda>r.
     go_ret (case r of
        Inl err \<Rightarrow> Inl (wrap_prefix (''jetstream provision stream '' @ go_quote (stc_Name cfg)) err)
      | Inr stream \<Rightarrow> Inr stream))"

definition js_callback :: "('ev, 'w) surroundings \<Rightarrow> 'w nats_lib \<Rightarrow> ('ev, 'w) msg_handler \<Rightarrow> int \<Rightarrow> 'w js_msg
    \<Rightarrow> ('w, unit) go" where
  "js_callback W L h nakDelay m = nats_receive W L h (jm_Headers m) (jm_Data m) (newDelivery m nakDelay)"

definition consume_opts :: "('ev, 'w) surroundings \<Rightarrow> 'w js_subscriber \<Rightarrow> 'w pull_opt list" where
  "consume_opts W s =
     [PullMaxMessages (jcf_MaxOutstandingMessages (js_cfg s)),
      ConsumeErrHandler (\<lambda>cerr. emit W (js_logger s) LevelWarn ''consume error'' [AErr cerr])]
     @ (if jcf_MaxOutstandingBytes (js_cfg s) > 0 then [PullMaxBytes (jcf_MaxOutstandingBytes (js_cfg s))] else [])"

definition js_consumer_config :: "js_config \<Rightarrow> consumer_config" where
  "js_consumer_config cfg =
     \<lparr>cf_Name = jcf_ConsumerName cfg, cf_FilterSubject = jcf_FilterSubject cfg, cf_DeliverNew = True,
      cf_AckExplicit = True, cf_AckWait = jcf_AckWait cfg, cf_MaxDeliver = jcf_MaxDeliver cfg,
      cf_InactiveThreshold = jcf_InactiveThreshold cfg\<rparr>"

text \<open>What \<open>Start\<close> does with the server, up to the consume context.\<close>

definition js_consume :: "('ev, 'w) surroundings \<Rightarrow> 'w nats_lib \<Rightarrow> ('ev, 'w) msg_handler \<Rightarrow> 'w js_subscriber \<Rightarrow> ctx
    \<Rightarrow> ('w, goerr option) go" where
  "js_consume W L h s c =
     go_bind (case jcf_StreamConfig (js_cfg s) of
        Some cfg \<Rightarrow> ensureStream c (js_client s) cfg
      | None \<Rightarrow> jsc_Stream (js_client s) c (jcf_Stream (js_cfg s))) (\<lambda>r.
     (case r of
        Inl err \<Rightarrow> go_ret (Some (wrap_prefix (''jetstream subscriber resolve stream ''
          @ go_quote (jcf_Stream (js_cfg s))) err))
      | Inr stream \<Rightarrow> go_bind (st_CreateConsumer stream c (js_consumer_config (js_cfg s))) (\<lambda>r.
          (case r of
             Inl err \<Rightarrow> go_ret (Some (wrap_prefix ''jetstream subscriber create consumer'' err))
           | Inr cons \<Rightarrow> go_bind (co_Consume cons (js_callback W L h (jcf_NakDelay (js_cfg s))) (consume_opts W s)) (\<lambda>err.
               go_ret (map_option (wrap_prefix ''jetstream subscriber consume'') err))))))"

definition on_js_world :: "('w, 'a) go \<Rightarrow> ('w js_subscriber, 'a) go" where
  "on_js_world = go_zoom js_world (\<lambda>w s. s\<lparr>js_world := w\<rparr>)"

definition on_js_slots :: "(slots \<Rightarrow> slots) \<Rightarrow> ('w js_subscriber, unit) go" where
  "on_js_slots f = go_modify (\<lambda>s. s\<lparr>js_slots := f (js_slots s)\<rparr>)"

definition js_Start :: "('ev, 'w) surroundings \<Rightarrow> 'w nats_lib \<Rightarrow> ('ev, 'w) msg_handler \<Rightarrow> ctx
    \<Rightarrow> ('w js_subscriber, goerr option) go" where
  "js_Start W L h c =
     go_bind (go_get (\<lambda>s. s)) (\<lambda>s.
     if sl_cur (js_slots s) \<noteq> None then go_ret (Some ErrAlreadyStarted)
     else go_bind (on_js_world (js_consume W L h s c)) (\<lambda>err.
       (case err of
          Some e \<Rightarrow> go_ret (Some e)
        | None \<Rightarrow>
            go_seq (on_js_slots slot_spawn)
            (go_seq (on_js_world (emit W (js_logger s) LevelInfo ''subscription started''
               [AStr KeyNATSFilterSubject (jcf_FilterSubject (js_cfg s)),
                AInt KeyConsumerMaxOutstanding (jcf_MaxOutstandingMessages (js_cfg s))]))
            (go_ret None)))))"

text \<open>The consume context is closed: the watcher of the run wakes up.\<close>

definition js_consume_closed :: "nat \<Rightarrow> 'w js_subscriber \<Rightarrow> 'w js_subscriber" where
  "js_consume_closed run s = s\<lparr>js_slots := slot_exit run (js_slots s), js_ended := run # js_ended s\<rparr>"

text \<open>
  The watcher's \<open>select\<close> on \<open>stopping\<close>, and the report: two steps, with no lock, so that a \<open>Stop\<close>
  may come between them.
\<close>

definition js_judge :: "nat \<Rightarrow> 'w js_subscriber \<Rightarrow> 'w js_subscriber" where
  "js_judge run s =
     (let s = s\<lparr>js_ended := remove1 run (js_ended s)\<rparr> in
      if run \<in> set (sl_cancelled (js_slots s)) then s
      else s\<lparr>js_failing := js_failing s @ [run]\<rparr>)"

definition js_report :: "(goerr \<Rightarrow> ('w, unit) go) option \<Rightarrow> nat \<Rightarrow> ('w js_subscriber, unit) go" where
  "js_report onError run =
     go_seq (go_modify (\<lambda>s. s\<lparr>js_failing := remove1 run (js_failing s), js_reported := js_reported s @ [run]\<rparr>))
       (on_js_world (case onError of None \<Rightarrow> go_ret () | Some f \<Rightarrow> f ErrConsumeStopped))"

text \<open>The locked section that starts \<open>Stop\<close>: the first one for a run closes \<open>stopping\<close> and drains.\<close>

definition js_Stop_begin :: "('w js_subscriber, nat option) go" where
  "js_Stop_begin =
     go_bind (go_get (\<lambda>s. s)) (\<lambda>s.
     (case sl_cur (js_slots s) of
        None \<Rightarrow> go_ret None
      | Some run \<Rightarrow>
          go_seq (go_when (run \<notin> set (sl_cancelled (js_slots s)))
            (go_seq (on_js_slots (slot_cancel run))
            (go_seq (go_modify (\<lambda>s. s\<lparr>js_drains := js_drains s @ [run]\<rparr>))
            (on_js_world (go_modify (jsc_Drain (js_client s) run))))))
          (go_ret (Some run))))"

definition js_Stop_finish :: "('ev, 'w) surroundings \<Rightarrow> nat \<Rightarrow> goerr option \<Rightarrow> ('w js_subscriber, goerr option) go" where
  "js_Stop_finish W run ctxErr =
     (case ctxErr of
        Some e \<Rightarrow> go_ret (Some (wrap_prefix ''jetstream subscriber stop'' e))
      | None \<Rightarrow>
          go_seq (on_js_slots (slot_clear run))
          (go_bind (go_get (\<lambda>s. s)) (\<lambda>s.
           go_seq (on_js_world (emit W (js_logger s) LevelInfo ''subscription stopped'' [])) (go_ret None))))"

text \<open>A \<open>Stop\<close> with no other call around; \<open>await\<close> is its \<open>select\<close>.\<close>

definition js_Stop :: "('ev, 'w) surroundings \<Rightarrow> (ctx \<Rightarrow> ('w, goerr option) go) \<Rightarrow> ctx
    \<Rightarrow> ('w js_subscriber, goerr option) go" where
  "js_Stop W await c =
     go_bind js_Stop_begin (\<lambda>cur.
     (case cur of
        None \<Rightarrow> go_ret None
      | Some run \<Rightarrow>
          go_bind (on_js_world (await c)) (\<lambda>ctxErr.
          go_seq (go_when (ctxErr = None) (on_js_slots (slot_exit run)))
            (js_Stop_finish W run ctxErr))))"

lemmas js_defs = on_js_world_def on_js_slots_def js_Start_def js_Stop_begin_def js_Stop_finish_def js_Stop_def js_report_def

text \<open>Calls, consume contexts and watchers, interleaved.\<close>

inductive js_step :: "('ev, 'w) surroundings \<Rightarrow> 'w nats_lib \<Rightarrow> 'w js_subscriber \<times> (nat \<Rightarrow> nat option)
    \<Rightarrow> 'w js_subscriber \<times> (nat \<Rightarrow> nat option) \<Rightarrow> bool" for W L where
  starting: "js_Start W L h c s = (r, s') \<Longrightarrow> js_step W L (s, ws) (s', ws)"
| stop_called: "ws t = None \<Longrightarrow> js_Stop_begin s = (Ret run, s') \<Longrightarrow> js_step W L (s, ws) (s', ws(t := run))"
| stop_returns: "ws t = Some run \<Longrightarrow> run \<notin> set (sl_live (js_slots s)) \<Longrightarrow>
     js_Stop_finish W run None s = (r, s') \<Longrightarrow> js_step W L (s, ws) (s', ws(t := None))"
| stop_expires: "ws t = Some run \<Longrightarrow> js_Stop_finish W run (Some e) s = (r, s') \<Longrightarrow>
     js_step W L (s, ws) (s', ws(t := None))"
| consume_closed: "run \<in> set (sl_live (js_slots s)) \<Longrightarrow> js_step W L (s, ws) (js_consume_closed run s, ws)"
| judged: "run \<in> set (js_ended s) \<Longrightarrow> js_step W L (s, ws) (js_judge run s, ws)"
| reports: "run \<in> set (js_failing s) \<Longrightarrow> js_report onError run s = (r, s') \<Longrightarrow> js_step W L (s, ws) (s', ws)"
| working: "js_step W L (s, ws) (s\<lparr>js_world := w\<rparr>, ws)"

subsection \<open>health.go\<close>

definition js_DefaultCheckTimeout :: int where
  "js_DefaultCheckTimeout = 15 * 10 ^ 9"

record 'w js_checker =
  jh_Stream :: "ctx \<Rightarrow> string \<Rightarrow> ('w, goerr option) go"
  jh_streams :: "string list"
  jh_timeout :: int

definition js_WithTimeout :: "int \<Rightarrow> ('w js_checker \<Rightarrow> 'w js_checker) res" where
  "js_WithTimeout d =
     (if d \<le> 0 then Panic (''jetstream: WithTimeout('' @ Duration_String d @ ''): must be positive'')
      else Ret (\<lambda>c. c\<lparr>jh_timeout := d\<rparr>))"

definition WithStreams :: "string list \<Rightarrow> 'w js_checker \<Rightarrow> 'w js_checker" where
  "WithStreams streams c = c\<lparr>jh_streams := jh_streams c @ streams\<rparr>"

definition js_NewHealthChecker :: "(ctx \<Rightarrow> string \<Rightarrow> ('w, goerr option) go) \<Rightarrow> ('w js_checker \<Rightarrow> 'w js_checker) list
    \<Rightarrow> 'w js_checker" where
  "js_NewHealthChecker js opts =
     fold (\<lambda>opt c. opt c) opts \<lparr>jh_Stream = js, jh_streams = [], jh_timeout = js_DefaultCheckTimeout\<rparr>"

fun check_streams :: "(ctx \<Rightarrow> string \<Rightarrow> ('w, goerr option) go) \<Rightarrow> ctx \<Rightarrow> string list \<Rightarrow> ('w, goerr list) go" where
  "check_streams get c [] = go_ret []"
| "check_streams get c (name # names) =
     (if name = [] then check_streams get c names
      else go_bind (get c name) (\<lambda>err.
        go_bind (check_streams get c names) (\<lambda>errs.
        go_ret (case err of None \<Rightarrow> errs
          | Some e \<Rightarrow> wrap_prefix (''required stream '' @ go_quote name) e # errs))))"

definition js_Check :: "'w js_checker \<Rightarrow> ctx \<Rightarrow> ('w, goerr option) go" where
  "js_Check h c =
     go_bind (check_streams (jh_Stream h) (context_WithTimeout (jh_timeout h) c) (jh_streams h)) (\<lambda>errs.
     go_ret (map_option (wrap_prefix ''nats health check'') (errors_Join (map Some errs))))"

end
