(* ===== verification/Natsconn.thy ===== *)
theory Natsconn
  imports Transport
begin

text \<open>
  \<open>pkg/transport/internal/redact\<close> and \<open>pkg/transport/nats/natsconn\<close>: the connection as a lifecycle
  component.  The parts of \<open>net/url\<close> the redaction reads, and the NATS client, are parameters.
\<close>

subsection \<open>redact.go\<close>

record url =
  ur_Scheme :: string
  ur_User :: "string option"
  ur_Host :: string
  ur_Path :: string
  ur_RawQuery :: string
  ur_Fragment :: string

record net_url =
  nu_Parse :: "string \<Rightarrow> goerr + url"
  nu_String :: "url \<Rightarrow> string"

fun contains :: "string \<Rightarrow> string \<Rightarrow> bool" where
  "contains [] sub = (sub = [])"
| "contains (c # s) sub = (has_prefix (c # s) sub \<or> contains s sub)"

definition redact_URL :: "net_url \<Rightarrow> string \<Rightarrow> string" where
  "redact_URL N raw =
     (if \<not> contains raw ''://'' then []
      else (case nu_Parse N raw of
              Inl err \<Rightarrow> []
            | Inr u \<Rightarrow> nu_String N \<lparr>ur_Scheme = ur_Scheme u, ur_User = None, ur_Host = ur_Host u,
                ur_Path = ur_Path u, ur_RawQuery = [], ur_Fragment = []\<rparr>))"

text \<open>\<open>trim\<close> is \<open>strings.TrimSpace\<close>.\<close>

definition redact_URLs :: "net_url \<Rightarrow> (string \<Rightarrow> string) \<Rightarrow> string \<Rightarrow> string" where
  "redact_URLs N trim raw = join_with '','' (map (\<lambda>p. redact_URL N (trim p)) (split_byte (CHR '','') raw))"

subsection \<open>conn.go\<close>

record conn_config =
  cc_URL :: string
  cc_Name :: string
  cc_MaxReconnects :: int

text \<open>\<open>default_url\<close> is \<open>nats.DefaultURL\<close>.\<close>

definition withDefaults :: "string \<Rightarrow> conn_config \<Rightarrow> conn_config" where
  "withDefaults default_url c =
     c\<lparr>cc_URL := (if cc_URL c = [] then default_url else cc_URL c),
       cc_MaxReconnects := (if cc_MaxReconnects c = 0 then -1 else cc_MaxReconnects c)\<rparr>"

text \<open>
  \<open>cn_drain\<close> is the embedded connection's \<open>Drain\<close>; \<open>cn_closed\<close> says whether the channel the
  closed-handler closes is closed; \<open>cn_stopped\<close> whether \<open>stopOnce\<close> was used.
\<close>

record 'w conn =
  cn_drain :: "('w, goerr option) go"
  cn_closed :: bool
  cn_stopped :: bool
  cn_world :: 'w

text \<open>\<open>connect\<close> is \<open>nats.Connect\<close> with the name and the reconnect limit.\<close>

definition Dial :: "('ev, 'w) surroundings \<Rightarrow> net_url \<Rightarrow> (string \<Rightarrow> string) \<Rightarrow> string
    \<Rightarrow> (string \<Rightarrow> string \<Rightarrow> int \<Rightarrow> ('w, goerr + ('w, goerr option) go) go) \<Rightarrow> conn_config \<Rightarrow> logger option
    \<Rightarrow> 'w \<Rightarrow> (goerr + 'w conn) res \<times> 'w" where
  "Dial W N trim default_url connect cfg lg w =
     (let cfg = withDefaults default_url cfg;
          lg = (case lg of Some l \<Rightarrow> l | None \<Rightarrow> \<lparr>lg_discard = True, lg_with = []\<rparr>);
          safeURL = redact_URLs N trim (cc_URL cfg)
      in go_seq (emit W lg LevelInfo ''nats connecting'' [AStr KeyServerAddress safeURL])
         (go_bind (connect (cc_URL cfg) (cc_Name cfg) (cc_MaxReconnects cfg)) (\<lambda>r.
          (case r of
             Inl err \<Rightarrow> go_ret (Inl (wrap_prefix (''natsconn: connect '' @ go_quote safeURL) err))
           | Inr drain \<Rightarrow> go_bind (go_get (\<lambda>w. w)) (\<lambda>w.
               go_ret (Inr \<lparr>cn_drain = drain, cn_closed = False, cn_stopped = False, cn_world = w\<rparr>))))) w)"

definition conn_Start :: "ctx \<Rightarrow> ('w conn, goerr option) go" where
  "conn_Start c = go_ret None"

text \<open>The SDK's errors for a connection that is closed or was reconnecting.\<close>

definition ends_closed :: "goerr \<Rightarrow> bool" where
  "ends_closed e \<longleftrightarrow> errors_is ''nats.ErrConnectionClosed'' e \<or> errors_is ''nats.ErrConnectionReconnecting'' e"

text \<open>
  \<open>await\<close> is the \<open>select\<close>: \<open>None\<close> when \<open>closed\<close> was received, the context's error otherwise.  A
  receive that succeeds finds the channel closed.
\<close>

definition awaitClosed :: "(ctx \<Rightarrow> ('w conn, goerr option) go) \<Rightarrow> ctx \<Rightarrow> ('w conn, goerr option) go" where
  "awaitClosed await c = go_bind (await c) (\<lambda>err. go_ret (map_option (wrap_prefix ''natsconn: drain'') err))"

definition waitClosed :: "(ctx \<Rightarrow> ('w conn, goerr option) go) \<Rightarrow> ctx \<Rightarrow> ('w conn, goerr option) go" where
  "waitClosed await c =
     go_bind (go_get cn_drain) (\<lambda>drain.
     go_bind (go_zoom cn_world (\<lambda>w s. s\<lparr>cn_world := w\<rparr>) drain) (\<lambda>err.
     (case err of
        Some e \<Rightarrow> if \<not> ends_closed e then go_ret (Some (wrap_prefix ''natsconn: drain'' e)) else awaitClosed await c
      | None \<Rightarrow> awaitClosed await c)))"

text \<open>\<open>stopOnce\<close> is used up even by a call that panics.\<close>

definition conn_Stop :: "(ctx \<Rightarrow> ('w conn, goerr option) go) \<Rightarrow> ctx \<Rightarrow> ('w conn, goerr option) go" where
  "conn_Stop await c =
     go_bind (go_get cn_stopped) (\<lambda>stopped.
     if stopped then go_ret None
     else go_seq (go_modify (\<lambda>s. s\<lparr>cn_stopped := True\<rparr>)) (waitClosed await c))"

end
