(* ===== verification/Sns.thy ===== *)
theory Sns
  imports Transport "HOL-Library.List_Lexorder" "HOL-Library.Char_ord"
begin

text \<open>
  \<open>pkg/transport/aws/identity.go\<close> and \<open>pkg/transport/aws/sns\<close>: the cached caller identity, the
  SNS marshaler with its two content modes, and the publisher.

  The AWS clients are parameters: a call of one is a \<open>go\<close> computation on the world.
\<close>

subsection \<open>identity.go\<close>

record caller_identity =
  ci_Account :: "string option"
  ci_Arn :: "string option"

type_synonym 'w sts_api = "ctx \<Rightarrow> ('w, goerr + caller_identity) go"

record aws_config =
  cfg_Region :: string

record 'w identity =
  id_Config :: "aws_config option"
  id_Client :: "'w sts_api option"
  id_accountID :: string
  id_arn :: string

text \<open>
  The state of a method is the identity it is called on and the world.  \<open>newSTS\<close> is
  \<open>awssts.NewFromConfig\<close>.
\<close>

definition identity_store :: "caller_identity \<Rightarrow> 'w identity \<Rightarrow> 'w identity" where
  "identity_store out i = i\<lparr>id_accountID := ToString (ci_Account out), id_arn := ToString (ci_Arn out)\<rparr>"

definition identity_lookup :: "'w sts_api \<Rightarrow> ctx \<Rightarrow> ('w identity \<times> 'w, goerr option) go" where
  "identity_lookup client c =
     go_bind (go_zoom snd (\<lambda>w (i, _). (i, w)) (client c)) (\<lambda>r.
     (case r of
        Inl err \<Rightarrow> go_ret (Some (wrap_prefix ''aws: GetCallerIdentity'' err))
      | Inr out \<Rightarrow> go_seq (go_modify (\<lambda>(i, w). (identity_store out i, w))) (go_ret None)))"

definition identity_resolve :: "(aws_config \<Rightarrow> 'w sts_api) \<Rightarrow> ctx \<Rightarrow> ('w identity \<times> 'w, goerr option) go" where
  "identity_resolve newSTS c =
     go_bind (go_get fst) (\<lambda>i.
     (case (id_Client i, id_Config i) of
        (None, None) \<Rightarrow> go_ret (Some (errors_new ''aws: Identity requires Config''))
      | (Some client, _) \<Rightarrow> if id_arn i \<noteq> [] then go_ret None else identity_lookup client c
      | (None, Some cfg) \<Rightarrow> if id_arn i \<noteq> [] then go_ret None else identity_lookup (newSTS cfg) c))"

definition AccountID :: "(aws_config \<Rightarrow> 'w sts_api) \<Rightarrow> ctx \<Rightarrow> ('w identity \<times> 'w, goerr + string) go" where
  "AccountID newSTS c = go_bind (identity_resolve newSTS c) (\<lambda>err.
     (case err of Some e \<Rightarrow> go_ret (Inl e) | None \<Rightarrow> go_get (\<lambda>(i, w). Inr (id_accountID i))))"

definition Arn :: "(aws_config \<Rightarrow> 'w sts_api) \<Rightarrow> ctx \<Rightarrow> ('w identity \<times> 'w, goerr + string) go" where
  "Arn newSTS c = go_bind (identity_resolve newSTS c) (\<lambda>err.
     (case err of Some e \<Rightarrow> go_ret (Inl e) | None \<Rightarrow> go_get (\<lambda>(i, w). Inr (id_arn i))))"

text \<open>\<open>strings.SplitN(arn, ":", 3)\<close> and the check of its parts.\<close>

definition arn_partition :: "string \<Rightarrow> goerr + string" where
  "arn_partition arn =
     (case cut_byte (CHR '':'') arn of
        (p0, Some rest) \<Rightarrow>
          (case cut_byte (CHR '':'') rest of
             (p1, Some _) \<Rightarrow>
               if p0 \<noteq> ''arn'' \<or> p1 = [] then Inl (errors_new (''aws: unexpected caller ARN '' @ go_quote arn))
               else Inr p1
           | (p1, None) \<Rightarrow> Inl (errors_new (''aws: unexpected caller ARN '' @ go_quote arn)))
      | (p0, None) \<Rightarrow> Inl (errors_new (''aws: unexpected caller ARN '' @ go_quote arn)))"

definition Partition :: "(aws_config \<Rightarrow> 'w sts_api) \<Rightarrow> ctx \<Rightarrow> ('w identity \<times> 'w, goerr + string) go" where
  "Partition newSTS c = go_bind (Arn newSTS c) (\<lambda>r.
     (case r of Inl err \<Rightarrow> go_ret (Inl err) | Inr arn \<Rightarrow> go_ret (arn_partition arn)))"

definition Region :: "'w identity \<Rightarrow> goerr + string" where
  "Region i = (case id_Config i of
     None \<Rightarrow> Inl (errors_new ''aws: Identity requires Config'')
   | Some cfg \<Rightarrow>
       if cfg_Region cfg = [] then
         Inl (errors_new ''aws: config has no region (set AWS_REGION or pass it via config option)'')
       else Inr (cfg_Region cfg))"

lemmas identity_defs = identity_store_def identity_lookup_def identity_resolve_def AccountID_def Arn_def Partition_def

text \<open>Once resolved, no method calls STS again.\<close>

lemma identity_cached:
  assumes "id_arn i \<noteq> []" and "id_Client i \<noteq> None \<or> id_Config i \<noteq> None"
  shows "identity_resolve newSTS c (i, w) = (Ret None, (i, w))"
    and "AccountID newSTS c (i, w) = (Ret (Inr (id_accountID i)), (i, w))"
    and "Arn newSTS c (i, w) = (Ret (Inr (id_arn i)), (i, w))"
    and "Partition newSTS c (i, w) = (Ret (arn_partition (id_arn i)), (i, w))"
  using assms by (auto simp: identity_defs go_defs split: option.splits)

subsection \<open>marshaler.go\<close>

record attribute_value =
  av_DataType :: string
  av_StringValue :: "string option"

type_synonym attributes = "(string \<times> attribute_value) list"

record publish_input =
  in_TopicArn :: string
  in_Message :: bytes
  in_MessageAttributes :: attributes

definition contentTypeAttribute :: string where
  "contentTypeAttribute = ''Content-Type''"

definition MaxMessageAttributes :: nat where
  "MaxMessageAttributes = 10"

definition binaryAttributeBudget :: nat where
  "binaryAttributeBudget = MaxMessageAttributes - 1"

definition string_attribute :: "string \<Rightarrow> attribute_value" where
  "string_attribute v = \<lparr>av_DataType = ''String'', av_StringValue = Some v\<rparr>"

type_synonym 'ev sns_marshaler = "string \<Rightarrow> 'ev \<Rightarrow> goerr + publish_input"

definition binary_pairs :: "'ev codec \<Rightarrow> 'ev \<Rightarrow> (string \<times> string) list \<Rightarrow> (string \<times> string) list" where
  "binary_pairs C ce pairs = AList.update contentTypeAttribute (ContentType C ce) pairs"

definition structured_pairs :: "'ev sdk \<Rightarrow> 'ev \<Rightarrow> (string \<times> string) list" where
  "structured_pairs S ce =
     [(contentTypeAttribute, ApplicationCloudEventsJSON), (Prefix @ ''id'', event_id S ce),
      (Prefix @ ''type'', event_type S ce), (Prefix @ ''source'', event_source S ce)]"

definition sns_input :: "string \<Rightarrow> bytes \<Rightarrow> (string \<times> string) list \<Rightarrow> publish_input" where
  "sns_input topic message pairs = \<lparr>in_TopicArn = topic, in_Message = message,
     in_MessageAttributes = map (\<lambda>(k, v). (k, string_attribute v)) pairs\<rparr>"

definition sns_Marshal :: "'ev codec \<Rightarrow> 'ev sns_marshaler" where
  "sns_Marshal C topic ce =
     (case Encode C ce of
        Inl err \<Rightarrow> Inl (wrap_prefix ''aws/sns: marshal'' err)
      | Inr pairs \<Rightarrow>
          (let pairs = binary_pairs C ce pairs in
           if length pairs > binaryAttributeBudget then
             (case EncodeStructured C ce of
                Inl err \<Rightarrow> Inl (wrap_prefix ''aws/sns: marshal'' err)
              | Inr body \<Rightarrow> Inr (sns_input topic body (structured_pairs (cd_sdk C) ce)))
           else Inr (sns_input topic (event_data (cd_sdk C) ce) pairs)))"

subsection \<open>publisher.go\<close>

definition ErrTooManyAttributes :: goerr where
  "ErrTooManyAttributes = Sentinel ''ErrTooManyAttributes'' ''aws/sns: too many message attributes''"

text \<open>\<open>PublishAPI\<close>: the message id of the output, when there is one.\<close>

type_synonym 'w publish_api = "ctx \<Rightarrow> publish_input \<Rightarrow> ('w, goerr + string option) go"

record 'ev sns_config =
  sc_Topic :: string
  sc_Identity :: bool
  sc_Marshaler :: "'ev sns_marshaler option"
  sc_ResolveTimeout :: int

definition DefaultResolveTimeout :: int where
  "DefaultResolveTimeout = 10 * 10 ^ 9"

record ('ev, 'w) sns_publisher =
  sp_client :: "'w publish_api"
  sp_marshaler :: "'ev sns_marshaler"
  sp_topicARN :: string
  sp_logger :: logger

text \<open>
  \<open>sc_Identity\<close> says whether \<open>cfg.Identity\<close> is set; the identity itself is the state.
\<close>

definition resolveTopicARN :: "(aws_config \<Rightarrow> 'w sts_api) \<Rightarrow> ctx \<Rightarrow> string \<Rightarrow> bool
    \<Rightarrow> ('w identity \<times> 'w, goerr + string) go" where
  "resolveTopicARN newSTS c topic has_identity =
     (if has_prefix topic ''arn:'' then go_ret (Inr topic)
      else if \<not> has_identity then
        go_ret (Inl (errors_new (''aws/sns: '' @ go_quote topic @ '' is not an ARN and PublisherConfig.Identity is nil'')))
      else go_bind (go_get (\<lambda>(i, w). Region i)) (\<lambda>r.
        (case r of
           Inl err \<Rightarrow> go_ret (Inl (wrap_prefix ''aws/sns'' err))
         | Inr region \<Rightarrow> go_bind (AccountID newSTS c) (\<lambda>a.
             (case a of
                Inl err \<Rightarrow> go_ret (Inl (wrap_prefix ''aws/sns'' err))
              | Inr accountID \<Rightarrow> go_bind (Partition newSTS c) (\<lambda>p.
                  (case p of
                     Inl err \<Rightarrow> go_ret (Inl (wrap_prefix ''aws/sns'' err))
                   | Inr part \<Rightarrow> go_ret (Inr (''arn:'' @ part @ '':sns:'' @ region @ '':'' @ accountID
                       @ '':'' @ topic)))))))))"

definition sns_NewPublisher :: "('ev, 'w) surroundings \<Rightarrow> (aws_config \<Rightarrow> 'w sts_api) \<Rightarrow> 'w publish_api option
    \<Rightarrow> 'ev sns_config \<Rightarrow> logger option \<Rightarrow> ('w identity \<times> 'w, goerr + ('ev, 'w) sns_publisher) go" where
  "sns_NewPublisher W newSTS client cfg lg =
     (case client of
        None \<Rightarrow> go_ret (Inl (errors_new ''aws/sns: client is nil''))
      | Some client \<Rightarrow>
          if sc_Topic cfg = [] then go_ret (Inl (errors_new ''aws/sns: PublisherConfig.Topic is empty''))
          else if sc_ResolveTimeout cfg < 0 then
            go_ret (Inl (errors_new (''aws/sns: PublisherConfig.ResolveTimeout is negative: ''
              @ Duration_String (sc_ResolveTimeout cfg))))
          else
            (let d = (if sc_ResolveTimeout cfg = 0 then DefaultResolveTimeout else sc_ResolveTimeout cfg) in
             go_bind (resolveTopicARN newSTS (context_WithTimeout d Background) (sc_Topic cfg) (sc_Identity cfg)) (\<lambda>r.
             (case r of
                Inl err \<Rightarrow> go_ret (Inl err)
              | Inr arn \<Rightarrow> go_ret (Inr \<lparr>sp_client = client,
                  sp_marshaler = (case sc_Marshaler cfg of Some m \<Rightarrow> m | None \<Rightarrow> sns_Marshal (tp_codec W)),
                  sp_topicARN = arn, sp_logger = Transport lg ''sns-publisher'' SystemAWSSNS arn\<rparr>)))))"

definition KeyCloudEventsContentMode :: string where
  "KeyCloudEventsContentMode = ''cloudevents.content_mode''"

text \<open>Reading a missing attribute gives the zero value, whose pointer is nil.\<close>

definition attribute_string :: "attributes \<Rightarrow> string \<Rightarrow> string" where
  "attribute_string attrs k = (case map_of attrs k of Some v \<Rightarrow> ToString (av_StringValue v) | None \<Rightarrow> [])"

definition contentMode :: "publish_input \<Rightarrow> string" where
  "contentMode input =
     (if attribute_string (in_MessageAttributes input) contentTypeAttribute = ApplicationCloudEventsJSON
      then ''structured'' else ''binary'')"

definition native_trace :: "('ev, 'w) surroundings \<Rightarrow> trace_context option \<Rightarrow> publish_input \<Rightarrow> publish_input" where
  "native_trace W tc input = (case tc of
     None \<Rightarrow> input
   | Some t \<Rightarrow> input\<lparr>in_MessageAttributes := AList.update (tp_header W)
       (string_attribute (trace_parent (tp_tracer W) t)) (in_MessageAttributes input)\<rparr>)"

definition sns_send :: "('ev, 'w) surroundings \<Rightarrow> ('ev, 'w) sns_publisher \<Rightarrow> ctx \<Rightarrow> 'ev \<Rightarrow> publish_input
    \<Rightarrow> ('w, goerr option) go" where
  "sns_send W p c ce input =
     go_bind (sp_client p c input) (\<lambda>out.
     (case out of
        Inl err \<Rightarrow> go_ret (Some (wrap_prefix ''aws/sns: publish'' err))
      | Inr mid \<Rightarrow> go_seq (emit W (sp_logger p) LevelDebug ''event published''
          [AStr KeyMessagingBrokerID (ToString mid), AStr KeyMessagingMessageID (event_id (tp_sdk W) ce),
           AStr KeyCloudEventsContentMode (contentMode input)])
          (go_ret None)))"

definition too_many_attributes :: "attributes \<Rightarrow> goerr" where
  "too_many_attributes attrs = NonRetryableError (Errorf (err_text ErrTooManyAttributes @ '': ''
     @ show_nat (length attrs) @ '' attributes ('' @ join_with '', '' (sort (map fst attrs)) @ '')'')
     [ErrTooManyAttributes])"

definition sns_Publish :: "('ev, 'w) surroundings \<Rightarrow> ('ev, 'w) sns_publisher \<Rightarrow> ctx \<Rightarrow> 'ev \<Rightarrow> ('w, goerr option) go" where
  "sns_Publish W p c ce =
     (case InjectTraceFromContext (tp_tracer W) (tp_sdk W) c ce of (ce, tc) \<Rightarrow>
     (case sp_marshaler p (sp_topicARN p) ce of
        Inl err \<Rightarrow> go_ret (Some (wrap_prefix ''aws/sns: marshal'' err))
      | Inr input \<Rightarrow>
          (let input = native_trace W tc input in
           if length (in_MessageAttributes input) > MaxMessageAttributes
           then go_ret (Some (too_many_attributes (in_MessageAttributes input)))
           else sns_send W p c ce input)))"

end
