(* ===== verification/Sqs.thy ===== *)
theory Sqs
  imports Sns Slots
begin

text \<open>
  \<open>pkg/transport/aws/sqs\<close>: the polling subscriber.

  \<open>Stop\<close> is two locked sections with a wait between them, \<open>Start\<close> is one: each is a step, so calls
  from several goroutines interleave.  A worker is modelled by the loop it runs.
\<close>

subsection \<open>Messages of the SDK\<close>

record sqs_message =
  sm_MessageId :: "string option"
  sm_ReceiptHandle :: "string option"
  sm_Body :: "string option"
  sm_Attributes :: "(string \<times> string) list"
  sm_MessageAttributes :: attributes

record receive_input =
  ri_QueueUrl :: string
  ri_WaitTimeSeconds :: int
  ri_MaxNumberOfMessages :: int
  ri_MessageAttributeNames :: "string list"
  ri_MessageSystemAttributeNames :: "string list"

record 'w sqs_client =
  sqs_GetQueueUrl :: "ctx \<Rightarrow> string \<Rightarrow> ('w, goerr + string option) go"
  sqs_ReceiveMessage :: "ctx \<Rightarrow> receive_input \<Rightarrow> ('w, goerr + sqs_message list) go"
  sqs_DeleteMessage :: "ctx \<Rightarrow> string \<Rightarrow> string \<Rightarrow> ('w, goerr option) go"

subsection \<open>delivery.go, unmarshaler.go\<close>

definition ApproximateReceiveCount :: string where
  "ApproximateReceiveCount = ''ApproximateReceiveCount''"

definition sqs_deliveryCount :: "sqs_message \<Rightarrow> u64" where
  "sqs_deliveryCount m =
     (case ParseUint10 (case map_of (sm_Attributes m) ApproximateReceiveCount of Some v \<Rightarrow> v | None \<Rightarrow> []) of
        None \<Rightarrow> 0 | Some n \<Rightarrow> n)"

definition sqs_defaults :: "string \<Rightarrow> Defaults" where
  "sqs_defaults mid = \<lparr>def_ID = mid, def_Type = ''com.aws.sqs.message'', def_Source = ''//sqs.amazonaws.com''\<rparr>"

definition stringAttributes :: "attributes \<Rightarrow> (string \<times> string) list" where
  "stringAttributes attrs = List.map_filter (\<lambda>(k, v). map_option (\<lambda>s. (k, s)) (av_StringValue v)) attrs"

definition sqs_unmarshal :: "'ev codec \<Rightarrow> sqs_message \<Rightarrow> goerr + 'ev" where
  "sqs_unmarshal C m =
     (case Decode C (attribute_string (sm_MessageAttributes m) contentTypeAttribute)
             (stringAttributes (sm_MessageAttributes m)) (ToString (sm_Body m))
             (sqs_defaults (ToString (sm_MessageId m))) of
        Inl err \<Rightarrow> Inl (wrap_prefix ''aws/sqs: unmarshal'' err)
      | Inr ce \<Rightarrow> Inr ce)"

subsection \<open>subscriber.go: configuration\<close>

definition GenerateReceiveMessageInputDefault :: "string \<Rightarrow> receive_input" where
  "GenerateReceiveMessageInputDefault queueURL =
     \<lparr>ri_QueueUrl = queueURL, ri_WaitTimeSeconds = 20, ri_MaxNumberOfMessages = 10,
      ri_MessageAttributeNames = [''All''], ri_MessageSystemAttributeNames = [ApproximateReceiveCount]\<rparr>"

record sqs_config =
  qc_Queue :: string
  qc_AckTimeout :: int
  qc_ConsumeWorkers :: int
  qc_ReconnectRetrySleep :: int
  qc_GenerateReceiveMessageInput :: "(string \<Rightarrow> receive_input) option"

definition DefaultAckTimeout :: int where
  "DefaultAckTimeout = 5 * 10 ^ 9"

record 'w sqs_subscriber =
  sq_client :: "'w sqs_client"
  sq_cfg :: sqs_config
  sq_input :: "string \<Rightarrow> receive_input"
  sq_logger :: logger
  sq_slots :: slots
  sq_world :: 'w

definition sqs_NewSubscriber :: "'w sqs_client option \<Rightarrow> sqs_config \<Rightarrow> logger option \<Rightarrow> 'w
    \<Rightarrow> goerr + 'w sqs_subscriber" where
  "sqs_NewSubscriber client cfg lg w =
     (case client of
        None \<Rightarrow> Inl (errors_new ''aws/sqs: client is nil'')
      | Some client \<Rightarrow>
          if qc_Queue cfg = [] then Inl (errors_new ''aws/sqs: SubscriberConfig.Queue is empty'')
          else if qc_AckTimeout cfg < 0 then
            Inl (errors_new (''aws/sqs: SubscriberConfig.AckTimeout is negative: '' @ Duration_String (qc_AckTimeout cfg)))
          else
            (let cfg = cfg\<lparr>qc_AckTimeout := (if qc_AckTimeout cfg = 0 then DefaultAckTimeout else qc_AckTimeout cfg),
                  qc_ConsumeWorkers := (if qc_ConsumeWorkers cfg \<le> 0 then 1 else qc_ConsumeWorkers cfg),
                  qc_ReconnectRetrySleep := (if qc_ReconnectRetrySleep cfg \<le> 0 then 10 ^ 9
                    else qc_ReconnectRetrySleep cfg)\<rparr>
             in Inr \<lparr>sq_client = client, sq_cfg = cfg,
                  sq_input = (case qc_GenerateReceiveMessageInput cfg of
                    Some f \<Rightarrow> f | None \<Rightarrow> GenerateReceiveMessageInputDefault),
                  sq_logger = logger_With (Component lg ''sqs-subscriber'') [AStr KeyMessagingSystem SystemAWSSQS],
                  sq_slots = no_slots, sq_world = w\<rparr>))"

subsection \<open>subscriber.go: one message, one batch, one worker\<close>

definition deleteMessage :: "'w sqs_subscriber \<Rightarrow> string \<Rightarrow> string \<Rightarrow> ('w, goerr option) go" where
  "deleteMessage s url receiptHandle =
     go_bind (sqs_DeleteMessage (sq_client s) (context_WithTimeout (qc_AckTimeout (sq_cfg s)) Background) url receiptHandle) (\<lambda>err.
     go_ret (map_option (wrap_prefix ''aws/sqs: delete message'') err))"

definition sqs_delivery :: "'w sqs_subscriber \<Rightarrow> string \<Rightarrow> sqs_message \<Rightarrow> 'w delivery" where
  "sqs_delivery s url m =
     \<lparr>dl_ack = Some (deleteMessage s url (ToString (sm_ReceiptHandle m))), dl_nack = Some (go_ret None),
      dl_discard = None, dl_count = sqs_deliveryCount m\<rparr>"

definition processMessage :: "('ev, 'w) surroundings \<Rightarrow> 'w sqs_subscriber \<Rightarrow> string \<Rightarrow> ('ev, 'w) msg_handler
    \<Rightarrow> sqs_message \<Rightarrow> ('w, unit) go" where
  "processMessage W s url h m =
     (let traceparent = attribute_string (sm_MessageAttributes m) (tp_header W);
          d = sqs_delivery s url m
      in (case sqs_unmarshal (tp_codec W) m of
            Inl err \<Rightarrow>
              (let rescue = Rescue (tp_codec W) (sqs_defaults (ToString (sm_MessageId m)))
                     (attribute_string (sm_MessageAttributes m) contentTypeAttribute) (ToString (sm_Body m))
               in deliver_undecodable W h traceparent rescue d err)
          | Inr ce \<Rightarrow> deliver_event W h traceparent ce d))"

fun process_all :: "('ev, 'w) surroundings \<Rightarrow> 'w sqs_subscriber \<Rightarrow> string \<Rightarrow> ('ev, 'w) msg_handler
    \<Rightarrow> sqs_message list \<Rightarrow> ('w, unit) go" where
  "process_all W s url h [] = go_ret ()"
| "process_all W s url h (m # ms) = go_seq (processMessage W s url h m) (process_all W s url h ms)"

text \<open>The pair is \<open>sleep\<close> and \<open>wait\<close>.\<close>

definition receiveBatch :: "('ev, 'w) surroundings \<Rightarrow> 'w sqs_subscriber \<Rightarrow> ctx \<Rightarrow> logger \<Rightarrow> string
    \<Rightarrow> ('ev, 'w) msg_handler \<Rightarrow> ('w, int \<times> bool) go" where
  "receiveBatch W s c lg url h =
     go_bind (sqs_ReceiveMessage (sq_client s) c (sq_input s url)) (\<lambda>out.
     (case out of
        Inl err \<Rightarrow>
          if errors_is ''context.Canceled'' err then go_ret (0, False)
          else go_seq (emit W lg LevelWarn ''subscription receive failed'' [AErr err])
                 (go_ret (qc_ReconnectRetrySleep (sq_cfg s), True))
      | Inr ms \<Rightarrow> go_seq (process_all W s url h ms) (go_ret (0, False))))"

text \<open>
  \<open>cancelled\<close> is the non-blocking read of \<open>ctx.Done()\<close>, \<open>pause\<close> the \<open>select\<close> on the timer and
  \<open>ctx.Done()\<close> (true when the context ended).  The loop runs as long as the context lives: the
  fuel bounds the passes looked at, and \<open>False\<close> is a worker that is still running.
\<close>

fun sqs_worker :: "nat \<Rightarrow> ('ev, 'w) surroundings \<Rightarrow> 'w sqs_subscriber \<Rightarrow> ctx \<Rightarrow> logger \<Rightarrow> string \<Rightarrow> ('ev, 'w) msg_handler
    \<Rightarrow> ('w, bool) go \<Rightarrow> (int \<Rightarrow> ('w, bool) go) \<Rightarrow> ('w, bool) go" where
  "sqs_worker 0 W s c lg url h cancelled pause = go_ret False"
| "sqs_worker (Suc n) W s c lg url h cancelled pause =
     go_bind cancelled (\<lambda>done.
     if done then go_ret True
     else go_bind (receiveBatch W s c lg url h) (\<lambda>(sleep, wait).
       if \<not> wait then sqs_worker n W s c lg url h cancelled pause
       else go_bind (pause sleep) (\<lambda>done.
         if done then go_ret True else sqs_worker n W s c lg url h cancelled pause)))"

subsection \<open>subscriber.go: Start and Stop\<close>

definition on_sq_world :: "('w, 'a) go \<Rightarrow> ('w sqs_subscriber, 'a) go" where
  "on_sq_world = go_zoom sq_world (\<lambda>w s. s\<lparr>sq_world := w\<rparr>)"

definition on_sq_slots :: "(slots \<Rightarrow> slots) \<Rightarrow> ('w sqs_subscriber, unit) go" where
  "on_sq_slots f = go_modify (\<lambda>s. s\<lparr>sq_slots := f (sq_slots s)\<rparr>)"

definition resolveQueueURL :: "'w sqs_subscriber \<Rightarrow> ctx \<Rightarrow> ('w, goerr + string) go" where
  "resolveQueueURL s c =
     (if has_prefix (qc_Queue (sq_cfg s)) ''https://'' then go_ret (Inr (qc_Queue (sq_cfg s)))
      else go_bind (sqs_GetQueueUrl (sq_client s) c (qc_Queue (sq_cfg s))) (\<lambda>out.
        (case out of
           Inl err \<Rightarrow> go_ret (Inl (wrap_prefix (''aws/sqs: get queue url '' @ go_quote (qc_Queue (sq_cfg s))) err))
         | Inr url \<Rightarrow> go_ret (Inr (ToString url)))))"

text \<open>The new run stands for the workers of this \<open>Start\<close>; it is over when all of them returned.\<close>

definition sqs_Start :: "('ev, 'w) surroundings \<Rightarrow> ctx \<Rightarrow> ('w sqs_subscriber, goerr option) go" where
  "sqs_Start W c =
     go_bind (go_get (\<lambda>s. s)) (\<lambda>s.
     if sl_cur (sq_slots s) \<noteq> None then go_ret (Some ErrAlreadyStarted)
     else go_bind (on_sq_world (resolveQueueURL s c)) (\<lambda>r.
       (case r of
          Inl err \<Rightarrow> go_ret (Some err)
        | Inr url \<Rightarrow>
            go_seq (on_sq_slots slot_spawn)
            (go_seq (on_sq_world (emit W (logger_With (sq_logger s) [AStr KeyMessagingDestination url]) LevelInfo
               ''subscription started'' [AInt KeyConsumerWorkers (qc_ConsumeWorkers (sq_cfg s))]))
            (go_ret None)))))"

text \<open>The first section of \<open>Stop\<close>: which run to wait for, cancelled; nothing when none runs.\<close>

definition sqs_Stop_begin :: "('w sqs_subscriber, nat option) go" where
  "sqs_Stop_begin =
     go_bind (go_get (\<lambda>s. sl_cur (sq_slots s))) (\<lambda>cur.
     (case cur of
        None \<Rightarrow> go_ret None
      | Some run \<Rightarrow> go_seq (on_sq_slots (slot_cancel run)) (go_ret (Some run))))"

text \<open>After the wait: \<open>ctxErr\<close> when the context ended first.\<close>

definition sqs_Stop_finish :: "('ev, 'w) surroundings \<Rightarrow> nat \<Rightarrow> goerr option \<Rightarrow> ('w sqs_subscriber, goerr option) go" where
  "sqs_Stop_finish W run ctxErr =
     (case ctxErr of
        Some e \<Rightarrow> go_ret (Some (wrap_prefix ''aws/sqs: stop'' e))
      | None \<Rightarrow>
          go_seq (on_sq_slots (slot_clear run))
          (go_bind (go_get (\<lambda>s. s)) (\<lambda>s.
           go_seq (on_sq_world (emit W (sq_logger s) LevelInfo ''subscription stopped'' [])) (go_ret None))))"

text \<open>A \<open>Stop\<close> with no other call around: \<open>await\<close> is the wait, which ends the run or the context.\<close>

definition sqs_Stop :: "('ev, 'w) surroundings \<Rightarrow> (ctx \<Rightarrow> ('w, goerr option) go) \<Rightarrow> ctx
    \<Rightarrow> ('w sqs_subscriber, goerr option) go" where
  "sqs_Stop W await c =
     go_bind sqs_Stop_begin (\<lambda>cur.
     (case cur of
        None \<Rightarrow> go_ret None
      | Some run \<Rightarrow>
          go_bind (on_sq_world (await c)) (\<lambda>ctxErr.
          go_seq (go_when (ctxErr = None) (on_sq_slots (slot_exit run)))
            (sqs_Stop_finish W run ctxErr))))"

lemmas sqs_defs = on_sq_world_def on_sq_slots_def sqs_Start_def sqs_Stop_begin_def sqs_Stop_finish_def sqs_Stop_def

subsection \<open>Interleaving\<close>

text \<open>
  A state is the subscriber and, for every goroutine inside \<open>Stop\<close>, the run it waits for.  The
  workers of a run return only once it was cancelled; handlers change the world at any time.
\<close>

inductive sqs_step :: "('ev, 'w) surroundings \<Rightarrow> 'w sqs_subscriber \<times> (nat \<Rightarrow> nat option)
    \<Rightarrow> 'w sqs_subscriber \<times> (nat \<Rightarrow> nat option) \<Rightarrow> bool" for W where
  starting: "sqs_Start W c s = (r, s') \<Longrightarrow> sqs_step W (s, ws) (s', ws)"
| stop_called: "ws t = None \<Longrightarrow> sqs_Stop_begin s = (Ret run, s') \<Longrightarrow> sqs_step W (s, ws) (s', ws(t := run))"
| stop_returns: "ws t = Some run \<Longrightarrow> run \<notin> set (sl_live (sq_slots s)) \<Longrightarrow>
     sqs_Stop_finish W run None s = (r, s') \<Longrightarrow> sqs_step W (s, ws) (s', ws(t := None))"
| stop_expires: "ws t = Some run \<Longrightarrow> sqs_Stop_finish W run (Some e) s = (r, s') \<Longrightarrow>
     sqs_step W (s, ws) (s', ws(t := None))"
| workers_done: "run \<in> set (sl_live (sq_slots s)) \<Longrightarrow> run \<in> set (sl_cancelled (sq_slots s)) \<Longrightarrow>
     sqs_step W (s, ws) (s\<lparr>sq_slots := slot_exit run (sq_slots s)\<rparr>, ws)"
| working: "sqs_step W (s, ws) (s\<lparr>sq_world := w\<rparr>, ws)"

end
