(* ===== verification/SnsTheorems.thy ===== *)
theory SnsTheorems
  imports Sns EnvelopeTheorems
begin

text \<open>
  What reaches SNS: never more attributes than SQS accepts, and always the ones filter policies
  use; a name is resolved to an ARN with at most one call of STS.
\<close>

subsection \<open>Attributes of a marshalled event\<close>

lemma length_update: "length (AList.update k v xs) \<le> Suc (length xs)"
  by (induction xs) auto

lemma attribute_string_input:
  "attribute_string (in_MessageAttributes (sns_input topic b pairs)) k = (case map_of pairs k of Some v \<Rightarrow> v | None \<Rightarrow> [])"
  by (induction pairs) (auto simp: attribute_string_def sns_input_def string_attribute_def ToString_def)

lemma keys_input: "map fst (in_MessageAttributes (sns_input topic b pairs)) = map fst pairs"
  by (simp add: sns_input_def case_prod_unfold comp_def)

lemma attribute_string_update:
  "attribute_string (AList.update k (string_attribute v) as) n = (if n = k then v else attribute_string as n)"
  by (simp add: attribute_string_def string_attribute_def ToString_def)

definition carries :: "'ev sdk \<Rightarrow> 'ev \<Rightarrow> attributes \<Rightarrow> bool" where
  "carries S ce attrs \<longleftrightarrow> attribute_string attrs ''ce-id'' = event_id S ce
     \<and> attribute_string attrs ''ce-type'' = event_type S ce \<and> attribute_string attrs ''ce-source'' = event_source S ce"

lemma ce_names: "Prefix @ ''id'' = ''ce-id''" "Prefix @ ''type'' = ''ce-type''" "Prefix @ ''source'' = ''ce-source''"
  by (simp_all add: Prefix_def)

lemma sns_Marshal_fits:
  assumes "sdk_laws (cd_sdk C)" and "sns_Marshal C topic ce = Inr input"
  shows "length (in_MessageAttributes input) \<le> binaryAttributeBudget"
    and "distinct (map fst (in_MessageAttributes input))"
    and "carries (cd_sdk C) ce (in_MessageAttributes input)" and "in_TopicArn input = topic"
proof -
  obtain pairs where enc: "Encode C ce = Inr pairs" using assms(2) by (auto simp: sns_Marshal_def split: sum.splits)
  let ?pairs = "binary_pairs C ce pairs"
  consider (binary) "length ?pairs \<le> binaryAttributeBudget"
      "input = sns_input topic (event_data (cd_sdk C) ce) ?pairs"
    | (structured) body where "input = sns_input topic body (structured_pairs (cd_sdk C) ce)"
    using assms(2) unfolding sns_Marshal_def enc by (auto simp: Let_def split: if_splits sum.splits)
  then have "length (in_MessageAttributes input) \<le> binaryAttributeBudget
    \<and> distinct (map fst (in_MessageAttributes input))
    \<and> carries (cd_sdk C) ce (in_MessageAttributes input) \<and> in_TopicArn input = topic"
  proof cases
    case binary
    have "length (in_MessageAttributes input) \<le> binaryAttributeBudget" using binary by (simp add: sns_input_def)
    moreover have "distinct (map fst (in_MessageAttributes input))"
      unfolding binary(2) keys_input binary_pairs_def
      by (rule distinct_update [OF Encode_wire(1) [OF assms(1) enc]])
    moreover have "carries (cd_sdk C) ce (in_MessageAttributes input)"
      using Encode_wire(3) [OF assms(1) enc] wire_values(1,3,4) [OF assms(1), of ce]
      unfolding carries_def binary(2) attribute_string_input binary_pairs_def ce_names [symmetric]
      by (simp add: contentTypeAttribute_def Prefix_def)
    ultimately show ?thesis using binary by (simp add: sns_input_def)
  next
    case structured
    have keys: "distinct (map fst (structured_pairs (cd_sdk C) ce))" "length (structured_pairs (cd_sdk C) ce) = 4"
      by (simp_all add: structured_pairs_def contentTypeAttribute_def Prefix_def)
    have "carries (cd_sdk C) ce (in_MessageAttributes input)"
      unfolding carries_def structured attribute_string_input ce_names [symmetric]
      by (simp add: structured_pairs_def contentTypeAttribute_def Prefix_def)
    with keys show ?thesis
      unfolding structured keys_input
      by (simp add: sns_input_def binaryAttributeBudget_def MaxMessageAttributes_def)
  qed
  then show "length (in_MessageAttributes input) \<le> binaryAttributeBudget"
    "distinct (map fst (in_MessageAttributes input))"
    "carries (cd_sdk C) ce (in_MessageAttributes input)" "in_TopicArn input = topic" by blast+
qed

lemma InjectTrace_frame:
  assumes "sdk_laws S"
  shows "event_id S (fst (InjectTraceFromContext T S c ce)) = event_id S ce"
    "event_type S (fst (InjectTraceFromContext T S c ce)) = event_type S ce"
    "event_source S (fst (InjectTraceFromContext T S c ce)) = event_source S ce"
  using sdk_set_ext [OF assms] by (simp_all add: InjectTraceFromContext_def injectTrace_def split: option.split)

text \<open>What the default marshaler sends, the native traceparent included.\<close>

lemma default_fits:
  assumes S: "sdk_laws (tp_sdk W)" and default: "sp_marshaler p = sns_Marshal (tp_codec W)"
    and header: "tp_header W \<notin> {''ce-id'', ''ce-type'', ''ce-source''}"
  shows "(\<exists>err. sns_Publish W p c ce = go_ret (Some (wrap_prefix ''aws/sns: marshal'' err)))
    \<or> (\<exists>ce' input. sns_Publish W p c ce = sns_send W p c ce' input
        \<and> length (in_MessageAttributes input) \<le> 10 \<and> distinct (map fst (in_MessageAttributes input))
        \<and> in_TopicArn input = sp_topicARN p \<and> carries (tp_sdk W) ce (in_MessageAttributes input))"
proof -
  obtain ce' tc where inj: "InjectTraceFromContext (tp_tracer W) (tp_sdk W) c ce = (ce', tc)" by fastforce
  have same: "carries (tp_sdk W) ce' attrs = carries (tp_sdk W) ce attrs" for attrs
    using InjectTrace_frame [OF S, of "tp_tracer W" c ce] unfolding inj carries_def by simp
  show ?thesis
  proof (cases "sns_Marshal (tp_codec W) (sp_topicARN p) ce'")
    case (Inl err)
    then show ?thesis by (auto simp: sns_Publish_def inj default)
  next
    case (Inr input)
    note fits = sns_Marshal_fits [OF S Inr]
    let ?input = "native_trace W tc input"
    have len: "length (in_MessageAttributes ?input) \<le> MaxMessageAttributes"
      using fits(1) by (cases tc) (auto simp: native_trace_def binaryAttributeBudget_def MaxMessageAttributes_def
          intro!: order_trans [OF length_update])
    have "distinct (map fst (in_MessageAttributes ?input))"
      using fits(2) by (simp add: native_trace_def distinct_update split: option.split)
    moreover have "carries (tp_sdk W) ce (in_MessageAttributes ?input)"
      using fits(3) header unfolding same
      by (auto simp: native_trace_def carries_def attribute_string_update split: option.split)
    moreover have "in_TopicArn ?input = sp_topicARN p" using fits(4) by (simp add: native_trace_def split: option.split)
    moreover have "sns_Publish W p c ce = sns_send W p c ce' ?input"
      using len by (simp add: sns_Publish_def inj default Inr Let_def)
    ultimately show ?thesis using len unfolding MaxMessageAttributes_def by blast
  qed
qed

text \<open>
  C35. What reaches SNS never has more than ten attributes, whatever the marshaler: \<open>Publish\<close> behaves the
  same with any two clients that agree on inputs of at most ten attributes, the native traceparent
  counted, so it never calls the client with more; instead it answers a non-retryable
  \<open>ErrTooManyAttributes\<close>.  With the default marshaler that answer is never needed, whatever the
  event's extensions: \<open>Publish\<close> either fails to marshal, or calls the client with at most ten
  attributes of distinct names for the configured topic, and among them always the id, type and
  source that filter policies select on.
\<close>

theorem sns_attributes_fit:
  assumes S: "sdk_laws (tp_sdk W)" and header: "tp_header W \<notin> {''ce-id'', ''ce-type'', ''ce-source''}"
  shows "(\<forall>client. (\<forall>c input. length (in_MessageAttributes input) \<le> 10 \<longrightarrow> client c input = sp_client p c input) \<longrightarrow>
        sns_Publish W (p\<lparr>sp_client := client\<rparr>) c ce = sns_Publish W p c ce)
    \<and> (\<forall>ce' tc input. InjectTraceFromContext (tp_tracer W) (tp_sdk W) c ce = (ce', tc) \<longrightarrow>
        sp_marshaler p (sp_topicARN p) ce' = Inr input \<longrightarrow> length (in_MessageAttributes (native_trace W tc input)) > 10 \<longrightarrow>
        (\<exists>e. sns_Publish W p c ce = go_ret (Some e) \<and> isNonRetryable e \<and> errors_is ''ErrTooManyAttributes'' e))
    \<and> (sp_marshaler p = sns_Marshal (tp_codec W) \<longrightarrow>
        (\<exists>err. sns_Publish W p c ce = go_ret (Some (wrap_prefix ''aws/sns: marshal'' err)))
        \<or> (\<exists>ce' input. sns_Publish W p c ce = sns_send W p c ce' input
            \<and> length (in_MessageAttributes input) \<le> 10 \<and> distinct (map fst (in_MessageAttributes input))
            \<and> in_TopicArn input = sp_topicARN p \<and> carries (tp_sdk W) ce (in_MessageAttributes input)))"
proof (intro conjI allI impI)
  fix client :: "'b publish_api"
  assume agree: "\<forall>c input. length (in_MessageAttributes input) \<le> 10 \<longrightarrow> client c input = sp_client p c input"
  show "sns_Publish W (p\<lparr>sp_client := client\<rparr>) c ce = sns_Publish W p c ce"
    by (auto simp: sns_Publish_def sns_send_def agree MaxMessageAttributes_def Let_def split: prod.split sum.split)
next
  fix ce' tc input
  assume "InjectTraceFromContext (tp_tracer W) (tp_sdk W) c ce = (ce', tc)" "sp_marshaler p (sp_topicARN p) ce' = Inr input"
    "length (in_MessageAttributes (native_trace W tc input)) > 10"
  then have "sns_Publish W p c ce = go_ret (Some (too_many_attributes (in_MessageAttributes (native_trace W tc input))))"
    by (simp add: sns_Publish_def MaxMessageAttributes_def Let_def)
  moreover have "isNonRetryable (too_many_attributes attrs) \<and> errors_is ''ErrTooManyAttributes'' (too_many_attributes attrs)" for attrs
    by (simp add: too_many_attributes_def ErrTooManyAttributes_def)
  ultimately show "\<exists>e. sns_Publish W p c ce = go_ret (Some e) \<and> isNonRetryable e \<and> errors_is ''ErrTooManyAttributes'' e"
    by blast
qed (rule default_fits [OF S _ header])

text \<open>A publisher whose client accepts everything, and an event with more extensions than fit.\<close>

definition sample_tracer :: "nat tracer" where
  "sample_tracer = \<lparr>trace_parse = (\<lambda>s. if s = [] then None else Some \<lparr>TraceID = s, SpanID = ''s''\<rparr>),
     trace_parent = TraceID, trace_new_span = go_ret ''s'', trace_new = go_ret \<lparr>TraceID = ''t'', SpanID = ''s''\<rparr>\<rparr>"

definition sample_surroundings :: "(sev, nat) surroundings" where
  "sample_surroundings = \<lparr>tp_codec = sample_codec, tp_tracer = sample_tracer, tp_header = ''traceparent'',
     tp_emit = (\<lambda>r w. w)\<rparr>"

definition sample_publisher :: "(sev, nat) sns_publisher" where
  "sample_publisher = \<lparr>sp_client = (\<lambda>c input w. (Ret (Inr None), Suc w)), sp_marshaler = sns_Marshal sample_codec,
     sp_topicARN = ''arn:aws:sns:eu:1:t'', sp_logger = Component None ''sns-publisher''\<rparr>"

definition crowded :: sev where
  "crowded = sample_event ''1'' (map (\<lambda>c. ([c], XString ''v'')) ''abcdefghij'')"

text \<open>A marshaler that adds eleven attributes of its own.\<close>

definition sample_wide :: "(sev, nat) sns_publisher" where
  "sample_wide = sample_publisher\<lparr>sp_marshaler := (\<lambda>arn ce. Inr \<lparr>in_TopicArn = arn, in_Message = [],
     in_MessageAttributes = map (\<lambda>k. ([k], string_attribute ''v'')) ''abcdefghijk''\<rparr>)\<rparr>"

theorem sns_attributes_fit_witness:
  "(\<exists>e. sns_Publish sample_surroundings sample_wide Background crowded = go_ret (Some e) \<and> isNonRetryable e)
   \<and> ((\<exists>err. sns_Publish sample_surroundings sample_publisher Background crowded
        = go_ret (Some (wrap_prefix ''aws/sns: marshal'' err)))
   \<or> (\<exists>ce' input. sns_Publish sample_surroundings sample_publisher Background crowded
          = sns_send sample_surroundings sample_publisher Background ce' input
        \<and> length (in_MessageAttributes input) \<le> 10
        \<and> attribute_string (in_MessageAttributes input) ''ce-type'' = ''order.created''))"
proof
  have laws: "sdk_laws (tp_sdk sample_surroundings)" by (simp add: sample_surroundings_def sample_sdk_laws)
  have header: "tp_header sample_surroundings \<notin> {''ce-id'', ''ce-type'', ''ce-source''}"
    by (simp add: sample_surroundings_def)
  have inj: "InjectTraceFromContext (tp_tracer sample_surroundings) (tp_sdk sample_surroundings) Background crowded
      = (crowded, None)"
    by (simp add: InjectTraceFromContext_def Background_def)
  show "\<exists>e. sns_Publish sample_surroundings sample_wide Background crowded = go_ret (Some e) \<and> isNonRetryable e"
    using sns_attributes_fit [OF laws header, of sample_wide Background crowded] inj
    by (elim conjE) (force simp: sample_wide_def native_trace_def)
  have default: "sp_marshaler sample_publisher = sns_Marshal (tp_codec sample_surroundings)"
    by (simp add: sample_publisher_def sample_surroundings_def)
  have ty: "event_type (tp_sdk sample_surroundings) crowded = ''order.created''"
    by (simp add: sample_surroundings_def crowded_def sample_event_def)
  show "(\<exists>err. sns_Publish sample_surroundings sample_publisher Background crowded
        = go_ret (Some (wrap_prefix ''aws/sns: marshal'' err)))
   \<or> (\<exists>ce' input. sns_Publish sample_surroundings sample_publisher Background crowded
          = sns_send sample_surroundings sample_publisher Background ce' input
        \<and> length (in_MessageAttributes input) \<le> 10
        \<and> attribute_string (in_MessageAttributes input) ''ce-type'' = ''order.created'')"
    using sns_attributes_fit [OF laws header, of sample_publisher Background crowded] default
    unfolding carries_def ty by blast
qed

subsection \<open>Names resolved to ARNs\<close>

lemma identity_resolve_fresh:
  assumes "id_arn i = []" and "id_Client i = Some client" and "identity_resolve newSTS c (i, w) = (Ret None, s)"
  shows "\<exists>out w1. client c w = (Ret (Inr out), w1) \<and> s = (identity_store out i, w1)"
  using assms
  by (auto simp: identity_resolve_def identity_lookup_def go_defs split: prod.splits res.splits sum.splits)

text \<open>
  A topic name is resolved with one STS call.  For an identity that has not been resolved, if
  the caller's answer carries an ARN, the topic's ARN is built from the caller's partition and
  account and the configured region; the world changes by that one call, although the account
  and the partition are both asked for.  A full ARN is taken as it is, without any call.
\<close>

theorem topic_resolved_with_one_call:
  assumes "id_arn i = []" and "id_Client i = Some client" and "client c w = (Ret (Inr out), w1)"
    and "ToString (ci_Arn out) \<noteq> []"
  shows "resolveTopicARN newSTS c topic True (i, w) =
    (if has_prefix topic ''arn:'' then (Ret (Inr topic), (i, w))
     else case Region i of
       Inl err \<Rightarrow> (Ret (Inl (wrap_prefix ''aws/sns'' err)), (i, w))
     | Inr region \<Rightarrow>
        (case arn_partition (ToString (ci_Arn out)) of
           Inl err \<Rightarrow> (Ret (Inl (wrap_prefix ''aws/sns'' err)), (identity_store out i, w1))
         | Inr part \<Rightarrow> (Ret (Inr (''arn:'' @ part @ '':sns:'' @ region @ '':'' @ ToString (ci_Account out)
             @ '':'' @ topic)), (identity_store out i, w1))))"
proof -
  have first: "AccountID newSTS c (i, w) = (Ret (Inr (ToString (ci_Account out))), (identity_store out i, w1))"
    using assms by (simp add: AccountID_def identity_resolve_def identity_lookup_def go_defs identity_store_def)
  have later: "Partition newSTS c (identity_store out i, w1)
      = (Ret (arn_partition (ToString (ci_Arn out))), (identity_store out i, w1))"
    using identity_cached(4) [of "identity_store out i" newSTS c w1] assms(2,4) by (simp add: identity_store_def)
  show ?thesis
    by (simp add: resolveTopicARN_def go_defs first later split: sum.split)
qed

definition sample_sts :: "nat sts_api" where
  "sample_sts c w = (Ret (Inr \<lparr>ci_Account = Some ''1'', ci_Arn = Some ''arn:aws-cn:sts::1:x''\<rparr>), Suc w)"

definition sample_identity :: "nat identity" where
  "sample_identity = \<lparr>id_Config = Some \<lparr>cfg_Region = ''eu''\<rparr>, id_Client = Some sample_sts, id_accountID = [], id_arn = []\<rparr>"

theorem topic_resolved_with_one_call_witness:
  "resolveTopicARN (\<lambda>cfg. sample_sts) Background ''orders'' True (sample_identity, 0)
   = (Ret (Inr ''arn:aws-cn:sns:eu:1:orders''),
      (sample_identity\<lparr>id_accountID := ''1'', id_arn := ''arn:aws-cn:sts::1:x''\<rparr>, 1))"
proof -
  let ?out = "\<lparr>ci_Account = Some ''1'', ci_Arn = Some ''arn:aws-cn:sts::1:x''\<rparr>"
  have "id_arn sample_identity = []" "id_Client sample_identity = Some sample_sts" "ToString (ci_Arn ?out) \<noteq> []"
    by (simp_all add: sample_identity_def ToString_def)
  moreover have "sample_sts Background 0 = (Ret (Inr ?out), 1)" by (simp add: sample_sts_def)
  ultimately have "resolveTopicARN (\<lambda>cfg. sample_sts) Background ''orders'' True (sample_identity, 0) =
    (if has_prefix ''orders'' ''arn:'' then (Ret (Inr ''orders''), (sample_identity, 0))
     else case Region sample_identity of
       Inl err \<Rightarrow> (Ret (Inl (wrap_prefix ''aws/sns'' err)), (sample_identity, 0))
     | Inr region \<Rightarrow>
        (case arn_partition (ToString (ci_Arn ?out)) of
           Inl err \<Rightarrow> (Ret (Inl (wrap_prefix ''aws/sns'' err)), (identity_store ?out sample_identity, 1))
         | Inr part \<Rightarrow> (Ret (Inr (''arn:'' @ part @ '':sns:'' @ region @ '':'' @ ToString (ci_Account ?out)
             @ '':'' @ ''orders'')), (identity_store ?out sample_identity, 1))))"
    by (intro topic_resolved_with_one_call)
  then show ?thesis
    by (simp add: has_prefix_def Region_def sample_identity_def arn_partition_def ToString_def identity_store_def)
qed

end
