(* ===== verification/SampleCodec.thy ===== *)
theory SampleCodec
  imports Sqs SnsTheorems
begin

text \<open>
  A concrete structured format for the witnesses: an event is a list of strings, each written as
  its length in unary, a bar and its bytes.  Nothing here models the program.
\<close>

definition pack1 :: "string \<Rightarrow> bytes" where
  "pack1 s = replicate (length s) CHR ''i'' @ CHR ''|'' # s"

definition pack :: "string list \<Rightarrow> bytes" where
  "pack ss = concat (map pack1 ss)"

fun unpack :: "nat \<Rightarrow> bytes \<Rightarrow> string list" where
  "unpack 0 b = []"
| "unpack (Suc f) b =
     (if b = [] then []
      else (let n = length (takeWhile (\<lambda>c. c = CHR ''i'') b); rest = drop (Suc n) b
            in take n rest # unpack f (drop n rest)))"

lemma takeWhile_pack1: "takeWhile (\<lambda>c. c = CHR ''i'') (pack1 s @ b) = replicate (length s) CHR ''i''"
proof -
  have "takeWhile (\<lambda>c. c = CHR ''i'') (replicate n CHR ''i'' @ CHR ''|'' # t) = replicate n CHR ''i''" for n t
    by (induction n) auto
  then show ?thesis by (simp add: pack1_def)
qed

lemma unpack_pack: "length ss \<le> f \<Longrightarrow> unpack f (pack ss) = ss"
proof (induction ss arbitrary: f)
  case Nil
  then show ?case by (cases f) (simp_all add: pack_def)
next
  case (Cons s ss)
  then obtain g where f: "f = Suc g" "length ss \<le> g" by (cases f) auto
  have b: "pack (s # ss) = pack1 s @ pack ss" by (simp add: pack_def)
  have ne: "pack1 s @ pack ss \<noteq> []" by (simp add: pack1_def)
  have rest: "drop (Suc (length s)) (pack1 s @ pack ss) = s @ pack ss" by (simp add: pack1_def)
  show ?case
    unfolding f b unpack.simps if_not_P [OF ne] takeWhile_pack1 Let_def length_replicate rest
    using Cons.IH [OF f(2)] by simp
qed

lemma length_pack: "length ss \<le> length (pack ss)"
  by (induction ss) (auto simp: pack_def pack1_def)

fun text_exts :: "exts \<Rightarrow> string list" where
  "text_exts [] = []"
| "text_exts ((k, XString s) # xs) = k # s # text_exts xs"
| "text_exts ((k, v) # xs) = text_exts xs"

fun exts_of :: "string list \<Rightarrow> exts" where
  "exts_of (k # s # ss) = (k, XString s) # exts_of ss"
| "exts_of ss = []"

lemma exts_of_text: "distinct (map fst xs) \<Longrightarrow> map_of xs k = Some (XString s) \<Longrightarrow> map_of (exts_of (text_exts xs)) k = Some (XString s)"
  by (induction xs rule: text_exts.induct) (auto split: if_splits dest!: map_of_SomeD)

definition sample_marshal :: "sev \<Rightarrow> goerr + bytes" where
  "sample_marshal e = Inr (pack (se_id e # se_type e # se_source e # text_exts (sev_exts e)))"

definition sample_unmarshal :: "bytes \<Rightarrow> goerr + sev" where
  "sample_unmarshal b = (case unpack (length b) b of
     i # t # s # xs \<Rightarrow> Inr ((sample_event i (exts_of xs))\<lparr>se_type := t, se_source := s\<rparr>)
   | _ \<Rightarrow> Inl (errors_new ''not an event''))"

definition sample_json_codec :: "sev codec" where
  "sample_json_codec = sample_codec\<lparr>cd_marshal := sample_marshal, cd_unmarshal := sample_unmarshal\<rparr>"

lemma cd_sdk_json [simp]: "cd_sdk sample_json_codec = sample_sdk"
  by (simp add: sample_json_codec_def)

lemma sample_json_codec_laws: "codec_laws sample_json_codec"
  using sample_codec_laws by (simp add: codec_laws_def sample_json_codec_def)

end
