(* ===== verification/SqsTheorems.thy ===== *)
theory SqsTheorems
  imports SampleCodec
begin

text \<open>
  What the SQS subscriber guarantees: one polling run at a time whatever calls interleave, the
  start/stop contract, poison messages kept, and events that survive SNS and SQS.
\<close>

subsection \<open>One run at a time\<close>

lemma sqs_Start_slots:
  "sqs_Start W c s = (r, s') \<Longrightarrow>
     sq_slots s' = sq_slots s \<or> (sl_cur (sq_slots s) = None \<and> sq_slots s' = slot_spawn (sq_slots s) \<and> r = Ret None)"
  by (auto simp: sqs_defs go_defs emit_def split: prod.splits res.splits sum.splits if_splits)

lemma sqs_Stop_begin_slots:
  "sqs_Stop_begin s = (r, s') \<Longrightarrow> r = Ret (sl_cur (sq_slots s))
     \<and> (sq_slots s' = sq_slots s \<or> (\<exists>run. sq_slots s' = slot_cancel run (sq_slots s)))"
  by (auto simp: sqs_defs go_defs split: option.splits)

lemma sqs_Stop_finish_slots:
  "sqs_Stop_finish W run err s = (r, s') \<Longrightarrow>
     sq_slots s' = (if err = None then slot_clear run (sq_slots s) else sq_slots s) \<and> (r = Ret None \<longleftrightarrow> err = None)"
  by (auto simp: sqs_defs go_defs emit_def split: option.splits if_splits)

interpretation sqs_runs: run_slot "sqs_step W" "\<lambda>(s, ws). sq_slots s" for W :: "('ev, 'w) surroundings"
proof
  fix a b :: "'w sqs_subscriber \<times> (nat \<Rightarrow> nat option)"
  let ?slots = "\<lambda>(s, ws). sq_slots s"
  assume "sqs_step W a b"
  then show "?slots b = ?slots a \<or> (sl_cur (?slots a) = None \<and> ?slots b = slot_spawn (?slots a))
    \<or> (\<exists>r. ?slots b = slot_cancel r (?slots a)) \<or> (\<exists>r. ?slots b = slot_exit r (?slots a))
    \<or> (\<exists>r. r \<notin> set (sl_live (?slots a)) \<and> ?slots b = slot_clear r (?slots a))"
  proof cases
    case starting
    then show ?thesis using sqs_Start_slots by fastforce
  next
    case stop_called
    then show ?thesis using sqs_Stop_begin_slots by fastforce
  next
    case stop_returns
    then show ?thesis using sqs_Stop_finish_slots by fastforce
  next
    case stop_expires
    then show ?thesis using sqs_Stop_finish_slots by fastforce
  qed auto
qed

text \<open>
  C32. Whatever \<open>Start\<close> and \<open>Stop\<close> calls interleave, at most one polling run is alive, it is the one
  the subscriber holds, and a subscriber that lets the next \<open>Start\<close> through has no worker left; in
  particular the state a \<open>Stop\<close> leaves when it returns nil holds no worker of the run it stopped.
\<close>

theorem sqs_one_run:
  assumes "sqs_NewSubscriber client cfg lg w = Inr s0" and "(sqs_step W)\<^sup>*\<^sup>* (s0, \<lambda>_. None) (s, ws)"
  shows "(\<forall>r \<in> set (sl_live (sq_slots s)). \<forall>r' \<in> set (sl_live (sq_slots s)). r = r' \<and> sl_cur (sq_slots s) = Some r)
    \<and> (sl_cur (sq_slots s) = None \<longrightarrow> sl_live (sq_slots s) = [])"
proof -
  have ok: "slots_ok (case (s0, \<lambda>_. None) of (s, ws) \<Rightarrow> sq_slots s)"
    using assms(1) by (auto simp: sqs_NewSubscriber_def Let_def split: option.splits if_splits)
  note run = sqs_runs.one_run [OF assms(2) ok, unfolded prod.case]
    and idle = sqs_runs.idle_is_quiet [OF assms(2) ok, unfolded prod.case]
  show ?thesis
    by (intro conjI ballI impI) (rule run [THEN conjunct1], assumption+, rule run [THEN conjunct2], assumption+, rule idle)
qed

subsection \<open>The start/stop contract\<close>

lemma slots_ok_stop: "slots_ok s \<Longrightarrow> slots_ok (slot_clear r (slot_exit r s))"
  by (rule slots_ok_clear) (simp_all add: slots_ok_exit)

interpretation sqs: startable "sqs_Start W" "sqs_Stop W await" "\<lambda>s. sl_cur (sq_slots s) \<noteq> None"
    "\<lambda>s. slots_ok (sq_slots s)"
  for W :: "('ev, 'w) surroundings" and await
proof (unfold_locales, goal_cases)
  case (1 s c)
  then show ?case by (auto simp: sqs_Start_def go_defs)
next
  case (2 s c r s')
  then show ?case by (auto simp: sqs_defs go_defs emit_def split: prod.splits res.splits sum.splits if_splits)
next
  case (3 s c)
  then show ?case by (simp add: sqs_defs go_defs)
next
  case (4 s c r s')
  then show ?case
    by (auto simp: sqs_defs go_defs emit_def sl_cur_clear split: prod.splits res.splits option.splits if_splits)
next
  case (5 s c)
  then show ?case using sqs_Start_slots [of W c s] slots_ok_spawn by (cases "sqs_Start W c s") auto
next
  case (6 s c)
  then show ?case
    by (auto simp: sqs_defs go_defs emit_def slots_ok_stop split: prod.splits res.splits option.splits if_splits)
qed

subsection \<open>From SNS to SQS\<close>

text \<open>
  A raw delivery: the SNS message is the body, the attributes are the SNS attributes in any
  order.  \<open>json_laws\<close> is what the SDK's JSON format keeps of a valid event.
\<close>

definition raw_delivery :: "publish_input \<Rightarrow> sqs_message \<Rightarrow> bool" where
  "raw_delivery input m \<longleftrightarrow> sm_Body m = Some (in_Message input)
     \<and> mset (sm_MessageAttributes m) = mset (in_MessageAttributes input)"

definition json_laws :: "'ev codec \<Rightarrow> bool" where
  "json_laws C \<longleftrightarrow>
     (\<forall>e b. event_validate (cd_sdk C) e = None \<longrightarrow> cd_marshal C e = Inr b \<longrightarrow>
        (\<exists>e'. cd_unmarshal C b = Inr e' \<and> event_validate (cd_sdk C) e' = None
          \<and> event_id (cd_sdk C) e' = event_id (cd_sdk C) e \<and> event_type (cd_sdk C) e' = event_type (cd_sdk C) e
          \<and> event_source (cd_sdk C) e' = event_source (cd_sdk C) e
          \<and> (\<forall>k s. extension (cd_sdk C) e k = Some (XString s) \<longrightarrow> extension (cd_sdk C) e' k = Some (XString s)))) \<and>
     (\<forall>e. sdk_view (cd_sdk C) (cd_set_base64 C False e) = sdk_view (cd_sdk C) e
        \<and> event_validate (cd_sdk C) (cd_set_base64 C False e) = event_validate (cd_sdk C) e) \<and>
     (\<forall>s. cd_format C (XString s) = Inr s)"

lemma sdk_view_fields:
  "v_id (sdk_view S e) = event_id S e" "v_type (sdk_view S e) = event_type S e"
  "v_source (sdk_view S e) = event_source S e" "v_ext (sdk_view S e) = extension S e"
  by (simp_all add: sdk_view_def)

lemma same_viewD:
  assumes "sdk_view S a = sdk_view S b"
  shows "event_id S a = event_id S b" "event_type S a = event_type S b" "event_source S a = event_source S b"
    "extension S a = extension S b"
  using assms by (metis sdk_view_fields)+

lemma mset_stringAttributes: "mset xs = mset ys \<Longrightarrow> mset (stringAttributes xs) = mset (stringAttributes ys)"
  by (simp add: stringAttributes_def List.map_filter_def)

lemma stringAttributes_input:
  "stringAttributes (map (\<lambda>(k, v). (k, string_attribute v)) pairs) = pairs"
  by (induction pairs) (auto simp: stringAttributes_def List.map_filter_simps string_attribute_def)

lemma update_new: "k \<notin> fst ` set xs \<Longrightarrow> AList.update k v xs = xs @ [(k, v)]"
  by (induction xs) auto

lemma named_append: "named (xs @ ys) = named xs @ named ys"
  by (simp add: named_def List.map_filter_def)

lemma named_other: "attribute_name k = None \<Longrightarrow> named [(k, v)] = []"
  by (simp add: named_def List.map_filter_simps)

lemma named_update_other: "attribute_name k = None \<Longrightarrow> named (AList.update k v xs) = named xs"
  by (induction xs) (auto simp: named_def List.map_filter_simps split: option.splits)

lemma content_type_ignored: "attribute_name contentTypeAttribute = None"
  by (simp add: attribute_name_def contentTypeAttribute_def ascii_lower_def Prefix_def has_prefix_def)

lemma map_of_mset:
  assumes "mset ys = mset xs" and "distinct (map fst xs)"
  shows "map_of ys = map_of xs"
proof -
  have "distinct (map fst ys)" using assms by (metis mset_eq_imp_distinct_iff mset_map)
  moreover have "set ys = set xs" using assms(1) by (metis set_mset_mset)
  ultimately show ?thesis using iffD2 [OF map_of_inject_set, OF _ assms(2)] by blast
qed

lemma update_input:
  "AList.update k (string_attribute v) (map (\<lambda>(k, v). (k, string_attribute v)) pairs)
     = map (\<lambda>(k, v). (k, string_attribute v)) (AList.update k v pairs)"
  by (induction pairs) auto

text \<open>What SQS delivers of an input: the pairs, with the native traceparent, and the message.\<close>

definition traced_pairs :: "('ev, 'w) surroundings \<Rightarrow> trace_context option \<Rightarrow> (string \<times> string) list
    \<Rightarrow> (string \<times> string) list" where
  "traced_pairs W tc pairs = (case tc of None \<Rightarrow> pairs
     | Some t \<Rightarrow> AList.update (tp_header W) (trace_parent (tp_tracer W) t) pairs)"

lemma native_trace_input:
  "native_trace W tc (sns_input topic b pairs) = sns_input topic b (traced_pairs W tc pairs)"
  by (simp add: native_trace_def traced_pairs_def sns_input_def update_input split: option.split)

lemma distinct_traced: "distinct (map fst pairs) \<Longrightarrow> distinct (map fst (traced_pairs W tc pairs))"
  by (simp add: traced_pairs_def distinct_update split: option.split)

lemma map_of_traced: "k \<noteq> tp_header W \<Longrightarrow> map_of (traced_pairs W tc pairs) k = map_of pairs k"
  by (simp add: traced_pairs_def split: option.split)

lemma named_traced: "attribute_name (tp_header W) = None \<Longrightarrow> named (traced_pairs W tc pairs) = named pairs"
  by (simp add: traced_pairs_def named_update_other split: option.split)

lemma unmarshal_delivered:
  assumes "raw_delivery (native_trace W tc (sns_input topic b pairs)) m" and "distinct (map fst pairs)"
    and "tp_header W \<noteq> contentTypeAttribute" and "attribute_name (tp_header W) = None"
  shows "\<exists>ys. mset (named ys) = mset (named pairs) \<and> sqs_unmarshal C m =
    (case Decode C (case map_of pairs contentTypeAttribute of Some v \<Rightarrow> v | None \<Rightarrow> []) ys b
        (sqs_defaults (ToString (sm_MessageId m))) of
       Inl err \<Rightarrow> Inl (wrap_prefix ''aws/sqs: unmarshal'' err) | Inr ce \<Rightarrow> Inr ce)"
proof -
  let ?pairs = "traced_pairs W tc pairs"
  let ?attrs = "map (\<lambda>(k, v). (k, string_attribute v)) ?pairs"
  from assms(1) have body: "sm_Body m = Some b" and attrs: "mset (sm_MessageAttributes m) = mset ?attrs"
    unfolding native_trace_input by (simp_all add: raw_delivery_def sns_input_def)
  have "distinct (map fst ?attrs)"
    using distinct_traced [OF assms(2)] by (simp add: case_prod_unfold comp_def)
  with attrs have "map_of (sm_MessageAttributes m) = map_of ?attrs" by (rule map_of_mset)
  then have "attribute_string (sm_MessageAttributes m) contentTypeAttribute
      = attribute_string (in_MessageAttributes (sns_input topic b ?pairs)) contentTypeAttribute"
    by (simp add: attribute_string_def sns_input_def)
  also have "\<dots> = (case map_of pairs contentTypeAttribute of Some v \<Rightarrow> v | None \<Rightarrow> [])"
    using assms(3) by (simp add: attribute_string_input map_of_traced)
  finally have ct: "attribute_string (sm_MessageAttributes m) contentTypeAttribute
      = (case map_of pairs contentTypeAttribute of Some v \<Rightarrow> v | None \<Rightarrow> [])" .
  have "mset (named (stringAttributes (sm_MessageAttributes m))) = mset (named pairs)"
    using mset_named [OF mset_stringAttributes [OF attrs]]
    by (simp add: stringAttributes_input named_traced [OF assms(4)])
  moreover have "ToString (sm_Body m) = b" by (simp add: body ToString_def)
  ultimately show ?thesis unfolding sqs_unmarshal_def ct by blast
qed

text \<open>
  C33. An event published to SNS with the default marshaler reaches an SQS subscriber of the topic
  (raw delivery, the attributes in any order, with or without the native traceparent) as an event
  with the same id, type and source and the same string extensions, whichever content mode the
  marshaler chose; in binary mode it is the whole event, its data byte for byte.
\<close>

theorem sns_to_sqs_round_trip:
  assumes C: "codec_laws C" and json: "json_laws C" and ce: "settled (cd_sdk C) ce"
    and valid: "event_validate (cd_sdk C) ce = None" and ct: "ContentType C ce \<noteq> ApplicationCloudEventsJSON"
    and header: "tp_header W \<noteq> contentTypeAttribute" "attribute_name (tp_header W) = None"
    and sent: "sns_Marshal C topic ce = Inr input" and delivered: "raw_delivery (native_trace W tc input) m"
  shows "\<exists>ce'. sqs_unmarshal C m = Inr ce' \<and> event_id (cd_sdk C) ce' = event_id (cd_sdk C) ce
    \<and> event_type (cd_sdk C) ce' = event_type (cd_sdk C) ce \<and> event_source (cd_sdk C) ce' = event_source (cd_sdk C) ce
    \<and> (\<forall>k s. extension (cd_sdk C) ce k = Some (XString s) \<longrightarrow> extension (cd_sdk C) ce' k = Some (XString s))
    \<and> (contentMode input = ''binary'' \<longrightarrow>
         sdk_view (cd_sdk C) ce' = wire_view C ce \<and> event_data (cd_sdk C) ce' = event_data (cd_sdk C) ce)"
proof -
  have S: "sdk_laws (cd_sdk C)" using C by (simp add: codec_laws_def)
  obtain attrs where enc: "Encode C ce = Inr attrs" using sent by (auto simp: sns_Marshal_def split: sum.splits)
  let ?pairs = "binary_pairs C ce attrs"
  consider (binary) "input = sns_input topic (event_data (cd_sdk C) ce) ?pairs"
    | (structured) body where "EncodeStructured C ce = Inr body"
      "input = sns_input topic body (structured_pairs (cd_sdk C) ce)"
    using sent unfolding sns_Marshal_def enc by (auto simp: Let_def split: if_splits sum.splits)
  then show ?thesis
  proof cases
    case binary
    have dist: "distinct (map fst ?pairs)"
      unfolding binary_pairs_def by (rule distinct_update [OF Encode_wire(1) [OF S enc]])
    have named: "named ?pairs = named attrs"
      unfolding binary_pairs_def by (rule named_update_other [OF content_type_ignored])
    obtain ys where ys: "mset (named ys) = mset (named attrs)" and dec: "sqs_unmarshal C m =
      (case Decode C (ContentType C ce) ys (event_data (cd_sdk C) ce) (sqs_defaults (ToString (sm_MessageId m))) of
         Inl err \<Rightarrow> Inl (wrap_prefix ''aws/sqs: unmarshal'' err) | Inr ce \<Rightarrow> Inr ce)"
      using unmarshal_delivered [OF delivered [unfolded binary] dist header, of C] unfolding named
      by (auto simp: binary_pairs_def)
    obtain ce' where ce': "sqs_unmarshal C m = Inr ce'" "sdk_view (cd_sdk C) ce' = wire_view C ce"
      "event_data (cd_sdk C) ce' = event_data (cd_sdk C) ce"
      using decode_encoded [OF C ce valid ct enc ys, of "sqs_defaults (ToString (sm_MessageId m))"] that
      unfolding dec by (elim exE conjE) simp
    have view: "event_id (cd_sdk C) ce' = event_id (cd_sdk C) ce" "event_type (cd_sdk C) ce' = event_type (cd_sdk C) ce"
      "event_source (cd_sdk C) ce' = event_source (cd_sdk C) ce"
      "extension (cd_sdk C) ce' = v_ext (wire_view C ce)"
      unfolding sdk_view_fields [of "cd_sdk C" ce', symmetric] ce'(2) by (simp_all add: wire_view_def sdk_view_def)
    have "extension (cd_sdk C) ce' k = Some (XString s)" if "extension (cd_sdk C) ce k = Some (XString s)" for k s
      using that json unfolding view(4) by (simp add: wire_view_def json_laws_def)
    with ce' view(1-3) show ?thesis by blast
  next
    case structured
    define e where "e = (if cd_base64 C ce \<and> isJSONMediaType (cd_media_type C ce)
      \<and> cd_json_valid C (event_data (cd_sdk C) ce) then cd_set_base64 C False ce else ce)"
    have marshal: "cd_marshal C e = Inr body"
      using structured(1) by (auto simp: EncodeStructured_def Let_def e_def split: sum.splits)
    have e: "sdk_view (cd_sdk C) e = sdk_view (cd_sdk C) ce" "event_validate (cd_sdk C) e = None"
      using json valid by (auto simp: e_def json_laws_def)
    obtain e' where e': "cd_unmarshal C body = Inr e'" "event_validate (cd_sdk C) e' = None"
      "event_id (cd_sdk C) e' = event_id (cd_sdk C) e" "event_type (cd_sdk C) e' = event_type (cd_sdk C) e"
      "event_source (cd_sdk C) e' = event_source (cd_sdk C) e"
      "\<And>k s. extension (cd_sdk C) e k = Some (XString s) \<Longrightarrow> extension (cd_sdk C) e' k = Some (XString s)"
      using json e(2) marshal unfolding json_laws_def by blast
    have dist: "distinct (map fst (structured_pairs (cd_sdk C) ce))"
      by (simp add: structured_pairs_def contentTypeAttribute_def Prefix_def)
    have mode: "map_of (structured_pairs (cd_sdk C) ce) contentTypeAttribute = Some ApplicationCloudEventsJSON"
      by (simp add: structured_pairs_def)
    have "contentMode input \<noteq> ''binary''"
      unfolding structured(2) contentMode_def attribute_string_input mode by simp
    moreover have "sqs_unmarshal C m = Inr e'"
      using unmarshal_delivered [OF delivered [unfolded structured(2)] dist header, of C] e'(1,2)
      unfolding mode by (auto simp: Decode_def Let_def)
    ultimately show ?thesis
      using e'(3-6) same_viewD [OF e(1)] by metis
  qed
qed

subsection \<open>Witnesses\<close>

lemma sample_json_laws: "json_laws sample_json_codec"
proof -
  have "\<exists>e'. sample_unmarshal b = Inr e' \<and> event_validate sample_sdk e' = None
      \<and> se_id e' = se_id e \<and> se_type e' = se_type e \<and> se_source e' = se_source e
      \<and> (\<forall>k s. extension sample_sdk e k = Some (XString s) \<longrightarrow> extension sample_sdk e' k = Some (XString s))"
    if "event_validate sample_sdk e = None" "sample_marshal e = Inr b" for e b
  proof -
    let ?ss = "se_id e # se_type e # se_source e # text_exts (sev_exts e)"
    have b: "b = pack ?ss" using that(2) by (simp add: sample_marshal_def)
    have "unpack (length b) b = ?ss" unfolding b by (rule unpack_pack [OF length_pack])
    then have "sample_unmarshal b = Inr ((sample_event (se_id e) (exts_of (text_exts (sev_exts e))))
        \<lparr>se_type := se_type e, se_source := se_source e\<rparr>)"
      by (simp add: sample_unmarshal_def)
    moreover have "extension sample_sdk e k = Some (XString s) \<Longrightarrow>
        ext_name_ok k \<and> map_of (exts_of (text_exts (sev_exts e))) k = Some (XString s)" for k s
      using exts_of_text [OF distinct_sev_exts, of e k s]
      by (auto simp: extension_sample sev_exts_def map_of_filter_key map_of_clearjunk split: if_splits)
    ultimately show ?thesis
      using that(1) by (auto simp: extension_sample sample_event_def split: if_splits)
  qed
  then show ?thesis
    unfolding json_laws_def cd_sdk_json by (auto simp: sample_json_codec_def sample_codec_def)
qed

definition sample_sqs_client :: "nat sqs_client" where
  "sample_sqs_client = \<lparr>sqs_GetQueueUrl = (\<lambda>c q w. (Ret (Inr (Some q)), w)),
     sqs_ReceiveMessage = (\<lambda>c i w. (Ret (Inr []), w)), sqs_DeleteMessage = (\<lambda>c u h w. (Ret None, Suc w))\<rparr>"

definition sample_sqs_config :: sqs_config where
  "sample_sqs_config = \<lparr>qc_Queue = ''https://q'', qc_AckTimeout = 0, qc_ConsumeWorkers = 0, qc_ReconnectRetrySleep = 0,
     qc_GenerateReceiveMessageInput = None\<rparr>"

theorem sqs_one_run_witness:
  "\<exists>s0 s ws. sqs_NewSubscriber (Some sample_sqs_client) sample_sqs_config None 0 = Inr s0
     \<and> (sqs_step sample_surroundings)\<^sup>*\<^sup>* (s0, \<lambda>_. None) (s, ws)
     \<and> sl_live (sq_slots s) = [0] \<and> sl_cur (sq_slots s) = Some 0"
proof -
  obtain s0 where new: "sqs_NewSubscriber (Some sample_sqs_client) sample_sqs_config None 0 = Inr s0"
    by (simp add: sqs_NewSubscriber_def sample_sqs_config_def Let_def)
  obtain r s where start: "sqs_Start sample_surroundings Background s0 = (r, s)" by fastforce
  have live: "sl_live (sq_slots s) = [0]"
    using start new by (auto simp: sqs_NewSubscriber_def sample_sqs_config_def Let_def sqs_defs go_defs emit_def
        resolveQueueURL_def has_prefix_def no_slots_def slot_spawn_def Component_def logger_With_def)
  have steps: "(sqs_step sample_surroundings)\<^sup>*\<^sup>* (s0, \<lambda>_. None) (s, \<lambda>_. None)"
    by (rule r_into_rtranclp) (rule sqs_step.starting [OF start])
  from sqs_one_run [OF new steps] have "sl_cur (sq_slots s) = Some 0" unfolding live by simp
  with new steps live show ?thesis by blast
qed

theorem sns_to_sqs_round_trip_witness:
  "\<exists>input m ce'. sns_Marshal sample_json_codec ''t'' crowded = Inr input \<and> contentMode input = ''structured''
     \<and> raw_delivery input m \<and> sqs_unmarshal sample_json_codec m = Inr ce'
     \<and> event_id sample_sdk ce' = ''1'' \<and> extension sample_sdk ce' ''j'' = Some (XString ''v'')"
proof -
  let ?W = "sample_surroundings"
  have settled: "settled (cd_sdk sample_json_codec) crowded"
    by (simp add: settled_def crowded_def sample_event_def CloudEventsVersionV1_def)
  have valid: "event_validate (cd_sdk sample_json_codec) crowded = None" by (simp add: crowded_def sample_event_def)
  have ct: "ContentType sample_json_codec crowded \<noteq> ApplicationCloudEventsJSON" by code_simp
  have header: "tp_header ?W \<noteq> contentTypeAttribute" "attribute_name (tp_header ?W) = None"
    by (simp_all add: sample_surroundings_def contentTypeAttribute_def attribute_name_def ascii_lower_def Prefix_def
        has_prefix_def)
  have "\<not> isl (sns_Marshal sample_json_codec ''t'' crowded)
      \<and> (case sns_Marshal sample_json_codec ''t'' crowded of Inr i \<Rightarrow> contentMode i = ''structured'' | Inl e \<Rightarrow> False)"
    by code_simp
  then obtain input where sent: "sns_Marshal sample_json_codec ''t'' crowded = Inr input"
    and mode: "contentMode input = ''structured''"
    by (cases "sns_Marshal sample_json_codec ''t'' crowded") auto
  define m where "m = \<lparr>sm_MessageId = Some ''m1'', sm_ReceiptHandle = Some ''h'', sm_Body = Some (in_Message input),
    sm_Attributes = [], sm_MessageAttributes = in_MessageAttributes input\<rparr>"
  have delivered: "raw_delivery (native_trace ?W None input) m"
    by (simp add: raw_delivery_def native_trace_def m_def)
  have j: "extension (cd_sdk sample_json_codec) crowded ''j'' = Some (XString ''v'')" "event_id (cd_sdk sample_json_codec) crowded = ''1''"
    by code_simp+
  from sns_to_sqs_round_trip [OF sample_json_codec_laws sample_json_laws settled valid ct header sent delivered]
  obtain ce' where "sqs_unmarshal sample_json_codec m = Inr ce'"
    and "event_id (cd_sdk sample_json_codec) ce' = event_id (cd_sdk sample_json_codec) crowded"
    and "\<forall>k s. extension (cd_sdk sample_json_codec) crowded k = Some (XString s) \<longrightarrow>
        extension (cd_sdk sample_json_codec) ce' k = Some (XString s)" by (elim exE conjE)
  with sent mode delivered j show ?thesis
    unfolding cd_sdk_json native_trace_def option.case by metis
qed

end
