(* ===== verification/NatsTheorems.thy ===== *)
theory NatsTheorems
  imports Nats Natsconn SqsTheorems
begin

text \<open>
  What the NATS codec, the core transport and the connection guarantee: events that survive the
  headers, one subscription drained once, a connection drained once, no credentials in a redacted
  URL.
\<close>

subsection \<open>Core subscriptions\<close>

lemma core_Start_effect:
  "core_Start W L h c s = (r, s') \<Longrightarrow> ks_drains s' = ks_drains s \<and> ks_draining s' = ks_draining s \<and>
     (ks_slots s' = ks_slots s \<or> (sl_cur (ks_slots s) = None \<and> ks_slots s' = slot_spawn (ks_slots s) \<and> r = Ret None))"
  by (auto simp: core_defs go_defs emit_def Let_def split: prod.splits res.splits option.splits if_splits)

lemma core_Stop_begin_effect:
  "core_Stop_begin s = (r, s') \<Longrightarrow> ks_drains s' = ks_drains s \<and> ks_slots s' = ks_slots s
     \<and> ks_draining s' = (sl_cur (ks_slots s) \<noteq> None)
     \<and> r = Ret (map_option (\<lambda>run. (run, ks_draining s)) (sl_cur (ks_slots s)))"
  by (auto simp: core_defs go_defs split: option.splits)

lemma core_Stop_drain_effect:
  "core_Stop_drain run s = (r, s') \<Longrightarrow> ks_drains s' = ks_drains s @ [run] \<and> ks_slots s' = ks_slots s
     \<and> ks_draining s' = ks_draining s"
  by (auto simp: core_defs go_defs split: prod.splits res.splits)

lemma core_Stop_finish_effect:
  "core_Stop_finish W run err s = (r, s') \<Longrightarrow> ks_drains s' = ks_drains s \<and> (r = Ret None \<longleftrightarrow> err = None)
     \<and> ks_slots s' = (if err = None then slot_clear run (ks_slots s) else ks_slots s)
     \<and> ks_draining s' = (ks_draining s \<and> (err = None \<longrightarrow> sl_cur (ks_slots s) \<noteq> Some run))"
  by (auto simp: core_defs go_defs emit_def slot_clear_def split: option.splits if_splits)

interpretation core_runs: run_slot "core_step W L" "\<lambda>(s, ws). ks_slots s" for W :: "('ev, 'w) surroundings" and L
proof
  fix a b :: "'w core_subscriber \<times> (nat \<Rightarrow> core_wait option)"
  let ?slots = "\<lambda>(s, ws). ks_slots s"
  assume "core_step W L a b"
  then show "?slots b = ?slots a \<or> (sl_cur (?slots a) = None \<and> ?slots b = slot_spawn (?slots a))
    \<or> (\<exists>r. ?slots b = slot_cancel r (?slots a)) \<or> (\<exists>r. ?slots b = slot_exit r (?slots a))
    \<or> (\<exists>r. r \<notin> set (sl_live (?slots a)) \<and> ?slots b = slot_clear r (?slots a))"
  proof cases
    case starting
    then show ?thesis using core_Start_effect by fastforce
  next
    case stop_idle
    then show ?thesis using core_Stop_begin_effect by fastforce
  next
    case stop_called
    then show ?thesis using core_Stop_begin_effect by fastforce
  next
    case drained
    then show ?thesis using core_Stop_drain_effect by fastforce
  next
    case drain_fails
    then show ?thesis using core_Stop_drain_effect by fastforce
  next
    case stop_returns
    then show ?thesis using core_Stop_finish_effect by fastforce
  next
    case stop_expires
    then show ?thesis using core_Stop_finish_effect by fastforce
  qed auto
qed

definition core_ok :: "'w core_subscriber \<Rightarrow> bool" where
  "core_ok s \<longleftrightarrow> slots_ok (ks_slots s) \<and> (sl_cur (ks_slots s) = None \<longrightarrow> \<not> ks_draining s)"

lemma core_Stop_effect:
  assumes cur: "sl_cur (ks_slots s) = Some run" and "core_Stop W await c s = (r, s')"
  shows "if r = Ret None then ks_slots s' = slot_clear run (slot_exit run (ks_slots s)) \<and> \<not> ks_draining s'
    else ks_slots s' = ks_slots s"
proof -
  have b: "core_Stop_begin s = (Ret (Some (run, ks_draining s)), s\<lparr>ks_draining := True\<rparr>)"
    using cur by (simp add: core_Stop_begin_def go_basic_defs)
  show ?thesis
    using assms(2) cur
    by (auto simp: core_Stop_def on_ks_world_def go_basic_defs b dest!: core_Stop_drain_effect core_Stop_finish_effect
        split: prod.splits res.splits if_splits)
qed

interpretation core: startable "core_Start W L h" "core_Stop W await" "\<lambda>s. sl_cur (ks_slots s) \<noteq> None" core_ok
  for W :: "('ev, 'w) surroundings" and L h await
proof (unfold_locales, goal_cases)
  case (1 s c)
  then show ?case by (auto simp: core_Start_def go_defs)
next
  case (2 s c r s')
  then show ?case
    by (auto simp: core_defs go_defs emit_def Let_def split: prod.splits res.splits option.splits if_splits)
next
  case (3 s c)
  then have "s\<lparr>ks_draining := False\<rparr> = s" by (simp add: core_ok_def)
  with 3 show ?case by (simp add: core_defs go_defs)
next
  case (4 s c r s')
  then obtain run where "sl_cur (ks_slots s) = Some run" by auto
  with 4 core_Stop_effect [OF _ 4(3)] show ?case by (auto simp: sl_cur_clear)
next
  case (5 s c)
  then show ?case
    using core_Start_effect [of W L h c s] slots_ok_spawn by (cases "core_Start W L h c s") (auto simp: core_ok_def)
next
  case (6 s c)
  obtain r s' where stop: "core_Stop W await c s = (r, s')" by fastforce
  show ?case
  proof (cases "sl_cur (ks_slots s)")
    case None
    with 6 have "s\<lparr>ks_draining := False\<rparr> = s" by (simp add: core_ok_def)
    with None have "core_Stop W await c s = (Ret None, s)" by (simp add: core_Stop_def core_Stop_begin_def go_basic_defs)
    with 6 show ?thesis by simp
  next
    case (Some run)
    from core_Stop_effect [OF Some stop] 6 Some show ?thesis
      unfolding stop by (auto simp: core_ok_def slots_ok_stop split: if_splits)
  qed
qed

text \<open>
  The field \<open>draining\<close>: some \<open>Stop\<close> drained the current subscription, or is about to.
\<close>

definition draining_now :: "(nat \<Rightarrow> core_wait option) \<Rightarrow> nat \<Rightarrow> bool" where
  "draining_now ws r \<longleftrightarrow> (\<exists>t. ws t = Some (Draining r))"

definition core_inv :: "'w core_subscriber \<times> (nat \<Rightarrow> core_wait option) \<Rightarrow> bool" where
  "core_inv = (\<lambda>(s, ws).
     distinct (ks_drains s) \<and> (\<forall>r \<in> set (ks_drains s). r < sl_next (ks_slots s))
     \<and> (\<forall>r. sl_cur (ks_slots s) = Some r \<longrightarrow> r < sl_next (ks_slots s)
          \<and> (ks_draining s \<longleftrightarrow> r \<in> set (ks_drains s) \<or> draining_now ws r))
     \<and> (sl_cur (ks_slots s) = None \<longrightarrow> \<not> ks_draining s)
     \<and> (\<forall>t r. ws t = Some (Draining r) \<longrightarrow> r < sl_next (ks_slots s) \<and> r \<notin> set (ks_drains s)
          \<and> (\<forall>t'. ws t' = Some (Draining r) \<longrightarrow> t' = t)))"

lemma draining_now_simps:
  "ws t = None \<Longrightarrow> draining_now (ws(t := Some (Draining r'))) r \<longleftrightarrow> r = r' \<or> draining_now ws r"
  "ws t = None \<Longrightarrow> draining_now (ws(t := Some (Waiting r'))) r \<longleftrightarrow> draining_now ws r"
  "ws t = Some (Waiting r'') \<Longrightarrow> draining_now (ws(t := None)) r \<longleftrightarrow> draining_now ws r"
  by (auto simp: draining_now_def) (metis core_wait.distinct(1) option.distinct(1) option.inject)+


lemma draining_now_done:
  assumes "ws t = Some (Draining r')" and "\<forall>t'. ws t' = Some (Draining r') \<longrightarrow> t' = t" and x: "\<And>q. x \<noteq> Some (Draining q)"
  shows "draining_now (ws(t := x)) r \<longleftrightarrow> r \<noteq> r' \<and> draining_now ws r"
proof
  assume "draining_now (ws(t := x)) r"
  then obtain u where u: "(ws(t := x)) u = Some (Draining r)" by (auto simp: draining_now_def)
  with x have "u \<noteq> t" by auto
  with u assms(2) show "r \<noteq> r' \<and> draining_now ws r" by (auto simp: draining_now_def)
next
  assume a: "r \<noteq> r' \<and> draining_now ws r"
  then obtain u where "ws u = Some (Draining r)" by (auto simp: draining_now_def)
  with a assms(1) have "(ws(t := x)) u = Some (Draining r)" by auto
  then show "draining_now (ws(t := x)) r" unfolding draining_now_def by blast
qed

lemma core_inv_drain:
  assumes inv: "core_inv (s, ws)" and t: "ws t = Some (Draining run)" and step: "core_Stop_drain run s = (r, s')"
    and x: "\<And>q. x \<noteq> Some (Draining q)"
  shows "core_inv (s', ws(t := x))"
proof -
  from inv t have uniq: "\<forall>t'. ws t' = Some (Draining run) \<longrightarrow> t' = t" by (simp add: core_inv_def)
  have now: "draining_now ws run" using t by (auto simp: draining_now_def)
  have others: "(ws(t := x)) u = Some (Draining q) \<Longrightarrow> ws u = Some (Draining q) \<and> u \<noteq> t \<and> q \<noteq> run" for u q
    using x uniq by (auto split: if_splits)
  have "(\<forall>u q. (ws(t := x)) u = Some (Draining q) \<longrightarrow> q < sl_next (ks_slots s) \<and> q \<notin> set (ks_drains s @ [run])
      \<and> (\<forall>u'. (ws(t := x)) u' = Some (Draining q) \<longrightarrow> u' = u))"
    using inv others unfolding core_inv_def prod.case by (metis Un_iff empty_iff empty_set insert_iff list.simps(15) set_append)
  moreover have "run < sl_next (ks_slots s) \<and> run \<notin> set (ks_drains s)" using inv t by (simp add: core_inv_def)
  ultimately show ?thesis
    using inv now core_Stop_drain_effect [OF step]
    by (simp add: core_inv_def draining_now_done [OF t uniq x]) blast
qed

lemma core_inv_claim:
  assumes inv: "core_inv (s, ws)" and t: "ws t = None" and cur: "sl_cur (ks_slots s) = Some run"
    and same: "ks_drains s' = ks_drains s" "ks_slots s' = ks_slots s" and "ks_draining s'"
  shows "core_inv (s', ws(t := Some (if ks_draining s then Waiting run else Draining run)))"
proof (cases "ks_draining s")
  case True
  have "(ws(t := Some (Waiting run))) u = Some (Draining q) \<longleftrightarrow> ws u = Some (Draining q)" for u q using t by auto
  with True assms show ?thesis unfolding core_inv_def draining_now_def by simp
next
  case False
  with inv cur have "run \<notin> set (ks_drains s)" "\<not> draining_now ws run" "run < sl_next (ks_slots s)"
    by (auto simp: core_inv_def)
  moreover have "(ws(t := Some (Draining run))) u = Some (Draining q) \<longleftrightarrow> (u = t \<and> q = run) \<or> ws u = Some (Draining q)"
    for u q using t by auto
  ultimately show ?thesis
    using False assms unfolding core_inv_def draining_now_def by simp
qed

lemma core_step_inv: "core_step W L a b \<Longrightarrow> core_inv a \<Longrightarrow> core_inv b"
proof (induction rule: core_step.induct)
  case (starting h c s r s' ws)
  have "ws t \<noteq> Some (Draining (sl_next (ks_slots s)))" for t using starting(2) by (fastforce simp: core_inv_def)
  with starting show ?case
    using core_Start_effect [OF starting(1)] by (auto simp: core_inv_def draining_now_def less_Suc_eq)
next
  case (stop_idle s s' ws)
  then show ?case using core_Stop_begin_effect [OF stop_idle(1)] by (auto simp: core_inv_def)
next
  case (stop_called ws t s run draining s')
  from core_Stop_begin_effect [OF this(2)]
  have same: "sl_cur (ks_slots s) = Some run" "ks_drains s' = ks_drains s" "ks_slots s' = ks_slots s" "ks_draining s'"
    and d: "draining = ks_draining s" by auto
  show ?case unfolding d using stop_called(3,1) same by (rule core_inv_claim)
next
  case (drained ws t run s s')
  then show ?case by (auto intro: core_inv_drain)
next
  case (drain_fails ws t run s r s')
  then show ?case by (auto intro: core_inv_drain)
next
  case (stop_returns ws t run s r s')
  then show ?case
    using core_Stop_finish_effect [OF stop_returns(3)]
    by (auto simp: core_inv_def sl_cur_clear draining_now_simps(3) split: if_splits)
next
  case (stop_expires ws t run s e r s')
  then show ?case
    using core_Stop_finish_effect [OF stop_expires(3)]
    by (auto simp: core_inv_def draining_now_simps(3) split: if_splits)
next
  case (invalidated run s ws)
  then show ?case by (simp add: core_inv_def)
next
  case (working s ws w)
  then show ?case by (simp add: core_inv_def)
qed

lemma core_reachable_inv: "(core_step W L)\<^sup>*\<^sup>* a b \<Longrightarrow> core_inv a \<Longrightarrow> core_inv b"
  by (induction rule: rtranclp_induct) (auto intro: core_step_inv)

lemma core_step_drains: "core_step W L a b \<Longrightarrow> set (ks_drains (fst a)) \<subseteq> set (ks_drains (fst b))"
  by (induction rule: core_step.induct)
    (auto dest!: core_Start_effect core_Stop_begin_effect core_Stop_drain_effect core_Stop_finish_effect)

lemma core_drains_stay: "(core_step W L)\<^sup>*\<^sup>* a b \<Longrightarrow> set (ks_drains (fst a)) \<subseteq> set (ks_drains (fst b))"
  by (induction rule: rtranclp_induct) (use core_step_drains in blast)+

lemma count_list_distinct: "distinct xs \<Longrightarrow> r \<in> set xs \<Longrightarrow> count_list xs r = 1"
  by (induction xs) (auto simp: count_list_0_iff)

text \<open>
  C31. Whatever \<open>Start\<close> and \<open>Stop\<close> calls interleave, \<open>Drain\<close> is called at most once per subscription,
  and the field \<open>draining\<close> says exactly that a \<open>Stop\<close> called it or is about to.  It says so whether
  or not that call failed: a subscription whose drain failed is never drained again.
\<close>

theorem core_drained_once:
  assumes "core_NewSubscriber nc cfg lg w = Inr s0" and reach: "(core_step W L)\<^sup>*\<^sup>* (s0, \<lambda>_. None) (s, ws)"
  shows "distinct (ks_drains s)
    \<and> (\<forall>r. sl_cur (ks_slots s) = Some r \<longrightarrow>
         (ks_draining s \<longleftrightarrow> r \<in> set (ks_drains s) \<or> (\<exists>t. ws t = Some (Draining r))))
    \<and> (\<forall>r \<in> set (ks_drains s). \<forall>s' ws'. (core_step W L)\<^sup>*\<^sup>* (s, ws) (s', ws') \<longrightarrow> count_list (ks_drains s') r = 1)"
proof -
  have "core_inv (s0, \<lambda>_. None)"
    using assms(1) by (auto simp: core_NewSubscriber_def core_inv_def no_slots_def split: option.splits if_splits)
  with reach have inv: "core_inv (s, ws)" by (rule core_reachable_inv)
  have once: "count_list (ks_drains s') r = 1"
    if "r \<in> set (ks_drains s)" "(core_step W L)\<^sup>*\<^sup>* (s, ws) (s', ws')" for r s' ws'
  proof -
    have "distinct (ks_drains s')" using core_reachable_inv [OF that(2) inv] by (simp add: core_inv_def)
    moreover have "r \<in> set (ks_drains s')" using core_drains_stay [OF that(2)] that(1) by auto
    ultimately show ?thesis by (rule count_list_distinct)
  qed
  from inv once show ?thesis unfolding core_inv_def prod.case draining_now_def by blast
qed

subsection \<open>Round trip through the headers\<close>

abbreviation single_values :: "(string \<times> string) list \<Rightarrow> header" where
  "single_values \<equiv> map (\<lambda>(k, v). (k, [v]))"

lemma update_single: "AList.update k [v] (single_values pairs) = single_values (AList.update k v pairs)"
  by (induction pairs) auto

lemma set_all:
  assumes "header_laws L" and "distinct (map fst (pairs @ attrs))"
  shows "fold (\<lambda>(k, v) h. nl_Set L h k v) attrs (single_values pairs) = single_values (pairs @ attrs)"
  using assms(2)
proof (induction attrs arbitrary: pairs)
  case (Cons a attrs)
  obtain k v where a: "a = (k, v)" by (cases a)
  have "nl_Set L (single_values pairs) k v = single_values (pairs @ [(k, v)])"
    using assms(1) Cons.prems update_new [of k pairs v] by (simp add: header_laws_def update_single a)
  with Cons.IH [of "pairs @ [(k, v)]"] Cons.prems show ?case by (simp add: a)
qed simp

lemma firstValues_single: "firstValues (single_values pairs) = pairs"
  by (induction pairs) (auto simp: firstValues_def List.map_filter_simps)

lemma mset_firstValues: "mset xs = mset ys \<Longrightarrow> mset (firstValues xs) = mset (firstValues ys)"
  by (simp add: firstValues_def List.map_filter_def)

lemma first_value_single: "first_value (single_values pairs) k = (case map_of pairs k of Some v \<Rightarrow> v | None \<Rightarrow> [])"
  by (induction pairs) (auto simp: first_value_def)

lemma nats_traced_single:
  assumes "header_laws L" and "nm_Header msg = single_values pairs"
  shows "nm_Header (nats_traced W L tc msg) = single_values (traced_pairs W tc pairs)"
  using assms by (simp add: nats_traced_def traced_pairs_def header_laws_def update_single split: option.split)

lemma nats_traced_data [simp]: "nm_Data (nats_traced W L tc msg) = nm_Data msg"
  by (simp add: nats_traced_def split: option.split)

lemma fallback_id_returns: "\<exists>eid w'. fallback_id L headers w = (Ret eid, w')"
  by (auto simp: fallback_id_def go_defs Let_def)

text \<open>
  C34. An event published over NATS, core or JetStream, reaches a subscriber whole: from the published
  data and the published headers in any order, with or without the native traceparent, the codec
  rebuilds the event, extension values in their canonical string form, whatever id it would have
  fallen back on.
\<close>

theorem nats_round_trip:
  assumes L: "header_laws L" and C: "codec_laws C" and ce: "settled (cd_sdk C) ce"
    and valid: "event_validate (cd_sdk C) ce = None" and ct: "ContentType C ce \<noteq> ApplicationCloudEventsJSON"
    and header: "tp_header W \<noteq> contentTypeHeader" "attribute_name (tp_header W) = None"
    and sent: "nats_Marshal L C subject ce = Inr msg"
    and got: "mset headers = mset (nm_Header (nats_traced W L tc msg))"
  shows "\<exists>ce' w'. nats_Unmarshal L C headers (nm_Data msg) w = (Ret (Inr ce'), w')
    \<and> sdk_view (cd_sdk C) ce' = wire_view C ce \<and> event_data (cd_sdk C) ce' = event_data (cd_sdk C) ce"
proof -
  have S: "sdk_laws (cd_sdk C)" using C by (simp add: codec_laws_def)
  have key: "contentTypeHeader = contentTypeAttribute" by (simp add: contentTypeHeader_def contentTypeAttribute_def)
  obtain attrs where enc: "Encode C ce = Inr attrs" and data: "nm_Data msg = event_data (cd_sdk C) ce"
    and h: "nm_Header msg = nl_Set L (fold (\<lambda>(k, v) h. nl_Set L h k v) attrs []) contentTypeHeader (ContentType C ce)"
    using sent by (auto simp: nats_Marshal_def Let_def split: sum.splits)
  let ?pairs = "AList.update contentTypeAttribute (ContentType C ce) attrs"
  have names: "distinct (map fst attrs)" by (rule Encode_wire(1) [OF S enc])
  have "nm_Header msg = single_values ?pairs"
    using set_all [OF L, of "[]" attrs] names L unfolding h key by (simp add: header_laws_def update_single)
  note sent_headers = nats_traced_single [OF L this, of W tc]
  have dist: "distinct (map fst (single_values (traced_pairs W tc ?pairs)))"
    using distinct_traced [OF distinct_update [OF names]] by (simp add: case_prod_unfold comp_def)
  have "map_of headers = map_of (single_values (traced_pairs W tc ?pairs))"
    by (rule map_of_mset [OF got [unfolded sent_headers] dist])
  then have "first_value headers contentTypeHeader = first_value (single_values (traced_pairs W tc ?pairs)) contentTypeHeader"
    unfolding first_value_def by simp
  then have type: "nl_Get L headers contentTypeHeader = ContentType C ce"
    using L header(1) by (simp add: header_laws_def first_value_single key map_of_traced)
  have "mset (named (firstValues headers)) = mset (named attrs)"
    using mset_named [OF mset_firstValues [OF got [unfolded sent_headers]]]
    by (simp add: firstValues_single named_traced [OF header(2)] named_update_other [OF content_type_ignored])
  from decode_encoded [OF C ce valid ct enc this] obtain ce' where rebuilt: "\<And>def. Decode C (ContentType C ce)
      (firstValues headers) (event_data (cd_sdk C) ce) def = Inr (ce' def) \<and> sdk_view (cd_sdk C) (ce' def) = wire_view C ce
      \<and> event_data (cd_sdk C) (ce' def) = event_data (cd_sdk C) ce"
    by metis
  obtain eid w' where "fallback_id L headers w = (Ret eid, w')" using fallback_id_returns [of L headers w] by (elim exE)
  with rebuilt [of "nats_defaults eid"] show ?thesis
    unfolding nats_Unmarshal_def go_bind_def type data by (simp add: go_ret_def)
qed

subsection \<open>The connection\<close>

lemma conn_Stop_again: "cn_stopped s \<Longrightarrow> conn_Stop await c s = (Ret None, s)"
  by (simp add: conn_Stop_def go_defs)

lemma conn_Stop_first: "\<not> cn_stopped s \<Longrightarrow> conn_Stop await c s = waitClosed await c (s\<lparr>cn_stopped := True\<rparr>)"
  by (simp add: conn_Stop_def go_defs)

lemma waitClosed_cases:
  "waitClosed await c s = (case cn_drain s (cn_world s) of
     (Ret (Some e), w') \<Rightarrow>
       if ends_closed e then awaitClosed await c (s\<lparr>cn_world := w'\<rparr>)
       else (Ret (Some (wrap_prefix ''natsconn: drain'' e)), s\<lparr>cn_world := w'\<rparr>)
   | (Ret None, w') \<Rightarrow> awaitClosed await c (s\<lparr>cn_world := w'\<rparr>)
   | (Panic p, w') \<Rightarrow> (Panic p, s\<lparr>cn_world := w'\<rparr>))"
  by (simp add: waitClosed_def go_get_def go_zoom_def go_bind_def go_ret_def split: prod.split res.split option.split)

lemma waitClosed_stopped:
  assumes keeps: "\<And>t. cn_stopped (snd (await c t)) = cn_stopped t"
  shows "cn_stopped (snd (waitClosed await c s)) = cn_stopped s"
proof -
  have wait: "cn_stopped (snd (awaitClosed await c t)) = cn_stopped t" for t
  proof (cases "await c t")
    case (Pair r u)
    with keeps [of t] show ?thesis by (cases r) (simp_all add: awaitClosed_def go_bind_def go_ret_def)
  qed
  show ?thesis
    unfolding waitClosed_cases by (auto simp: wait split: prod.split res.split option.split)
qed

text \<open>
  A connection is drained at most once: the first \<open>Stop\<close> drains it, and every later one returns
  nil at once and changes nothing, even when the first one failed.  A drain that fails because the
  connection is closed already, or closes while reconnecting, is not a failure of \<open>Stop\<close>, which then
  waits for the close; any other failure is returned.
\<close>

theorem conn_stopped_once:
  assumes "conn_Stop await c s = (r, s')" and keeps: "\<And>t. cn_stopped (snd (await c t)) = cn_stopped t"
  shows "conn_Stop await' c' s' = (Ret None, s')
    \<and> (\<forall>e w'. \<not> cn_stopped s \<and> cn_drain s (cn_world s) = (Ret (Some e), w') \<longrightarrow>
         (let t = s\<lparr>cn_stopped := True, cn_world := w'\<rparr> in
          (r, s') = (if ends_closed e then awaitClosed await c t
                     else (Ret (Some (wrap_prefix ''natsconn: drain'' e)), t))))"
proof (cases "cn_stopped s")
  case True
  with assms(1) show ?thesis by (simp add: conn_Stop_again)
next
  case False
  have step: "(r, s') = waitClosed await c (s\<lparr>cn_stopped := True\<rparr>)" using assms(1) False by (simp add: conn_Stop_first)
  have "cn_stopped (snd (r, s'))" unfolding step waitClosed_stopped [of await c, OF keeps] by simp
  then have "conn_Stop await' c' s' = (Ret None, s')" by (simp add: conn_Stop_again)
  then show ?thesis using step by (simp add: waitClosed_cases)
qed

text \<open>
  What \<open>redact.URL\<close> prints depends on the scheme, the host and the path only: two URLs that
  differ in user, password, query or fragment become the same text, and a value without a scheme
  or one that does not parse becomes the empty one.
\<close>

theorem redact_hides_credentials:
  assumes "contains raw ''://''" and "nu_Parse N raw = Inr u" and "contains raw' ''://''" and "nu_Parse N raw' = Inr u'"
    and "(ur_Scheme u, ur_Host u, ur_Path u) = (ur_Scheme u', ur_Host u', ur_Path u')"
  shows "redact_URL N raw = redact_URL N raw' \<and>
    (\<forall>bad. \<not> contains bad ''://'' \<or> isl (nu_Parse N bad) \<longrightarrow> redact_URL N bad = [])"
  using assms by (auto simp: redact_URL_def split: sum.splits)

subsection \<open>Witnesses\<close>

definition sample_nats_lib :: "nat nats_lib" where
  "sample_nats_lib = \<lparr>nl_Get = first_value, nl_Set = (\<lambda>h k v. AList.update k [v] h), nl_MsgIdHdr = ''Nats-Msg-Id'',
     nl_uuid = (\<lambda>w. (''uuid'', Suc w))\<rparr>"

text \<open>A connection that subscribes and whose drains fail.\<close>

definition sample_nats_conn :: "nat nats_conn" where
  "sample_nats_conn = \<lparr>nc_PublishMsg = (\<lambda>m w. (Ret None, w)), nc_Subscribe = (\<lambda>s cb w. (Ret None, w)),
     nc_QueueSubscribe = (\<lambda>s q cb w. (Ret None, w)), nc_DrainSub = (\<lambda>r w. (Ret (Some Canceled), w))\<rparr>"

theorem core_drained_once_witness:
  "\<exists>s0 s. core_NewSubscriber (Some sample_nats_conn) \<lparr>ks_Subject = ''s'', ks_QueueGroup = []\<rparr> None 0 = Inr s0
     \<and> (core_step sample_surroundings sample_nats_lib)\<^sup>*\<^sup>* (s0, \<lambda>_. None) (s, \<lambda>_. None)
     \<and> sl_cur (ks_slots s) = Some 0 \<and> 0 \<in> set (ks_drains s) \<and> ks_draining s"
proof -
  let ?W = sample_surroundings and ?L = sample_nats_lib
  obtain s0 where new: "core_NewSubscriber (Some sample_nats_conn) \<lparr>ks_Subject = ''s'', ks_QueueGroup = []\<rparr> None 0 = Inr s0"
    by (simp add: core_NewSubscriber_def)
  obtain r s1 where start: "core_Start ?W ?L undefined Background s0 = (r, s1)" by fastforce
  have s1: "ks_slots s1 = slot_spawn no_slots" "ks_draining s1 = False" "ks_drains s1 = []" "ks_nc s1 = sample_nats_conn"
    using start new by (auto simp: core_NewSubscriber_def core_Start_def on_ks_world_def go_basic_defs emit_def
        sample_nats_conn_def no_slots_def Transport_def Component_def logger_With_def)
  obtain s2 where begins: "core_Stop_begin s1 = (Ret (Some (0, False)), s2)"
    and s2: "ks_slots s2 = ks_slots s1" "ks_drains s2 = []" "ks_nc s2 = sample_nats_conn"
    by (simp add: core_Stop_begin_def go_basic_defs s1 slot_spawn_def no_slots_def)
  obtain r' s3 where drain: "core_Stop_drain 0 s2 = (r', s3)" by fastforce
  have s3: "r' \<noteq> Ret None" "ks_slots s3 = ks_slots s1" "ks_drains s3 = [0]"
    using drain s2 by (auto simp: core_Stop_drain_def on_ks_world_def go_basic_defs sample_nats_conn_def)
  have a: "core_step ?W ?L (s0, \<lambda>_. None) (s1, \<lambda>_. None)" by (rule core_step.starting [OF start])
  have b: "core_step ?W ?L (s1, \<lambda>_. None) (s2, (\<lambda>_. None)(0 := Some (Draining 0)))"
    using core_step.stop_called [where W = ?W and L = ?L, OF _ begins, of "\<lambda>_. None" 0] by simp
  have c: "core_step ?W ?L (s2, (\<lambda>_. None)(0 := Some (Draining 0))) (s3, \<lambda>_. None)"
    using core_step.drain_fails [where W = ?W and L = ?L, OF _ drain s3(1), of "(\<lambda>_. None)(0 := Some (Draining 0))" 0]
    unfolding fun_upd_upd fun_upd_idem [of "\<lambda>_. None", OF refl] by simp
  have steps: "(core_step ?W ?L)\<^sup>*\<^sup>* (s0, \<lambda>_. None) (s3, \<lambda>_. None)" 
    by (rule converse_rtranclp_into_rtranclp, rule a, rule converse_rtranclp_into_rtranclp, rule b,
        rule r_into_rtranclp, rule c)
  have cur: "sl_cur (ks_slots s3) = Some 0" by (simp add: s3 s1 no_slots_def)
  from core_drained_once [OF new steps] cur s3(3) have "ks_draining s3" by simp
  with new steps cur s3(3) show ?thesis by auto
qed

theorem nats_round_trip_witness:
  "\<exists>msg ce' w'. nats_Marshal sample_nats_lib sample_codec ''s'' crowded = Inr msg
     \<and> nats_Unmarshal sample_nats_lib sample_codec (rev (nm_Header msg)) (nm_Data msg) 0 = (Ret (Inr ce'), w')
     \<and> sdk_view sample_sdk ce' = wire_view sample_codec crowded"
proof -
  let ?W = "sample_surroundings"
  have L: "header_laws sample_nats_lib" by (simp add: header_laws_def sample_nats_lib_def)
  have settled: "settled (cd_sdk sample_codec) crowded"
    by (simp add: settled_def crowded_def sample_event_def CloudEventsVersionV1_def)
  have valid: "event_validate (cd_sdk sample_codec) crowded = None" by (simp add: crowded_def sample_event_def)
  have ct: "ContentType sample_codec crowded \<noteq> ApplicationCloudEventsJSON" by code_simp
  have header: "tp_header ?W \<noteq> contentTypeHeader" "attribute_name (tp_header ?W) = None"
    by (simp_all add: sample_surroundings_def contentTypeHeader_def attribute_name_def ascii_lower_def Prefix_def
        has_prefix_def)
  have "\<not> isl (nats_Marshal sample_nats_lib sample_codec ''s'' crowded)" by code_simp
  then obtain msg where sent: "nats_Marshal sample_nats_lib sample_codec ''s'' crowded = Inr msg"
    by (cases "nats_Marshal sample_nats_lib sample_codec ''s'' crowded") auto
  have got: "mset (rev (nm_Header msg)) = mset (nm_Header (nats_traced ?W sample_nats_lib None msg))"
    by (simp add: nats_traced_def)
  from nats_round_trip [OF L sample_codec_laws settled valid ct header sent got, of 0] sent show ?thesis
    by (auto simp: cd_sdk_sample)
qed

theorem conn_stopped_once_witness:
  "let s = \<lparr>cn_drain = (\<lambda>w. (Ret (Some Canceled), Suc w)), cn_closed = False, cn_stopped = False, cn_world = 0\<rparr>;
       await = (\<lambda>c s. (Ret None, s))
   in fst (conn_Stop await Background s) \<noteq> Ret None
     \<and> fst (conn_Stop await Background (snd (conn_Stop await Background s))) = Ret None"
proof -
  let ?s = "\<lparr>cn_drain = (\<lambda>w. (Ret (Some Canceled), Suc w)), cn_closed = False, cn_stopped = False, cn_world = 0\<rparr>"
  let ?await = "\<lambda>c s. (Ret None, s)"
  obtain r s' where first: "conn_Stop ?await Background ?s = (r, s')" by fastforce
  note once = conn_stopped_once [OF first, of ?await Background]
  have "\<not> ends_closed Canceled" by code_simp
  with once have "r \<noteq> Ret None" by simp
  moreover have "conn_Stop ?await Background s' = (Ret None, s')" by (rule conjunct1 [OF once]) simp
  ultimately show ?thesis unfolding Let_def first snd_conv by simp
qed

definition sample_net_url :: net_url where
  "sample_net_url = \<lparr>nu_Parse = (\<lambda>raw. Inr \<lparr>ur_Scheme = ''nats'', ur_User = Some (drop 7 raw), ur_Host = ''h'', ur_Path = [],
     ur_RawQuery = [], ur_Fragment = []\<rparr>), nu_String = (\<lambda>u. ur_Scheme u @ ''://'' @ ur_Host u)\<rparr>"

theorem redact_hides_credentials_witness:
  "redact_URL sample_net_url ''nats://a:b@h'' = redact_URL sample_net_url ''nats://c@h''
   \<and> redact_URL sample_net_url ''h:4222'' = []"
proof -
  have has: "contains ''nats://a:b@h'' ''://''" "contains ''nats://c@h'' ''://''" "\<not> contains ''h:4222'' ''://''"
    by code_simp+
  from redact_hides_credentials [OF has(1) _ has(2), of sample_net_url] has(3)
  show ?thesis by (simp add: sample_net_url_def)
qed

end
