(* ===== verification/Pubsub.thy ===== *)
theory Pubsub
  imports Transport Slots
begin

text \<open>
  \<open>pkg/transport/gcp/pubsub\<close>: marshaler, unmarshaler, publisher, subscriber and health checker.

  The Pub/Sub client is a parameter.  \<open>Start\<close> and \<open>Stop\<close> are modelled as for SQS; the receiving
  goroutine ends in three steps: \<open>done\<close> is closed, then the outcome is judged, then it is reported.
\<close>

subsection \<open>Messages\<close>

record 'w pubsub_message =
  pm_ID :: string
  pm_Data :: bytes
  pm_Attributes :: "(string \<times> string) list"
  pm_DeliveryAttempt :: "int option"
  pm_Ack :: "('w, unit) go"
  pm_Nack :: "('w, unit) go"

definition map_get :: "(string \<times> string) list \<Rightarrow> string \<Rightarrow> string" where
  "map_get m k = (case map_of m k of Some v \<Rightarrow> v | None \<Rightarrow> [])"

definition pubsub_contentTypeAttribute :: string where
  "pubsub_contentTypeAttribute = ''Content-Type''"

definition pubsub_defaults :: "string \<Rightarrow> Defaults" where
  "pubsub_defaults mid =
     \<lparr>def_ID = mid, def_Type = ''com.google.cloud.pubsub.message'', def_Source = ''//pubsub.googleapis.com''\<rparr>"

text \<open>\<open>DeliveryAttempt\<close> is an \<open>*int\<close>; a non-negative one fits 64 bits.\<close>

definition pubsub_deliveryCount :: "int option \<Rightarrow> u64" where
  "pubsub_deliveryCount a = (case a of None \<Rightarrow> 0 | Some n \<Rightarrow> if n < 0 then 0 else word_of_int n)"

text \<open>What \<open>marshal\<close> builds: the data and the attributes.\<close>

definition pubsub_marshal :: "'ev codec \<Rightarrow> 'ev \<Rightarrow> goerr + bytes \<times> (string \<times> string) list" where
  "pubsub_marshal C ce =
     (case Encode C ce of
        Inl err \<Rightarrow> Inl (wrap_prefix ''pubsub: marshal'' err)
      | Inr attrs \<Rightarrow> Inr (event_data (cd_sdk C) ce, AList.update pubsub_contentTypeAttribute (ContentType C ce) attrs))"

definition pubsub_unmarshal :: "'ev codec \<Rightarrow> 'w pubsub_message \<Rightarrow> goerr + 'ev" where
  "pubsub_unmarshal C m =
     (case Decode C (map_get (pm_Attributes m) pubsub_contentTypeAttribute) (pm_Attributes m) (pm_Data m)
             (pubsub_defaults (pm_ID m)) of
        Inl err \<Rightarrow> Inl (wrap_prefix ''pubsub: unmarshal'' err)
      | Inr ce \<Rightarrow> Inr ce)"

subsection \<open>publisher.go\<close>

text \<open>
  \<open>pp_send\<close> is \<open>p.pub.Publish(ctx, msg).Get(ctx)\<close>; \<open>pp_stop\<close> is the SDK publisher's \<open>Stop\<close>.
\<close>

record 'w topic_publisher =
  pp_send :: "ctx \<Rightarrow> bytes \<times> (string \<times> string) list \<Rightarrow> ('w, goerr + string) go"
  pp_stop :: "('w, unit) go"

record 'w pubsub_publisher =
  pp_pub :: "'w topic_publisher"
  pp_TopicID :: string
  pp_logger :: logger

definition pubsub_NewPublisher :: "(string \<Rightarrow> 'w topic_publisher) option \<Rightarrow> string \<Rightarrow> logger option
    \<Rightarrow> goerr + 'w pubsub_publisher" where
  "pubsub_NewPublisher client topicID lg =
     (case client of
        None \<Rightarrow> Inl (errors_new ''pubsub: client is nil'')
      | Some mk \<Rightarrow>
          if topicID = [] then Inl (errors_new ''pubsub: PublisherConfig.TopicID is empty'')
          else Inr \<lparr>pp_pub = mk topicID, pp_TopicID = topicID,
                 pp_logger = Transport lg ''pubsub-publisher'' SystemGCPPubSub topicID\<rparr>)"

definition pubsub_Close :: "'w pubsub_publisher \<Rightarrow> ('w, goerr option) go" where
  "pubsub_Close p = go_seq (pp_stop (pp_pub p)) (go_ret None)"

definition pubsub_Publish :: "('ev, 'w) surroundings \<Rightarrow> 'w pubsub_publisher \<Rightarrow> ctx \<Rightarrow> 'ev \<Rightarrow> ('w, goerr option) go" where
  "pubsub_Publish W p c ce =
     (case InjectTraceFromContext (tp_tracer W) (tp_sdk W) c ce of (ce, tc) \<Rightarrow>
     (case pubsub_marshal (tp_codec W) ce of
        Inl err \<Rightarrow> go_ret (Some (wrap_prefix ''pubsub marshal'' err))
      | Inr (data, attrs) \<Rightarrow>
          (let attrs = (case tc of None \<Rightarrow> attrs
                 | Some t \<Rightarrow> AList.update (tp_header W) (trace_parent (tp_tracer W) t) attrs)
           in go_bind (pp_send (pp_pub p) c (data, attrs)) (\<lambda>r.
             (case r of
                Inl err \<Rightarrow> go_ret (Some (wrap_prefix ''pubsub publish'' err))
              | Inr mid \<Rightarrow> go_seq (emit W (pp_logger p) LevelDebug ''event published''
                  [AStr KeyMessagingBrokerID mid, AStr KeyMessagingMessageID (event_id (tp_sdk W) ce)])
                  (go_ret None))))))"

subsection \<open>subscriber.go\<close>

record pubsub_config =
  pc_SubscriptionID :: string
  pc_MaxOutstandingMessages :: int
  pc_MaxOutstandingBytes :: int
  pc_NumGoroutines :: int
  pc_MaxExtension :: int

record 'w pubsub_client =
  pcl_Project :: string
  pcl_GetSubscription :: "ctx \<Rightarrow> string \<Rightarrow> ('w, goerr option) go"

text \<open>
  \<open>ps_ended\<close> holds the runs whose \<open>Receive\<close> returned and whose outcome is not judged yet,
  \<open>ps_failing\<close> the runs that \<open>receiveOutcome\<close> found failed and whose goroutine is about to call
  \<open>onError\<close>; \<open>ps_reported\<close> is a ghost field: the failures handed to \<open>onError\<close>, by run.
\<close>

record 'w pubsub_subscriber =
  ps_client :: "'w pubsub_client"
  ps_cfg :: pubsub_config
  ps_logger :: logger
  ps_slots :: slots
  ps_world :: 'w
  ps_ended :: "(nat \<times> goerr option) list"
  ps_failing :: "(nat \<times> goerr) list"
  ps_reported :: "(nat \<times> goerr) list"

definition pubsub_NewSubscriber :: "'w pubsub_client option \<Rightarrow> pubsub_config \<Rightarrow> logger option \<Rightarrow> 'w
    \<Rightarrow> goerr + 'w pubsub_subscriber" where
  "pubsub_NewSubscriber client cfg lg w =
     (case client of
        None \<Rightarrow> Inl (errors_new ''pubsub: client is nil'')
      | Some client \<Rightarrow>
          if pc_SubscriptionID cfg = [] then Inl (errors_new ''pubsub: SubscriberConfig.SubscriptionID is empty'')
          else if pc_MaxOutstandingMessages cfg < 0 \<or> pc_MaxOutstandingBytes cfg < 0 \<or> pc_NumGoroutines cfg < 0
                  \<or> pc_MaxExtension cfg < 0 then
            Inl (errors_new ''pubsub: SubscriberConfig flow-control settings must not be negative'')
          else Inr \<lparr>ps_client = client, ps_cfg = cfg,
                 ps_logger = Transport lg ''pubsub-subscriber'' SystemGCPPubSub (pc_SubscriptionID cfg),
                 ps_slots = no_slots, ps_world = w, ps_ended = [], ps_failing = [], ps_reported = []\<rparr>)"

definition pubsub_delivery :: "'w pubsub_message \<Rightarrow> 'w delivery" where
  "pubsub_delivery m =
     \<lparr>dl_ack = Some (go_seq (pm_Ack m) (go_ret None)), dl_nack = Some (go_seq (pm_Nack m) (go_ret None)),
      dl_discard = None, dl_count = pubsub_deliveryCount (pm_DeliveryAttempt m)\<rparr>"

text \<open>The callback handed to \<open>Receive\<close>.\<close>

definition pubsub_callback :: "('ev, 'w) surroundings \<Rightarrow> ('ev, 'w) msg_handler \<Rightarrow> 'w pubsub_message \<Rightarrow> ('w, unit) go" where
  "pubsub_callback W h m =
     (let d = pubsub_delivery m; traceparent = map_get (pm_Attributes m) (tp_header W) in
      (case pubsub_unmarshal (tp_codec W) m of
         Inl err \<Rightarrow>
           (let rescue = Rescue (tp_codec W) (pubsub_defaults (pm_ID m))
                  (map_get (pm_Attributes m) pubsub_contentTypeAttribute) (pm_Data m)
            in deliver_undecodable W h traceparent rescue d err)
       | Inr ce \<Rightarrow> deliver_event W h traceparent ce d))"

definition on_ps_world :: "('w, 'a) go \<Rightarrow> ('w pubsub_subscriber, 'a) go" where
  "on_ps_world = go_zoom ps_world (\<lambda>w s. s\<lparr>ps_world := w\<rparr>)"

definition on_ps_slots :: "(slots \<Rightarrow> slots) \<Rightarrow> ('w pubsub_subscriber, unit) go" where
  "on_ps_slots f = go_modify (\<lambda>s. s\<lparr>ps_slots := f (ps_slots s)\<rparr>)"

text \<open>
  The run that \<open>Start\<close> begins is the goroutine that calls the client's \<open>Receive\<close>, with the configured
  flow control and \<open>pubsub_callback\<close>; the client runs it until the run's context is cancelled.
\<close>

definition pubsub_Start :: "('ev, 'w) surroundings \<Rightarrow> ctx \<Rightarrow> ('w pubsub_subscriber, goerr option) go" where
  "pubsub_Start W c =
     go_bind (go_get (\<lambda>s. s)) (\<lambda>s.
     if sl_cur (ps_slots s) \<noteq> None then go_ret (Some ErrAlreadyStarted)
     else
       (let sid = pc_SubscriptionID (ps_cfg s);
            name = ''projects/'' @ pcl_Project (ps_client s) @ ''/subscriptions/'' @ sid
        in go_bind (on_ps_world (pcl_GetSubscription (ps_client s) c name)) (\<lambda>err.
          (case err of
             Some e \<Rightarrow> go_ret (Some (wrap_prefix (''pubsub: get subscription '' @ go_quote sid) e))
           | None \<Rightarrow>
               go_seq (on_ps_slots slot_spawn)
               (go_seq (on_ps_world (emit W (ps_logger s) LevelInfo ''subscription started''
                  [AInt KeyConsumerMaxOutstanding (pc_MaxOutstandingMessages (ps_cfg s)),
                   AInt KeyConsumerGoroutines (pc_NumGoroutines (ps_cfg s))]))
               (go_ret None))))))"

definition receiveOutcome :: "bool \<Rightarrow> string \<Rightarrow> goerr option \<Rightarrow> goerr option" where
  "receiveOutcome ctxDone subscriptionID err =
     (case err of
        None \<Rightarrow> None
      | Some e \<Rightarrow> if ctxDone then None
          else Some (wrap_prefix (''pubsub: receive '' @ go_quote subscriptionID) e))"

text \<open>\<open>Receive\<close> returned: \<open>done\<close> is closed, the outcome is still to be judged.\<close>

definition pubsub_receive_returns :: "nat \<Rightarrow> goerr option \<Rightarrow> 'w pubsub_subscriber \<Rightarrow> 'w pubsub_subscriber" where
  "pubsub_receive_returns run err s =
     s\<lparr>ps_slots := slot_exit run (ps_slots s), ps_ended := (run, err) # ps_ended s\<rparr>"

text \<open>
  \<open>receiveOutcome\<close> looks at the run's context, and a failure goes to \<open>onError\<close>: two steps of the
  goroutine, with no lock, so that a \<open>Stop\<close> may come between them.
\<close>

definition pubsub_judge :: "nat \<Rightarrow> goerr option \<Rightarrow> ('w pubsub_subscriber, unit) go" where
  "pubsub_judge run err =
     go_seq (go_modify (\<lambda>s. s\<lparr>ps_ended := remove1 (run, err) (ps_ended s)\<rparr>))
     (go_bind (go_get (\<lambda>s. s)) (\<lambda>s.
     (case receiveOutcome (run \<in> set (sl_cancelled (ps_slots s))) (pc_SubscriptionID (ps_cfg s)) err of
        None \<Rightarrow> go_ret ()
      | Some ferr \<Rightarrow> go_modify (\<lambda>s. s\<lparr>ps_failing := ps_failing s @ [(run, ferr)]\<rparr>))))"

definition pubsub_report :: "(goerr \<Rightarrow> ('w, unit) go) option \<Rightarrow> nat \<Rightarrow> goerr \<Rightarrow> ('w pubsub_subscriber, unit) go" where
  "pubsub_report onError run ferr =
     go_seq (go_modify (\<lambda>s. s\<lparr>ps_failing := remove1 (run, ferr) (ps_failing s),
        ps_reported := ps_reported s @ [(run, ferr)]\<rparr>))
     (on_ps_world (case onError of None \<Rightarrow> go_ret () | Some f \<Rightarrow> f ferr))"

text \<open>\<open>Stop\<close>: the locked read of the run, the cancellation, which is not under the lock, and the end.\<close>

definition pubsub_Stop_begin :: "('w pubsub_subscriber, nat option) go" where
  "pubsub_Stop_begin = go_get (\<lambda>s. sl_cur (ps_slots s))"

definition pubsub_cancel :: "nat \<Rightarrow> ('w pubsub_subscriber, unit) go" where
  "pubsub_cancel run = on_ps_slots (slot_cancel run)"

definition pubsub_Stop_finish :: "('ev, 'w) surroundings \<Rightarrow> nat \<Rightarrow> goerr option
    \<Rightarrow> ('w pubsub_subscriber, goerr option) go" where
  "pubsub_Stop_finish W run ctxErr =
     go_bind (go_get (\<lambda>s. s)) (\<lambda>s.
     (case ctxErr of
        Some e \<Rightarrow> go_ret (Some (wrap_prefix (''pubsub: stop '' @ go_quote (pc_SubscriptionID (ps_cfg s))) e))
      | None \<Rightarrow>
          go_seq (on_ps_slots (slot_clear run))
          (go_seq (on_ps_world (emit W (ps_logger s) LevelInfo ''subscription stopped'' [])) (go_ret None))))"

definition pubsub_Stop :: "('ev, 'w) surroundings \<Rightarrow> (ctx \<Rightarrow> ('w, goerr option) go) \<Rightarrow> ctx
    \<Rightarrow> ('w pubsub_subscriber, goerr option) go" where
  "pubsub_Stop W await c =
     go_bind pubsub_Stop_begin (\<lambda>cur.
     (case cur of
        None \<Rightarrow> go_ret None
      | Some run \<Rightarrow>
          go_seq (pubsub_cancel run)
          (go_bind (on_ps_world (await c)) (\<lambda>ctxErr.
          go_seq (go_when (ctxErr = None) (on_ps_slots (slot_exit run)))
            (pubsub_Stop_finish W run ctxErr)))))"

lemmas pubsub_defs = on_ps_world_def on_ps_slots_def pubsub_Start_def pubsub_Stop_begin_def pubsub_Stop_finish_def
  pubsub_Stop_def pubsub_cancel_def pubsub_judge_def pubsub_report_def

text \<open>
  Calls and the receiving goroutines, interleaved.  A goroutine in \<open>Stop\<close> holds the run it read and
  whether it has cancelled it.
\<close>

type_synonym stopping = "nat \<Rightarrow> (nat \<times> bool) option"

inductive pubsub_step :: "('ev, 'w) surroundings \<Rightarrow> 'w pubsub_subscriber \<times> stopping
    \<Rightarrow> 'w pubsub_subscriber \<times> stopping \<Rightarrow> bool" for W where
  starting: "pubsub_Start W c s = (r, s') \<Longrightarrow> pubsub_step W (s, ws) (s', ws)"
| stop_called: "ws t = None \<Longrightarrow> pubsub_Stop_begin s = (Ret cur, s') \<Longrightarrow>
     pubsub_step W (s, ws) (s', ws(t := map_option (\<lambda>run. (run, False)) cur))"
| stop_cancels: "ws t = Some (run, False) \<Longrightarrow> pubsub_cancel run s = (r, s') \<Longrightarrow>
     pubsub_step W (s, ws) (s', ws(t := Some (run, True)))"
| stop_returns: "ws t = Some (run, True) \<Longrightarrow> run \<notin> set (sl_live (ps_slots s)) \<Longrightarrow>
     pubsub_Stop_finish W run None s = (r, s') \<Longrightarrow> pubsub_step W (s, ws) (s', ws(t := None))"
| stop_expires: "ws t = Some (run, True) \<Longrightarrow> pubsub_Stop_finish W run (Some e) s = (r, s') \<Longrightarrow>
     pubsub_step W (s, ws) (s', ws(t := None))"
| receive_returns: "run \<in> set (sl_live (ps_slots s)) \<Longrightarrow>
     pubsub_step W (s, ws) (pubsub_receive_returns run err s, ws)"
| judged: "(run, err) \<in> set (ps_ended s) \<Longrightarrow> pubsub_judge run err s = (r, s') \<Longrightarrow>
     pubsub_step W (s, ws) (s', ws)"
| reports: "(run, ferr) \<in> set (ps_failing s) \<Longrightarrow> pubsub_report onError run ferr s = (r, s') \<Longrightarrow>
     pubsub_step W (s, ws) (s', ws)"
| working: "pubsub_step W (s, ws) (s\<lparr>ps_world := w\<rparr>, ws)"

subsection \<open>health.go\<close>

definition DefaultCheckTimeout :: int where
  "DefaultCheckTimeout = 15 * 10 ^ 9"

record 'w health_client =
  hc_GetTopic :: "ctx \<Rightarrow> string \<Rightarrow> ('w, goerr option) go"
  hc_GetSubscription :: "ctx \<Rightarrow> string \<Rightarrow> ('w, goerr option) go"

record 'w health_checker =
  hk_client :: "'w health_client"
  hk_projectID :: string
  hk_topics :: "string list"
  hk_subscriptions :: "string list"
  hk_timeout :: int

definition WithTimeout :: "int \<Rightarrow> ('w health_checker \<Rightarrow> 'w health_checker) res" where
  "WithTimeout d =
     (if d \<le> 0 then Panic (''pubsub: WithTimeout('' @ Duration_String d @ ''): must be positive'')
      else Ret (\<lambda>c. c\<lparr>hk_timeout := d\<rparr>))"

definition WithTopics :: "string list \<Rightarrow> 'w health_checker \<Rightarrow> 'w health_checker" where
  "WithTopics topics c = c\<lparr>hk_topics := hk_topics c @ topics\<rparr>"

definition WithSubscriptions :: "string list \<Rightarrow> 'w health_checker \<Rightarrow> 'w health_checker" where
  "WithSubscriptions subscriptions c = c\<lparr>hk_subscriptions := hk_subscriptions c @ subscriptions\<rparr>"

definition NewHealthChecker :: "'w health_client \<Rightarrow> string \<Rightarrow> ('w health_checker \<Rightarrow> 'w health_checker) list
    \<Rightarrow> 'w health_checker" where
  "NewHealthChecker client projectID opts =
     fold (\<lambda>opt c. opt c) opts \<lparr>hk_client = client, hk_projectID = projectID, hk_topics = [], hk_subscriptions = [],
       hk_timeout = DefaultCheckTimeout\<rparr>"

definition resource_path :: "string \<Rightarrow> string \<Rightarrow> string \<Rightarrow> string" where
  "resource_path projectID kind rid = ''projects/'' @ projectID @ ''/'' @ kind @ ''s/'' @ rid"

text \<open>\<open>notFound\<close> is the gRPC status test on the error.\<close>

definition resource_error :: "(goerr \<Rightarrow> bool) \<Rightarrow> string \<Rightarrow> string \<Rightarrow> goerr \<Rightarrow> goerr" where
  "resource_error notFound kind rid err =
     (if notFound err then errors_new (''required '' @ kind @ '' '' @ go_quote rid @ '' does not exist'')
      else wrap_prefix (''error checking '' @ kind @ '' '' @ rid) err)"

fun check_resources :: "(goerr \<Rightarrow> bool) \<Rightarrow> string \<Rightarrow> ctx \<Rightarrow> string \<Rightarrow> string list \<Rightarrow> (ctx \<Rightarrow> string \<Rightarrow> ('w, goerr option) go)
    \<Rightarrow> ('w, goerr list) go" where
  "check_resources notFound projectID c kind [] get = go_ret []"
| "check_resources notFound projectID c kind (rid # ids) get =
     (if rid = [] then check_resources notFound projectID c kind ids get
      else go_bind (get c (resource_path projectID kind rid)) (\<lambda>err.
        go_bind (check_resources notFound projectID c kind ids get) (\<lambda>errs.
        go_ret (case err of None \<Rightarrow> errs | Some e \<Rightarrow> resource_error notFound kind rid e # errs))))"

definition health_Check :: "(goerr \<Rightarrow> bool) \<Rightarrow> 'w health_checker \<Rightarrow> ctx \<Rightarrow> ('w, goerr option) go" where
  "health_Check notFound p c =
     (let c = context_WithTimeout (hk_timeout p) c in
      go_bind (check_resources notFound (hk_projectID p) c ''topic'' (hk_topics p) (hc_GetTopic (hk_client p))) (\<lambda>errs.
      go_bind (check_resources notFound (hk_projectID p) c ''subscription'' (hk_subscriptions p)
        (hc_GetSubscription (hk_client p))) (\<lambda>errs'.
      go_ret (map_option (wrap_prefix ''pubsub health check'') (errors_Join (map Some (errs @ errs')))))))"

end
