(* ===== verification/PubsubTheorems.thy ===== *)
theory PubsubTheorems
  imports Pubsub SqsTheorems
begin

text \<open>
  What the Pub/Sub transport guarantees: one receiving run at a time, a failure reported once and
  only when nobody had stopped the run before it was checked, events that survive the broker, and a
  health check that looks at every resource.
\<close>

subsection \<open>Runs\<close>

lemma pubsub_Start_effect:
  "pubsub_Start W c s = (r, s') \<Longrightarrow> ps_ended s' = ps_ended s \<and> ps_failing s' = ps_failing s \<and> ps_reported s' = ps_reported s \<and>
     (ps_slots s' = ps_slots s \<or> (sl_cur (ps_slots s) = None \<and> ps_slots s' = slot_spawn (ps_slots s) \<and> r = Ret None))"
  by (auto simp: pubsub_defs go_defs emit_def Let_def split: prod.splits res.splits option.splits if_splits)

lemma pubsub_Stop_begin_effect: "pubsub_Stop_begin s = (Ret (sl_cur (ps_slots s)), s)"
  by (simp add: pubsub_defs go_defs)

lemma pubsub_cancel_effect:
  "pubsub_cancel run s = (r, s') \<Longrightarrow> ps_ended s' = ps_ended s \<and> ps_failing s' = ps_failing s \<and> ps_reported s' = ps_reported s \<and>
     ps_slots s' = slot_cancel run (ps_slots s)"
  by (auto simp: pubsub_defs go_defs)

lemma pubsub_Stop_finish_effect:
  "pubsub_Stop_finish W run err s = (r, s') \<Longrightarrow> ps_ended s' = ps_ended s \<and> ps_failing s' = ps_failing s \<and>
     ps_reported s' = ps_reported s \<and>
     ps_slots s' = (if err = None then slot_clear run (ps_slots s) else ps_slots s) \<and> (r = Ret None \<longleftrightarrow> err = None)"
  by (auto simp: pubsub_defs go_defs emit_def split: option.splits if_splits)

lemma pubsub_judge_effect:
  "pubsub_judge run err s = (r, s') \<Longrightarrow> ps_slots s' = ps_slots s \<and> ps_ended s' = remove1 (run, err) (ps_ended s)
     \<and> ps_reported s' = ps_reported s
     \<and> ps_failing s' = ps_failing s @ (case receiveOutcome (run \<in> set (sl_cancelled (ps_slots s)))
         (pc_SubscriptionID (ps_cfg s)) err of None \<Rightarrow> [] | Some e \<Rightarrow> [(run, e)])"
  by (auto simp: pubsub_defs go_defs split: prod.splits res.splits option.splits)

lemma pubsub_report_effect:
  "pubsub_report onError run ferr s = (r, s') \<Longrightarrow> ps_slots s' = ps_slots s \<and> ps_ended s' = ps_ended s
     \<and> ps_failing s' = remove1 (run, ferr) (ps_failing s) \<and> ps_reported s' = ps_reported s @ [(run, ferr)]"
  by (auto simp: pubsub_defs go_defs split: prod.splits res.splits option.splits)

lemmas pubsub_effects = pubsub_Start_effect pubsub_cancel_effect pubsub_Stop_finish_effect pubsub_judge_effect
  pubsub_report_effect

interpretation pubsub: startable "pubsub_Start W" "pubsub_Stop W await" "\<lambda>s. sl_cur (ps_slots s) \<noteq> None"
    "\<lambda>s. slots_ok (ps_slots s)"
  for W :: "('ev, 'w) surroundings" and await
proof (unfold_locales, goal_cases)
  case (1 s c)
  then show ?case by (auto simp: pubsub_Start_def go_defs)
next
  case (2 s c r s')
  then show ?case
    by (auto simp: pubsub_defs go_defs emit_def Let_def split: prod.splits res.splits option.splits if_splits)
next
  case (3 s c)
  then show ?case by (simp add: pubsub_defs go_defs)
next
  case (4 s c r s')
  then show ?case
    by (auto simp: pubsub_defs go_defs emit_def sl_cur_clear split: prod.splits res.splits option.splits if_splits)
next
  case (5 s c)
  then show ?case using pubsub_Start_effect [of W c s] slots_ok_spawn by (cases "pubsub_Start W c s") auto
next
  case (6 s c)
  then show ?case
    by (auto simp: pubsub_defs go_defs emit_def slots_ok_stop split: prod.splits res.splits option.splits if_splits)
qed

subsection \<open>Failure reports\<close>

lemma mset_remove1_fst: "(r, e) \<in> set xs \<Longrightarrow> mset (map fst xs) = add_mset r (mset (map fst (remove1 (r, e) xs)))"
  by (induction xs) auto

interpretation pubsub_watch: run_watch "pubsub_step W" "\<lambda>(s, ws). ps_slots s" "\<lambda>(s, ws). map fst (ps_ended s)"
    "\<lambda>(s, ws). map fst (ps_failing s)" "\<lambda>(s, ws). map fst (ps_reported s)" for W :: "('ev, 'w) surroundings"
proof (unfold_locales, goal_cases)
  case (1 a b)
  then show ?case
  proof cases
    case starting
    then show ?thesis using pubsub_Start_effect by fastforce
  next
    case (stop_called ws t s cur s')
    then show ?thesis by (simp add: pubsub_Stop_begin_effect)
  next
    case stop_cancels
    then show ?thesis using pubsub_cancel_effect by fastforce
  next
    case stop_returns
    then show ?thesis using pubsub_Stop_finish_effect by fastforce
  next
    case stop_expires
    then show ?thesis using pubsub_Stop_finish_effect by fastforce
  next
    case (receive_returns run s ws err)
    then show ?thesis by (auto simp: pubsub_receive_returns_def)
  next
    case judged
    then show ?thesis using pubsub_judge_effect by fastforce
  next
    case reports
    then show ?thesis using pubsub_report_effect by fastforce
  qed auto
next
  case (2 a b)
  then show ?case
  proof cases
    case starting
    then show ?thesis using pubsub_Start_effect by fastforce
  next
    case (stop_called ws t s cur s')
    then show ?thesis by (simp add: pubsub_Stop_begin_effect)
  next
    case stop_cancels
    then show ?thesis using pubsub_cancel_effect by fastforce
  next
    case stop_returns
    then show ?thesis using pubsub_Stop_finish_effect by fastforce
  next
    case stop_expires
    then show ?thesis using pubsub_Stop_finish_effect by fastforce
  next
    case (receive_returns run s ws err)
    then show ?thesis by (auto simp: pubsub_receive_returns_def)
  next
    case (judged run err s r s' ws)
    have "mset (map fst (ps_ended s)) = add_mset run (mset (map fst (ps_ended s')))"
      using mset_remove1_fst [OF judged(3)] pubsub_judge_effect [OF judged(4)] by simp
    with judged pubsub_judge_effect [OF judged(4)] show ?thesis
      by (auto simp: receiveOutcome_def split: option.splits if_splits)
  next
    case (reports run ferr s onError r s' ws)
    have "mset (map fst (ps_failing s)) = add_mset run (mset (map fst (ps_failing s')))"
      using mset_remove1_fst [OF reports(3)] pubsub_report_effect [OF reports(4)] by simp
    with reports pubsub_report_effect [OF reports(4)] show ?thesis by auto
  qed auto
qed

text \<open>
  C29. A failed \<open>Receive\<close> is reported at most once per run, never while the run still receives, and
  only if the check of the run's context, made after \<open>Receive\<close> returned, came before anybody
  cancelled the run: whatever calls, goroutines and handlers interleave, a run that was cancelled
  before that check is never reported.  The check and \<open>onError\<close> are not one step: a run whose check
  came first may be reported while a later \<open>Stop\<close> is under way, and after it returned.
\<close>

theorem pubsub_failure_reported_once:
  assumes "pubsub_NewSubscriber client cfg lg w = Inr s0" and reach: "(pubsub_step W)\<^sup>*\<^sup>* (s0, \<lambda>_. None) (s, ws)"
  shows "distinct (map fst (ps_reported s)) \<and> (\<forall>run \<in> set (sl_live (ps_slots s)). run \<notin> fst ` set (ps_reported s))
    \<and> (\<forall>run \<in> fst ` set (ps_reported s). \<exists>u wu. (pubsub_step W)\<^sup>*\<^sup>* (s0, \<lambda>_. None) (u, wu) \<and> (pubsub_step W)\<^sup>*\<^sup>* (u, wu) (s, ws)
         \<and> run \<in> fst ` set (ps_ended u) \<and> run \<notin> set (sl_cancelled (ps_slots u)))
    \<and> (\<forall>run \<in> set (sl_cancelled (ps_slots s)). run \<notin> fst ` set (ps_failing s) \<and> run \<notin> fst ` set (ps_reported s) \<longrightarrow>
         (\<forall>s' ws'. (pubsub_step W)\<^sup>*\<^sup>* (s, ws) (s', ws') \<longrightarrow> run \<notin> fst ` set (ps_reported s')))"
proof -
  have s0: "ps_slots s0 = no_slots" "ps_ended s0 = []" "ps_failing s0 = []" "ps_reported s0 = []"
    using assms(1) by (auto simp: pubsub_NewSubscriber_def split: option.splits if_splits)
  then have w: "pubsub_watch.watched (s0, \<lambda>_. None)"
    by (simp add: pubsub_watch.watched_def pubsub_watch.all_runs_def no_slots_def)
  have "\<exists>u wu. (pubsub_step W)\<^sup>*\<^sup>* (s0, \<lambda>_. None) (u, wu) \<and> (pubsub_step W)\<^sup>*\<^sup>* (u, wu) (s, ws)
      \<and> run \<in> fst ` set (ps_ended u) \<and> run \<notin> set (sl_cancelled (ps_slots u))"
    if "run \<in> fst ` set (ps_reported s)" for run
    using pubsub_watch.judged_before [OF reach, of run] that s0
    by (auto simp: pubsub_watch.judged_failed_def image_iff)
  moreover have "run \<notin> fst ` set (ps_reported s')"
    if "run \<in> set (sl_cancelled (ps_slots s))" "run \<notin> fst ` set (ps_failing s)" "run \<notin> fst ` set (ps_reported s)"
      "(pubsub_step W)\<^sup>*\<^sup>* (s, ws) (s', ws')" for run s' ws'
    using pubsub_watch.stop_silences [OF that(4), of run] that(1-3) by (simp add: pubsub_watch.judged_failed_def)
  ultimately show ?thesis
    using pubsub_watch.reported_once [OF reach w] pubsub_watch.alive_unreported [OF reach w]
    by (simp add: pubsub_watch.judged_failed_def)
qed

subsection \<open>Round trip\<close>

lemma pubsub_ct: "pubsub_contentTypeAttribute = contentTypeAttribute"
  by (simp add: pubsub_contentTypeAttribute_def contentTypeAttribute_def)

text \<open>
  An event published to Pub/Sub reaches a subscriber whole: from a message with the published
  data and the published attributes in any order, with or without the native traceparent, the
  unmarshaler rebuilds the event, extension values in their canonical string form.
\<close>

theorem pubsub_round_trip:
  assumes C: "codec_laws C" and ce: "settled (cd_sdk C) ce" and valid: "event_validate (cd_sdk C) ce = None"
    and ct: "ContentType C ce \<noteq> ApplicationCloudEventsJSON"
    and header: "tp_header W \<noteq> contentTypeAttribute" "attribute_name (tp_header W) = None"
    and sent: "pubsub_marshal C ce = Inr (data, attrs)" and body: "pm_Data m = data"
    and got: "mset (pm_Attributes m) = mset (traced_pairs W tc attrs)"
  shows "\<exists>ce'. pubsub_unmarshal C m = Inr ce' \<and> sdk_view (cd_sdk C) ce' = wire_view C ce
    \<and> event_data (cd_sdk C) ce' = event_data (cd_sdk C) ce"
proof -
  have S: "sdk_laws (cd_sdk C)" using C by (simp add: codec_laws_def)
  obtain pairs where enc: "Encode C ce = Inr pairs" and data: "data = event_data (cd_sdk C) ce"
    and attrs: "attrs = AList.update contentTypeAttribute (ContentType C ce) pairs"
    using sent by (auto simp: pubsub_marshal_def pubsub_ct split: sum.splits)
  have dist: "distinct (map fst (traced_pairs W tc attrs))"
    unfolding attrs by (intro distinct_traced distinct_update Encode_wire(1) [OF S enc])
  have type: "map_get (pm_Attributes m) pubsub_contentTypeAttribute = ContentType C ce"
    unfolding map_get_def pubsub_ct map_of_mset [OF got dist] map_of_traced [OF header(1) [symmetric]]
    by (simp add: attrs)
  have "mset (named (pm_Attributes m)) = mset (named pairs)"
    using mset_named [OF got]
    by (simp add: named_traced [OF header(2)] attrs named_update_other [OF content_type_ignored])
  from decode_encoded [OF C ce valid ct enc this, of "pubsub_defaults (pm_ID m)"] show ?thesis
    unfolding pubsub_unmarshal_def type body data by (elim exE conjE) simp
qed

subsection \<open>Health\<close>

lemma check_resources_pure:
  assumes "\<And>r. get c (resource_path pid kind r) w = (Ret (found r), w)"
  shows "check_resources nf pid c kind ids get w =
    (Ret (List.map_filter (\<lambda>r. if r = [] then None else map_option (resource_error nf kind r) (found r)) ids), w)"
proof (induction ids)
  case (Cons r ids)
  then show ?case by (cases "found r") (simp_all add: go_defs assms List.map_filter_simps)
qed (simp add: go_defs List.map_filter_simps)

lemma failing_members:
  "e \<in> set (List.map_filter (\<lambda>r. if r = [] then None else map_option (g r) (F r)) ids)
     \<longleftrightarrow> (\<exists>r \<in> set ids - {[]}. \<exists>x. F r = Some x \<and> e = g r x)"
proof (induction ids)
  case (Cons r ids)
  then show ?case by (cases "F r"; cases "r = []") (auto simp: List.map_filter_simps)
qed (simp add: List.map_filter_simps)

lemma no_failing_member:
  "List.map_filter (\<lambda>r. if r = [] then None else map_option (g r) (F r)) ids = []
     \<longleftrightarrow> (\<forall>r \<in> set ids - {[]}. F r = None)"
proof (induction ids)
  case (Cons r ids)
  then show ?case
    by (cases "F r"; cases "r = []") (simp_all add: List.map_filter_simps insert_Diff_if)
qed (simp add: List.map_filter_simps)

lemma join_all: "errors_Join (map Some es) = (if es = [] then None else Some (Joined es))"
  by (cases es) (simp_all add: errors_Join_def List.map_filter_def comp_def)

lemma joined_nothing: "map_option f (errors_Join (map Some es)) = None \<longleftrightarrow> es = []"
  by (simp add: join_all)

lemma joined_members:
  assumes "map_option (wrap_prefix p) (errors_Join (map Some es)) = Some e" and mem: "x \<in> set es"
  shows "x \<in> set (err_tree e)"
proof -
  have e: "e = wrap_prefix p (Joined es)" using assms by (auto simp: join_all split: if_splits)
  have "x \<in> set (err_tree x)" by (simp add: set_err_tree [of x])
  then have "x \<in> set (err_tree (Joined es))"
    unfolding set_err_tree [of "Joined es"] by (intro insertI2 UN_I [of x]) (simp_all add: mem)
  then show ?thesis unfolding e by (auto simp: wrap_prefix_def set_err_tree [of "Errorf _ _"])
qed

text \<open>
  The readiness check passes exactly when every named topic and subscription was found, and a
  failing check names every resource that was not, in order: it does not stop at the first.
\<close>

theorem health_check_complete:
  assumes "\<And>t. hc_GetTopic (hk_client p) (context_WithTimeout (hk_timeout p) c) (resource_path (hk_projectID p) ''topic'' t) w = (Ret (T t), w)"
    and "\<And>u. hc_GetSubscription (hk_client p) (context_WithTimeout (hk_timeout p) c) (resource_path (hk_projectID p) ''subscription'' u) w = (Ret (U u), w)"
  shows "\<exists>r. health_Check nf p c w = (Ret r, w) \<and>
    (r = None \<longleftrightarrow> (\<forall>t \<in> set (hk_topics p) - {[]}. T t = None) \<and> (\<forall>u \<in> set (hk_subscriptions p) - {[]}. U u = None))
    \<and> (\<forall>e. r = Some e \<longrightarrow>
        (\<forall>t \<in> set (hk_topics p) - {[]}. \<forall>x. T t = Some x \<longrightarrow> resource_error nf ''topic'' t x \<in> set (err_tree e))
        \<and> (\<forall>u \<in> set (hk_subscriptions p) - {[]}. \<forall>x. U u = Some x \<longrightarrow>
             resource_error nf ''subscription'' u x \<in> set (err_tree e)))"
proof -
  let ?es = "List.map_filter (\<lambda>r. if r = [] then None else map_option (resource_error nf ''topic'' r) (T r)) (hk_topics p)
    @ List.map_filter (\<lambda>r. if r = [] then None else map_option (resource_error nf ''subscription'' r) (U r)) (hk_subscriptions p)"
  let ?c = "context_WithTimeout (hk_timeout p) c"
  have check: "health_Check nf p c w = (Ret (map_option (wrap_prefix ''pubsub health check'') (errors_Join (map Some ?es))), w)"
    using check_resources_pure [of "hc_GetTopic (hk_client p)" ?c "hk_projectID p" "''topic''" w T nf "hk_topics p"]
      check_resources_pure [of "hc_GetSubscription (hk_client p)" ?c "hk_projectID p" "''subscription''" w U nf
        "hk_subscriptions p"] assms
    by (simp add: health_Check_def go_defs Let_def)
  have mem: "e \<in> set ?es \<longleftrightarrow>
      (\<exists>t \<in> set (hk_topics p) - {[]}. \<exists>x. T t = Some x \<and> e = resource_error nf ''topic'' t x)
      \<or> (\<exists>u \<in> set (hk_subscriptions p) - {[]}. \<exists>x. U u = Some x \<and> e = resource_error nf ''subscription'' u x)" for e
    unfolding set_append Un_iff failing_members ..
  have all: "?es = [] \<longleftrightarrow> (\<forall>t \<in> set (hk_topics p) - {[]}. T t = None) \<and> (\<forall>u \<in> set (hk_subscriptions p) - {[]}. U u = None)"
    unfolding append_is_Nil_conv no_failing_member ..
  show ?thesis
  proof (intro exI conjI allI impI ballI, rule check, goal_cases)
    case 1
    then show ?case unfolding joined_nothing by (rule all)
  next
    case (2 e t x)
    then have "resource_error nf ''topic'' t x \<in> set ?es" using mem by blast
    then show ?case by (rule joined_members [OF 2(1)])
  next
    case (3 e u x)
    then have "resource_error nf ''subscription'' u x \<in> set ?es" using mem by blast
    then show ?case by (rule joined_members [OF 3(1)])
  qed
qed

subsection \<open>Witnesses\<close>

definition sample_pubsub_client :: "nat pubsub_client" where
  "sample_pubsub_client = \<lparr>pcl_Project = ''p'', pcl_GetSubscription = (\<lambda>c name w. (Ret None, w))\<rparr>"

definition sample_pubsub_config :: pubsub_config where
  "sample_pubsub_config = \<lparr>pc_SubscriptionID = ''s'', pc_MaxOutstandingMessages = 0, pc_MaxOutstandingBytes = 0,
     pc_NumGoroutines = 0, pc_MaxExtension = 0\<rparr>"

text \<open>The run fails, is checked, and then stopped: \<open>Stop\<close> has returned when the failure is reported.\<close>

theorem pubsub_failure_reported_once_witness:
  "\<exists>s0 s. pubsub_NewSubscriber (Some sample_pubsub_client) sample_pubsub_config None 0 = Inr s0
     \<and> (pubsub_step sample_surroundings)\<^sup>*\<^sup>* (s0, \<lambda>_. None) (s, \<lambda>_. None)
     \<and> sl_cur (ps_slots s) = None \<and> 0 \<in> set (sl_cancelled (ps_slots s)) \<and> map fst (ps_reported s) = [0]
     \<and> (\<exists>u wu. (pubsub_step sample_surroundings)\<^sup>*\<^sup>* (u, wu) (s, \<lambda>_. None) \<and> 0 \<notin> set (sl_cancelled (ps_slots u)))"
proof -
  let ?W = "sample_surroundings" and ?none = "\<lambda>_ :: nat. None :: (nat \<times> bool) option"
  let ?e = "wrap_prefix (''pubsub: receive '' @ go_quote ''s'') DeadlineExceeded"
  obtain s0 where new: "pubsub_NewSubscriber (Some sample_pubsub_client) sample_pubsub_config None 0 = Inr s0"
    by (simp add: pubsub_NewSubscriber_def sample_pubsub_config_def)
  obtain r s1 where start: "pubsub_Start ?W Background s0 = (r, s1)" by fastforce
  let ?s2 = "pubsub_receive_returns 0 (Some DeadlineExceeded) s1"
  obtain r3 s3 where judge: "pubsub_judge 0 (Some DeadlineExceeded) ?s2 = (r3, s3)" by fastforce
  obtain r4 s4 where cancel: "pubsub_cancel 0 s3 = (r4, s4)" by fastforce
  obtain r5 s5 where finish: "pubsub_Stop_finish ?W 0 None s4 = (r5, s5)" by fastforce
  have s1: "ps_slots s1 = slot_spawn no_slots" "ps_reported s1 = []" "ps_failing s1 = []"
    using start new by (auto simp: pubsub_NewSubscriber_def sample_pubsub_config_def pubsub_defs go_defs emit_def
        sample_pubsub_client_def no_slots_def Let_def split: if_splits)
  have s3: "ps_slots s3 = slot_exit 0 (slot_spawn no_slots)" "ps_reported s3 = []" "\<exists>e. ps_failing s3 = [(0, e)]"
    using pubsub_judge_effect [OF judge] s1
    by (simp_all add: pubsub_receive_returns_def receiveOutcome_def slot_spawn_def slot_exit_def no_slots_def)
  then obtain e where e: "ps_failing s3 = [(0, e)]" by blast
  obtain r6 s6 where report: "pubsub_report None 0 e s5 = (r6, s6)" by fastforce
  have s5: "ps_failing s5 = [(0, e)]" "ps_reported s5 = []"
      "ps_slots s5 = slot_clear 0 (slot_cancel 0 (slot_exit 0 (slot_spawn no_slots)))"
    using pubsub_Stop_finish_effect [OF finish] pubsub_cancel_effect [OF cancel] s3 e by simp_all
  have s6: "map fst (ps_reported s6) = [0]" "ps_slots s6 = ps_slots s5"
    using pubsub_report_effect [OF report] s5 by simp_all
  have a: "pubsub_step ?W (s0, ?none) (s1, ?none)" by (rule pubsub_step.starting [OF start])
  have b: "pubsub_step ?W (s1, ?none) (?s2, ?none)"
    by (rule pubsub_step.receive_returns) (simp add: s1 slot_spawn_def no_slots_def)
  have "pubsub_Stop_begin ?s2 = (Ret (Some 0), ?s2)"
    by (simp add: pubsub_Stop_begin_effect pubsub_receive_returns_def s1 no_slots_def)
  from pubsub_step.stop_called [OF _ this, of ?none 1 ?W]
  have c: "pubsub_step ?W (?s2, ?none) (?s2, ?none(1 := Some (0, False)))" by simp
  have d: "pubsub_step ?W (?s2, ?none(1 := Some (0, False))) (s3, ?none(1 := Some (0, False)))"
    by (rule pubsub_step.judged [OF _ judge]) (simp add: pubsub_receive_returns_def)
  from pubsub_step.stop_cancels [OF _ cancel, of "?none(1 := Some (0, False))" 1 ?W]
  have f: "pubsub_step ?W (s3, ?none(1 := Some (0, False))) (s4, ?none(1 := Some (0, True)))" by simp
  have "0 \<notin> set (sl_live (ps_slots s4))" using pubsub_cancel_effect [OF cancel] s3 by simp
  from pubsub_step.stop_returns [OF _ this finish, of "?none(1 := Some (0, True))" 1]
  have g: "pubsub_step ?W (s4, ?none(1 := Some (0, True))) (s5, ?none)" by simp
  have h: "pubsub_step ?W (s5, ?none) (s6, ?none)"
    by (rule pubsub_step.reports [OF _ report]) (simp add: s5)
  note then_steps = converse_rtranclp_into_rtranclp [where r = "pubsub_step ?W"]
  have steps: "(pubsub_step ?W)\<^sup>*\<^sup>* (s0, ?none) (s6, ?none)"
    by (rule then_steps [OF a], rule then_steps [OF b], rule then_steps [OF c], rule then_steps [OF d],
        rule then_steps [OF f], rule then_steps [OF g], rule then_steps [OF h], rule rtranclp.rtrancl_refl)
  have stopped: "sl_cur (ps_slots s6) = None" "0 \<in> set (sl_cancelled (ps_slots s6))"
    by (simp_all add: s6 s5 sl_cur_clear no_slots_def slot_spawn_def)
  have "0 \<in> fst ` set (ps_reported s6)" using s6(1) by (cases "ps_reported s6") auto
  with pubsub_failure_reported_once [OF new steps]
  have "\<exists>u wu. (pubsub_step ?W)\<^sup>*\<^sup>* (u, wu) (s6, ?none) \<and> 0 \<notin> set (sl_cancelled (ps_slots u))"
    by (elim conjE) (drule (1) bspec, elim exE conjE, intro exI conjI)
  with new steps stopped s6(1) show ?thesis
    by - (rule exI [of _ s0], rule exI [of _ s6], simp only: simp_thms)
qed

theorem pubsub_round_trip_witness:
  "\<exists>data attrs ce'. pubsub_marshal sample_codec crowded = Inr (data, attrs)
     \<and> pubsub_unmarshal sample_codec \<lparr>pm_ID = ''m'', pm_Data = data, pm_Attributes = rev attrs, pm_DeliveryAttempt = None,
          pm_Ack = go_ret (), pm_Nack = go_ret () :: (nat, unit) go\<rparr> = Inr ce'
     \<and> sdk_view sample_sdk ce' = wire_view sample_codec crowded"
proof -
  let ?W = "sample_surroundings"
  have settled: "settled (cd_sdk sample_codec) crowded"
    by (simp add: settled_def crowded_def sample_event_def CloudEventsVersionV1_def)
  have valid: "event_validate (cd_sdk sample_codec) crowded = None" by (simp add: crowded_def sample_event_def)
  have ct: "ContentType sample_codec crowded \<noteq> ApplicationCloudEventsJSON" by code_simp
  have header: "tp_header ?W \<noteq> contentTypeAttribute" "attribute_name (tp_header ?W) = None"
    by (simp_all add: sample_surroundings_def contentTypeAttribute_def attribute_name_def ascii_lower_def Prefix_def
        has_prefix_def)
  have "\<not> isl (pubsub_marshal sample_codec crowded)" by code_simp
  then obtain data attrs where sent: "pubsub_marshal sample_codec crowded = Inr (data, attrs)"
    by (cases "pubsub_marshal sample_codec crowded") auto
  let ?m = "\<lparr>pm_ID = ''m'', pm_Data = data, pm_Attributes = rev attrs, pm_DeliveryAttempt = None,
    pm_Ack = go_ret (), pm_Nack = go_ret () :: (nat, unit) go\<rparr>"
  have got: "mset (pm_Attributes ?m) = mset (traced_pairs ?W None attrs)" by (simp add: traced_pairs_def)
  from pubsub_round_trip [OF sample_codec_laws settled valid ct header sent _ got] sent show ?thesis
    by (auto simp: cd_sdk_sample)
qed

definition sample_health_client :: "nat health_client" where
  "sample_health_client = \<lparr>hc_GetTopic = (\<lambda>c r w. (Ret None, w)),
     hc_GetSubscription = (\<lambda>c r w. (Ret (if r = resource_path ''p'' ''subscription'' ''x'' then Some Canceled else None), w))\<rparr>"

theorem health_check_complete_witness:
  "\<exists>e. fst (health_Check (\<lambda>_. True) (NewHealthChecker sample_health_client ''p''
       [WithTopics [''t''], WithSubscriptions [''x'', ''y'']]) Background 0) = Ret (Some e)
     \<and> resource_error (\<lambda>_. True) ''subscription'' ''x'' Canceled \<in> set (err_tree e)"
proof -
  let ?p = "NewHealthChecker sample_health_client ''p'' [WithTopics [''t''], WithSubscriptions [''x'', ''y'']]"
  have p: "hk_topics ?p = [''t'']" "hk_subscriptions ?p = [''x'', ''y'']" "hk_client ?p = sample_health_client"
    "hk_projectID ?p = ''p''"
    by (simp_all add: NewHealthChecker_def WithTopics_def WithSubscriptions_def)
  have t: "hc_GetTopic (hk_client ?p) c (resource_path (hk_projectID ?p) ''topic'' t) w = (Ret (None :: goerr option), w)"
    for c t w unfolding p by (simp add: sample_health_client_def)
  have u: "hc_GetSubscription (hk_client ?p) c (resource_path (hk_projectID ?p) ''subscription'' u) w
      = (Ret (if u = ''x'' then Some Canceled else None), w)" for c u w
    unfolding p by (simp add: sample_health_client_def resource_path_def)
  have missing: "\<not> (\<forall>u \<in> set (hk_subscriptions ?p) - {[]}. (if u = ''x'' then Some Canceled else None) = None)"
    unfolding p by simp
  from health_check_complete [where p = ?p and T = "\<lambda>_. None" and U = "\<lambda>u. if u = ''x'' then Some Canceled else None",
      OF t u, where nf = "\<lambda>_. True" and c = Background and w = 0] missing
  obtain e where fails: "health_Check (\<lambda>_. True) ?p Background 0 = (Ret (Some e), 0)"
    and "\<forall>u \<in> set (hk_subscriptions ?p) - {[]}. \<forall>x. (if u = ''x'' then Some Canceled else None) = Some x \<longrightarrow>
        resource_error (\<lambda>_. True) ''subscription'' u x \<in> set (err_tree e)"
    by (metis option.exhaust)
  then have "resource_error (\<lambda>_. True) ''subscription'' ''x'' Canceled \<in> set (err_tree e)" unfolding p by simp
  with fails show ?thesis by simp
qed

end
