(* ===== verification/JetstreamTheorems.thy ===== *)
theory JetstreamTheorems
  imports Jetstream NatsTheorems PubsubTheorems
begin

text \<open>
  What the JetStream subscriber and health checker guarantee: one consumer at a time, drained once,
  its unexpected end reported once and only when it came before any \<open>Stop\<close>, every stream checked.
\<close>

subsection \<open>Runs\<close>

lemma js_Start_effect:
  "js_Start W L h c s = (r, s') \<Longrightarrow> js_ended s' = js_ended s \<and> js_failing s' = js_failing s \<and> js_reported s' = js_reported s \<and> js_drains s' = js_drains s \<and>
     ((js_slots s' = js_slots s \<and> r \<noteq> Ret None)
      \<or> (sl_cur (js_slots s) = None \<and> js_slots s' = slot_spawn (js_slots s) \<and> r = Ret None))"
  by (auto simp: js_defs go_defs emit_def Let_def split: prod.splits res.splits option.splits if_splits)

lemma js_Stop_begin_effect:
  "js_Stop_begin s = (r, s') \<Longrightarrow> js_ended s' = js_ended s \<and> js_failing s' = js_failing s \<and> js_reported s' = js_reported s \<and>
     ((js_slots s' = js_slots s \<and> js_drains s' = js_drains s) \<or>
      (\<exists>run. run \<notin> set (sl_cancelled (js_slots s)) \<and> js_slots s' = slot_cancel run (js_slots s)
         \<and> js_drains s' = js_drains s @ [run]))"
  by (auto simp: js_defs go_defs split: option.splits if_splits)

lemma js_Stop_finish_effect:
  "js_Stop_finish W run err s = (r, s') \<Longrightarrow> js_ended s' = js_ended s \<and> js_failing s' = js_failing s \<and> js_reported s' = js_reported s \<and>
     js_drains s' = js_drains s \<and>
     js_slots s' = (if err = None then slot_clear run (js_slots s) else js_slots s) \<and> (r = Ret None \<longleftrightarrow> err = None)"
  by (auto simp: js_defs go_defs emit_def split: option.splits if_splits)

lemma js_judge_effect:
  "js_slots (js_judge run s) = js_slots s" "js_drains (js_judge run s) = js_drains s"
  "js_ended (js_judge run s) = remove1 run (js_ended s)" "js_reported (js_judge run s) = js_reported s"
  "js_failing (js_judge run s) = js_failing s @ (if run \<in> set (sl_cancelled (js_slots s)) then [] else [run])"
  by (simp_all add: js_judge_def Let_def)

lemma js_report_effect:
  "js_report onError run s = (r, s') \<Longrightarrow> js_slots s' = js_slots s \<and> js_drains s' = js_drains s \<and>
     js_ended s' = js_ended s \<and> js_failing s' = remove1 run (js_failing s) \<and> js_reported s' = js_reported s @ [run]"
  by (auto simp: js_defs go_defs split: prod.splits res.splits option.splits)

lemma js_step_kinds:
  assumes "js_step W L a b"
  shows "(js_slots (fst b) = js_slots (fst a) \<or> (sl_cur (js_slots (fst a)) = None \<and> js_slots (fst b) = slot_spawn (js_slots (fst a)))
      \<or> (\<exists>r. js_slots (fst b) = slot_cancel r (js_slots (fst a))) \<or> (\<exists>r. js_slots (fst b) = slot_exit r (js_slots (fst a)))
      \<or> (\<exists>r. r \<notin> set (sl_live (js_slots (fst a))) \<and> js_slots (fst b) = slot_clear r (js_slots (fst a))))"
  using assms
proof cases
  case starting
  then show ?thesis using js_Start_effect by fastforce
next
  case stop_called
  then show ?thesis using js_Stop_begin_effect by fastforce
next
  case stop_returns
  then show ?thesis using js_Stop_finish_effect by fastforce
next
  case stop_expires
  then show ?thesis using js_Stop_finish_effect by fastforce
next
  case consume_closed
  then show ?thesis by (auto simp: js_consume_closed_def)
next
  case judged
  then show ?thesis by (simp add: js_judge_effect)
next
  case reports
  then show ?thesis using js_report_effect by fastforce
qed auto

interpretation js_watch: run_watch "js_step W L" "\<lambda>a. js_slots (fst a)" "\<lambda>a. js_ended (fst a)" "\<lambda>a. js_failing (fst a)"
    "\<lambda>a. js_reported (fst a)"
  for W :: "('ev, 'w) surroundings" and L
proof (unfold_locales, goal_cases)
  case (1 a b)
  then show ?case by (rule js_step_kinds)
next
  case (2 a b)
  then show ?case
  proof cases
    case starting
    then show ?thesis using js_Start_effect by fastforce
  next
    case stop_called
    then show ?thesis using js_Stop_begin_effect by fastforce
  next
    case stop_returns
    then show ?thesis using js_Stop_finish_effect by fastforce
  next
    case stop_expires
    then show ?thesis using js_Stop_finish_effect by fastforce
  next
    case consume_closed
    then show ?thesis by (auto simp: js_consume_closed_def)
  next
    case (judged run s ws)
    then have "mset (js_ended s) = add_mset run (mset (js_ended (js_judge run s)))"
      by (simp add: js_judge_effect)
    with judged(1,2) show ?thesis
      by (auto simp: js_judge_effect)
  next
    case (reports run s onError r s' ws)
    then have "mset (js_failing s) = add_mset run (mset (js_failing s'))"
      using js_report_effect [OF reports(4)] by simp
    with reports(1,2) js_report_effect [OF reports(4)] show ?thesis by auto
  qed auto
qed

lemma js_Stop_begin_running:
  assumes "sl_cur (js_slots s) = Some run"
  shows "\<exists>s1. js_Stop_begin s = (Ret (Some run), s1) \<and>
    (if run \<in> set (sl_cancelled (js_slots s)) then js_slots s1 = js_slots s
     else js_slots s1 = slot_cancel run (js_slots s))"
  using assms by (cases "run \<in> set (sl_cancelled (js_slots s))") (simp_all add: js_defs go_defs)

lemma js_Stop_effect:
  assumes "sl_cur (js_slots s) = Some run" and "js_Stop W await c s = (r, s')"
  shows "\<exists>q. (q = js_slots s \<or> q = slot_cancel run (js_slots s)) \<and>
    (if r = Ret None then js_slots s' = slot_clear run (slot_exit run q) else js_slots s' = q)"
proof -
  obtain s1 where b: "js_Stop_begin s = (Ret (Some run), s1)"
    and q: "js_slots s1 = js_slots s \<or> js_slots s1 = slot_cancel run (js_slots s)"
    using js_Stop_begin_running [OF assms(1)] by (metis (full_types))
  have "if r = Ret None then js_slots s' = slot_clear run (slot_exit run (js_slots s1)) else js_slots s' = js_slots s1"
    using assms(2) b
    by (auto simp: js_Stop_def on_js_world_def on_js_slots_def go_basic_defs dest!: js_Stop_finish_effect
        split: prod.splits res.splits if_splits)
  with q show ?thesis by blast
qed

interpretation js: startable "js_Start W L h" "js_Stop W await" "\<lambda>s. sl_cur (js_slots s) \<noteq> None"
    "\<lambda>s. slots_ok (js_slots s)"
  for W :: "('ev, 'w) surroundings" and L h await
proof (unfold_locales, goal_cases)
  case (1 s c)
  then show ?case by (auto simp: js_Start_def go_defs)
next
  case (2 s c r s')
  with js_Start_effect [OF 2(3)] show ?case by auto
next
  case (3 s c)
  then show ?case by (simp add: js_defs go_defs)
next
  case (4 s c r s')
  then obtain run where "sl_cur (js_slots s) = Some run" by auto
  with 4 js_Stop_effect [OF _ 4(3)] show ?case by (auto simp: sl_cur_clear)
next
  case (5 s c)
  then show ?case using js_Start_effect [of W L h c s] slots_ok_spawn by (cases "js_Start W L h c s") auto
next
  case (6 s c)
  obtain r s' where stop: "js_Stop W await c s = (r, s')" by fastforce
  show ?case
  proof (cases "sl_cur (js_slots s)")
    case None
    then have "js_Stop W await c s = (Ret None, s)" by (simp add: js_Stop_def js_Stop_begin_def go_basic_defs)
    with 6 show ?thesis by simp
  next
    case (Some run)
    from js_Stop_effect [OF Some stop] 6 show ?thesis unfolding stop by (auto simp: slots_ok_stop split: if_splits)
  qed
qed

definition js_inv :: "'w js_subscriber \<Rightarrow> bool" where
  "js_inv s \<longleftrightarrow> distinct (js_drains s) \<and> set (js_drains s) = set (sl_cancelled (js_slots s))"

lemma js_step_inv: "js_step W L a b \<Longrightarrow> js_inv (fst a) \<Longrightarrow> js_inv (fst b)"
proof (induction rule: js_step.induct)
  case (starting h c s r s' ws)
  from starting(2) js_Start_effect [OF starting(1)] show ?case by (elim conjE disjE) (simp_all add: js_inv_def)
next
  case (stop_called ws t s run s')
  from stop_called(3) js_Stop_begin_effect [OF stop_called(2)] show ?case
    by (elim conjE disjE exE) (simp_all add: js_inv_def)
next
  case (stop_returns ws t run s r s')
  from stop_returns(4) js_Stop_finish_effect [OF stop_returns(3)] show ?case by (elim conjE) (simp add: js_inv_def)
next
  case (stop_expires ws t run s e r s')
  from stop_expires(3) js_Stop_finish_effect [OF stop_expires(2)] show ?case by (elim conjE) (simp add: js_inv_def)
next
  case (judged run s ws)
  from judged(2) show ?case by (simp add: js_inv_def js_judge_effect)
next
  case (reports run s onError r s' ws)
  from reports(3) js_report_effect [OF reports(2)] show ?case by (elim conjE) (simp add: js_inv_def)
qed (simp_all add: js_inv_def js_consume_closed_def)

lemma js_reachable_inv: "(js_step W L)\<^sup>*\<^sup>* a b \<Longrightarrow> js_inv (fst a) \<Longrightarrow> js_inv (fst b)"
  by (induction rule: rtranclp_induct) (auto intro: js_step_inv)

text \<open>
  C30. Whatever calls, closed consumers and watchers interleave, a JetStream consumer is drained once,
  by the first \<open>Stop\<close> of its run, and \<open>ErrConsumeStopped\<close> is reported at most once per run, never
  for a run that is still consuming, and only if the watcher's look at \<open>stopping\<close>, made after the
  consumer closed, came before any \<open>Stop\<close> of that run began: a run whose \<open>Stop\<close> began before that is
  never reported.  The look and \<open>onError\<close> are not one step: a run whose look came first may be
  reported while a later \<open>Stop\<close> is under way, and after it returned.
\<close>

theorem js_stop_discipline:
  assumes "js_NewSubscriber js cfg lg w = Inr s0" and reach: "(js_step W L)\<^sup>*\<^sup>* (s0, \<lambda>_. None) (s, ws)"
  shows "distinct (js_drains s) \<and> set (js_drains s) = set (sl_cancelled (js_slots s))
    \<and> distinct (js_reported s) \<and> (\<forall>run \<in> set (sl_live (js_slots s)). run \<notin> set (js_reported s))
    \<and> (\<forall>run \<in> set (js_reported s). \<exists>u wu. (js_step W L)\<^sup>*\<^sup>* (s0, \<lambda>_. None) (u, wu) \<and> (js_step W L)\<^sup>*\<^sup>* (u, wu) (s, ws)
         \<and> run \<in> set (js_ended u) \<and> run \<notin> set (js_drains u))
    \<and> (\<forall>run \<in> set (js_drains s). run \<notin> set (js_failing s) \<and> run \<notin> set (js_reported s) \<longrightarrow>
         (\<forall>s' ws'. (js_step W L)\<^sup>*\<^sup>* (s, ws) (s', ws') \<longrightarrow> run \<notin> set (js_reported s')))"
proof -
  have s0: "js_ended s0 = []" "js_failing s0 = []" "js_reported s0 = []" "js_slots s0 = no_slots" "js_drains s0 = []"
    using assms(1) by (auto simp: js_NewSubscriber_def new_js_subscriber_def split: option.splits if_splits)
  have w: "js_watch.watched (s0, \<lambda>_. None)"
    using s0 by (simp add: js_watch.watched_def js_watch.all_runs_def no_slots_def)
  have inv0: "js_inv s0" using s0 by (simp add: js_inv_def no_slots_def)
  have inv: "js_inv u" if "(js_step W L)\<^sup>*\<^sup>* (s0, \<lambda>_. None) (u, wu)" for u wu
    using js_reachable_inv [OF that] inv0 by simp
  have "\<exists>u wu. (js_step W L)\<^sup>*\<^sup>* (s0, \<lambda>_. None) (u, wu) \<and> (js_step W L)\<^sup>*\<^sup>* (u, wu) (s, ws)
      \<and> run \<in> set (js_ended u) \<and> run \<notin> set (js_drains u)" if "run \<in> set (js_reported s)" for run
  proof -
    have "run \<in> js_watch.judged_failed (s, ws)" "run \<notin> js_watch.judged_failed (s0, \<lambda>_. None)"
      using that s0 by (simp_all add: js_watch.judged_failed_def)
    from js_watch.judged_before [OF reach this] obtain u wu
      where "(js_step W L)\<^sup>*\<^sup>* (s0, \<lambda>_. None) (u, wu)" "(js_step W L)\<^sup>*\<^sup>* (u, wu) (s, ws)"
        "run \<in> set (js_ended u)" "run \<notin> set (sl_cancelled (js_slots u))"
      by auto
    moreover from inv [OF this(1)] this(4) have "run \<notin> set (js_drains u)" by (simp add: js_inv_def)
    ultimately show ?thesis by blast
  qed
  moreover have "run \<notin> set (js_reported s')"
    if "run \<in> set (js_drains s)" "run \<notin> set (js_failing s)" "run \<notin> set (js_reported s)"
      "(js_step W L)\<^sup>*\<^sup>* (s, ws) (s', ws')" for run s' ws'
    using js_watch.stop_silences [OF that(4), of run] that(1-3) inv [OF reach]
    by (simp add: js_watch.judged_failed_def js_inv_def)
  ultimately show ?thesis
    using inv [OF reach] js_watch.reported_once [OF reach w] js_watch.alive_unreported [OF reach w]
    by (simp add: js_inv_def js_watch.judged_failed_def)
qed

subsection \<open>Health\<close>

lemma check_streams_pure:
  assumes "\<And>r. get c r w = (Ret (found r), w)"
  shows "check_streams get c ids w = (Ret (List.map_filter (\<lambda>r. if r = [] then None
    else map_option (wrap_prefix (''required stream '' @ go_quote r)) (found r)) ids), w)"
proof (induction ids)
  case (Cons r ids)
  then show ?case by (cases "found r") (simp_all add: go_defs assms List.map_filter_simps)
qed (simp add: go_defs List.map_filter_simps)

text \<open>
  The JetStream readiness check passes exactly when every named stream was found, and a failing
  check names every stream that was not.
\<close>

theorem js_check_complete:
  assumes "\<And>r. jh_Stream h (context_WithTimeout (jh_timeout h) c) r w = (Ret (F r), w)"
  shows "\<exists>r. js_Check h c w = (Ret r, w) \<and> (r = None \<longleftrightarrow> (\<forall>n \<in> set (jh_streams h) - {[]}. F n = None))
    \<and> (\<forall>e. r = Some e \<longrightarrow> (\<forall>n \<in> set (jh_streams h) - {[]}. \<forall>x. F n = Some x \<longrightarrow>
         wrap_prefix (''required stream '' @ go_quote n) x \<in> set (err_tree e)))"
proof -
  let ?g = "\<lambda>r. wrap_prefix (''required stream '' @ go_quote r)"
  let ?es = "List.map_filter (\<lambda>r. if r = [] then None else map_option (?g r) (F r)) (jh_streams h)"
  have check: "js_Check h c w = (Ret (map_option (wrap_prefix ''nats health check'') (errors_Join (map Some ?es))), w)"
    using check_streams_pure [of "jh_Stream h" "context_WithTimeout (jh_timeout h) c" w F, OF assms, of "jh_streams h"] by (simp add: js_Check_def go_defs)
  show ?thesis
  proof (intro exI conjI allI impI ballI, rule check, goal_cases)
    case 1
    then show ?case unfolding joined_nothing by (rule no_failing_member)
  next
    case (2 e n x)
    then have "?g n x \<in> set ?es" unfolding failing_members by blast
    then show ?case by (rule joined_members [OF 2(1)])
  qed
qed

subsection \<open>Witnesses\<close>

definition sample_js_client :: "nat js_client" where
  "sample_js_client =
     (let stream = \<lparr>st_CreateConsumer = (\<lambda>c cfg w. (Ret (Inr \<lparr>co_Consume = (\<lambda>cb opts w. (Ret None, w))\<rparr>), w))\<rparr>
      in \<lparr>jsc_Stream = (\<lambda>c n w. (Ret (Inr stream), w)), jsc_CreateOrUpdateStream = (\<lambda>c cfg w. (Ret (Inr stream), w)),
          jsc_Drain = (\<lambda>r w. w)\<rparr>)"

definition sample_js_config :: js_config where
  "sample_js_config = \<lparr>jcf_Stream = ''s'', jcf_FilterSubject = [], jcf_MaxOutstandingMessages = 0,
     jcf_MaxOutstandingBytes = 0, jcf_AckWait = 0, jcf_MaxDeliver = 0, jcf_NakDelay = 0, jcf_InactiveThreshold = 0,
     jcf_ConsumerName = [], jcf_StreamConfig = None\<rparr>"

text \<open>The consumer ends, its watcher looks, and then a \<open>Stop\<close> begins and returns before the report.\<close>

theorem js_stop_discipline_witness:
  "\<exists>s0 s. js_NewSubscriber (Some sample_js_client) sample_js_config None 0 = Inr s0
     \<and> (js_step sample_surroundings sample_nats_lib)\<^sup>*\<^sup>* (s0, \<lambda>_. None) (s, \<lambda>_. None)
     \<and> sl_cur (js_slots s) = None \<and> js_reported s = [0] \<and> set (js_drains s) = {0}
     \<and> (\<exists>u wu. (js_step sample_surroundings sample_nats_lib)\<^sup>*\<^sup>* (u, wu) (s, \<lambda>_. None) \<and> 0 \<notin> set (js_drains u))"
proof -
  let ?W = sample_surroundings and ?L = sample_nats_lib and ?none = "\<lambda>_ :: nat. None :: nat option"
  obtain s0 where new: "js_NewSubscriber (Some sample_js_client) sample_js_config None 0 = Inr s0"
    by (simp add: js_NewSubscriber_def sample_js_config_def)
  obtain r s1 where start: "js_Start ?W ?L undefined Background s0 = (r, s1)" by fastforce
  have s0: "js_slots s0 = no_slots" "js_reported s0 = []" "js_client s0 = sample_js_client" "js_failing s0 = []"
    "jcf_StreamConfig (js_cfg s0) = None" "lg_discard (js_logger s0)"
    using new by (auto simp: Transport_def Component_def logger_With_def js_NewSubscriber_def new_js_subscriber_def js_with_defaults_def sample_js_config_def)
  have "r = Ret None"
    using start s0 by (auto simp: js_Start_def js_consume_def on_js_world_def on_js_slots_def go_basic_defs emit_def
        sample_js_client_def Let_def no_slots_def)
  with js_Start_effect [OF start] s0 have s1: "js_slots s1 = slot_spawn no_slots" "js_reported s1 = []" "js_failing s1 = []"
    by auto
  define s3 where "s3 = js_judge 0 (js_consume_closed 0 s1)"
  have s3: "js_slots s3 = slot_exit 0 (slot_spawn no_slots)" "js_failing s3 = [0]" "js_reported s3 = []"
    by (simp_all add: s3_def js_judge_effect js_consume_closed_def s1) (simp_all add: slot_spawn_def slot_exit_def no_slots_def)
  have quiet: "0 \<notin> set (sl_cancelled (js_slots s3))" by (simp add: s3) (simp add: no_slots_def)
  have "sl_cur (js_slots s3) = Some 0" using s3 by (simp add: no_slots_def)
  then obtain s4 where stop: "js_Stop_begin s3 = (Ret (Some 0), s4)"
    and cancelled: "js_slots s4 = slot_cancel 0 (js_slots s3)"
    using js_Stop_begin_running [of s3 0] quiet by auto
  obtain r5 s5 where finish: "js_Stop_finish ?W 0 None s4 = (r5, s5)" by fastforce
  obtain r6 s6 where report: "js_report None 0 s5 = (r6, s6)" by fastforce
  have s4: "js_slots s4 = slot_cancel 0 (js_slots s3)" "js_failing s4 = [0]" "js_reported s4 = []"
    using js_Stop_begin_effect [OF stop] s3 cancelled by simp_all
  have s5: "js_slots s5 = slot_clear 0 (js_slots s4)" "js_failing s5 = [0]" "js_reported s5 = []"
    using js_Stop_finish_effect [OF finish] s4 by simp_all
  have s6: "js_slots s6 = js_slots s5" "js_reported s6 = [0]" using js_report_effect [OF report] s5 by simp_all
  note then_steps = converse_rtranclp_into_rtranclp [where r = "js_step ?W ?L"]
  have a: "js_step ?W ?L (s0, ?none) (s1, ?none)" by (rule js_step.starting [OF start])
  have b: "js_step ?W ?L (s1, ?none) (js_consume_closed 0 s1, ?none)"
    by (rule js_step.consume_closed) (simp add: s1 slot_spawn_def no_slots_def)
  have c: "js_step ?W ?L (js_consume_closed 0 s1, ?none) (s3, ?none)"
    unfolding s3_def by (rule js_step.judged) (simp add: js_consume_closed_def)
  have d: "js_step ?W ?L (s3, ?none) (s4, ?none(1 := Some 0))"
    by (rule js_step.stop_called [OF _ stop]) simp
  have "0 \<notin> set (sl_live (js_slots s4))" by (simp add: s4 s3)
  from js_step.stop_returns [OF _ this finish, of "?none(1 := Some 0)" 1]
  have e: "js_step ?W ?L (s4, ?none(1 := Some 0)) (s5, ?none)" by simp
  have f: "js_step ?W ?L (s5, ?none) (s6, ?none)" by (rule js_step.reports [OF _ report]) (simp add: s5)
  have steps: "(js_step ?W ?L)\<^sup>*\<^sup>* (s0, ?none) (s6, ?none)"
    by (rule then_steps [OF a], rule then_steps [OF b], rule then_steps [OF c], rule then_steps [OF d],
        rule then_steps [OF e], rule then_steps [OF f], rule rtranclp.rtrancl_refl)
  have rep: "0 \<in> set (js_reported s6)" by (simp add: s6(2))
  note discipline = js_stop_discipline [OF new steps]
  have "set (sl_cancelled (js_slots s6)) = {0}" by (simp add: s6 s5 s4 s3) (simp add: no_slots_def)
  with discipline have drained: "set (js_drains s6) = {0}" by simp
  have "\<exists>u wu. (js_step ?W ?L)\<^sup>*\<^sup>* (u, wu) (s6, ?none) \<and> 0 \<notin> set (js_drains u)"
    using discipline rep by (elim conjE) (drule (1) bspec [where A = "set (js_reported s6)"], elim exE conjE, intro exI conjI)
  moreover have "sl_cur (js_slots s6) = None" by (simp add: s6 s5 s4 s3 sl_cur_clear no_slots_def)
  ultimately show ?thesis
    using new steps s6(2) drained by - (rule exI [of _ s0], rule exI [of _ s6], simp only: simp_thms)
qed

theorem js_check_complete_witness:
  "\<exists>e. js_Check (js_NewHealthChecker (\<lambda>c n w. (Ret (if n = ''b'' then Some Canceled else None), w))
       [WithStreams [''a'', ''b'', []]]) Background (0::nat) = (Ret (Some e), 0)
     \<and> wrap_prefix (''required stream '' @ go_quote ''b'') Canceled \<in> set (err_tree e)"
proof -
  let ?F = "\<lambda>n. if n = ''b'' then Some Canceled else None"
  let ?h = "js_NewHealthChecker (\<lambda>c n w. (Ret (?F n), w)) [WithStreams [''a'', ''b'', []]] :: nat js_checker"
  have h: "jh_streams ?h = [''a'', ''b'', []]" "jh_Stream ?h = (\<lambda>c n w. (Ret (?F n), w))"
    by (simp_all add: js_NewHealthChecker_def WithStreams_def)
  have get: "jh_Stream ?h (context_WithTimeout (jh_timeout ?h) Background) n (0::nat) = (Ret (?F n), 0)" for n unfolding h ..
  have missing: "\<not> (\<forall>n \<in> set (jh_streams ?h) - {[]}. ?F n = None)" unfolding h by simp
  from js_check_complete [where F = ?F, OF get] missing
  obtain e where fails: "js_Check ?h Background 0 = (Ret (Some e), 0)"
    and all: "\<forall>n \<in> set (jh_streams ?h) - {[]}. \<forall>x. ?F n = Some x \<longrightarrow>
         wrap_prefix (''required stream '' @ go_quote n) x \<in> set (err_tree e)"
    by (metis option.exhaust)
  then have "wrap_prefix (''required stream '' @ go_quote ''b'') Canceled \<in> set (err_tree e)" unfolding h by simp
  with fails show ?thesis by blast
qed

end
