(* ===== verification/Eventhttp.thy ===== *)
theory Eventhttp
  imports Transport Skiperr Contracts
begin

text \<open>
  \<open>pkg/transport/eventhttp\<close>, the subscriber: \<open>subscriber.go\<close>, \<open>error.go\<close>, \<open>response.go\<close> and
  \<open>codes.go\<close>.  A request is handled synchronously: the answer is the value the handler function
  returns.

  The CloudEvents HTTP binding, \<open>mime.ParseMediaType\<close>, the clock and the UUID generator are
  parameters (\<open>http_lib\<close>).  The clock gives nanoseconds since 1970.
\<close>

subsection \<open>Requests and answers\<close>

text \<open>\<open>rq_Header\<close> is \<open>r.Header.Get\<close>; \<open>rq_read_err\<close> is what ends the body instead of EOF.\<close>

record http_request =
  rq_Method :: string
  rq_Host :: string
  rq_Path :: string
  rq_TLS :: bool
  rq_Header :: "string \<Rightarrow> string"
  rq_Body :: bytes
  rq_read_err :: "goerr option"
  rq_ctx :: ctx

text \<open>
  \<open>hl_decode\<close> is \<open>cehttp.NewEventFromHTTPRequest\<close>: given what reading the body gives, the event or
  an error, and what a later read of the body still gives.  \<open>hl_media\<close> gives the media type and an
  error, possibly both.
\<close>

record ('ev, 'w) http_lib =
  hl_decode :: "http_request \<Rightarrow> goerr + bytes \<Rightarrow> (goerr + 'ev) \<times> (goerr + bytes)"
  hl_media :: "string \<Rightarrow> string \<times> goerr option"
  hl_uuid :: "'w \<Rightarrow> string \<times> 'w"
  hl_now :: "'w \<Rightarrow> gotime \<times> 'w"

text \<open>\<open>http.MaxBytesReader\<close>: a body longer than the limit reads as \<open>*http.MaxBytesError\<close>.\<close>

definition MaxBytesError :: goerr where
  "MaxBytesError = Foreign ''*http.MaxBytesError'' ''http: request body too large'' []"

definition is_MaxBytesError :: "goerr \<Rightarrow> bool" where
  "is_MaxBytesError e = (case e of Foreign ty _ _ \<Rightarrow> ty = ''*http.MaxBytesError'' | _ \<Rightarrow> False)"

definition limited_body :: "int \<Rightarrow> http_request \<Rightarrow> goerr + bytes" where
  "limited_body limit r =
     (if int (length (rq_Body r)) > limit then Inl MaxBytesError
      else (case rq_read_err r of Some e \<Rightarrow> Inl e | None \<Rightarrow> Inr (rq_Body r)))"

subsection \<open>codes.go\<close>

definition CodeInvalidRequest :: string where
  "CodeInvalidRequest = ''INVALID-REQUEST''"

definition CodeInvalidCorrelationID :: string where
  "CodeInvalidCorrelationID = ''INVALID-CORRELATION-ID''"

definition CodePayloadTooLarge :: string where
  "CodePayloadTooLarge = ''PAYLOAD-TOO-LARGE''"

definition CodeUnsupportedMediaType :: string where
  "CodeUnsupportedMediaType = ''UNSUPPORTED-MEDIA-TYPE''"

definition CodeRouteNotFound :: string where
  "CodeRouteNotFound = ''ROUTE-NOT-FOUND''"

definition CodeInvalidPayload :: string where
  "CodeInvalidPayload = ''INVALID-PAYLOAD''"

definition CodeValidationFailed :: string where
  "CodeValidationFailed = ''VALIDATION-FAILED''"

definition CodeHandlerFailed :: string where
  "CodeHandlerFailed = ''HANDLER-FAILED''"

definition GenericFailureDetail :: string where
  "GenericFailureDetail = ''The event could not be processed''"

lemmas code_defs = CodeInvalidRequest_def CodeInvalidCorrelationID_def CodePayloadTooLarge_def
  CodeUnsupportedMediaType_def CodeRouteNotFound_def CodeInvalidPayload_def CodeValidationFailed_def
  CodeHandlerFailed_def GenericFailureDetail_def

subsection \<open>response.go\<close>

record Response =
  rs_ID :: string
  rs_Type :: string
  rs_CorrelationID :: string
  rs_Timestamp :: int
  rs_Instance :: string
  rs_Code :: string
  rs_Detail :: string
  rs_Status :: int

text \<open>
  The answer on the wire: a JSON envelope, or the plain text of \<open>http.Error\<close>.  \<open>json.Marshal\<close>
  (version 2) fails exactly on a string that is not valid UTF-8.
\<close>

datatype http_body = JsonBody Response | TextBody string

record http_answer =
  ha_status :: int
  ha_body :: http_body

definition encodable :: "Response \<Rightarrow> bool" where
  "encodable res \<longleftrightarrow> list_all valid_utf8
     [rs_ID res, rs_Type res, rs_CorrelationID res, rs_Instance res, rs_Code res, rs_Detail res]"

text \<open>\<open>WriteHeader\<close> panics on a code outside 100 to 999.\<close>

definition Response_JSON :: "Response \<Rightarrow> ('w, http_answer) go" where
  "Response_JSON res =
     (let res = (if rs_Status res = 0 then res\<lparr>rs_Status := 202\<rparr> else res) in
      if \<not> encodable res then go_ret \<lparr>ha_status = 500, ha_body = TextBody ''Internal Server Error''\<rparr>
      else if rs_Status res < 100 \<or> rs_Status res > 999 then
        go_panic (''invalid WriteHeader code '' @ show_int (rs_Status res))
      else go_ret \<lparr>ha_status = rs_Status res, ha_body = JsonBody res\<rparr>)"

definition newResponse :: "('ev, 'w) surroundings \<Rightarrow> ('ev, 'w) http_lib \<Rightarrow> 'ev \<Rightarrow> string \<Rightarrow> int \<Rightarrow> string \<Rightarrow> string
    \<Rightarrow> ('w, Response) go" where
  "newResponse W H ce inst status code detail =
     go_bind (go_total (hl_now H)) (\<lambda>now.
     go_ret \<lparr>rs_ID = event_id (tp_sdk W) ce, rs_Type = event_type (tp_sdk W) ce,
       rs_CorrelationID = CorrelationID (tp_sdk W) ce, rs_Timestamp = now div 10 ^ 9, rs_Instance = inst,
       rs_Code = code, rs_Detail = detail, rs_Status = status\<rparr>)"

subsection \<open>error.go\<close>

record ErrorRule =
  rule_Match :: "goerr option \<Rightarrow> bool"
  rule_StatusCode :: int
  rule_ErrorCode :: string
  rule_DetailFunc :: "goerr option \<Rightarrow> string"

text \<open>
  \<open>ClientError\<close>: the validation error of this library, and whatever other types implement it
  (\<open>foreign\<close> gives their \<open>ClientDetail\<close>).
\<close>

definition client_detail :: "(goerr \<Rightarrow> string option) \<Rightarrow> goerr \<Rightarrow> string option" where
  "client_detail foreign e =
     (if is_ValidateError e then Some (ClientDetail e)
      else (case e of Foreign _ _ _ \<Rightarrow> foreign e | _ \<Rightarrow> None))"

text \<open>A type is the errors that have it; \<open>errors.AsType\<close> of a nil error finds nothing.\<close>

definition NewRuleForTypeWithDetail :: "(goerr \<Rightarrow> bool) \<Rightarrow> int \<Rightarrow> string \<Rightarrow> (goerr option \<Rightarrow> string) \<Rightarrow> ErrorRule" where
  "NewRuleForTypeWithDetail is_T statusCode code detail =
     \<lparr>rule_Match = (\<lambda>err. Option.bind err (errors_as is_T) \<noteq> None), rule_StatusCode = statusCode, rule_ErrorCode = code,
      rule_DetailFunc = (\<lambda>err. detail (Option.bind err (errors_as is_T)))\<rparr>"

definition NewRuleForType :: "(goerr \<Rightarrow> bool) \<Rightarrow> int \<Rightarrow> string \<Rightarrow> string \<Rightarrow> ErrorRule" where
  "NewRuleForType is_T statusCode code detail = NewRuleForTypeWithDetail is_T statusCode code (\<lambda>_. detail)"

text \<open>The target is a sentinel, given by its name.\<close>

definition NewRuleForValue :: "string \<Rightarrow> int \<Rightarrow> string \<Rightarrow> string \<Rightarrow> ErrorRule" where
  "NewRuleForValue target statusCode code detail =
     \<lparr>rule_Match = (\<lambda>err. case err of Some e \<Rightarrow> errors_is target e | None \<Rightarrow> False), rule_StatusCode = statusCode,
      rule_ErrorCode = code, rule_DetailFunc = (\<lambda>_. detail)\<rparr>"

definition NewErrorResponder :: "(goerr \<Rightarrow> string option) \<Rightarrow> ErrorRule list \<Rightarrow> ErrorRule list" where
  "NewErrorResponder foreign extra = extra @
     [NewRuleForTypeWithDetail (\<lambda>e. client_detail foreign e \<noteq> None) 400 CodeValidationFailed
        (\<lambda>e. case Option.bind e (client_detail foreign) of Some d \<Rightarrow> d | None \<Rightarrow> []),
      NewRuleForValue ''ErrNoRoute'' 400 CodeRouteNotFound ''Command or event type not supported'',
      NewRuleForValue ''ErrDecode'' 400 CodeInvalidPayload ''Payload could not be decoded'']"

fun Respond :: "('ev, 'w) surroundings \<Rightarrow> ('ev, 'w) http_lib \<Rightarrow> ErrorRule list \<Rightarrow> goerr option \<Rightarrow> 'ev \<Rightarrow> string
    \<Rightarrow> ('w, http_answer option) go" where
  "Respond W H [] err ce inst = go_ret None"
| "Respond W H (rule # rules) err ce inst =
     (if \<not> rule_Match rule err then Respond W H rules err ce inst
      else go_bind (newResponse W H ce inst (rule_StatusCode rule) (rule_ErrorCode rule) (rule_DetailFunc rule err))
             (\<lambda>res. go_bind (Response_JSON res) (\<lambda>a. go_ret (Some a))))"

subsection \<open>subscriber.go: configuration, Start and Stop\<close>

definition DefaultMaxBodyBytes :: int where
  "DefaultMaxBodyBytes = push_bit 10 256"

definition HeaderMessageID :: string where
  "HeaderMessageID = ''X-Message-UUID''"

definition HeaderCorrelationID :: string where
  "HeaderCorrelationID = ''X-Correlation-ID''"

definition mediaTypeJSON :: string where
  "mediaTypeJSON = ''application/json''"

record http_config =
  hc_Pattern :: string
  hc_DefaultType :: string
  hc_MaxBodyBytes :: int
  hc_ErrorRules :: "ErrorRule list"

record ('ev, 'w) http_subscriber =
  hs_cfg :: http_config
  hs_logger :: logger
  hs_rules :: "ErrorRule list"
  hs_handler :: "('ev, 'w) msg_handler option"
  hs_world :: 'w

text \<open>\<open>server\<close> says whether there is one; the function it gets for the pattern is \<open>http_serve\<close>.\<close>

definition http_NewSubscriber :: "(goerr \<Rightarrow> string option) \<Rightarrow> bool \<Rightarrow> http_config \<Rightarrow> logger option \<Rightarrow> 'w
    \<Rightarrow> goerr + ('ev, 'w) http_subscriber" where
  "http_NewSubscriber foreign server cfg lg w =
     (if \<not> server then Inl (errors_new ''eventhttp: server is nil'')
      else if hc_Pattern cfg = [] then Inl (errors_new ''eventhttp: SubscriberConfig.Pattern is empty'')
      else if hc_DefaultType cfg = [] then Inl (errors_new ''eventhttp: SubscriberConfig.DefaultType is empty'')
      else if hc_MaxBodyBytes cfg < 0 then
        Inl (errors_new (''eventhttp: SubscriberConfig.MaxBodyBytes is negative: '' @ show_int (hc_MaxBodyBytes cfg)))
      else
        (let cfg = (if hc_MaxBodyBytes cfg = 0 then cfg\<lparr>hc_MaxBodyBytes := DefaultMaxBodyBytes\<rparr> else cfg)
         in Inr \<lparr>hs_cfg = cfg, hs_logger = Transport lg ''eventhttp-subscriber'' SystemHTTP (hc_Pattern cfg),
              hs_rules = NewErrorResponder foreign (hc_ErrorRules cfg), hs_handler = None, hs_world = w\<rparr>))"

definition on_hs_world :: "('w, 'a) go \<Rightarrow> (('ev, 'w) http_subscriber, 'a) go" where
  "on_hs_world = go_zoom hs_world (\<lambda>w s. s\<lparr>hs_world := w\<rparr>)"

definition http_Start :: "('ev, 'w) surroundings \<Rightarrow> ('ev, 'w) msg_handler \<Rightarrow> ctx
    \<Rightarrow> (('ev, 'w) http_subscriber, goerr option) go" where
  "http_Start W h c =
     go_bind (go_get (\<lambda>s. s)) (\<lambda>s.
     if hs_handler s \<noteq> None then go_ret (Some ErrAlreadyStarted)
     else go_seq (go_modify (\<lambda>s. s\<lparr>hs_handler := Some h\<rparr>))
            (go_seq (on_hs_world (emit W (hs_logger s) LevelInfo ''subscription started'' [])) (go_ret None)))"

definition http_Stop :: "('ev, 'w) surroundings \<Rightarrow> ctx \<Rightarrow> (('ev, 'w) http_subscriber, goerr option) go" where
  "http_Stop W c =
     go_bind (go_get (\<lambda>s. s)) (\<lambda>s.
     go_seq (go_modify (\<lambda>s. s\<lparr>hs_handler := None\<rparr>))
     (if hs_handler s = None then go_ret None
      else go_seq (on_hs_world (emit W (hs_logger s) LevelInfo ''subscription stopped'' [])) (go_ret None)))"

subsection \<open>subscriber.go: from the request to the event\<close>

record rejection =
  rj_status :: int
  rj_code :: string
  rj_detail :: string
  rj_cause :: goerr

definition reject :: "http_request \<Rightarrow> int \<Rightarrow> string \<Rightarrow> string \<Rightarrow> goerr option \<Rightarrow> rejection" where
  "reject r status code detail cause =
     (let cause = (case cause of None \<Rightarrow> errors_new detail | Some e \<Rightarrow> e)
      in \<lparr>rj_status = status, rj_code = code, rj_detail = detail,
          rj_cause = wrap_prefix (rq_Method r @ '' '' @ rq_Path r) cause\<rparr>)"

definition isCloudEventsRequest :: "('ev, 'w) http_lib \<Rightarrow> http_request \<Rightarrow> bool" where
  "isCloudEventsRequest H r =
     (if rq_Header r ''Ce-Specversion'' \<noteq> [] then True
      else fst (hl_media H (rq_Header r ''Content-Type'')) = ApplicationCloudEventsJSON)"

definition requestScheme :: "http_request \<Rightarrow> string" where
  "requestScheme r = (if rq_TLS r then ''https'' else ''http'')"

definition echoable :: "'ev sdk \<Rightarrow> 'ev \<Rightarrow> bool \<Rightarrow> 'ev" where
  "echoable S ce keepType =
     (let clean = event_new S;
          clean = (if keepType then set_type S (event_type S ce) clean else clean);
          cid = CorrelationID S ce
      in if cid \<noteq> [] then set_ext S ExtCorrelationID (XString cid) clean else clean)"

definition too_large_detail :: "http_config \<Rightarrow> string" where
  "too_large_detail cfg = ''Body exceeds '' @ show_int (hc_MaxBodyBytes cfg) @ '' bytes''"

text \<open>\<open>body\<close> is what reading the body gives now.\<close>

definition plainEvent :: "('ev, 'w) surroundings \<Rightarrow> ('ev, 'w) http_lib \<Rightarrow> http_config \<Rightarrow> http_request \<Rightarrow> goerr + bytes
    \<Rightarrow> ('w, 'ev \<times> rejection option) go" where
  "plainEvent W H cfg r body =
     (let S = tp_sdk W;
          ce = set_source S (requestScheme r @ ''://'' @ rq_Host r @ rq_Path r)
                 (set_type S (hc_DefaultType cfg) (set_specversion S CloudEventsVersionV1 (event_new S)))
      in go_bind (go_total (hl_now H)) (\<lambda>now.
      (let ce = set_time S now ce; mt = hl_media H (rq_Header r ''Content-Type'') in
       if snd mt \<noteq> None \<or> fst mt \<noteq> mediaTypeJSON then
         go_ret (ce, Some (reject r 415 CodeUnsupportedMediaType ''Content-Type must be application/json'' (snd mt)))
       else (case body of
         Inl err \<Rightarrow>
           if errors_as is_MaxBytesError err \<noteq> None then
             go_ret (ce, Some (reject r 413 CodePayloadTooLarge (too_large_detail cfg) (Some err)))
           else go_ret (ce, Some (reject r 400 CodeInvalidRequest ''Unreadable body'' (Some err)))
       | Inr body \<Rightarrow>
           go_bind (if rq_Header r HeaderMessageID = [] then go_total (hl_uuid H) else go_ret (rq_Header r HeaderMessageID))
             (\<lambda>eid.
           (let ce = set_id S eid ce;
                cid = rq_Header r HeaderCorrelationID;
                ce = (if cid \<noteq> [] then set_ext S ExtCorrelationID (XString cid) ce else ce)
            in (case set_data S ApplicationJSON (RawBytes body) ce of
                  Inl err \<Rightarrow> go_ret (ce, Some (reject r 400 CodeInvalidRequest ''Invalid body'' (Some err)))
                | Inr ce \<Rightarrow> go_ret (ce, None))))))))"

text \<open>The second half of \<open>extractCloudEvent\<close>: id, type and correlation id.\<close>

definition check_ids :: "'ev sdk \<Rightarrow> http_request \<Rightarrow> 'ev \<Rightarrow> 'ev \<times> rejection option" where
  "check_ids S r ce =
     (case ValidateCorrelationID (event_id S ce) of
        Some err \<Rightarrow> (echoable S ce True, Some (reject r 400 CodeInvalidRequest ''Invalid event id'' (Some err)))
      | None \<Rightarrow>
          if \<not> valid_utf8 (event_type S ce) then
            (echoable S ce False, Some (reject r 400 CodeInvalidRequest ''Invalid event type''
              (Some (errors_new ''type is not valid UTF-8''))))
          else if CorrelationID S ce = [] then (set_ext S ExtCorrelationID (XString (event_id S ce)) ce, None)
          else (case ValidateCorrelationID (CorrelationID S ce) of
              Some err \<Rightarrow> (set_ext S ExtCorrelationID (XString []) ce,
                Some (reject r 400 CodeInvalidCorrelationID ''Invalid correlation id'' (Some err)))
            | None \<Rightarrow> (ce, None)))"

definition extractCloudEvent :: "('ev, 'w) surroundings \<Rightarrow> ('ev, 'w) http_lib \<Rightarrow> http_config \<Rightarrow> http_request
    \<Rightarrow> ('w, 'ev \<times> rejection option) go" where
  "extractCloudEvent W H cfg r =
     (case hl_decode H r (limited_body (hc_MaxBodyBytes cfg) r) of
        (Inr ce, rest) \<Rightarrow> go_ret (check_ids (tp_sdk W) r ce)
      | (Inl err, rest) \<Rightarrow>
          if errors_as is_MaxBytesError err \<noteq> None then
            go_ret (event_new (tp_sdk W), Some (reject r 413 CodePayloadTooLarge (too_large_detail cfg) (Some err)))
          else if isCloudEventsRequest H r then
            go_ret (event_new (tp_sdk W), Some (reject r 400 CodeInvalidRequest ''Malformed CloudEvent'' (Some err)))
          else go_bind (plainEvent W H cfg r rest) (\<lambda>(ce, rej).
            (case rej of Some x \<Rightarrow> go_ret (ce, Some x) | None \<Rightarrow> go_ret (check_ids (tp_sdk W) r ce))))"

subsection \<open>subscriber.go: Handler\<close>

definition http_respond :: "('ev, 'w) surroundings \<Rightarrow> ('ev, 'w) http_lib \<Rightarrow> http_config \<Rightarrow> 'ev \<Rightarrow> int \<Rightarrow> string \<Rightarrow> string
    \<Rightarrow> ('w, http_answer) go" where
  "http_respond W H cfg ce status code detail =
     go_bind (newResponse W H ce (hc_Pattern cfg) status code detail) Response_JSON"

text \<open>The callback \<open>Nack\<close> does nothing, but it is there; there is no \<open>Ack\<close>.\<close>

definition http_delivery :: "'w delivery" where
  "http_delivery = \<lparr>dl_ack = None, dl_nack = Some (go_ret None), dl_discard = None, dl_count = 0\<rparr>"

text \<open>After the router returned: \<open>m\<close> is the message it decided, \<open>ce\<close> the event it was given.\<close>

definition http_answer_outcome :: "('ev, 'w) surroundings \<Rightarrow> ('ev, 'w) http_lib \<Rightarrow> ('ev, 'w) http_subscriber \<Rightarrow> 'ev
    \<Rightarrow> ('ev, 'w) message \<Rightarrow> ('w, http_answer) go" where
  "http_answer_outcome W H s ce m =
     (let cfg = hs_cfg s in
      (case Outcome m of (outcome, cause) \<Rightarrow>
      (case outcome of
         OutcomeAcked \<Rightarrow> http_respond W H cfg ce 202 [] []
       | OutcomePending \<Rightarrow>
           go_seq (emit W (hs_logger s) LevelError ''router returned without outcome''
             [AStr KeyMessagingMessageID (event_id (tp_sdk W) ce)])
           (http_respond W H cfg ce 500 CodeHandlerFailed GenericFailureDetail)
       | _ \<Rightarrow> go_bind (Respond W H (hs_rules s) cause ce (hc_Pattern cfg)) (\<lambda>a.
           (case a of
              Some answer \<Rightarrow> go_ret answer
            | None \<Rightarrow> http_respond W H cfg ce 500 CodeHandlerFailed GenericFailureDetail)))))"

definition http_Handler :: "('ev, 'w) surroundings \<Rightarrow> ('ev, 'w) http_lib \<Rightarrow> ('ev, 'w) http_subscriber
    \<Rightarrow> ('ev, 'w) msg_handler \<Rightarrow> http_request \<Rightarrow> ('w, http_answer) go" where
  "http_Handler W H s h r =
     go_bind (extractCloudEvent W H (hs_cfg s) r) (\<lambda>(ce, rej).
     (case rej of
        Some x \<Rightarrow>
          go_seq (emit W (hs_logger s) LevelWarn ''request rejected'' [AErr (rj_cause x), AStr KeyURLFull (rq_Path r)])
            (http_respond W H (hs_cfg s) ce (rj_status x) (rj_code x) (rj_detail x))
      | None \<Rightarrow>
          go_bind (ContextWithTrace (tp_tracer W) (tp_sdk W) (Some (rq_ctx r)) (rq_Header r (tp_header W)) (Some ce)) (\<lambda>c.
          (\<lambda>w. (case h (NewMessage (Some c) ce http_delivery, w) of
             (Panic p, (m, w')) \<Rightarrow> (Panic p, w')
           | (Ret u, (m, w')) \<Rightarrow> http_answer_outcome W H s ce m w')))))"

text \<open>What the server runs for the pattern: 503 while no handler is wired.\<close>

definition http_serve :: "('ev, 'w) surroundings \<Rightarrow> ('ev, 'w) http_lib \<Rightarrow> http_request
    \<Rightarrow> (('ev, 'w) http_subscriber, http_answer) go" where
  "http_serve W H r =
     go_bind (go_get (\<lambda>s. s)) (\<lambda>s.
     (case hs_handler s of
        None \<Rightarrow> go_ret \<lparr>ha_status = 503, ha_body = TextBody ''Service Unavailable''\<rparr>
      | Some h \<Rightarrow> on_hs_world (http_Handler W H s h r)))"

interpretation http: startable "http_Start W h" "http_Stop W" "\<lambda>s. hs_handler s \<noteq> None" "\<lambda>_. True"
  for W :: "('ev, 'w) surroundings" and h
  by unfold_locales
    (auto simp: http_Start_def http_Stop_def on_hs_world_def go_defs emit_def split: prod.splits if_splits)

end
