(* ===== verification/HttpTheorems.thy ===== *)
theory HttpTheorems
  imports Eventhttp SnsTheorems
begin

text \<open>
  What the HTTP subscriber guarantees: which events reach the router, and which answer the client
  gets for which outcome.
\<close>

subsection \<open>What is admitted\<close>

lemma CorrelationID_set [simp]:
  "sdk_laws S \<Longrightarrow> CorrelationID S (set_ext S ExtCorrelationID (XString v) ce) = v"
  by (simp add: CorrelationID_def sdk_set_ext(1))

lemma valid_id_nonempty: "ValidateCorrelationID s = None \<Longrightarrow> s \<noteq> []"
  by (simp add: ValidateCorrelationID_ok_iff)

lemma check_ids_accepts:
  assumes S: "sdk_laws S" and "check_ids S r ce = (ce', None)"
  shows "event_id S ce' = event_id S ce \<and> ValidateCorrelationID (event_id S ce') = None \<and> valid_utf8 (event_type S ce')
    \<and> ValidateCorrelationID (CorrelationID S ce') = None
    \<and> CorrelationID S ce' = (if CorrelationID S ce = [] then event_id S ce else CorrelationID S ce)"
  using assms by (auto simp: check_ids_def sdk_set_ext [OF S] split: option.splits if_splits)

lemma check_ids_rejects:
  "check_ids S r ce = (ce', Some x) \<Longrightarrow> rj_status x = 400 \<and> rj_code x \<in> {CodeInvalidRequest, CodeInvalidCorrelationID}"
  by (auto simp: check_ids_def reject_def Let_def split: option.splits if_splits)

lemma plainEvent_rejects:
  "plainEvent W H cfg r body w = (Ret (ce, Some x), w') \<Longrightarrow> rj_status x \<in> {400, 413, 415}"
  by (auto simp: plainEvent_def go_basic_defs reject_def Let_def split: sum.splits if_splits)

lemma extract_cases:
  assumes "extractCloudEvent W H cfg r w = (Ret (ce, rej), w')"
  shows "(\<exists>ce0. check_ids (tp_sdk W) r ce0 = (ce, rej)) \<or> (\<exists>x. rej = Some x \<and> rj_status x \<in> {400, 413, 415})"
proof (cases "hl_decode H r (limited_body (hc_MaxBodyBytes cfg) r)")
  case (Pair res rest)
  show ?thesis
  proof (cases res)
    case (Inr ce0)
    with assms Pair show ?thesis by (auto simp: extractCloudEvent_def go_ret_def)
  next
    case (Inl err)
    with assms Pair plainEvent_rejects [of W H cfg r rest w] show ?thesis
      by (auto simp: extractCloudEvent_def go_basic_defs reject_def Let_def
          split: prod.splits res.splits option.splits if_splits)
  qed
qed

lemma extract_accepts:
  assumes S: "sdk_laws (tp_sdk W)" and "extractCloudEvent W H cfg r w = (Ret (ce, None), w')"
  shows "ValidateCorrelationID (event_id (tp_sdk W) ce) = None" and "valid_utf8 (event_type (tp_sdk W) ce)"
    and "ValidateCorrelationID (CorrelationID (tp_sdk W) ce) = None"
  using extract_cases [OF assms(2)] check_ids_accepts [OF S] by auto

lemma http_Handler_rejected:
  assumes "extractCloudEvent W H (hs_cfg s) r w = (Ret (ce, Some x), w')"
  shows "http_Handler W H s h r w =
    go_seq (emit W (hs_logger s) LevelWarn ''request rejected'' [AErr (rj_cause x), AStr KeyURLFull (rq_Path r)])
      (http_respond W H (hs_cfg s) ce (rj_status x) (rj_code x) (rj_detail x)) w'"
  by (simp add: http_Handler_def go_bind_def assms)

text \<open>
  C37. Every event that reaches the router from HTTP has an id and a correlation id that
  \<open>ValidateCorrelationID\<close> accepts and a UTF-8 type; a CloudEvents request keeps its own ids, the
  correlation id defaulting to the event id.  Any other request is refused with 400, 413 or 415 and
  the router is not called: the answer is the same whatever handler is wired.
\<close>

theorem http_admits_valid_events:
  assumes S: "sdk_laws (tp_sdk W)" and got: "extractCloudEvent W H (hs_cfg s) r w = (Ret (ce, rej), w')"
  shows "case rej of
      None \<Rightarrow> ValidateCorrelationID (event_id (tp_sdk W) ce) = None
        \<and> ValidateCorrelationID (CorrelationID (tp_sdk W) ce) = None \<and> valid_utf8 (event_type (tp_sdk W) ce)
        \<and> (\<forall>ce0 rest. hl_decode H r (limited_body (hc_MaxBodyBytes (hs_cfg s)) r) = (Inr ce0, rest) \<longrightarrow>
             event_id (tp_sdk W) ce = event_id (tp_sdk W) ce0
             \<and> CorrelationID (tp_sdk W) ce = (if CorrelationID (tp_sdk W) ce0 = [] then event_id (tp_sdk W) ce0
                 else CorrelationID (tp_sdk W) ce0))
    | Some x \<Rightarrow> rj_status x \<in> {400, 413, 415} \<and> (\<forall>h h'. http_Handler W H s h r w = http_Handler W H s h' r w)"
proof (cases rej)
  case None
  have "event_id (tp_sdk W) ce = event_id (tp_sdk W) ce0
      \<and> CorrelationID (tp_sdk W) ce = (if CorrelationID (tp_sdk W) ce0 = [] then event_id (tp_sdk W) ce0
          else CorrelationID (tp_sdk W) ce0)"
    if "hl_decode H r (limited_body (hc_MaxBodyBytes (hs_cfg s)) r) = (Inr ce0, rest)" for ce0 rest
  proof -
    have "check_ids (tp_sdk W) r ce0 = (ce, None)"
      using got that None by (simp add: extractCloudEvent_def go_ret_def)
    from check_ids_accepts [OF S this] show ?thesis by blast
  qed
  with None extract_accepts [OF S got [unfolded None]] show ?thesis by simp
next
  case (Some x)
  have "rj_status x \<in> {400, 413, 415}"
    using extract_cases [OF got] check_ids_rejects [of "tp_sdk W" r _ ce x] Some by auto
  moreover have "http_Handler W H s h r w = http_Handler W H s h' r w" for h h'
    using got [unfolded Some] by (simp only: http_Handler_rejected)
  ultimately show ?thesis using Some by simp
qed

subsection \<open>Which answer\<close>

lemma emit_returns: "\<exists>w'. emit W l lvl txt attrs w = (Ret (), w')"
  by (cases "lg_discard l") (simp_all add: emit_def go_basic_defs)

lemma Respond_find:
  "Respond W H rules err ce inst =
     (case find (\<lambda>rule. rule_Match rule err) rules of
        None \<Rightarrow> go_ret None
      | Some rule \<Rightarrow> go_bind (newResponse W H ce inst (rule_StatusCode rule) (rule_ErrorCode rule) (rule_DetailFunc rule err))
          (\<lambda>res. go_bind (Response_JSON res) (\<lambda>a. go_ret (Some a))))"
  by (induction rules) auto

lemma http_respond_answers:
  assumes "status = 0 \<or> (100 \<le> status \<and> status \<le> 999)"
  shows "\<exists>res w'. http_respond W H cfg ce status code detail w =
      (Ret (if encodable res then \<lparr>ha_status = rs_Status res, ha_body = JsonBody res\<rparr>
            else \<lparr>ha_status = 500, ha_body = TextBody ''Internal Server Error''\<rparr>), w')
    \<and> rs_Status res = (if status = 0 then 202 else status) \<and> rs_Code res = code \<and> rs_Detail res = detail
    \<and> rs_ID res = event_id (tp_sdk W) ce \<and> rs_Type res = event_type (tp_sdk W) ce
    \<and> rs_CorrelationID res = CorrelationID (tp_sdk W) ce \<and> rs_Instance res = hc_Pattern cfg"
proof -
  let ?res = "\<lparr>rs_ID = event_id (tp_sdk W) ce, rs_Type = event_type (tp_sdk W) ce,
    rs_CorrelationID = CorrelationID (tp_sdk W) ce, rs_Timestamp = fst (hl_now H w) div 10 ^ 9, rs_Instance = hc_Pattern cfg,
    rs_Code = code, rs_Detail = detail, rs_Status = (if status = 0 then 202 else status)\<rparr>"
  show ?thesis
    using assms by (intro exI [of _ ?res] exI [of _ "snd (hl_now H w)"])
      (auto simp: http_respond_def newResponse_def Response_JSON_def go_basic_defs encodable_def Let_def)
qed

lemma Respond_answers: 
  "Respond W H rules err ce (hc_Pattern cfg) = (case find (\<lambda>rule. rule_Match rule err) rules of
     None \<Rightarrow> go_ret None
   | Some rule \<Rightarrow> go_bind (http_respond W H cfg ce (rule_StatusCode rule) (rule_ErrorCode rule) (rule_DetailFunc rule err))
       (\<lambda>a. go_ret (Some a)))"
  by (rule ext) (simp add: Respond_find http_respond_def go_bind_def split: option.split prod.split res.split)

text \<open>Status, code and detail the client is owed for what the router decided.\<close>

definition owed :: "ErrorRule list \<Rightarrow> ('ev, 'w) message \<Rightarrow> int \<times> string \<times> string" where
  "owed rules m =
     (case msg_outcome m of
        OutcomeAcked \<Rightarrow> (202, [], [])
      | OutcomePending \<Rightarrow> (500, CodeHandlerFailed, GenericFailureDetail)
      | _ \<Rightarrow> (case find (\<lambda>rule. rule_Match rule (msg_cause m)) rules of
          Some rule \<Rightarrow> (rule_StatusCode rule, rule_ErrorCode rule, rule_DetailFunc rule (msg_cause m))
        | None \<Rightarrow> (500, CodeHandlerFailed, GenericFailureDetail)))"

lemma some_back: "go_bind (go_bind X (\<lambda>a. go_ret (Some a))) (case_option Y go_ret) = X"
  by (rule ext) (simp add: go_bind_def go_ret_def split: prod.split res.split)

lemma go_ret_bind: "go_bind (go_ret a) f = f a"
  by (rule ext) (simp add: go_bind_def go_ret_def)

lemma answer_owed:
  "\<exists>w'. http_answer_outcome W H s ce m w =
     (case owed (hs_rules s) m of (status, code, detail) \<Rightarrow> http_respond W H (hs_cfg s) ce status code detail w')"
proof (cases "msg_outcome m")
  case OutcomePending
  obtain w1 where "emit W (hs_logger s) LevelError ''router returned without outcome''
      [AStr KeyMessagingMessageID (event_id (tp_sdk W) ce)] w = (Ret (), w1)"
    by (rule exE [OF emit_returns])
  with OutcomePending show ?thesis
    by (auto simp: http_answer_outcome_def owed_def Outcome_def go_seq_def go_bind_def Let_def)
next
  case OutcomeAcked
  then show ?thesis by (auto simp: http_answer_outcome_def owed_def Outcome_def Let_def)
next
  case OutcomeNacked
  then show ?thesis
    by (cases "find (\<lambda>rule. rule_Match rule (msg_cause m)) (hs_rules s)")
      (auto simp: http_answer_outcome_def owed_def Outcome_def Let_def Respond_answers some_back go_ret_bind)
next
  case OutcomeDiscarded
  then show ?thesis
    by (cases "find (\<lambda>rule. rule_Match rule (msg_cause m)) (hs_rules s)")
      (auto simp: http_answer_outcome_def owed_def Outcome_def Let_def Respond_answers some_back go_ret_bind)
qed

lemma http_Handler_admitted:
  assumes "extractCloudEvent W H (hs_cfg s) r w = (Ret (ce, None), w1)"
    and "ContextWithTrace (tp_tracer W) (tp_sdk W) (Some (rq_ctx r)) (rq_Header r (tp_header W)) (Some ce) w1 = (Ret c, w2)"
    and "h (NewMessage (Some c) ce http_delivery, w2) = (Ret u, (m, w3))"
  shows "http_Handler W H s h r w = http_answer_outcome W H s ce m w3"
  using assms by (simp add: http_Handler_def go_bind_def)

text \<open>
  C36. The client's answer is the router's outcome.  As long as every error rule answers an error
  status, the answer is 202 exactly when the router acked the event; it repeats the event's ids as
  JSON unless a rule's own text is not UTF-8; and when the event was not acked and no rule matches
  the cause, it is 500 \<open>HANDLER-FAILED\<close> with the generic detail, whatever the cause says.
\<close>

theorem http_answers_by_outcome:
  assumes S: "sdk_laws (tp_sdk W)" and got: "extractCloudEvent W H (hs_cfg s) r w = (Ret (ce, None), w1)"
    and trace: "ContextWithTrace (tp_tracer W) (tp_sdk W) (Some (rq_ctx r)) (rq_Header r (tp_header W)) (Some ce) w1
      = (Ret c, w2)"
    and handled: "h (NewMessage (Some c) ce http_delivery, w2) = (Ret u, (m, w3))"
    and pattern: "valid_utf8 (hc_Pattern (hs_cfg s))"
    and rules: "\<forall>rule \<in> set (hs_rules s). 400 \<le> rule_StatusCode rule \<and> rule_StatusCode rule \<le> 599"
  shows "\<exists>a w'. http_Handler W H s h r w = (Ret a, w') \<and> (ha_status a = 202 \<longleftrightarrow> msg_outcome m = OutcomeAcked)
    \<and> (case owed (hs_rules s) m of (status, code, detail) \<Rightarrow>
         if valid_utf8 code \<and> valid_utf8 detail
         then ha_status a = status \<and> (\<exists>res. ha_body a = JsonBody res \<and> rs_ID res = event_id (tp_sdk W) ce
           \<and> rs_CorrelationID res = CorrelationID (tp_sdk W) ce \<and> rs_Code res = code \<and> rs_Detail res = detail)
         else ha_status a = 500)
    \<and> (msg_outcome m \<noteq> OutcomeAcked \<and> (\<forall>rule \<in> set (hs_rules s). \<not> rule_Match rule (msg_cause m)) \<longrightarrow>
         ha_status a = 500 \<and> (\<exists>res. ha_body a = JsonBody res \<and> rs_Detail res = GenericFailureDetail))"
proof -
  obtain status code detail where o: "owed (hs_rules s) m = (status, code, detail)" by (metis prod_cases3)
  have range: "(msg_outcome m = OutcomeAcked \<and> status = 202 \<and> code = [] \<and> detail = []) \<or>
      (msg_outcome m \<noteq> OutcomeAcked \<and> 400 \<le> status \<and> status \<le> 599)"
    using o rules by (auto simp: owed_def find_Some_iff split: outcome.splits option.splits)
  have generic: "status = 500 \<and> code = CodeHandlerFailed \<and> detail = GenericFailureDetail"
    if "msg_outcome m \<noteq> OutcomeAcked" "\<forall>rule \<in> set (hs_rules s). \<not> rule_Match rule (msg_cause m)"
    using o that by (auto simp: owed_def find_None_iff find_Some_iff split: outcome.splits option.splits)
  have texts: "valid_utf8 CodeHandlerFailed" "valid_utf8 GenericFailureDetail"
    by (rule valid_utf8_ascii, simp add: code_defs)+
  obtain w4 where "http_Handler W H s h r w = http_respond W H (hs_cfg s) ce status code detail w4"
    using answer_owed [of W H s ce m w3] http_Handler_admitted [where h = h and m = m, OF got trace handled] o by auto
  moreover have "status = 0 \<or> (100 \<le> status \<and> status \<le> 999)" using range by auto
  ultimately obtain res w' where ans: "http_Handler W H s h r w =
      (Ret (if encodable res then \<lparr>ha_status = rs_Status res, ha_body = JsonBody res\<rparr>
            else \<lparr>ha_status = 500, ha_body = TextBody ''Internal Server Error''\<rparr>), w')"
    and res: "rs_Status res = status" "rs_Code res = code" "rs_Detail res = detail" "rs_ID res = event_id (tp_sdk W) ce"
      "rs_Type res = event_type (tp_sdk W) ce" "rs_CorrelationID res = CorrelationID (tp_sdk W) ce"
      "rs_Instance res = hc_Pattern (hs_cfg s)"
    using http_respond_answers [of status W H "hs_cfg s" ce code detail w4] range by auto
  have enc: "encodable res \<longleftrightarrow> valid_utf8 code \<and> valid_utf8 detail"
    using extract_accepts [OF S got] pattern by (auto simp: encodable_def res valid_id_utf8)
  let ?a = "if encodable res then \<lparr>ha_status = rs_Status res, ha_body = JsonBody res\<rparr>
            else \<lparr>ha_status = 500, ha_body = TextBody ''Internal Server Error''\<rparr>"
  have "ha_status ?a = 202 \<longleftrightarrow> msg_outcome m = OutcomeAcked"
    using range enc by (auto simp: res)
  moreover have "ha_status ?a = 500 \<and> (\<exists>res. ha_body ?a = JsonBody res \<and> rs_Detail res = GenericFailureDetail)"
    if "msg_outcome m \<noteq> OutcomeAcked" "\<forall>rule \<in> set (hs_rules s). \<not> rule_Match rule (msg_cause m)"
    using generic [OF that] texts enc by (simp add: res)
  moreover have "if valid_utf8 code \<and> valid_utf8 detail
         then ha_status ?a = status \<and> (\<exists>res. ha_body ?a = JsonBody res \<and> rs_ID res = event_id (tp_sdk W) ce
           \<and> rs_CorrelationID res = CorrelationID (tp_sdk W) ce \<and> rs_Code res = code \<and> rs_Detail res = detail)
         else ha_status ?a = 500"
    using enc by (simp add: res)
  ultimately show ?thesis unfolding o prod.case using ans by blast
qed

subsection \<open>What a rejection echoes\<close>

lemma echoable_fields:
  assumes S: "sdk_laws S" and new: "event_id S (event_new S) = []" and ty: "accepted S ''type'' (event_type S ce)"
  shows "event_id S (echoable S ce True) = []" and "event_type S (echoable S ce True) = event_type S ce"
    and "CorrelationID S (echoable S ce True) = CorrelationID S ce"
proof -
  have none: "CorrelationID S (set_type S x (event_new S)) = []" for x
    by (simp add: CorrelationID_def sdk_set_attr [OF S] sdk_misc [OF S])
  show "event_id S (echoable S ce True) = []" "event_type S (echoable S ce True) = event_type S ce"
    "CorrelationID S (echoable S ce True) = CorrelationID S ce"
    using ty S by (simp_all add: echoable_def Let_def sdk_set_ext [OF S] sdk_set_attr [OF S] new none)
qed

text \<open>
  C38. An event with an invalid id is refused with 400, but the answer echoes its correlation id
  unchecked: when that is not UTF-8 the response cannot be encoded and the client gets a plain 500
  instead, as for a fault of the server.
\<close>

theorem invalid_id_answered_400_or_500:
  assumes S: "sdk_laws (tp_sdk W)" and new: "event_id (tp_sdk W) (event_new (tp_sdk W)) = []"
    and ce: "hl_decode H r (limited_body (hc_MaxBodyBytes (hs_cfg s)) r) = (Inr ce, rest)"
    and bad: "ValidateCorrelationID (event_id (tp_sdk W) ce) \<noteq> None"
    and ty: "accepted (tp_sdk W) ''type'' (event_type (tp_sdk W) ce)" "valid_utf8 (event_type (tp_sdk W) ce)"
    and pattern: "valid_utf8 (hc_Pattern (hs_cfg s))"
  shows "\<exists>a w'. http_Handler W H s h r w = (Ret a, w') \<and>
    (if valid_utf8 (CorrelationID (tp_sdk W) ce) then ha_status a = 400 \<and> (\<exists>res. ha_body a = JsonBody res)
     else ha_status a = 500 \<and> ha_body a = TextBody ''Internal Server Error'')"
proof -
  let ?S = "tp_sdk W" and ?d = "''Invalid event id''"
  obtain err where err: "ValidateCorrelationID (event_id ?S ce) = Some err" using bad by blast
  let ?x = "reject r 400 CodeInvalidRequest ?d (Some err)"
  have "extractCloudEvent W H (hs_cfg s) r w = (Ret (echoable ?S ce True, Some ?x), w)"
    by (simp add: extractCloudEvent_def ce check_ids_def err go_ret_def)
  from http_Handler_rejected [OF this, of h] obtain w1 where
    step: "http_Handler W H s h r w = http_respond W H (hs_cfg s) (echoable ?S ce True) 400 CodeInvalidRequest ?d w1"
    using emit_returns [of W "hs_logger s" LevelWarn "''request rejected''"
        "[AErr (rj_cause ?x), AStr KeyURLFull (rq_Path r)]" w]
    by (auto simp: go_seq_def go_bind_def reject_def)
  obtain res w' where ans: "http_respond W H (hs_cfg s) (echoable ?S ce True) 400 CodeInvalidRequest ?d w1 =
      (Ret (if encodable res then \<lparr>ha_status = rs_Status res, ha_body = JsonBody res\<rparr>
            else \<lparr>ha_status = 500, ha_body = TextBody ''Internal Server Error''\<rparr>), w')"
    and res: "rs_Status res = 400" "rs_Code res = CodeInvalidRequest" "rs_Detail res = ?d" "rs_ID res = []"
      "rs_Type res = event_type ?S ce" "rs_CorrelationID res = CorrelationID ?S ce" "rs_Instance res = hc_Pattern (hs_cfg s)"
    using http_respond_answers [of 400 W H "hs_cfg s" "echoable ?S ce True" CodeInvalidRequest ?d w1]
      echoable_fields [OF S new ty(1)] by auto
  have "valid_utf8 CodeInvalidRequest" "valid_utf8 ?d" by (rule valid_utf8_ascii, simp add: code_defs)+
  then have "encodable res \<longleftrightarrow> valid_utf8 (CorrelationID ?S ce)" using ty(2) pattern by (simp add: encodable_def res)
  then show ?thesis unfolding step ans by (simp add: res)
qed

subsection \<open>Witnesses\<close>

text \<open>A binding that reads an event with the id and the correlation id of two headers.\<close>

definition sample_http_lib :: "(sev, nat) http_lib" where
  "sample_http_lib = \<lparr>
     hl_decode = (\<lambda>r b. (Inr (sample_event (rq_Header r ''Ce-Id'')
       [(ExtCorrelationID, XString (rq_Header r ''Ce-Correlationid''))]), b)),
     hl_media = (\<lambda>s. (s, None)), hl_uuid = (\<lambda>w. (''uuid'', w)), hl_now = (\<lambda>w. (0, w))\<rparr>"

definition sample_request :: "string \<Rightarrow> string \<Rightarrow> http_request" where
  "sample_request eid cid = \<lparr>rq_Method = ''POST'', rq_Host = ''h'', rq_Path = ''/c'', rq_TLS = False,
     rq_Header = (\<lambda>k. if k = ''Ce-Id'' then eid else if k = ''Ce-Correlationid'' then cid else []),
     rq_Body = [], rq_read_err = None, rq_ctx = Background\<rparr>"

definition sample_http_subscriber :: "(sev, nat) http_subscriber" where
  "sample_http_subscriber = \<lparr>hs_cfg = \<lparr>hc_Pattern = ''/c'', hc_DefaultType = ''t'', hc_MaxBodyBytes = 10, hc_ErrorRules = []\<rparr>,
     hs_logger = \<lparr>lg_discard = True, lg_with = []\<rparr>, hs_rules = NewErrorResponder (\<lambda>_. None) [], hs_handler = None,
     hs_world = 0\<rparr>"

lemma sample_decode: "hl_decode sample_http_lib (sample_request eid cid) b =
    (Inr (sample_event eid [(ExtCorrelationID, XString cid)]), b)"
  by (simp add: sample_http_lib_def sample_request_def)

lemma tp_sdk_sample [simp]: "tp_sdk sample_surroundings = sample_sdk"
  by (simp add: sample_surroundings_def)

theorem invalid_id_answered_400_or_500_witness:
  "ha_status (case http_Handler sample_surroundings sample_http_lib sample_http_subscriber undefined
      (sample_request ''a b'' [char_of (255::nat)]) 0 of (Ret a, _) \<Rightarrow> a) = 500"
proof -
  let ?ce = "sample_event ''a b'' [(ExtCorrelationID, XString [char_of (255::nat)])]"
  have bad: "ValidateCorrelationID (event_id (tp_sdk sample_surroundings) ?ce) \<noteq> None" by code_simp
  have ty: "accepted (tp_sdk sample_surroundings) ''type'' (event_type (tp_sdk sample_surroundings) ?ce)"
    by (simp add: accepted_def)
  have "valid_utf8 ''order.created''" by (rule valid_utf8_ascii) simp
  then have utf8: "valid_utf8 (event_type (tp_sdk sample_surroundings) ?ce)" by (simp add: sample_event_def)
  have "CorrelationID (tp_sdk sample_surroundings) ?ce = [char_of (255::nat)]"
    by (simp add: CorrelationID_def extension_sample sample_event_def)
  moreover have "rune_width [char_of (255::nat)] = 0" by (simp add: rune_width_def RuneError_def)
  then have "\<not> valid_utf8 [char_of (255::nat)]"
    using valid_utf8_step [of "[char_of (255::nat)]"] by (simp only: list.distinct not_False_eq_True less_irrefl simp_thms)
  ultimately have cid: "\<not> valid_utf8 (CorrelationID (tp_sdk sample_surroundings) ?ce)" by (simp only: simp_thms)
  have laws: "sdk_laws (tp_sdk sample_surroundings)" by (simp add: sample_sdk_laws)
  have new: "event_id (tp_sdk sample_surroundings) (event_new (tp_sdk sample_surroundings)) = []" by code_simp
  have "valid_utf8 ''/c''" by (rule valid_utf8_ascii) simp
  then have pattern: "valid_utf8 (hc_Pattern (hs_cfg sample_http_subscriber))" by (simp add: sample_http_subscriber_def)
  from invalid_id_answered_400_or_500 [where s = sample_http_subscriber and h = undefined and w = 0,
      OF laws new sample_decode bad ty utf8 pattern] cid
  show ?thesis by auto
qed

lemma sample_admitted:
  assumes "ValidateCorrelationID eid = None" and "ValidateCorrelationID cid = None"
  shows "extractCloudEvent sample_surroundings sample_http_lib (hs_cfg sample_http_subscriber) (sample_request eid cid) w
    = (Ret (sample_event eid [(ExtCorrelationID, XString cid)], None), w)"
proof -
  have ty: "valid_utf8 ''order.created''" by (rule valid_utf8_ascii) simp
  have cid: "CorrelationID sample_sdk (sample_event eid [(ExtCorrelationID, XString cid)]) = cid"
    by (simp add: CorrelationID_def extension_sample sample_event_def)
  have event: "event_id sample_sdk (sample_event eid xs) = eid" "event_type sample_sdk (sample_event eid xs) = ''order.created''"
    for xs by (simp_all add: sample_event_def)
  show ?thesis
    unfolding extractCloudEvent_def sample_decode prod.case sum.case tp_sdk_sample check_ids_def event cid
    using assms ty valid_id_nonempty [OF assms(2)] by (simp add: go_ret_def)
qed

theorem http_admits_valid_events_witness:
  "\<exists>ce. extractCloudEvent sample_surroundings sample_http_lib (hs_cfg sample_http_subscriber) (sample_request ''1'' ''c'') 0
     = (Ret (ce, None), 0) \<and> event_id sample_sdk ce = ''1'' \<and> ValidateCorrelationID (CorrelationID sample_sdk ce) = None"
proof -
  have ids: "ValidateCorrelationID ''1'' = None" "ValidateCorrelationID ''c'' = None" by code_simp+
  note got = sample_admitted [OF ids, of 0]
  have laws: "sdk_laws (tp_sdk sample_surroundings)" by (simp add: sample_sdk_laws)
  from http_admits_valid_events [OF laws got] got show ?thesis by (simp add: sample_event_def)
qed

definition sample_acking :: "(sev, nat) msg_handler" where
  "sample_acking = go_seq Ack (go_ret ())"

lemma sample_traced:
  obtains c w2 where "ContextWithTrace (tp_tracer sample_surroundings) (tp_sdk sample_surroundings) (Some (rq_ctx r))
      (rq_Header r (tp_header sample_surroundings)) (Some ce) w = (Ret c, w2)"
proof -
  have "\<exists>c w2. ContextWithTrace (tp_tracer sample_surroundings) (tp_sdk sample_surroundings) (Some (rq_ctx r))
      (rq_Header r (tp_header sample_surroundings)) (Some ce) w = (Ret c, w2)"
    by (auto simp: ContextWithTrace_def inheritOrNewTrace_def go_basic_defs sample_surroundings_def sample_tracer_def
        split: option.split)
  then show thesis using that by (elim exE)
qed

lemma sample_rules: "\<forall>rule \<in> set (hs_rules sample_http_subscriber). 400 \<le> rule_StatusCode rule \<and> rule_StatusCode rule \<le> 599"
  by (simp add: sample_http_subscriber_def NewErrorResponder_def NewRuleForTypeWithDetail_def NewRuleForValue_def)

theorem http_answers_by_outcome_witness:
  "\<exists>a w'. http_Handler sample_surroundings sample_http_lib sample_http_subscriber sample_acking (sample_request ''1'' ''c'') 0
     = (Ret a, w') \<and> ha_status a = 202"
proof -
  let ?W = sample_surroundings and ?r = "sample_request ''1'' ''c''" and ?s = sample_http_subscriber
  have ids: "ValidateCorrelationID ''1'' = None" "ValidateCorrelationID ''c'' = None" by code_simp+
  note got = sample_admitted [OF ids, of 0]
  let ?ce = "sample_event ''1'' [(ExtCorrelationID, XString ''c'')]"
  have laws: "sdk_laws (tp_sdk ?W)" by (simp add: sample_sdk_laws)
  obtain c w2 where trace: "ContextWithTrace (tp_tracer ?W) (tp_sdk ?W) (Some (rq_ctx ?r)) (rq_Header ?r (tp_header ?W))
      (Some ?ce) 0 = (Ret c, w2)" by (rule sample_traced)
  have "\<exists>m. sample_acking (NewMessage (Some c) ?ce http_delivery, w2) = (Ret (), (m, w2)) \<and> msg_outcome m = OutcomeAcked"
    by (simp add: sample_acking_def go_basic_defs Ack_def decide_def NewMessage_def http_delivery_def Let_def)
  then obtain m where handled: "sample_acking (NewMessage (Some c) ?ce http_delivery, w2) = (Ret (), (m, w2))"
    and acked: "msg_outcome m = OutcomeAcked" by (elim exE conjE)
  have "valid_utf8 ''/c''" by (rule valid_utf8_ascii) simp
  then have pattern: "valid_utf8 (hc_Pattern (hs_cfg ?s))" by (simp add: sample_http_subscriber_def)
  from http_answers_by_outcome [where h = sample_acking and m = m, OF laws got trace handled pattern sample_rules] acked
  show ?thesis by (elim exE conjE) (rule exI, rule exI, rule conjI, assumption, simp only: simp_thms)
qed

end
