(* ===== verification/HttpClient.thy ===== *)
theory HttpClient
  imports Complex_Main Natsconn Failure Retry
begin

text \<open>
  \<open>pkg/transport/eventhttp\<close>, the outbound side: \<open>client.go\<close>, \<open>publisher.go\<close> and \<open>token.go\<close>.  The HTTP
  client library (resty) is a parameter: what is set on a client and on a request is data, and
  sending gives a status or an error.
\<close>

subsection \<open>client.go\<close>

text \<open>A response, for a retry condition, is its status; the library may pass none.\<close>

type_synonym retry_condition = "int option \<Rightarrow> goerr option \<Rightarrow> bool"

record RetryConfig =
  rt_Count :: int
  rt_WaitTime :: int
  rt_MaxWaitTime :: int
  rt_RetryOn :: "retry_condition option"

record clientOpts =
  co_Timeout :: int
  co_Retry :: "RetryConfig option"
  co_UserAgent :: string
  co_DefaultRetry :: int

record resty_client =
  rc_Timeout :: int
  rc_RetryCount :: int
  rc_RetryWaitTime :: int
  rc_RetryMaxWaitTime :: int
  rc_RetryConditions :: "retry_condition list"
  rc_UserAgent :: string

definition defaultTimeout :: int where
  "defaultTimeout = 10 * 10 ^ 9"

definition defaultWaitTime :: int where
  "defaultWaitTime = 200 * 10 ^ 6"

definition defaultMaxWaitTime :: int where
  "defaultMaxWaitTime = 5 * 10 ^ 9"

definition transientStatusFrom :: int where
  "transientStatusFrom = 500"

definition modulePath :: string where
  "modulePath = ''github.com/norlis/event-driven/v2''"

text \<open>The parts of \<open>debug.BuildInfo\<close> that are read: path and version of the main module and of the dependencies.\<close>

record build_info =
  bi_Main :: "string \<times> string"
  bi_Deps :: "(string \<times> string) list"

definition userAgent :: "build_info option \<Rightarrow> string" where
  "userAgent bi =
     (let name = ''go event-driven'' in
      (case bi of
         None \<Rightarrow> name
       | Some bi \<Rightarrow>
           (let version = (if fst (bi_Main bi) = modulePath then snd (bi_Main bi) else []);
                version = fold (\<lambda>(path, v) version. if path = modulePath then v else version) (bi_Deps bi) version
            in if version = [] \<or> version = ''(devel)'' then name else name @ ''/'' @ version)))"

definition defaultRetryCondition :: retry_condition where
  "defaultRetryCondition resp err =
     (if err \<noteq> None then True
      else (case resp of None \<Rightarrow> False | Some status \<Rightarrow> status = 429 \<or> status \<ge> transientStatusFrom))"

text \<open>\<open>bi\<close> is what \<open>debug.ReadBuildInfo\<close> gives.\<close>

definition newClient :: "build_info option \<Rightarrow> clientOpts \<Rightarrow> resty_client" where
  "newClient bi opts =
     (let timeout = (if co_Timeout opts = 0 then defaultTimeout else co_Timeout opts);
          count = (case co_Retry opts of
              None \<Rightarrow> co_DefaultRetry opts
            | Some r \<Rightarrow> if rt_Count r < 0 then 0 else if rt_Count r > 0 then rt_Count r else co_DefaultRetry opts);
          wait = (case co_Retry opts of
              Some r \<Rightarrow> if rt_WaitTime r > 0 then rt_WaitTime r else defaultWaitTime | None \<Rightarrow> defaultWaitTime);
          maxWait = (case co_Retry opts of
              Some r \<Rightarrow> if rt_MaxWaitTime r > 0 then rt_MaxWaitTime r else defaultMaxWaitTime | None \<Rightarrow> defaultMaxWaitTime);
          extra = (case Option.bind (co_Retry opts) rt_RetryOn of Some f \<Rightarrow> [f] | None \<Rightarrow> [])
      in \<lparr>rc_Timeout = timeout, rc_RetryCount = count, rc_RetryWaitTime = wait, rc_RetryMaxWaitTime = maxWait,
          rc_RetryConditions = defaultRetryCondition # extra,
          rc_UserAgent = (if co_UserAgent opts = [] then userAgent bi else co_UserAgent opts)\<rparr>)"

subsection \<open>publisher.go\<close>

type_synonym 'w TokenFunc = "ctx \<Rightarrow> ('w, goerr + string) go"

text \<open>A request: the header assignments in the order they are made, later ones winning.\<close>

record out_request =
  or_Method :: string
  or_URL :: string
  or_Headers :: "(string \<times> string) list"
  or_Body :: bytes

record 'w http_pub_config =
  hp_TargetURL :: string
  hp_Timeout :: int
  hp_Headers :: "(string \<times> string) list"
  hp_TokenProvider :: "'w TokenFunc option"
  hp_TokenHeader :: string
  hp_Retry :: "RetryConfig option"
  hp_UserAgent :: string

record 'w http_publisher =
  hb_cfg :: "'w http_pub_config"
  hb_target :: string
  hb_client :: resty_client
  hb_logger :: logger
  hb_tokenHeader :: string

definition http_NewPublisher :: "net_url \<Rightarrow> build_info option \<Rightarrow> 'w http_pub_config \<Rightarrow> logger option
    \<Rightarrow> goerr + 'w http_publisher" where
  "http_NewPublisher N bi cfg lg =
     (if hp_TargetURL cfg = [] then Inl (errors_new ''eventhttp: PublisherConfig.TargetURL is empty'')
      else (case nu_Parse N (hp_TargetURL cfg) of
        Inl err \<Rightarrow> Inl (errors_new ''eventhttp: PublisherConfig.TargetURL is not a valid URL'')
      | Inr u \<Rightarrow>
          if (ur_Scheme u \<noteq> ''http'' \<and> ur_Scheme u \<noteq> ''https'') \<or> ur_Host u = [] then
            Inl (errors_new ''eventhttp: PublisherConfig.TargetURL must be an absolute http(s) URL'')
          else if hp_Timeout cfg < 0 then
            Inl (errors_new (''eventhttp: PublisherConfig.Timeout is negative: '' @ Duration_String (hp_Timeout cfg)))
          else
            (let target = redact_URL N (hp_TargetURL cfg) in
             Inr \<lparr>hb_cfg = cfg, hb_target = target,
               hb_client = newClient bi \<lparr>co_Timeout = hp_Timeout cfg, co_Retry = hp_Retry cfg,
                 co_UserAgent = hp_UserAgent cfg, co_DefaultRetry = 3\<rparr>,
               hb_logger = Transport lg ''eventhttp-publisher'' SystemHTTP target,
               hb_tokenHeader = (if hp_TokenHeader cfg = [] then ''Authorization'' else hp_TokenHeader cfg)\<rparr>)))"

definition permanentStatus :: "int \<Rightarrow> bool" where
  "permanentStatus status \<longleftrightarrow> status \<ge> 400 \<and> status < 500 \<and> status \<noteq> 408 \<and> status \<noteq> 429"

text \<open>
  \<open>rl_Send\<close> sends a request with a client, retries included; \<open>rl_IsStatusFailure\<close> is the library's
  test on the status of the response.
\<close>

record 'w resty_lib =
  rl_Send :: "resty_client \<Rightarrow> ctx \<Rightarrow> out_request \<Rightarrow> ('w, goerr + int) go"
  rl_IsStatusFailure :: "int \<Rightarrow> bool"

definition KeyHTTPResponseStatusCode :: string where
  "KeyHTTPResponseStatusCode = ''http.response.status_code''"

definition publish_headers :: "('ev, 'w) surroundings \<Rightarrow> 'w http_publisher \<Rightarrow> 'ev \<Rightarrow> (string \<times> string) list
    \<Rightarrow> trace_context option \<Rightarrow> (string \<times> string) list" where
  "publish_headers W p ce attrs tc =
     hp_Headers (hb_cfg p) @ [(''Content-Type'', ContentType (tp_codec W) ce)] @ attrs
     @ (case tc of None \<Rightarrow> [] | Some t \<Rightarrow> [(tp_header W, trace_parent (tp_tracer W) t)])"

text \<open>What the status of the response makes of the publication.\<close>

definition publish_status :: "('ev, 'w) surroundings \<Rightarrow> 'w resty_lib \<Rightarrow> 'w http_publisher \<Rightarrow> 'ev \<Rightarrow> int
    \<Rightarrow> ('w, goerr option) go" where
  "publish_status W R p ce status =
     (if rl_IsStatusFailure R status then
        (let err = errors_new (''http publisher: unexpected status '' @ show_int status @ '' from '' @ hb_target p) in
         if permanentStatus status then go_ret (Some (NewNonRetryableError err)) else go_ret (Some err))
      else go_seq (emit W (hb_logger p) LevelDebug ''event published''
             [AStr KeyURLFull (hb_target p), AStr KeyMessagingMessageID (event_id (tp_sdk W) ce),
              AInt KeyHTTPResponseStatusCode status])
             (go_ret None))"

definition http_Publish :: "('ev, 'w) surroundings \<Rightarrow> 'w resty_lib \<Rightarrow> 'w http_publisher \<Rightarrow> ctx \<Rightarrow> 'ev
    \<Rightarrow> ('w, goerr option) go" where
  "http_Publish W R p c ce =
     (case InjectTraceFromContext (tp_tracer W) (tp_sdk W) c ce of (ce, tc) \<Rightarrow>
     (case Encode (tp_codec W) ce of
        Inl err \<Rightarrow> go_ret (Some (wrap_prefix ''http publisher'' err))
      | Inr attrs \<Rightarrow>
          (let headers = publish_headers W p ce attrs tc;
               request = \<lparr>or_Method = ''POST'', or_URL = hp_TargetURL (hb_cfg p), or_Headers = headers,
                 or_Body = event_data (tp_sdk W) ce\<rparr>
           in go_bind (case hp_TokenProvider (hb_cfg p) of
                None \<Rightarrow> go_ret (Inr request)
              | Some provider \<Rightarrow> go_bind (provider c) (\<lambda>r. go_ret (case r of
                  Inl err \<Rightarrow> Inl (wrap_prefix ''http publisher: token provider'' err)
                | Inr token \<Rightarrow> Inr (request\<lparr>or_Headers := headers @ [(hb_tokenHeader p, token)]\<rparr>))))
              (\<lambda>r. (case r of
                 Inl err \<Rightarrow> go_ret (Some err)
               | Inr request \<Rightarrow> go_bind (rl_Send R (hb_client p) c request) (\<lambda>resp.
                   (case resp of
                      Inl err \<Rightarrow> go_ret (Some (wrap_prefix ''http publisher: send'' err))
                    | Inr status \<Rightarrow> publish_status W R p ce status)))))))"

subsection \<open>token.go\<close>

text \<open>
  The values of the JSON answer that are told apart; a number is a \<open>float64\<close>, whose value is a
  rational.
\<close>

datatype json_value = JString string | JNumber rat | JOther

record token_config =
  tc_URL :: string
  tc_Method :: string
  tc_Headers :: "(string \<times> string) list"
  tc_Body :: bytes
  tc_ResponseTokenField :: string
  tc_TokenPrefix :: string
  tc_ExpiresInField :: string
  tc_CacheTTL :: i64
  tc_Timeout :: int
  tc_Retry :: "RetryConfig option"
  tc_UserAgent :: string

text \<open>
  \<open>tl_Execute\<close> sends the request and decodes a JSON answer into the map; \<open>tl_int64\<close> is Go's
  conversion of a \<open>float64\<close> to \<open>int64\<close>, which the language leaves open outside the range of
  \<open>int64\<close>; \<open>tl_now\<close> reads the clock in nanoseconds.
\<close>

record 'w token_lib =
  tl_Execute :: "resty_client \<Rightarrow> ctx \<Rightarrow> out_request \<Rightarrow> ('w, goerr + int \<times> (string \<times> json_value) list) go"
  tl_IsStatusFailure :: "int \<Rightarrow> bool"
  tl_int64 :: "rat \<Rightarrow> i64"
  tl_now :: "'w \<Rightarrow> int \<times> 'w"

definition truncates :: "'w token_lib \<Rightarrow> bool" where
  "truncates L \<longleftrightarrow> (\<forall>v. 0 \<le> v \<longrightarrow> v < 2 ^ 63 \<longrightarrow> sint (tl_int64 L v) = \<lfloor>v\<rfloor>)"

record 'w token_provider =
  tk_cfg :: token_config
  tk_client :: resty_client
  tk_cached :: string
  tk_expiresAt :: int
  tk_world :: 'w

definition NewTokenProvider :: "build_info option \<Rightarrow> token_config \<Rightarrow> 'w \<Rightarrow> 'w token_provider" where
  "NewTokenProvider bi cfg w =
     (let cfg = (if tc_Method cfg = [] then cfg\<lparr>tc_Method := ''POST''\<rparr> else cfg);
          cfg = (if tc_ResponseTokenField cfg = [] then cfg\<lparr>tc_ResponseTokenField := ''access_token''\<rparr> else cfg)
      in \<lparr>tk_cfg = cfg,
          tk_client = newClient bi \<lparr>co_Timeout = tc_Timeout cfg, co_Retry = tc_Retry cfg,
            co_UserAgent = tc_UserAgent cfg, co_DefaultRetry = 2\<rparr>,
          tk_cached = [], tk_expiresAt = 0, tk_world = w\<rparr>)"

definition token_Second :: i64 where
  "token_Second = 1000000000"

definition resolveTTL :: "'w token_lib \<Rightarrow> token_config \<Rightarrow> (string \<times> json_value) list \<Rightarrow> i64" where
  "resolveTTL L cfg result =
     (if tc_ExpiresInField cfg = [] then tc_CacheTTL cfg
      else (case map_of result (tc_ExpiresInField cfg) of
        None \<Rightarrow> tc_CacheTTL cfg
      | Some (JNumber v) \<Rightarrow> if v > 0 then tl_int64 L v * token_Second else tc_CacheTTL cfg
      | Some _ \<Rightarrow> tc_CacheTTL cfg))"

definition token_request :: "token_config \<Rightarrow> out_request" where
  "token_request cfg = \<lparr>or_Method = tc_Method cfg, or_URL = tc_URL cfg, or_Headers = tc_Headers cfg, or_Body = tc_Body cfg\<rparr>"

definition token_fetch :: "'w token_lib \<Rightarrow> 'w token_provider \<Rightarrow> ctx \<Rightarrow> ('w, goerr + string \<times> i64) go" where
  "token_fetch L tp c =
     go_bind (tl_Execute L (tk_client tp) c (token_request (tk_cfg tp))) (\<lambda>r.
     go_ret (case r of
        Inl err \<Rightarrow> Inl (wrap_prefix ''token provider: request failed'' err)
      | Inr (status, result) \<Rightarrow>
          if tl_IsStatusFailure L status then
            Inl (errors_new (''token provider: unexpected status '' @ show_int status @ '' from '' @ tc_URL (tk_cfg tp)))
          else
            (let field = tc_ResponseTokenField (tk_cfg tp) in
             (case map_of result field of
                None \<Rightarrow> Inl (errors_new (''token provider: field '' @ go_quote field @ '' not found in response''))
              | Some (JString token) \<Rightarrow> Inr (tc_TokenPrefix (tk_cfg tp) @ token, resolveTTL L (tk_cfg tp) result)
              | Some _ \<Rightarrow> Inl (errors_new (''token provider: field '' @ go_quote field @ '' is not a string''))))))"

definition on_tk_world :: "('w, 'a) go \<Rightarrow> ('w token_provider, 'a) go" where
  "on_tk_world = go_zoom tk_world (\<lambda>w s. s\<lparr>tk_world := w\<rparr>)"

text \<open>\<open>&&\<close> reads the clock only when something is cached.\<close>

definition token_hit :: "'w token_lib \<Rightarrow> ('w token_provider, bool) go" where
  "token_hit L =
     go_bind (go_get (\<lambda>tp. tp)) (\<lambda>tp.
     if tk_cached tp = [] then go_ret False
     else go_bind (on_tk_world (go_total (tl_now L))) (\<lambda>now. go_ret (now < tk_expiresAt tp)))"

definition Token :: "'w token_lib \<Rightarrow> ctx \<Rightarrow> ('w token_provider, goerr + string) go" where
  "Token L c =
     go_bind (token_hit L) (\<lambda>hit.
     go_bind (go_get (\<lambda>tp. tp)) (\<lambda>tp.
     if hit then go_ret (Inr (tk_cached tp))
     else go_bind (on_tk_world (token_fetch L tp c)) (\<lambda>r.
       (case r of
          Inl err \<Rightarrow> go_ret (Inl err)
        | Inr (token, ttl) \<Rightarrow>
            go_seq (if sint ttl > 0 then
                go_bind (on_tk_world (go_total (tl_now L))) (\<lambda>now.
                go_modify (\<lambda>tp. tp\<lparr>tk_cached := token, tk_expiresAt := now + sint ttl\<rparr>))
              else go_ret ())
            (go_ret (Inr token))))))"

end
