(* ===== verification/HttpClientTheorems.thy ===== *)
theory HttpClientTheorems
  imports HttpClient SnsTheorems
begin

text \<open>
  What the HTTP publisher and the token provider guarantee: a status decides whether the router
  retries or gives up, and a cached token is never served past its lifetime.
\<close>

subsection \<open>Publishing\<close>

lemma permanentStatus_client_error: "permanentStatus status \<Longrightarrow> 400 \<le> status \<and> status < 500"
  by (simp add: permanentStatus_def)

lemma retried_is_not_permanent: "defaultRetryCondition (Some status) None \<Longrightarrow> \<not> permanentStatus status"
  by (auto simp: defaultRetryCondition_def permanentStatus_def transientStatusFrom_def)

lemma publish_status_result:
  assumes "rl_IsStatusFailure R status \<longleftrightarrow> status \<ge> 400"
  shows "\<exists>r w'. publish_status W R p ce status w = (Ret r, w') \<and> (r = None \<longleftrightarrow> status < 400)
    \<and> (\<forall>e. r = Some e \<longrightarrow> (isNonRetryable e \<longleftrightarrow> permanentStatus status))"
proof (cases "status \<ge> 400")
  case True
  with assms show ?thesis
    by (auto simp: publish_status_def go_basic_defs Let_def NewNonRetryableError_def isNonRetryable_unfold [of "errors_new _"]
        isNonRetryable_unfold [of "NonRetryableError _"] errors_new_def)
next
  case False
  with assms show ?thesis
    by (cases "lg_discard (hb_logger p)")
      (auto simp: publish_status_def go_basic_defs emit_def)
qed

text \<open>The client's retry conditions are the default one and the configured \<open>RetryOn\<close>.\<close>

definition retry_on :: "RetryConfig option \<Rightarrow> int \<Rightarrow> bool" where
  "retry_on rc status = (case Option.bind rc rt_RetryOn of None \<Rightarrow> False | Some f \<Rightarrow> f (Some status) None)"

lemma client_retries:
  "list_ex (\<lambda>cond. cond (Some status) None) (rc_RetryConditions (newClient bi opts))
     \<longleftrightarrow> defaultRetryCondition (Some status) None \<or> retry_on (co_Retry opts) status"
  by (auto simp: newClient_def Let_def retry_on_def split: option.split)

lemma http_NewPublisher_fields:
  assumes "http_NewPublisher N bi cfg lg = Inr p"
  shows "hb_cfg p = cfg" and "hb_client p = newClient bi \<lparr>co_Timeout = hp_Timeout cfg, co_Retry = hp_Retry cfg,
    co_UserAgent = hp_UserAgent cfg, co_DefaultRetry = 3\<rparr>"
  using assms by (auto simp: http_NewPublisher_def Let_def split: if_splits sum.splits)

text \<open>
  C39. Take a publisher the constructor built, an event the library can encode, a token provider that is
  absent or gives a token, and a destination that answers with a status.  The publication succeeds on
  any status below 400.  A status that describes the request itself (4xx except 408 and 429) becomes
  a non-retryable error, any other failure status a plain one: so a router whose message can still be
  redelivered dead-letters the message on a permanent status and has it redelivered on a transient
  one.  On a permanent status no retry condition of the publisher's client holds, unless the \<open>RetryOn\<close>
  the publisher was configured with asks for it.
\<close>

theorem http_publish_classifies_status:
  assumes failure: "\<And>st. rl_IsStatusFailure R st \<longleftrightarrow> st \<ge> 400" and made: "http_NewPublisher N bi cfg lg = Inr p"
    and inject: "InjectTraceFromContext (tp_tracer W) (tp_sdk W) c ce = (ce', tc)"
    and enc: "Encode (tp_codec W) ce' = Inr attrs"
    and token: "case hp_TokenProvider cfg of None \<Rightarrow> w0 = w | Some f \<Rightarrow> (\<exists>tok. f c w = (Ret (Inr tok), w0))"
    and send: "\<And>req. \<exists>w'. rl_Send R (hb_client p) c req w0 = (Ret (Inr status), w')"
  shows "\<exists>r w'. http_Publish W R p c ce w = (Ret r, w') \<and> (r = None \<longleftrightarrow> status < 400)
    \<and> (\<forall>e. r = Some e \<longrightarrow> (isNonRetryable e \<longleftrightarrow> permanentStatus status)
         \<and> (CanNack m \<and> \<not> pastMaxRetries mx m \<longrightarrow>
              classifyPublish mx m e = (if permanentStatus status then Some ReasonPublish else None)))
    \<and> (permanentStatus status \<longrightarrow>
         (list_ex (\<lambda>cond. cond (Some status) None) (rc_RetryConditions (hb_client p)) \<longleftrightarrow> retry_on (hp_Retry cfg) status))"
proof -
  note fields = http_NewPublisher_fields [OF made]
  let ?req = "\<lambda>headers. \<lparr>or_Method = ''POST'', or_URL = hp_TargetURL cfg, or_Headers = headers, or_Body = event_data (tp_sdk W) ce'\<rparr>"
  have sent: "\<exists>headers. http_Publish W R p c ce w = go_bind (rl_Send R (hb_client p) c (?req headers)) (\<lambda>resp.
      (case resp of
         Inl err \<Rightarrow> go_ret (Some (wrap_prefix ''http publisher: send'' err))
       | Inr status \<Rightarrow> publish_status W R p ce' status)) w0"
  proof (cases "hp_TokenProvider cfg")
    case None
    with token show ?thesis
      by (intro exI [of _ "publish_headers W p ce' attrs tc"])
        (simp add: http_Publish_def inject enc fields(1) go_bind_def go_ret_def Let_def)
  next
    case (Some f)
    with token obtain tok where "f c w = (Ret (Inr tok), w0)" by auto
    with Some show ?thesis
      by (intro exI [of _ "publish_headers W p ce' attrs tc @ [(hb_tokenHeader p, tok)]"])
        (simp add: http_Publish_def inject enc fields(1) go_bind_def go_ret_def Let_def)
  qed
  then obtain headers where eq: "http_Publish W R p c ce w = go_bind (rl_Send R (hb_client p) c (?req headers)) (\<lambda>resp.
      (case resp of
         Inl err \<Rightarrow> go_ret (Some (wrap_prefix ''http publisher: send'' err))
       | Inr status \<Rightarrow> publish_status W R p ce' status)) w0" by (rule exE)
  obtain w1 where "rl_Send R (hb_client p) c (?req headers) w0 = (Ret (Inr status), w1)" by (rule exE [OF send])
  then have "http_Publish W R p c ce w = publish_status W R p ce' status w1" unfolding eq by (simp add: go_bind_def)
  moreover obtain r w' where step: "publish_status W R p ce' status w1 = (Ret r, w')" and r: "r = None \<longleftrightarrow> status < 400"
      "\<And>e. r = Some e \<Longrightarrow> isNonRetryable e \<longleftrightarrow> permanentStatus status"
    using publish_status_result [of R status W p ce' w1, OF failure] by (elim exE conjE) simp
  ultimately have ans: "http_Publish W R p c ce w = (Ret r, w')" by simp
  have "classifyPublish mx m e = (if permanentStatus status then Some ReasonPublish else None)"
    if "r = Some e" "CanNack m" "\<not> pastMaxRetries mx m" for e
    using r(2) [OF that(1)] that(2,3) by (simp add: classifyPublish_def)
  moreover have "list_ex (\<lambda>cond. cond (Some status) None) (rc_RetryConditions (hb_client p)) \<longleftrightarrow> retry_on (hp_Retry cfg) status"
    if "permanentStatus status"
    using retried_is_not_permanent [of status] that unfolding fields(2) client_retries by auto
  ultimately show ?thesis using ans r by (intro exI [of _ r] exI [of _ w']) blast
qed

subsection \<open>Tokens\<close>

text \<open>
  Whether a call finds a cached token that has not expired; the world a call that does not sees when it
  fetches (the clock is read only when something is cached).
\<close>

definition token_valid :: "'w token_lib \<Rightarrow> 'w token_provider \<Rightarrow> bool" where
  "token_valid L tp \<longleftrightarrow> tk_cached tp \<noteq> [] \<and> fst (tl_now L (tk_world tp)) < tk_expiresAt tp"

definition fetch_world :: "'w token_lib \<Rightarrow> 'w token_provider \<Rightarrow> 'w" where
  "fetch_world L tp = (if tk_cached tp = [] then tk_world tp else snd (tl_now L (tk_world tp)))"

text \<open>
  The call of \<open>Token\<close> that leads from \<open>tp\<close> to \<open>tp'\<close> fetched \<open>tok\<close> from the server, for \<open>ttl\<close>, and
  the clock showed \<open>t0\<close> when the answer was there.
\<close>

definition fetched_by_call :: "'w token_lib \<Rightarrow> ctx \<Rightarrow> 'w token_provider \<Rightarrow> 'w token_provider \<Rightarrow> string \<Rightarrow> i64 \<Rightarrow> int \<Rightarrow> bool" where
  "fetched_by_call L c tp tp' tok ttl t0 \<longleftrightarrow> \<not> token_valid L tp \<and>
     (\<exists>w. token_fetch L tp c (fetch_world L tp) = (Ret (Inr (tok, ttl)), w) \<and> t0 = fst (tl_now L w)
        \<and> tk_world tp' = (if sint ttl > 0 then snd (tl_now L w) else w))"

lemma token_hit_eq:
  "token_hit L tp = (Ret (token_valid L tp), tp\<lparr>tk_world := fetch_world L tp\<rparr>)"
  by (cases "tk_cached tp = []") (simp_all add: token_hit_def token_valid_def fetch_world_def on_tk_world_def go_basic_defs)

lemma token_fetch_world [simp]: "token_fetch L (tp\<lparr>tk_world := w\<rparr>) = token_fetch L tp"
proof (rule ext)
  have "tk_cfg (tp\<lparr>tk_world := w\<rparr>) = tk_cfg tp" "tk_client (tp\<lparr>tk_world := w\<rparr>) = tk_client tp" by simp_all
  then show "token_fetch L (tp\<lparr>tk_world := w\<rparr>) c = token_fetch L tp c" for c
    unfolding token_fetch_def by (simp only:)
qed

text \<open>A call answers from the cache or fetches; a fetched token with a lifetime replaces the cache.\<close>

lemma Token_cases:
  assumes "Token L c tp = (r, tp')"
  obtains (hit) "token_valid L tp" "r = Ret (Inr (tk_cached tp))" "tp' = tp\<lparr>tk_world := snd (tl_now L (tk_world tp))\<rparr>"
    | (fetched) tok ttl t0 where "fetched_by_call L c tp tp' tok ttl t0" "r = Ret (Inr tok)"
      "tk_cached tp' = (if sint ttl > 0 then tok else tk_cached tp)"
      "tk_expiresAt tp' = (if sint ttl > 0 then t0 + sint ttl else tk_expiresAt tp)"
    | (failed) "\<not> token_valid L tp" "\<And>tok. r \<noteq> Ret (Inr tok)"
      "tk_cached tp' = tk_cached tp" "tk_expiresAt tp' = tk_expiresAt tp"
proof (cases "token_valid L tp")
  case True
  with assms have "r = Ret (Inr (tk_cached tp))" "tp' = tp\<lparr>tk_world := fetch_world L tp\<rparr>"
    by (simp_all add: Token_def token_hit_eq go_basic_defs)
  with True show thesis by (intro hit) (simp_all add: token_valid_def fetch_world_def)
next
  case False
  obtain fr w2 where f: "token_fetch L tp c (fetch_world L tp) = (fr, w2)" by fastforce
  show thesis
  proof (cases "\<exists>tok ttl. fr = Ret (Inr (tok, ttl))")
    case True
    then obtain tok ttl where fr: "fr = Ret (Inr (tok, ttl))" by blast
    let ?t0 = "fst (tl_now L w2)"
    have r: "r = Ret (Inr tok)" and tp': "tp' = (if sint ttl > 0 then tp\<lparr>tk_cached := tok, tk_expiresAt := ?t0 + sint ttl,
        tk_world := snd (tl_now L w2)\<rparr> else tp\<lparr>tk_world := w2\<rparr>)"
      using assms f fr False
      by (cases "0 < sint ttl"; auto simp: Token_def token_hit_eq on_tk_world_def go_basic_defs)+
    have "fetched_by_call L c tp tp' tok ttl ?t0"
      using False f fr by (simp add: fetched_by_call_def tp')
    from fetched [OF this r] show thesis by (simp add: tp')
  next
    case no: False
    from assms False f no have "\<And>tok. r \<noteq> Ret (Inr tok)" "tp' = tp\<lparr>tk_world := w2\<rparr>"
      by (auto simp: Token_def token_hit_eq on_tk_world_def go_basic_defs split: res.splits sum.splits)
    with False show thesis by (intro failed) simp_all
  qed
qed

text \<open>Calls, while time passes in between.\<close>

definition token_step :: "'w token_lib \<Rightarrow> 'w token_provider \<Rightarrow> 'w token_provider \<Rightarrow> bool" where
  "token_step L tp tp' \<longleftrightarrow> (\<exists>c r. Token L c tp = (r, tp')) \<or> (\<exists>w. tp' = tp\<lparr>tk_world := w\<rparr>)"

text \<open>\<open>tok\<close> was fetched by a call made on the way from \<open>tp0\<close> to \<open>tp\<close>, and its lifetime ends at \<open>e\<close>.\<close>

definition fetched_before :: "'w token_lib \<Rightarrow> 'w token_provider \<Rightarrow> 'w token_provider \<Rightarrow> string \<Rightarrow> int \<Rightarrow> bool" where
  "fetched_before L tp0 tp tok e \<longleftrightarrow> (\<exists>u c u' ttl t0. (token_step L)\<^sup>*\<^sup>* tp0 u \<and> Token L c u = (Ret (Inr tok), u')
     \<and> fetched_by_call L c u u' tok ttl t0 \<and> (token_step L)\<^sup>*\<^sup>* u' tp \<and> 0 < sint ttl \<and> e = t0 + sint ttl)"

lemma fetched_before_later: "fetched_before L tp0 tp tok e \<Longrightarrow> token_step L tp tp' \<Longrightarrow> fetched_before L tp0 tp' tok e"
  unfolding fetched_before_def
  by (elim exE conjE, intro exI conjI, assumption+, erule (1) rtranclp.rtrancl_into_rtrancl, assumption+)

lemma cached_was_fetched:
  assumes "(token_step L)\<^sup>*\<^sup>* tp0 tp" and "tk_cached tp0 = []"
  shows "tk_cached tp \<noteq> [] \<longrightarrow> fetched_before L tp0 tp (tk_cached tp) (tk_expiresAt tp)"
  using assms(1)
proof (induction rule: rtranclp_induct)
  case (step tp tp')
  have keep: ?case if "tk_cached tp' = tk_cached tp" "tk_expiresAt tp' = tk_expiresAt tp"
    using step(3) fetched_before_later [OF _ step(2)] that by simp
  from step(2) consider c r where "Token L c tp = (r, tp')" | w where "tp' = tp\<lparr>tk_world := w\<rparr>"
    unfolding token_step_def by blast
  then show ?case
  proof cases
    case (1 c r)
    then show ?thesis
    proof (cases rule: Token_cases)
      case (fetched tok ttl t0)
      show ?thesis
      proof (cases "sint ttl > 0")
        case True
        with fetched(3,4) have new: "tk_cached tp' = tok" "tk_expiresAt tp' = t0 + sint ttl" by simp_all
        show ?thesis
          unfolding new fetched_before_def
          by (intro impI exI [of _ tp] exI [of _ c] exI [of _ tp'] exI [of _ ttl] exI [of _ t0] conjI)
            (use 1 fetched step(1) True in simp_all)
      next
        case False
        with fetched(3,4) show ?thesis by (intro keep) simp_all
      qed
    qed (use keep in simp_all)
  next
    case 2
    then show ?thesis by (intro keep) simp_all
  qed
qed (simp add: assms(2))

text \<open>
  C40. After any number of calls to a new provider, while time passes in between, a token that \<open>Token\<close>
  returns was either fetched from the server by this very call, which found nothing cached or an
  expired token; or it is the one that the last call to fetch a token with a lifetime got, with
  nothing fetched now, and the clock that this call read is still before the end of that lifetime,
  counted from when that answer was there.  A call that fails changes neither the cached token nor
  its expiry, and had nothing valid to serve.
\<close>

theorem token_never_stale:
  assumes reach: "(token_step L)\<^sup>*\<^sup>* (NewTokenProvider bi cfg w) tp" and call: "Token L c tp = (r, tp')"
  shows "case r of
      Ret (Inr tok) \<Rightarrow>
        (\<exists>ttl t0. fetched_by_call L c tp tp' tok ttl t0)
        \<or> (\<exists>u c0 u' ttl t0. (token_step L)\<^sup>*\<^sup>* (NewTokenProvider bi cfg w) u \<and> Token L c0 u = (Ret (Inr tok), u')
             \<and> fetched_by_call L c0 u u' tok ttl t0 \<and> (token_step L)\<^sup>*\<^sup>* u' tp
             \<and> fst (tl_now L (tk_world tp)) < t0 + sint ttl
             \<and> tk_cached tp = tok \<and> tk_expiresAt tp = t0 + sint ttl
             \<and> tp' = tp\<lparr>tk_world := snd (tl_now L (tk_world tp))\<rparr>)
    | _ \<Rightarrow> \<not> token_valid L tp \<and> tk_cached tp' = tk_cached tp \<and> tk_expiresAt tp' = tk_expiresAt tp"
proof -
  have "tk_cached (NewTokenProvider bi cfg w) = []" by (simp add: NewTokenProvider_def Let_def)
  note cached = cached_was_fetched [OF reach this]
  from call show ?thesis
  proof (cases rule: Token_cases)
    case hit
    from cached hit(1) have "fetched_before L (NewTokenProvider bi cfg w) tp (tk_cached tp) (tk_expiresAt tp)"
      by (simp add: token_valid_def)
    then obtain u c0 u' ttl t0 where "(token_step L)\<^sup>*\<^sup>* (NewTokenProvider bi cfg w) u" "Token L c0 u = (Ret (Inr (tk_cached tp)), u')"
      "fetched_by_call L c0 u u' (tk_cached tp) ttl t0" "(token_step L)\<^sup>*\<^sup>* u' tp" "tk_expiresAt tp = t0 + sint ttl"
      unfolding fetched_before_def by blast
    moreover have "fst (tl_now L (tk_world tp)) < t0 + sint ttl"
      using hit(1) calculation(5) by (simp add: token_valid_def)
    ultimately show ?thesis unfolding hit(2) res.case sum.case using hit(3) by blast
  next
    case (fetched tok ttl t0)
    then show ?thesis unfolding fetched(2) res.case sum.case by blast
  next
    case failed
    then show ?thesis by (simp split: res.split sum.split)
  qed
qed

text \<open>
  The lifetime is exact up to \<open>9223372036\<close> seconds; one second more wraps to a negative one, which
  is not cached.
\<close>

lemma ttl_in_seconds:
  assumes L: "truncates L" and field: "tc_ExpiresInField cfg \<noteq> []" "map_of result (tc_ExpiresInField cfg) = Some (JNumber v)"
    and v: "0 < v" "\<lfloor>v\<rfloor> \<le> 9223372036"
  shows "sint (resolveTTL L cfg result) = \<lfloor>v\<rfloor> * 10 ^ 9"
proof -
  have "v < 2 ^ 63" using v(2) floor_less_iff [of v "9223372037"] by (simp add: floor_le_iff)
  then have i: "sint (tl_int64 L v) = \<lfloor>v\<rfloor>" using L v(1) by (simp add: truncates_def)
  define k where "k = \<lfloor>v\<rfloor>"
  have k: "0 \<le> k" "k \<le> 9223372036" using v by (simp_all add: k_def)
  have "sint (tl_int64 L v * token_Second) = signed_take_bit 63 (k * 1000000000)"
    unfolding sint_word_ariths i token_Second_def k_def by simp
  also have "\<dots> = k * 1000000000"
    using k by (intro signed_take_bit_int_eq_self) auto
  finally show ?thesis using field v(1) by (simp add: resolveTTL_def k_def)
qed

text \<open>The wrap, on a concrete conversion.\<close>

definition sample_token_lib :: "nat token_lib" where
  "sample_token_lib = \<lparr>tl_Execute = (\<lambda>cl c req w. (Ret (Inr (200, [(''access_token'', JString ''t''), (''expires_in'', JNumber 60)])), w)),
     tl_IsStatusFailure = (\<lambda>st. st \<ge> 400), tl_int64 = (\<lambda>v. word_of_int \<lfloor>v\<rfloor>), tl_now = (\<lambda>w. (int w * 10 ^ 9, Suc w))\<rparr>"

definition sample_token_config :: token_config where
  "sample_token_config = \<lparr>tc_URL = ''u'', tc_Method = [], tc_Headers = [], tc_Body = [], tc_ResponseTokenField = [],
     tc_TokenPrefix = [], tc_ExpiresInField = ''expires_in'', tc_CacheTTL = 0, tc_Timeout = 0, tc_Retry = None,
     tc_UserAgent = []\<rparr>"

lemma ttl_wraps:
  "sint (resolveTTL sample_token_lib sample_token_config [(''expires_in'', JNumber 9223372037)]) < 0"
  by (simp add: resolveTTL_def sample_token_lib_def sample_token_config_def token_Second_def)

subsection \<open>Witnesses\<close>

text \<open>The second call is served from the cache, for what the first one fetched.\<close>

theorem token_never_stale_witness:
  "\<exists>tp tp' u c0 u' ttl t0. (token_step sample_token_lib)\<^sup>*\<^sup>* (NewTokenProvider None sample_token_config 0) tp
     \<and> Token sample_token_lib Background tp = (Ret (Inr ''t''), tp') \<and> token_valid sample_token_lib tp
     \<and> fetched_by_call sample_token_lib c0 u u' ''t'' ttl t0 \<and> (token_step sample_token_lib)\<^sup>*\<^sup>* u' tp
     \<and> fst (tl_now sample_token_lib (tk_world tp)) < t0 + sint ttl"
proof -
  let ?L = sample_token_lib and ?tp0 = "NewTokenProvider None sample_token_config 0 :: nat token_provider"
  have fetch: "token_fetch ?L ?tp0 c w = (Ret (Inr (''t'', 60 * token_Second)), w)" for c w
    by (simp add: token_fetch_def NewTokenProvider_def sample_token_config_def sample_token_lib_def go_basic_defs Let_def
        resolveTTL_def)
  have ttl: "sint (60 * token_Second) = 60000000000" by (simp add: token_Second_def)
  have fresh: "\<not> token_valid ?L ?tp0" "fetch_world ?L ?tp0 = 0"
    by (simp_all add: token_valid_def fetch_world_def NewTokenProvider_def Let_def)
  define tp where "tp = ?tp0\<lparr>tk_cached := ''t'', tk_expiresAt := 60000000000, tk_world := 1\<rparr>"
  have now: "tl_now ?L w = (int w * 10 ^ 9, Suc w)" for w by (simp add: sample_token_lib_def)
  have first: "Token ?L Background ?tp0 = (Ret (Inr ''t''), tp)"
    using fresh fetch [of Background 0] ttl
    by (simp add: Token_def token_hit_eq go_basic_defs on_tk_world_def tp_def now)
  have tp: "tk_cached tp = ''t''" "tk_expiresAt tp = 60000000000" "tk_world tp = 1" by (simp_all add: tp_def)
  have reach: "(token_step ?L)\<^sup>*\<^sup>* ?tp0 tp" by (rule r_into_rtranclp) (use first in \<open>auto simp: token_step_def\<close>)
  have valid: "token_valid ?L tp" by (simp add: token_valid_def tp now)
  then have call: "Token ?L Background tp = (Ret (Inr ''t''), tp\<lparr>tk_world := fetch_world ?L tp\<rparr>)"
    by (simp add: Token_def token_hit_eq go_basic_defs tp)
  have "\<not> fetched_by_call ?L Background tp tp' tok ttl t0" for tp' tok ttl t0
    using valid by (simp add: fetched_by_call_def)
  with token_never_stale [OF reach call] reach call valid show ?thesis
    unfolding res.case sum.case by blast
qed

definition sample_resty :: "int \<Rightarrow> nat resty_lib" where
  "sample_resty status = \<lparr>rl_Send = (\<lambda>cl c req w. (Ret (Inr status), Suc w)), rl_IsStatusFailure = (\<lambda>st. st \<ge> 400)\<rparr>"

text \<open>A publisher with a token provider.\<close>

definition sample_http_net_url :: net_url where
  "sample_http_net_url = \<lparr>nu_Parse = (\<lambda>raw. Inr \<lparr>ur_Scheme = ''http'', ur_User = None, ur_Host = ''h'', ur_Path = [],
     ur_RawQuery = [], ur_Fragment = []\<rparr>), nu_String = (\<lambda>u. ''http://h'')\<rparr>"

definition sample_http_pub_config :: "nat http_pub_config" where
  "sample_http_pub_config = \<lparr>hp_TargetURL = ''http://h'', hp_Timeout = 0, hp_Headers = [],
     hp_TokenProvider = Some (\<lambda>c w. (Ret (Inr ''token''), Suc w)), hp_TokenHeader = [], hp_Retry = None, hp_UserAgent = []\<rparr>"

theorem http_publish_classifies_status_witness:
  "\<exists>p e w'. http_NewPublisher sample_http_net_url None sample_http_pub_config None = Inr p
     \<and> http_Publish sample_surroundings (sample_resty 404) p Background crowded 0 = (Ret (Some e), w')
     \<and> isNonRetryable e \<and> \<not> list_ex (\<lambda>cond. cond (Some 404) None) (rc_RetryConditions (hb_client p))"
proof -
  let ?W = sample_surroundings and ?R = "sample_resty 404"
  obtain p where made: "http_NewPublisher sample_http_net_url None sample_http_pub_config None = Inr p"
    by (simp add: http_NewPublisher_def sample_http_net_url_def sample_http_pub_config_def Let_def)
  have failure: "rl_IsStatusFailure ?R st \<longleftrightarrow> st \<ge> 400" for st by (simp add: sample_resty_def)
  have inject: "InjectTraceFromContext (tp_tracer ?W) (tp_sdk ?W) Background crowded = (crowded, None)"
    by (simp add: InjectTraceFromContext_def Background_def)
  have "\<not> isl (Encode sample_codec crowded)" by code_simp
  then obtain attrs where enc: "Encode (tp_codec ?W) crowded = Inr attrs"
    by (cases "Encode sample_codec crowded") (auto simp: sample_surroundings_def)
  have token: "case hp_TokenProvider sample_http_pub_config of None \<Rightarrow> 1 = (0 :: nat)
      | Some f \<Rightarrow> \<exists>tok. f Background 0 = (Ret (Inr tok), 1)"
    by (simp add: sample_http_pub_config_def)
  have send: "\<exists>w'. rl_Send ?R (hb_client p) Background req 1 = (Ret (Inr 404), w')" for req by (simp add: sample_resty_def)
  have perm: "permanentStatus 404" and no_rule: "\<not> retry_on (hp_Retry sample_http_pub_config) 404"
    by (simp_all add: permanentStatus_def retry_on_def sample_http_pub_config_def)
  from http_publish_classifies_status [where m = undefined and mx = undefined, OF failure made inject enc token send] perm no_rule
  obtain r w' where "http_Publish ?W ?R p Background crowded 0 = (Ret r, w')" "r \<noteq> None"
      "\<forall>e. r = Some e \<longrightarrow> isNonRetryable e" "\<not> list_ex (\<lambda>cond. cond (Some 404) None) (rc_RetryConditions (hb_client p))"
    by auto
  with made show ?thesis by (cases r) auto
qed

end
