(* ===== verification/Service.thy ===== *)
theory Service
  imports Registration MuxTheorems HttpTheorems JetstreamTheorems
begin

text \<open>
  The router behind a transport, as a service wires them: the start/stop contract every subscriber
  and the router share, the handler that \<open>mux.Start\<close> hands to the subscriber, what it makes each
  broker be told, and what an HTTP client may conclude from its answer.
\<close>

subsection \<open>One contract for all\<close>

text \<open>
  Given the calls made, their results and the state they lead to: nothing was left out, and it runs
  exactly if the last call that returned nil was a \<open>Start\<close>.
\<close>

definition contract_kept :: "('s \<Rightarrow> bool) \<Rightarrow> 'c lifecycle_op list \<Rightarrow> ('c lifecycle_op \<times> goerr option res) list \<times> 's \<Rightarrow> bool" where
  "contract_kept running ops = (\<lambda>(h, s). map fst h = ops \<and> (running s \<longleftrightarrow> foldl startable.effect False h))"

lemma contract_keptI:
  assumes "startable start stop running ok" and "ok s" and "\<not> running s"
  shows "contract_kept running ops (startable.history start stop ops s)"
  using startable.running_after [OF assms(1,2)] assms(3)
  by (cases "startable.history start stop ops s") (auto simp: contract_kept_def)

lemma new_http: "http_NewSubscriber foreign server cfg lg w = Inr s \<Longrightarrow> hs_handler s = None"
  by (auto simp: http_NewSubscriber_def Let_def split: if_splits)

lemma new_sqs: "sqs_NewSubscriber client cfg lg w = Inr s \<Longrightarrow> sq_slots s = no_slots"
  by (auto simp: sqs_NewSubscriber_def Let_def split: option.splits if_splits)

lemma new_pubsub: "pubsub_NewSubscriber client cfg lg w = Inr s \<Longrightarrow> ps_slots s = no_slots"
  by (auto simp: pubsub_NewSubscriber_def Let_def split: option.splits if_splits)

lemma new_core: "core_NewSubscriber nc cfg lg w = Inr s \<Longrightarrow> ks_slots s = no_slots \<and> \<not> ks_draining s"
  by (auto simp: core_NewSubscriber_def split: option.splits if_splits)

lemma new_js: "js_NewSubscriber js cfg lg w = Inr s \<Longrightarrow> js_slots s = no_slots"
  by (auto simp: js_NewSubscriber_def new_js_subscriber_def split: option.splits if_splits)

lemma no_slots_cur [simp]: "sl_cur no_slots = None"
  by (simp add: no_slots_def)

lemma case_InrI: "(\<And>s. x = Inr s \<Longrightarrow> P s) \<Longrightarrow> case x of Inl e \<Rightarrow> True | Inr s \<Rightarrow> P s"
  by (cases x) simp_all

lemma router_contract: "New cfg = Inr mx \<Longrightarrow> contract_kept (\<lambda>a. mux_started (app_mux a)) ops
    (startable.history mux_Start mux_Stop ops \<lparr>app_mux = mx, app_world = w, app_log = l\<rparr>)"
  by (rule contract_keptI [OF router.startable_axioms]) (auto dest: New_inv)

lemma http_contract: "http_NewSubscriber foreign server cfg lg w = Inr s \<Longrightarrow>
    contract_kept (\<lambda>s. hs_handler s \<noteq> None) ops (startable.history (http_Start W h) (http_Stop W) ops s)"
  by (rule contract_keptI [OF http.startable_axioms]) (auto dest: new_http)

lemma sqs_contract: "sqs_NewSubscriber client cfg lg w = Inr s \<Longrightarrow>
    contract_kept (\<lambda>s. sl_cur (sq_slots s) \<noteq> None) ops (startable.history (sqs_Start W) (sqs_Stop W await) ops s)"
  by (rule contract_keptI [OF sqs.startable_axioms]) (auto dest: new_sqs)

lemma pubsub_contract: "pubsub_NewSubscriber client cfg lg w = Inr s \<Longrightarrow>
    contract_kept (\<lambda>s. sl_cur (ps_slots s) \<noteq> None) ops (startable.history (pubsub_Start W) (pubsub_Stop W await) ops s)"
  by (rule contract_keptI [OF pubsub.startable_axioms]) (auto dest: new_pubsub)

lemma core_contract: "core_NewSubscriber nc cfg lg w = Inr s \<Longrightarrow>
    contract_kept (\<lambda>s. sl_cur (ks_slots s) \<noteq> None) ops (startable.history (core_Start W L h) (core_Stop W await) ops s)"
  by (rule contract_keptI [OF core.startable_axioms]) (auto dest: new_core simp: core_ok_def)

lemma js_contract: "js_NewSubscriber js cfg lg w = Inr s \<Longrightarrow>
    contract_kept (\<lambda>s. sl_cur (js_slots s) \<noteq> None) ops (startable.history (js_Start W L h) (js_Stop W await) ops s)"
  by (rule contract_keptI [OF js.startable_axioms]) (auto dest: new_js)

text \<open>
  C11. The router and all five subscribers keep one start/stop contract: for whatever a constructor
  builds, after any sequence of \<open>Start\<close> and \<open>Stop\<close> calls it runs exactly if the last call that
  returned nil was a \<open>Start\<close>.  Calls that failed or panicked, second Starts and idle Stops do not
  count, whatever the broker's client does.
\<close>

theorem one_start_stop_contract:
  "(case New mcfg of Inl e \<Rightarrow> True | Inr mx \<Rightarrow> contract_kept (\<lambda>a. mux_started (app_mux a)) ops
      (startable.history mux_Start mux_Stop ops \<lparr>app_mux = mx, app_world = mw, app_log = l\<rparr>))
   \<and> (case http_NewSubscriber foreign server hcfg lg hw of Inl e \<Rightarrow> True
      | Inr s \<Rightarrow> contract_kept (\<lambda>s. hs_handler s \<noteq> None) ops (startable.history (http_Start W hh) (http_Stop W) ops s))
   \<and> (case sqs_NewSubscriber qclient qcfg lg qw of Inl e \<Rightarrow> True
      | Inr s \<Rightarrow> contract_kept (\<lambda>s. sl_cur (sq_slots s) \<noteq> None) ops (startable.history (sqs_Start WQ) (sqs_Stop WQ qawait) ops s))
   \<and> (case pubsub_NewSubscriber pclient pcfg lg pw of Inl e \<Rightarrow> True
      | Inr s \<Rightarrow> contract_kept (\<lambda>s. sl_cur (ps_slots s) \<noteq> None) ops (startable.history (pubsub_Start WP) (pubsub_Stop WP pawait) ops s))
   \<and> (case core_NewSubscriber nc kcfg lg kw of Inl e \<Rightarrow> True
      | Inr s \<Rightarrow> contract_kept (\<lambda>s. sl_cur (ks_slots s) \<noteq> None) ops (startable.history (core_Start WK L hk) (core_Stop WK kawait) ops s))
   \<and> (case js_NewSubscriber js jcfg lg jw of Inl e \<Rightarrow> True
      | Inr s \<Rightarrow> contract_kept (\<lambda>s. sl_cur (js_slots s) \<noteq> None) ops (startable.history (js_Start WJ LJ hj) (js_Stop WJ jawait) ops s))"
  by (intro conjI case_InrI)
    (erule router_contract http_contract sqs_contract pubsub_contract core_contract js_contract)+

subsection \<open>The router as the handler\<close>



text \<open>The message once the router is done with it.\<close>

abbreviation after :: "('ev, 'w) env \<Rightarrow> ('ev, 'd, 'w) mux \<Rightarrow> bool \<Rightarrow> 'w \<Rightarrow> logrec list \<Rightarrow> ('ev, 'w) message \<Rightarrow> ('ev, 'w) message" where
  "after E mx b w l m \<equiv> st_msg (snd (handle E mx (deliver m w l b)))"

lemma after_cases:
  obtains (settled) out r d where "permitted E mx (seen_by_router E (received p ce dl derr)) (out, r, d)"
      and "decided_by d (seen_by_router E (received p ce dl derr)) (after E mx b w l (received p ce dl derr))"
  | (pending) "after E mx b w l (received p ce dl derr) = seen_by_router E (received p ce dl derr)" and "\<not> dead_letter_total mx"
  by (rule handle_cases [of E mx p ce dl derr w l b]) auto

subsection \<open>What each broker is told\<close>

text \<open>The delivery callbacks that ran are those the transport gave for the outcome.\<close>

lemma after_told:
  "msg_told (after E mx b w l (received p ce dl derr)) =
    calls_owed (case msg_outcome (after E mx b w l (received p ce dl derr)) of
       OutcomePending \<Rightarrow> None
     | OutcomeAcked \<Rightarrow> dl_ack dl
     | OutcomeNacked \<Rightarrow> dl_nack dl
     | OutcomeDiscarded \<Rightarrow> (if dl_discard dl = None then dl_ack dl else dl_discard dl))"
  unfolding received_callback [symmetric, where p = p and ce = ce and dl = dl and derr = derr]
proof (cases rule: after_cases [where E = E and mx = mx and b = b and w = w and l = l and p = p and ce = ce and dl = dl and derr = derr])
  case (settled out r d)
  from decided_by_inv(2) [OF settled(2)] decided_byD(4) [OF settled(2)]
  show "msg_told (after E mx b w l (received p ce dl derr)) = calls_owed (outcome_callback
      (msg_outcome (after E mx b w l (received p ce dl derr))) (msg_delivery (received p ce dl derr)))"
    by simp
qed simp

lemma after_nacked:
  assumes "msg_outcome (after E mx b w l (received p ce dl derr)) = OutcomeNacked"
  shows "dl_nack dl \<noteq> None"
proof (cases rule: after_cases [where E = E and mx = mx and b = b and w = w and l = l and p = p and ce = ce and dl = dl and derr = derr])
  case (settled out r d)
  from permitted_nack [OF settled(1)] decided_byD(1) [OF settled(2)] assms show ?thesis
    using received_callback [of OutcomeNacked p ce dl derr] by (simp add: CanNack_def)
next
  case pending
  with assms show ?thesis by simp
qed

text \<open>
  C10. Which calls each broker gets for a message the router settled, as the delivery callbacks that
  really ran.  SQS: the message is deleted when it was acked or discarded, with its own receipt
  handle, and nothing is called on the broker when it was nacked.  Pub/Sub: \<open>Ack\<close> for acked and
  discarded, \<open>Nack\<close> for nacked.  JetStream: \<open>Ack\<close>, a negative acknowledgement (delayed when a
  delay is configured) and \<open>Term\<close>, one for each outcome.  Each is made once.  Core NATS has nothing
  to be told, and a core message is never nacked: nothing would redeliver it.
\<close>

theorem broker_told_by_transport:
  "(let m' = after E mx b w l (received p ce (sqs_delivery s url m) derr) in
      msg_told m' = (case msg_outcome m' of
          OutcomePending \<Rightarrow> [] | OutcomeNacked \<Rightarrow> [go_ret None]
        | _ \<Rightarrow> [deleteMessage s url (ToString (sm_ReceiptHandle m))]))
   \<and> (let m' = after E mx b w l (received p ce (pubsub_delivery pm) derr) in
      msg_told m' = (case msg_outcome m' of
          OutcomePending \<Rightarrow> [] | OutcomeNacked \<Rightarrow> [go_seq (pm_Nack pm) (go_ret None)]
        | _ \<Rightarrow> [go_seq (pm_Ack pm) (go_ret None)]))
   \<and> (let m' = after E mx b w l (received p ce (newDelivery jm nakDelay) derr) in
      msg_told m' = (case msg_outcome m' of
          OutcomePending \<Rightarrow> []
        | OutcomeAcked \<Rightarrow> [js_wrap ''ack'' (jm_Ack jm)]
        | OutcomeNacked \<Rightarrow> [js_wrap ''nak'' (if nakDelay > 0 then jm_NakWithDelay jm nakDelay else jm_Nak jm)]
        | OutcomeDiscarded \<Rightarrow> [js_wrap ''term'' (jm_TermWithReason jm termReasonDiscarded)]))
   \<and> (let m' = after E mx b w l (received p ce core_no_delivery derr) in
      msg_told m' = [] \<and> msg_outcome m' \<noteq> OutcomeNacked)"
  unfolding Let_def
proof (intro conjI)
  show "msg_outcome (after E mx b w l (received p ce core_no_delivery derr)) \<noteq> OutcomeNacked"
    using after_nacked [where E = E and mx = mx and b = b and w = w and l = l and p = p and ce = ce and dl = core_no_delivery and derr = derr] by (auto simp: core_no_delivery_def)
qed (simp_all only: after_told,
  simp_all add: sqs_delivery_def pubsub_delivery_def newDelivery_def core_no_delivery_def split: outcome.split)

subsection \<open>What an HTTP answer means\<close>




















end
