(* ===== verification/Jmespath.thy ===== *)
theory Jmespath
  imports Filters Transport
begin

text \<open>
  \<open>pkg/filter/jmespath\<close>: a filter that evaluates an expression on the payload of the event.  The
  JMESPath engine and the JSON decoder of the payload are parameters; what the engine returns is a
  boolean or something else.
\<close>

datatype jmes_result = JmesBool bool | JmesOther

record 'j jmes_engine =
  jm_compile :: "string \<Rightarrow> goerr option"
  jm_unmarshal :: "bytes \<Rightarrow> goerr + 'j"
  jm_search :: "string \<Rightarrow> 'j \<Rightarrow> goerr + jmes_result"

definition KeyFilterExpression :: string where
  "KeyFilterExpression = ''filter.expression''"

text \<open>A payload that cannot be read, or a result that is no boolean, is a warning and no match.\<close>

definition jmespath_Match ::
    "'j jmes_engine \<Rightarrow> ('ev, 'w) surroundings \<Rightarrow> logger \<Rightarrow> string \<Rightarrow> ('ev, 'w) message \<Rightarrow> ('w, bool) go" where
  "jmespath_Match J W lg expr msg =
     (let idattr = AStr KeyMessagingMessageID (event_id (tp_sdk W) (msg_event msg));
          warn = (\<lambda>text attrs. go_seq (emit W lg LevelWarn text (attrs @ [idattr])) (go_ret False))
      in (case jm_unmarshal J (event_data (tp_sdk W) (msg_event msg)) of
            Inl err \<Rightarrow> warn ''filter payload decode failed'' [AErr err]
          | Inr data \<Rightarrow>
              (case jm_search J expr data of
                 Inl err \<Rightarrow> warn ''filter evaluation failed'' [AErr err]
               | Inr (JmesBool b) \<Rightarrow> go_ret b
               | Inr JmesOther \<Rightarrow> warn ''filter result not boolean'' [])))"

text \<open>\<open>addr\<close> is the identity of the new filter, which is a pointer.\<close>

definition jmespath_New ::
    "'j jmes_engine \<Rightarrow> ('ev, 'w) surroundings \<Rightarrow> nat \<Rightarrow> string \<Rightarrow> logger option \<Rightarrow> goerr + ('ev, 'w) filter_impl" where
  "jmespath_New J W addr expr lg =
     (case jm_compile J expr of
        Some err \<Rightarrow> Inl (wrap_prefix (''jmespath: compile '' @ go_quote expr) err)
      | None \<Rightarrow>
          (let lg = logger_With (Component lg ''jmespath-filter'') [AStr KeyFilterExpression expr]
           in Inr \<lparr>flt_identity = Some addr, flt_Match = jmespath_Match J W lg expr\<rparr>))"

lemma computes_jmespath:
  assumes "jmespath_New J W a expr lg = Inr f"
  shows "computes f (\<lambda>m. \<exists>d. jm_unmarshal J (event_data (tp_sdk W) (msg_event m)) = Inr d
                              \<and> jm_search J expr d = Inr (JmesBool True))"
proof -
  from assms have f: "\<exists>lg. flt_Match f = jmespath_Match J W lg expr"
    by (auto simp: jmespath_New_def Let_def split: option.splits)
  then show ?thesis
    unfolding computes_def
    by (elim exE) (auto simp: jmespath_Match_def Let_def go_defs emit_def split: sum.splits jmes_result.splits)
qed

lemma jmespath_New_identity: "jmespath_New J W a expr lg = Inr f \<Longrightarrow> flt_identity f = Some a"
  by (auto simp: jmespath_New_def Let_def split: option.splits)

end
