(* ===== verification/Hop.thy ===== *)
theory Hop
  imports Registration EventTheorems
begin

text \<open>
  One hop through the router: a message whose handler succeeds is acked, and exactly one event, the
  result, reaches the publisher of its route.  \<open>sent\<close> reads from the world what was published there;
  everything else the router calls leaves it alone.
\<close>

subsection \<open>Calls that leave a part of the world alone\<close>

definition keeps :: "('w \<Rightarrow> 'x) \<Rightarrow> ('w, 'a) go \<Rightarrow> bool" where
  "keeps part f \<longleftrightarrow> (\<forall>w. part (snd (f w)) = part w)"

lemma go_wp_keeps:
  assumes "keeps part f" and "\<And>a t. part t = part w \<Longrightarrow> Q a t" and "\<And>p t. part t = part w \<Longrightarrow> X p t"
  shows "go_wp f Q X w"
proof -
  obtain r t where f: "f w = (r, t)" by fastforce
  with assms(1) have "part t = part w" by (metis keeps_def snd_conv)
  with f assms(2,3) show ?thesis by (cases r) (auto simp: go_wp_def)
qed

definition observer_keeps :: "('w \<Rightarrow> 'x) \<Rightarrow> ('ev, 'd, 'w) mux \<Rightarrow> bool" where
  "observer_keeps part mx \<longleftrightarrow> (\<forall>obs. cfg_Observer (mux_cfg mx) = Some obs \<longrightarrow>
     (\<forall>c m out r. keeps part (OnMessage obs c m out r)) \<and> (\<forall>c ce err. keeps part (OnPublish obs c ce err)))"

lemma go_wp_observe_keeps:
  assumes "\<And>obs. cfg_Observer (mux_cfg mx) = Some obs \<Longrightarrow> keeps part (fn obs)"
    and "\<And>w l. part w = part (st_world s) \<Longrightarrow> Q () (s\<lparr>st_world := w, st_log := l\<rparr>)"
  shows "go_wp (observe E mx fn) Q X s"
proof -
  have same: "Q () (s\<lparr>st_world := w\<rparr>)" if "part w = part (st_world s)" for w
    using assms(2) [OF that, of "st_log s"] by simp
  from same [of "st_world s"] have "Q () s" by simp
  with same show ?thesis
    by (auto simp: observe_def go_wps assms(2) intro!: go_wp_keeps [OF assms(1)] split: option.splits)
qed

subsection \<open>A publisher that takes every event\<close>

text \<open>What it puts on the wire is \<open>x\<close>; \<open>shows ev x\<close> says what of the event \<open>x\<close> shows.\<close>

definition records :: "('w \<Rightarrow> 'x list) \<Rightarrow> ('ev \<Rightarrow> 'x \<Rightarrow> bool) \<Rightarrow> ('ev, 'w) publisher \<Rightarrow> bool" where
  "records sent shows f \<longleftrightarrow>
     (\<forall>c ev w. \<exists>w' x. f c ev w = (Ret None, w') \<and> sent w' = sent w @ [x] \<and> shows ev x)"

lemma go_wp_pub_records:
  assumes "records sent shows (bare p)" and "observer_keeps sent mx"
    and "\<And>w l x. sent w = sent (st_world s) @ [x] \<Longrightarrow> shows ev x \<Longrightarrow> Q None (s\<lparr>st_world := w, st_log := l\<rparr>)"
  shows "go_wp (pub_Publish E mx p c ev) Q X s"
proof -
  from assms(1) obtain w x where call: "bare p c ev (st_world s) = (Ret None, w)"
    and sent: "sent w = sent (st_world s) @ [x]" and x: "shows ev x"
    unfolding records_def by blast
  have "Q None (s\<lparr>st_world := w\<rparr>)" using assms(3) [OF sent x, of "st_log s"] by simp
  moreover have "go_wp (observe E mx (\<lambda>obs. OnPublish obs c ev None)) (\<lambda>_. Q None) X (s\<lparr>st_world := w\<rparr>)"
    using assms(2) by (intro go_wp_observe_keeps [where part = sent]) (auto simp: observer_keeps_def sent intro!: assms(3) [OF _ x])
  ultimately show ?thesis
    using call by (cases p) (simp_all add: pub_Publish_def go_wps go_wp_def [of "bare _ _ _"] go_wp_def [of "f c ev" for f])
qed

subsection \<open>The result keeps its payload\<close>

lemma set_meta_data: "sdk_laws S \<Longrightarrow> event_data S (set_meta S meta ce) = event_data S ce"
  unfolding set_meta_def by (induction meta arbitrary: ce) (auto simp: sdk_set_ext)

lemma carry_over_data: "sdk_laws S \<Longrightarrow> event_data S (carry_over S meta orig ce) = event_data S ce"
  unfolding carry_over_def by (induction orig arbitrary: ce) (auto simp: sdk_set_ext)

lemma result_exts_data: "sdk_laws S \<Longrightarrow> event_data S (result_exts S meta orig ce) = event_data S ce"
  by (simp add: result_exts_def Let_def sdk_set_ext set_meta_data carry_over_data)

lemma go_wp_drop_reserved_log:
  "(\<And>l. Q (fold AList.delete ks meta) (s\<lparr>st_log := l\<rparr>)) \<Longrightarrow> go_wp (drop_reserved E m ks meta) Q X s"
proof (induction ks arbitrary: meta s)
  case Nil
  from Nil [of "st_log s"] show ?case by (simp add: go_wps)
next
  case (Cons k ks)
  have absent: "\<not> has_key meta k \<Longrightarrow> AList.delete k meta = meta"
    by (simp add: has_key_iff delete_id)
  show ?case
    using Cons.prems absent by (auto simp: go_wps intro!: Cons.IH)
qed

subsection \<open>The result of a message\<close>

definition result_of :: "'ev sdk \<Rightarrow> 'ev \<Rightarrow> bytes \<Rightarrow> 'ev \<Rightarrow> bool" where
  "result_of S orig data ev \<longleftrightarrow>
     event_type S ev = event_type S orig @ ''.result'' \<and> event_source S ev = event_source S orig
     \<and> event_data S ev = data
     \<and> (event_id S orig \<noteq> [] \<longrightarrow> extension S ev ExtCausationID = Some (XString (event_id S orig)))
     \<and> (extension S orig ExtCorrelationID \<noteq> None \<longrightarrow>
          extension S ev ExtCorrelationID = extension S orig ExtCorrelationID)"

text \<open>\<open>data\<close> is JSON: the SDK stores it as it is.\<close>

definition stores_json :: "'ev sdk \<Rightarrow> bytes \<Rightarrow> bool" where
  "stores_json S data \<longleftrightarrow>
     (\<forall>ce. \<exists>ce'. set_data S ApplicationJSON (JsonValue data) ce = Inr ce' \<and> event_data S ce' = data)"

text \<open>The generators leave what was sent alone and give ids that the SDK accepts beside the names of \<open>orig\<close>.\<close>

definition quiet_env :: "('w \<Rightarrow> 'x) \<Rightarrow> ('ev, 'w) env \<Rightarrow> 'ev \<Rightarrow> bool" where
  "quiet_env part E orig \<longleftrightarrow> (\<forall>w. part (snd (env_uuid E w)) = part w \<and> part (snd (env_now E w)) = part w
     \<and> result_accepted (env_sdk E) (fst (env_uuid E w)) orig)"

lemma result_of_result_exts:
  assumes S: "sdk_laws S" and acc: "result_accepted S uid orig"
    and data: "set_data S ApplicationJSON (JsonValue data) (result_base S uid now orig) = Inr ce" "event_data S ce = data"
  shows "result_of S orig data (result_exts S (kept_meta (Store_All store)) orig ce)"
proof -
  let ?meta = "kept_meta (Store_All store)"
  have ce: "event_id S ce = uid" "event_type S ce = event_type S orig @ ''.result''" "event_source S ce = event_source S orig"
    "extension S ce k = None" for k
    using sdk_set_data [OF S data(1)] by (simp_all add: result_base_frame [OF S acc])
  have "\<not> has_key ?meta ExtCorrelationID" by (simp add: has_key_kept reservedExtensions_def)
  then show ?thesis
    by (auto simp: result_of_def result_exts_frame [OF S] result_exts_data [OF S] result_exts_extension [OF S] ce data(2))
qed

lemma go_wp_publishResult_records:
  assumes S: "sdk_laws (env_sdk E)" and pub: "records sent shows (bare p)" and obs: "observer_keeps sent mx"
    and env: "quiet_env sent E (msg_event (st_msg s))" and json: "stores_json (env_sdk E) data"
    and post: "\<And>w l ev x. result_of (env_sdk E) (msg_event (st_msg s)) data ev \<Longrightarrow> sent w = sent (st_world s) @ [x]
      \<Longrightarrow> shows ev x \<Longrightarrow> Q None (s\<lparr>st_world := w, st_log := l\<rparr>)"
  shows "go_wp (publishResult E mx c data store p) Q X s"
proof -
  let ?S = "env_sdk E" and ?m = "st_msg s"
  obtain uid w1 where uid: "env_uuid E (st_world s) = (uid, w1)" by fastforce
  obtain now w2 where now: "env_now E w1 = (now, w2)" by fastforce
  have w2: "sent w2 = sent (st_world s)" and acc: "result_accepted ?S uid (msg_event ?m)"
    using env uid now unfolding quiet_env_def by (metis fst_conv snd_conv)+
  obtain ce where ce: "set_data ?S ApplicationJSON (JsonValue data) (result_base ?S uid now (msg_event ?m)) = Inr ce"
    and data: "event_data ?S ce = data" using json unfolding stores_json_def by blast
  note ev = result_of_result_exts [OF S acc ce data, of store]
  have publish: "go_wp (pub_Publish E mx p c (result_exts ?S (kept_meta (Store_All store)) (msg_event ?m) ce)) Q X
      (s\<lparr>st_world := w2, st_log := l\<rparr>)" for l
    by (rule go_wp_pub_records [OF pub obs]) (use post [OF ev] in \<open>simp add: w2\<close>)
  have "go_wp (drop_reserved E ?m reservedExtensions (Store_All store))
      (\<lambda>meta. go_wp (pub_Publish E mx p c (result_exts ?S meta (msg_event ?m) ce)) Q X) X (s\<lparr>st_world := w2\<rparr>)"
    by (rule go_wp_drop_reserved_log) (use publish in \<open>simp add: kept_meta_def\<close>)
  then show ?thesis
    by (simp add: publishResult_def go_wps uid now ce)
qed

subsection \<open>Acking\<close>

text \<open>The callback that confirms the message, when there is one, returns and leaves what was sent alone.\<close>

definition ack_keeps :: "('w \<Rightarrow> 'x) \<Rightarrow> 'w delivery \<Rightarrow> bool" where
  "ack_keeps part dl \<longleftrightarrow> (\<forall>f. dl_ack dl = Some f \<longrightarrow> no_panic f \<and> keeps part f)"

lemma go_wp_ack:
  assumes "\<not> msg_once m" and "ack_keeps part (msg_delivery m)"
    and "\<And>err m' w'. msg_outcome m' = OutcomeAcked \<Longrightarrow> part w' = part w \<Longrightarrow> Q err (m', w')"
  shows "go_wp Ack Q X (m, w)"
proof (cases "dl_ack (msg_delivery m)")
  case None
  then show ?thesis using assms(1,3) by (simp add: go_wp_def Ack_def decide_def Let_def)
next
  case (Some f)
  with assms(2) obtain err w' where "f w = (Ret err, w')" and "part w' = part w"
    unfolding ack_keeps_def no_panic_def keeps_def by (metis snd_conv)
  then show ?thesis using assms(1,3) Some by (simp add: go_wp_def Ack_def decide_def Let_def)
qed

lemma go_wp_settle_acked:
  assumes "\<not> msg_once (st_msg s)" and "ack_keeps part (msg_delivery (st_msg s))" and "observer_keeps part mx"
    and "\<And>m w l o'. msg_outcome m = OutcomeAcked \<Longrightarrow> part w = part (st_world s) \<Longrightarrow>
      Q () (s\<lparr>st_msg := m, st_world := w, st_log := l, st_seen := o'\<rparr>)"
  shows "go_wp (settle E mx out r Ack) Q X s"
proof -
  have after: "go_wp (observe E mx (\<lambda>obs. OnMessage obs (msg_ctx m) m out r)) Q X
      (s\<lparr>st_msg := m, st_world := w, st_log := l, st_seen := o'\<rparr>)"
    if "msg_outcome m = OutcomeAcked" "part w = part (st_world s)" for m w l o'
  proof (rule go_wp_observe_keeps [where part = part])
    show "keeps part (OnMessage obs (msg_ctx m) m out r)" if "cfg_Observer (mux_cfg mx) = Some obs" for obs
      using assms(3) that by (simp add: observer_keeps_def)
    show "Q () ((s\<lparr>st_msg := m, st_world := w, st_log := l, st_seen := o'\<rparr>)\<lparr>st_world := w', st_log := l'\<rparr>)"
      if "part w' = part (st_world (s\<lparr>st_msg := m, st_world := w, st_log := l, st_seen := o'\<rparr>))" for w' l'
      using assms(4) [OF \<open>msg_outcome m = OutcomeAcked\<close>, where w = w' and l = l' and o' = o'] that \<open>part w = part (st_world s)\<close> by (cases s) simp
  qed
  have "go_wp (observe E mx (\<lambda>obs. OnMessage obs (msg_ctx m) m out r)) Q X
      (s\<lparr>st_msg := m, st_world := w, st_seen := o'\<rparr>)"
    if "msg_outcome m = OutcomeAcked" "part w = part (st_world s)" for m w o'
    using after [OF that, where l = "st_log s" and o' = o'] by simp
  with after show ?thesis
    unfolding settle_def go_wp_bind go_wp_on_message
    by (intro go_wp_ack [OF assms(1,2)]) (auto simp: go_wps split: option.splits)
qed

lemma go_wp_ack_processed_keeps:
  assumes "\<not> msg_once (st_msg s)" and "ack_keeps part (msg_delivery (st_msg s))" and "observer_keeps part mx"
    and "\<not> cfg_PublishAfterAck (mux_cfg mx)"
    and "\<And>s'. msg_outcome (st_msg s') = OutcomeAcked \<Longrightarrow> part (st_world s') = part (st_world s) \<Longrightarrow> Q () s'"
  shows "go_wp (ack_processed E mx rt m c data store) Q X s"
  unfolding ack_processed_def go_wp_seq
  by (rule go_wp_settle_acked [OF assms(1-3)]) (simp add: go_wps assms(4,5))

subsection \<open>The whole hop\<close>

text \<open>The filters that are asked decide without touching the world, and \<open>rt\<close> is the first that takes \<open>m\<close>.\<close>

definition matches :: "bool \<Rightarrow> ('ev, 'w) message \<Rightarrow> ('ev, 'd, 'w) route \<Rightarrow> bool" where
  "matches b m rt \<longleftrightarrow> (case rt_filter rt of None \<Rightarrow> b | Some f \<Rightarrow> (\<forall>w. flt_Match f m w = (Ret b, w)))"

definition routed :: "('ev, 'd, 'w) route list \<Rightarrow> ('ev, 'w) message \<Rightarrow> ('ev, 'd, 'w) route \<Rightarrow> bool" where
  "routed rts m rt \<longleftrightarrow>
     (\<exists>pre post. rts = pre @ rt # post \<and> (\<forall>r \<in> set pre. matches False m r) \<and> matches True m rt)"

lemma findMatchingRoute_routed:
  assumes "routed rts (st_msg s) rt"
  shows "findMatchingRoute rts s = (Ret (Some rt), s)"
proof -
  obtain pre post where "rts = pre @ rt # post" "\<forall>r \<in> set pre. matches False (st_msg s) r" "matches True (st_msg s) rt"
    using assms unfolding routed_def by blast
  then show ?thesis
    by (induction pre arbitrary: rts) (auto simp: matches_def go_defs split: option.splits)
qed

text \<open>Preflight and chain of a route succeed on a payload with this data, without touching the world.\<close>

definition succeeds :: "('ev, 'w) env \<Rightarrow> ('ev, 'd, 'w) mux \<Rightarrow> ('ev, 'd, 'w) route \<Rightarrow> 'd \<Rightarrow> bytes \<Rightarrow> bool" where
  "succeeds E mx rt payload data \<longleftrightarrow>
     (\<forall>c h. \<exists>h'. invoke E mx rt c payload h = (Ret (Some data, None), h') \<and> h_world h' = h_world h)"

lemma go_wp_processAndHandle_records:
  assumes S: "sdk_laws (env_sdk E)" and pub: "rt_pub rt = Some p" "records sent shows (bare p)" and obs: "observer_keeps sent mx"
    and env: "quiet_env sent E (msg_event (st_msg s))" and json: "stores_json (env_sdk E) data"
    and before: "\<not> cfg_PublishAfterAck (mux_cfg mx)" and m: "\<not> msg_once (st_msg s)" "ack_keeps sent (msg_delivery (st_msg s))"
    and dec: "\<And>w. rt_decode rt (event_data (env_sdk E) (msg_event (st_msg s))) w = (Ret (Inr payload), w)"
    and ok: "succeeds E mx rt payload data"
    and post: "\<And>s' ev x. msg_outcome (st_msg s') = OutcomeAcked \<Longrightarrow> result_of (env_sdk E) (msg_event (st_msg s)) data ev
      \<Longrightarrow> sent (st_world s') = sent (st_world s) @ [x] \<Longrightarrow> shows ev x \<Longrightarrow> Q () s'"
  shows "go_wp (processAndHandle E mx rt) Q X s"
proof -
  have tail: "go_wp (publish_and_ack E mx rt (st_msg s) c (Some data) store) Q X (s\<lparr>st_log := l\<rparr>)" for c store l
    unfolding publish_and_ack_def go_wp_bind
  proof (simp add: before pub(1), rule go_wp_publishResult_records [OF S pub(2) obs _ json])
    show "quiet_env sent E (msg_event (st_msg (s\<lparr>st_log := l\<rparr>)))" using env by simp
    show "go_wp (case None of None \<Rightarrow> ack_processed E mx rt (st_msg s) c (Some data) store
        | Some err \<Rightarrow> fail E mx (classifyPublish mx (st_msg s) err) (wrap_both ErrPublicationFailed err) None) Q X
        (s\<lparr>st_log := l, st_world := w, st_log := l'\<rparr>)"
      if "result_of (env_sdk E) (msg_event (st_msg (s\<lparr>st_log := l\<rparr>))) data ev"
        "sent w = sent (st_world (s\<lparr>st_log := l\<rparr>)) @ [x]" "shows ev x" for w l' ev x
      unfolding option.case
      by (rule go_wp_ack_processed_keeps [where part = sent]) (use that m obs before in \<open>auto intro: post\<close>)
  qed
  let ?run = "\<lambda>c. go_bind (on_handler NewStore (invoke E mx rt c payload)) (\<lambda>((data', herr), store).
        (case herr of
           Some err \<Rightarrow> (case unwrapFailure err of (stack, cause) \<Rightarrow> fail E mx (classify mx (st_msg s) err) cause stack)
         | None \<Rightarrow> publish_and_ack E mx rt (st_msg s) c data' store))"
  have handler: "go_wp (?run c) Q X s" for c
  proof -
    let ?h = "\<lparr>h_world = st_world s, h_store = NewStore, h_log = st_log s\<rparr>"
    obtain h' where run: "invoke E mx rt c payload ?h = (Ret (Some data, None), h')" and same: "h_world h' = st_world s"
      using ok [unfolded succeeds_def] by fastforce
    have "s\<lparr>st_world := st_world s, st_log := l\<rparr> = s\<lparr>st_log := l\<rparr>" for l by simp
    with tail [of c "h_store h'" "h_log h'"] show ?thesis
      by (simp add: on_handler_def go_wps go_wp_def [of "invoke E mx rt c payload"] run same)
  qed
  have "processAndHandle E mx rt s = ?run (NewContext (msg_ctx (st_msg s))) s"
    by (simp add: processAndHandle_def go_bind_def go_get_def on_world_def go_zoom_def dec Let_def pub(1))
  with handler show ?thesis by (simp add: go_wp_def)
qed

lemma hop:
  assumes S: "sdk_laws (env_sdk E)" and m: "m = NewMessage c ce dl" "m' = mint_correlation (env_sdk E) m"
    and route: "routed (mux_routes mx) m' rt" and pub: "rt_pub rt = Some p" "records sent shows (bare p)"
    and obs: "observer_keeps sent mx" and before: "\<not> cfg_PublishAfterAck (mux_cfg mx)" and ack: "ack_keeps sent dl"
    and env: "quiet_env sent E (msg_event m')" and json: "stores_json (env_sdk E) data"
    and dec: "\<And>w. rt_decode rt (event_data (env_sdk E) ce) w = (Ret (Inr payload), w)"
    and ok: "succeeds E mx rt payload data"
  obtains s' ev x where "handle E mx (deliver m w l b) = (Ret (), s')" and "msg_outcome (st_msg s') = OutcomeAcked"
    and "result_of (env_sdk E) (msg_event m') data ev" and "sent (st_world s') = sent w @ [x]" and "shows ev x"
proof -
  define good where "good s' \<longleftrightarrow> msg_outcome (st_msg s') = OutcomeAcked
      \<and> (\<exists>ev x. result_of (env_sdk E) (msg_event m') data ev \<and> sent (st_world s') = sent w @ [x] \<and> shows ev x)" for s' :: "('a, 'b) st"
  have m': "\<not> msg_once m'" "msg_decode_err m' = None" "event_data (env_sdk E) (msg_event m') = event_data (env_sdk E) ce"
    by (simp_all add: m mint_correlation_def NewMessage_def Let_def sdk_set_ext [OF S])
  have del: "ack_keeps sent (msg_delivery m')"
    using ack by (auto simp: ack_keeps_def m mint_correlation_def NewMessage_def Let_def)
  have go: "go_wp (processAndHandle E mx rt) (\<lambda>_. good) (\<lambda>_ _. False)
      \<lparr>st_world = w, st_msg = m', st_log = l', st_warned = b', st_seen = []\<rparr>" for l' b'
    by (rule go_wp_processAndHandle_records [OF S pub obs _ json before])
      (use m' del env ok dec in \<open>auto simp: good_def\<close>)
  have find: "go_wp (findMatchingRoute (mux_routes mx)) (\<lambda>r. go_wp
      (case r of None \<Rightarrow> handleNoRouteFound E mx | Some rt \<Rightarrow> processAndHandle E mx rt) (\<lambda>_. good) (\<lambda>_ _. False)) (\<lambda>_ _. False)
      \<lparr>st_world = w, st_msg = m', st_log = l', st_warned = b', st_seen = []\<rparr>" for l' b'
    using go findMatchingRoute_routed [of "mux_routes mx" "\<lparr>st_world = w, st_msg = m', st_log = l', st_warned = b', st_seen = []\<rparr>" rt] route
    by (simp add: go_wp_def [of "findMatchingRoute rts" for rts])
  have "go_wp (handle E mx) (\<lambda>_. good) (\<lambda>_ _. False) (deliver m w l b)"
    unfolding handle_def go_wp_recover
    by (rule go_wp_mono [of _ "\<lambda>_. good" "\<lambda>_ _. False"])
      (simp_all add: handle_body_def deliver_def go_wps DecodeError_def m' find flip: m(2))
  then obtain s' where "handle E mx (deliver m w l b) = (Ret (), s')" and "good s'"
    by (auto simp: go_wp_def split: prod.splits res.splits)
  with that show thesis unfolding good_def by blast
qed

end
