(* ===== verification/AwsConfig.thy ===== *)
theory AwsConfig
  imports Transport
begin

text \<open>
  \<open>pkg/transport/aws/config.go\<close>: the SDK configuration the AWS clients share.  \<open>load\<close> is
  \<open>config.LoadDefaultConfig\<close>; of its one option the model keeps what it does to the options of the
  adaptive retryer, a list of functions that the SDK applies in order to its standard ones.
\<close>

record standard_options =
  so_MaxAttempts :: int
  so_rest :: "string list"

record adaptive_options =
  ao_StandardOptions :: "(standard_options \<Rightarrow> standard_options) list"

definition maxRetryAttempts :: int where
  "maxRetryAttempts = 8"

definition adaptive_retryer :: "adaptive_options \<Rightarrow> adaptive_options" where
  "adaptive_retryer opts =
     opts\<lparr>ao_StandardOptions := ao_StandardOptions opts @ [\<lambda>so. so\<lparr>so_MaxAttempts := maxRetryAttempts\<rparr>]\<rparr>"

definition NewConfig :: "(ctx \<Rightarrow> (adaptive_options \<Rightarrow> adaptive_options) \<Rightarrow> ('w, goerr + 'c) go) \<Rightarrow> ('w, goerr + 'c) go" where
  "NewConfig load =
     go_bind (load Background adaptive_retryer) (\<lambda>r. (case r of
        Inl err \<Rightarrow> go_ret (Inl (wrap_prefix ''failed to load AWS config'' err))
      | Inr cfg \<Rightarrow> go_ret (Inr cfg)))"

text \<open>
  The attempts of the retryer are eight whatever options the SDK had before, and nothing else of the
  standard options changes by it.
\<close>

lemma retryer_attempts:
  "so_MaxAttempts (foldl (\<lambda>so f. f so) so (ao_StandardOptions (adaptive_retryer opts))) = 8"
  "so_rest (foldl (\<lambda>so f. f so) so (ao_StandardOptions (adaptive_retryer opts)))
     = so_rest (foldl (\<lambda>so f. f so) so (ao_StandardOptions opts))"
  by (simp_all add: adaptive_retryer_def maxRetryAttempts_def)

lemma NewConfig_error:
  "NewConfig load w = (Ret (Inl e), w') \<longleftrightarrow>
     (\<exists>err. load Background adaptive_retryer w = (Ret (Inl err), w') \<and> e = wrap_prefix ''failed to load AWS config'' err)"
  by (auto simp: NewConfig_def go_bind_def go_ret_def split: prod.splits res.splits sum.splits)

end
