(* ===== verification/Example.thy ===== *)
theory Example
  imports Mux Jmespath Skiperr HttpClient Eventhttp Pubsub Fxmux
begin

text \<open>
  \<open>example\<close>: the demonstration service that wires the library on HTTP and Pub/Sub; its payload and
  handlers, its Observer, the constructors of its parts, its four routes and the order in which it
  starts and stops.

  The environment is a function from names to values, unset ones being empty.  Parameters are the
  JSON decoder of the payload, the validator, the logging library and the HTTP server.
\<close>

subsection \<open>handlers.go\<close>

record person =
  person_Name :: string
  person_Age :: i64

definition ErrInvalidObject :: goerr where
  "ErrInvalidObject = Sentinel ''ErrInvalidObject'' ''invalid object''"

definition ErrDataNotFound :: goerr where
  "ErrDataNotFound = Sentinel ''ErrDataNotFound'' ''data not found but not critical''"

text \<open>
  \<open>json.Marshal\<close> (version 2) of a person: a quoted string escapes the quote, the backslash and control
  characters, and a string that is not UTF-8 is an error, \<open>bad\<close>.
\<close>

definition json_quote :: char where
  "json_quote = CHR 0x22"

definition json_backslash :: char where
  "json_backslash = CHR 0x5C"

definition json_char :: "char \<Rightarrow> string" where
  "json_char c =
     (if c = json_quote \<or> c = json_backslash then [json_backslash, c]
      else if byte c = 8 then json_backslash # ''b''
      else if byte c = 12 then json_backslash # ''f''
      else if byte c = 10 then json_backslash # ''n''
      else if byte c = 13 then json_backslash # ''r''
      else if byte c = 9 then json_backslash # ''t''
      else if byte c < 32 then json_backslash # ''u00'' @ [hex_digit (byte c div 16), hex_digit (byte c mod 16)]
      else [c])"

definition json_string :: "string \<Rightarrow> string" where
  "json_string s = json_quote # concat (map json_char s) @ [json_quote]"

definition json_Marshal :: "goerr \<Rightarrow> person \<Rightarrow> goerr + bytes" where
  "json_Marshal bad p =
     (if \<not> valid_utf8 (person_Name p) then Inl bad
      else Inr (''{'' @ json_string ''name'' @ '':'' @ json_string (person_Name p)
        @ '','' @ json_string ''age'' @ '':'' @ show_int (sint (person_Age p)) @ ''}''))"

text \<open>Setting entries of the store that the context reaches, if it reaches one.\<close>

definition store_Sets :: "ctx \<Rightarrow> (string \<times> string) list \<Rightarrow> ('w henv, unit) go" where
  "store_Sets c kvs = go_modify (\<lambda>h. (case FromContext c (h_store h) of
     None \<Rightarrow> h | Some b \<Rightarrow> h\<lparr>h_store := fold (\<lambda>(k, v). Store_Set k v) kvs b\<rparr>))"

type_synonym 'w use_fn = "ctx \<Rightarrow> person \<Rightarrow> ('w henv, bytes option \<times> goerr option) go"

definition example_Execute :: "goerr \<Rightarrow> 'w use_fn" where
  "example_Execute bad c evt =
     (let evt = evt\<lparr>person_Age := person_Age evt + 10\<rparr> in
      go_seq (store_Sets c [(''eventName'', ''execute'')])
      (go_seq (h_log_add \<lparr>log_level = LevelInfo, log_message = ''pubsub event processed'', log_attrs = []\<rparr>)
      (go_ret (case json_Marshal bad evt of Inl err \<Rightarrow> (None, Some err) | Inr data \<Rightarrow> (Some data, None)))))"

definition example_Command :: "goerr \<Rightarrow> 'w use_fn" where
  "example_Command bad c evt =
     go_seq (store_Sets c [(''eventName'', ''command''), (''name'', person_Name evt)])
     (go_seq (h_log_add \<lparr>log_level = LevelInfo, log_message = ''http command processed'', log_attrs = []\<rparr>)
     (go_ret (case json_Marshal bad evt of
        Inl err \<Rightarrow> (None, Some (wrap_prefix ''marshal person'' err)) | Inr data \<Rightarrow> (Some data, None))))"

text \<open>The use case the routes are given.\<close>

record 'w UseCase =
  uc_Execute :: "'w use_fn"
  uc_Command :: "'w use_fn"

definition NewHandler :: "goerr \<Rightarrow> 'w UseCase" where
  "NewHandler bad = \<lparr>uc_Execute = example_Execute bad, uc_Command = example_Command bad\<rparr>"

subsection \<open>observer.go\<close>

definition keyOutcomeCount :: string where
  "keyOutcomeCount = ''example.outcome.count''"

type_synonym outcomeKey = "string \<times> log_outcome"

record 'w outcomeCounter =
  oc_logger :: logger
  oc_counts :: "(outcomeKey \<times> u64) list"
  oc_world :: 'w

definition NewObserver :: "logger option \<Rightarrow> 'w \<Rightarrow> 'w outcomeCounter" where
  "NewObserver lg w = \<lparr>oc_logger = Component lg ''observer'', oc_counts = [], oc_world = w\<rparr>"

text \<open>A missing entry of a map of numbers reads as zero.\<close>

definition count_of :: "(outcomeKey \<times> u64) list \<Rightarrow> outcomeKey \<Rightarrow> u64" where
  "count_of counts key = (case map_of counts key of Some n \<Rightarrow> n | None \<Rightarrow> 0)"

definition oc_emit :: "('ev, 'w) surroundings \<Rightarrow> log_level \<Rightarrow> string \<Rightarrow> log_attr list \<Rightarrow> ('w outcomeCounter, unit) go" where
  "oc_emit W lvl text attrs = go_bind (go_get oc_logger) (\<lambda>lg.
     go_zoom oc_world (\<lambda>w oc. oc\<lparr>oc_world := w\<rparr>) (emit W lg lvl text attrs))"

definition counter_OnMessage :: "('ev, 'w) surroundings \<Rightarrow> ctx \<Rightarrow> ('ev, 'v) message \<Rightarrow> log_outcome \<Rightarrow> reason option
    \<Rightarrow> ('w outcomeCounter, unit) go" where
  "counter_OnMessage W c msg out r =
     (let ty = event_type (tp_sdk W) (msg_event msg); key = (ty, out) in
      go_bind (go_get oc_counts) (\<lambda>counts.
      (let n = count_of counts key + 1 in
       go_seq (go_modify (\<lambda>oc. oc\<lparr>oc_counts := AList.update key n counts\<rparr>))
         (oc_emit W LevelDebug ''message observed''
           ([AStr KeyCloudEventsType ty, outcome_Attr out]
            @ (case r of None \<Rightarrow> [] | Some r \<Rightarrow> [AStr KeyDeadLetterReason (reason_string r)])
            @ [AUint keyOutcomeCount n])))))"

text \<open>\<open>error_key\<close> is \<open>logging.KeyErrorMessage\<close>.\<close>

definition counter_OnPublish :: "('ev, 'w) surroundings \<Rightarrow> string \<Rightarrow> ctx \<Rightarrow> 'ev \<Rightarrow> goerr option
    \<Rightarrow> ('w outcomeCounter, unit) go" where
  "counter_OnPublish W error_key c ce err =
     (case err of
        None \<Rightarrow> go_ret ()
      | Some e \<Rightarrow> oc_emit W LevelWarn ''publish observed failing''
          [AStr KeyCloudEventsType (event_type (tp_sdk W) ce), AStr KeyMessagingMessageID (event_id (tp_sdk W) ce),
           AStr error_key (err_text e)])"

subsection \<open>module.go: the environment\<close>

definition envProjectID :: string where
  "envProjectID = ''GCP_PROJECT_ID''"

definition envSubscription :: string where
  "envSubscription = ''EVT_SUBSCRIPTION''"

definition envPublishTopic :: string where
  "envPublishTopic = ''EVT_PUBLISH''"

definition envWebhookURL :: string where
  "envWebhookURL = ''WEBHOOK_URL''"

definition envLogLevel :: string where
  "envLogLevel = ''LOG_LEVEL''"

definition envServiceName :: string where
  "envServiceName = ''SERVICE_NAME''"

definition envServiceVer :: string where
  "envServiceVer = ''SERVICE_VERSION''"

definition envEnvironment :: string where
  "envEnvironment = ''ENVIRONMENT''"

definition envHTTPAddr :: string where
  "envHTTPAddr = ''HTTP_ADDR''"

type_synonym environment = "string \<Rightarrow> string"

definition getenvDefault :: "environment \<Rightarrow> string \<Rightarrow> string \<Rightarrow> string" where
  "getenvDefault env key fallback = (if env key \<noteq> [] then env key else fallback)"

definition ProjectID :: "environment \<Rightarrow> string" where
  "ProjectID env = env envProjectID"

definition PublishTopic :: "environment \<Rightarrow> string" where
  "PublishTopic env = env envPublishTopic"

definition SubscriptionID :: "environment \<Rightarrow> string" where
  "SubscriptionID env = env envSubscription"

definition WebhookURL :: "environment \<Rightarrow> string" where
  "WebhookURL env = env envWebhookURL"

subsection \<open>module.go: the parts\<close>

text \<open>What the logging library is told; \<open>mk\<close> is \<open>logging.New\<close>.\<close>

record log_settings =
  ls_service :: string
  ls_version :: string
  ls_environment :: string
  ls_level :: log_level

definition NewLogger :: "(log_settings \<Rightarrow> logger) \<Rightarrow> environment \<Rightarrow> logger" where
  "NewLogger mk env =
     mk \<lparr>ls_service = getenvDefault env envServiceName ''event-driven-example'',
         ls_version = getenvDefault env envServiceVer ''dev'',
         ls_environment = getenvDefault env envEnvironment ''local'',
         ls_level = (if ascii_lower (env envLogLevel) = ''debug'' then LevelDebug else LevelInfo)\<rparr>"

text \<open>\<open>connect\<close> is \<open>gpubsub.NewClient\<close>.\<close>

definition NewPubSubClient :: "(string \<Rightarrow> ('w, goerr + 'c) go) \<Rightarrow> environment \<Rightarrow> ('w, goerr + 'c) go" where
  "NewPubSubClient connect env =
     (if env envProjectID = [] then go_ret (Inl (errors_new (envProjectID @ '' is not set'')))
      else go_bind (connect (env envProjectID)) (\<lambda>r. go_ret (case r of
        Inl err \<Rightarrow> Inl (wrap_prefix ''pubsub client'' err) | Inr client \<Rightarrow> Inr client)))"

definition NewAppSubscription :: "'w pubsub_client \<Rightarrow> environment \<Rightarrow> logger option \<Rightarrow> 'w
    \<Rightarrow> goerr + 'w pubsub_subscriber" where
  "NewAppSubscription client env lg w =
     (case pubsub_NewSubscriber (Some client) \<lparr>pc_SubscriptionID = env envSubscription,
         pc_MaxOutstandingMessages = 50, pc_MaxOutstandingBytes = 0, pc_NumGoroutines = 10,
         pc_MaxExtension = 60 * 10 ^ 9\<rparr> lg w of
        Inl err \<Rightarrow> Inl (wrap_prefix ''example: new pubsub subscriber'' err)
      | Inr sub \<Rightarrow> Inr sub)"

definition NewEventPublisher :: "('ev, 'w) surroundings \<Rightarrow> (string \<Rightarrow> 'w topic_publisher) \<Rightarrow> environment \<Rightarrow> logger
    \<Rightarrow> ('w, goerr + 'w pubsub_publisher option) go" where
  "NewEventPublisher W client env lg =
     (let topic = env envPublishTopic in
      if topic = [] then
        go_seq (emit W lg LevelInfo ''result publisher disabled'' []) (go_ret (Inr None))
      else (case pubsub_NewPublisher (Some client) topic (Some lg) of
        Inl err \<Rightarrow> go_ret (Inl (wrap_prefix ''example: new pubsub publisher'' err))
      | Inr pub \<Rightarrow> go_ret (Inr (Some pub))))"

text \<open>The interface value a route gets: nil when there is no publisher.\<close>

definition NewResultPublisher :: "('ev, 'w) surroundings \<Rightarrow> 'w pubsub_publisher option \<Rightarrow> ('ev, 'w) publisher option" where
  "NewResultPublisher W p = (case p of None \<Rightarrow> None | Some p \<Rightarrow> Some (pubsub_Publish W p))"

definition NewHTTPSubscriber :: "(goerr \<Rightarrow> string option) \<Rightarrow> logger option \<Rightarrow> 'w
    \<Rightarrow> goerr + ('ev, 'w) http_subscriber" where
  "NewHTTPSubscriber foreign lg w =
     (case http_NewSubscriber foreign True \<lparr>hc_Pattern = ''POST /command'', hc_DefaultType = ''http.command'',
         hc_MaxBodyBytes = 0, hc_ErrorRules = []\<rparr> lg w of
        Inl err \<Rightarrow> Inl (wrap_prefix ''example: new http subscriber'' err)
      | Inr sub \<Rightarrow> Inr sub)"

text \<open>\<open>mk\<close> builds the server component for an address.\<close>

definition NewHTTPServer :: "(string \<Rightarrow> 'c) \<Rightarrow> environment \<Rightarrow> 'c" where
  "NewHTTPServer mk env = mk (getenvDefault env envHTTPAddr '':8880'')"

subsection \<open>module.go: the program and its routers\<close>

text \<open>
  What the parts share: both routers, the world, the records the routers write, and the \<open>once\<close> of the
  two closers.  The payload type of every route is \<open>person\<close>.
\<close>

record ('ev, 'w) program =
  pg_HTTPMux :: "('ev, person, 'w) mux"
  pg_PubSubMux :: "('ev, person, 'w) mux"
  pg_world :: 'w
  pg_log :: "logrec list"
  pg_client_closed :: bool
  pg_publisher_closed :: bool

definition on_HTTPMux :: "(('ev, person, 'w) app, 'a) go \<Rightarrow> (('ev, 'w) program, 'a) go" where
  "on_HTTPMux = go_zoom (\<lambda>s. \<lparr>app_mux = pg_HTTPMux s, app_world = pg_world s, app_log = pg_log s\<rparr>)
     (\<lambda>a s. s\<lparr>pg_HTTPMux := app_mux a, pg_world := app_world a, pg_log := app_log a\<rparr>)"

definition on_PubSubMux :: "(('ev, person, 'w) app, 'a) go \<Rightarrow> (('ev, 'w) program, 'a) go" where
  "on_PubSubMux = go_zoom (\<lambda>s. \<lparr>app_mux = pg_PubSubMux s, app_world = pg_world s, app_log = pg_log s\<rparr>)
     (\<lambda>a s. s\<lparr>pg_PubSubMux := app_mux a, pg_world := app_world a, pg_log := app_log a\<rparr>)"

text \<open>\<open>New\<close>, then the methods that register what the router runs; \<open>what\<close> names the router in an error.\<close>

definition setup_mux :: "string \<Rightarrow> ('ev, 'w) config \<Rightarrow> (('ev, person, 'w) app, unit) go
    \<Rightarrow> ('w \<times> logrec list, goerr + ('ev, person, 'w) mux) go" where
  "setup_mux what cfg method = (\<lambda>(w, l). (case New cfg of
     Inl err \<Rightarrow> (Ret (Inl (wrap_prefix what err)), (w, l))
   | Inr mx \<Rightarrow> (case method \<lparr>app_mux = mx, app_world = w, app_log = l\<rparr> of
       (Ret u, a) \<Rightarrow> (Ret (Inr (app_mux a)), (app_world a, app_log a))
     | (Panic p, a) \<Rightarrow> (Panic p, (app_world a, app_log a)))))"

text \<open>\<open>debug\<close> is the logger's answer for DEBUG.\<close>

definition example_config :: "string \<Rightarrow> 'w subscription option \<Rightarrow> bool \<Rightarrow> ('ev, 'w) observer \<Rightarrow> ('ev, 'w) config" where
  "example_config name sub debug obs = \<lparr>cfg_Name = name, cfg_Subscription = sub, cfg_DebugEnabled = debug,
     cfg_MaxRetries = 0, cfg_DeadLetter = None, cfg_PublishAfterAck = False, cfg_Observer = Some obs\<rparr>"

definition NewHTTPMux :: "(person \<Rightarrow> goerr option) \<Rightarrow> 'w subscription option \<Rightarrow> bool \<Rightarrow> ('ev, 'w) observer
    \<Rightarrow> ('w \<times> logrec list, goerr + ('ev, person, 'w) mux) go" where
  "NewHTTPMux validator sub debug obs =
     setup_mux ''example'' (example_config ''http-mux'' sub debug obs) (UsePreflight [validate_New validator])"

definition NewPubSubMux :: "'w subscription option \<Rightarrow> bool \<Rightarrow> ('ev, 'w) observer
    \<Rightarrow> ('w \<times> logrec list, goerr + ('ev, person, 'w) mux) go" where
  "NewPubSubMux sub debug obs =
     setup_mux ''example'' (example_config ''pubsub-mux'' sub debug obs)
       (Use [Skipper_Middleware (Skipper_New
          [ByErr ''ErrInvalidObject'' ''ErrInvalidObject'', ByErr ''ErrDataNotFound'' ''ErrDataNotFound''])])"

subsection \<open>events.go: the routes\<close>

definition person_type :: "(bytes \<Rightarrow> goerr + person) \<Rightarrow> (person, person, 'w) gotype" where
  "person_type unmarshal = \<lparr>ty_name = ''example.Person'', ty_unmarshal = (\<lambda>b. go_ret (unmarshal b)),
     ty_any = (\<lambda>p. p), ty_assert = Some, ty_dynamic = (\<lambda>_. ''example.Person'')\<rparr>"

definition webhook_config :: "environment \<Rightarrow> 'w http_pub_config" where
  "webhook_config env = \<lparr>hp_TargetURL = WebhookURL env, hp_Timeout = 5 * 10 ^ 9, hp_Headers = [],
     hp_TokenProvider = None, hp_TokenHeader = [], hp_Retry = None, hp_UserAgent = []\<rparr>"

definition webhook_expression :: string where
  "webhook_expression = ''contains(['webhook', 'pepe'], name)''"

text \<open>The filters are new pointers; the numbers tell them apart.\<close>

definition RegisterEventHandlers :: "('ev, 'w) surroundings \<Rightarrow> net_url \<Rightarrow> build_info option \<Rightarrow> 'w resty_lib
    \<Rightarrow> 'j jmes_engine \<Rightarrow> (bytes \<Rightarrow> goerr + person) \<Rightarrow> environment \<Rightarrow> ('ev, 'w) publisher option \<Rightarrow> 'w UseCase
    \<Rightarrow> logger option \<Rightarrow> (('ev, 'w) program, goerr option) go" where
  "RegisterEventHandlers W N bi R J unmarshal env pubsubPub uc lg =
     (let S = tp_sdk W; T = person_type unmarshal in
      (case http_NewPublisher N bi (webhook_config env) lg of
         Inl err \<Rightarrow> go_ret (Some (wrap_prefix ''example: webhook publisher'' err))
       | Inr pub \<Rightarrow>
           (let webhookPub = http_Publish W R pub in
           (case jmespath_New J W 0 webhook_expression lg of
              Inl err \<Rightarrow> go_ret (Some (wrap_prefix ''example: webhook filter'' err))
            | Inr webhookFilter \<Rightarrow>
                go_seq (on_HTTPMux (Handle T pubsubPub (Some (ByType S 1 [''http.command''])) (uc_Command uc)))
                (go_seq (on_HTTPMux (Handle T (Some webhookPub)
                   (Some (FilterAll 3 [ByType S 2 [''http.command.webhook''], webhookFilter])) (uc_Command uc)))
                (go_seq (on_PubSubMux (Handle T (Some webhookPub) (Some (ByType S 4 [''http.command.result'']))
                   (uc_Execute uc)))
                (go_seq (on_PubSubMux (Handle T pubsubPub
                   (Some (ByType S 5 [''com.example.person.created'', ''com.example.person.updated''])) (uc_Execute uc)))
                (go_ret None))))))))"

subsection \<open>module.go: start and stop\<close>

definition HTTPMux_component :: "('ev, 'w) program component" where
  "HTTPMux_component = \<lparr>cp_Start = (\<lambda>c. on_HTTPMux (mux_Start c)), cp_Stop = (\<lambda>c. on_HTTPMux (mux_Stop c))\<rparr>"

definition PubSubMux_component :: "('ev, 'w) program component" where
  "PubSubMux_component = \<lparr>cp_Start = (\<lambda>c. on_PubSubMux (mux_Start c)), cp_Stop = (\<lambda>c. on_PubSubMux (mux_Stop c))\<rparr>"

text \<open>
  A closer keeps its \<open>once\<close> in the program; \<open>expired\<close> says that the context of a \<open>Stop\<close> ends before the
  function returns.
\<close>

definition closer_component :: "(('ev, 'w) program \<Rightarrow> bool) \<Rightarrow> (bool \<Rightarrow> ('ev, 'w) program \<Rightarrow> ('ev, 'w) program)
    \<Rightarrow> (ctx \<Rightarrow> goerr option) \<Rightarrow> ('w, goerr option) go \<Rightarrow> ('ev, 'w) program component" where
  "closer_component used set_used expired fn =
     (let on = (\<lambda>m. go_zoom (\<lambda>s. \<lparr>cl_ran = used s, cl_world = pg_world s\<rparr>)
        (\<lambda>cl s. set_used (cl_ran cl) (s\<lparr>pg_world := cl_world cl\<rparr>)) m)
      in \<lparr>cp_Start = (\<lambda>c. on closer_Start), cp_Stop = (\<lambda>c. on (closer_Stop fn (expired c)))\<rparr>)"

definition server_component :: "'w component \<Rightarrow> ('ev, 'w) program component" where
  "server_component server =
     (let on = (\<lambda>m. go_zoom pg_world (\<lambda>w s. s\<lparr>pg_world := w\<rparr>) m)
      in \<lparr>cp_Start = (\<lambda>c. on (cp_Start server c)), cp_Stop = (\<lambda>c. on (cp_Stop server c))\<rparr>)"

record 'w LifecycleParams =
  lp_Close :: "('w, goerr option) go"
  lp_Publisher :: "'w pubsub_publisher option"
  lp_Server :: "'w component"

definition BindLifecycle :: "(ctx \<Rightarrow> goerr option) \<Rightarrow> 'w LifecycleParams \<Rightarrow> ('ev, 'w) program
    \<Rightarrow> ('ev, 'w) program fx_hook res \<times> ('ev, 'w) program grp" where
  "BindLifecycle expired p s =
     (go_seq (Add ''pubsub-client'' (Some (closer_component pg_client_closed (\<lambda>b. pg_client_closed_update (\<lambda>_. b))
        expired (lp_Close p))))
     (go_seq (case lp_Publisher p of
        None \<Rightarrow> go_ret ()
      | Some pub \<Rightarrow> Add ''pubsub-publisher'' (Some (closer_component pg_publisher_closed
          (\<lambda>b. pg_publisher_closed_update (\<lambda>_. b)) expired (pubsub_Close pub))))
     (go_seq (Add (mux_Name (pg_PubSubMux s)) (Some PubSubMux_component))
     (go_seq (Add (mux_Name (pg_HTTPMux s)) (Some HTTPMux_component))
     (go_seq (Add ''http-server'' (Some (server_component (lp_Server p))))
     (go_ret BindGroup)))))) (NewGroup 0 s)"

subsection \<open>cmd/main.go: health\<close>

definition example_checker :: "'w health_client \<Rightarrow> environment \<Rightarrow> 'w health_checker" where
  "example_checker client env =
     NewHealthChecker client (ProjectID env) [WithTopics [PublishTopic env], WithSubscriptions [SubscriptionID env]]"

end
