(* ===== verification/ExampleNats.thy ===== *)
theory ExampleNats
  imports Example Jetstream Natsconn
begin

text \<open>
  \<open>example/nats\<close>: the demonstration of an HTTP to JetStream round trip in one program.  Its payload,
  validator and logging are those of \<open>Example\<close>; the JetStream client, the connection and the HTTP
  server are parameters.
\<close>

subsection \<open>Names\<close>

definition natsStream :: string where
  "natsStream = ''EVENTS''"

definition natsSubjects :: string where
  "natsSubjects = ''events.>''"

definition subjectNS :: string where
  "subjectNS = ''events''"

definition envNATSURL :: string where
  "envNATSURL = ''NATS_URL''"

definition nats_newLogger :: "(log_settings \<Rightarrow> logger) \<Rightarrow> environment \<Rightarrow> logger" where
  "nats_newLogger mk env =
     mk \<lparr>ls_service = getenvDefault env envServiceName ''event-driven-nats-example'',
         ls_version = getenvDefault env envServiceVer ''dev'',
         ls_environment = getenvDefault env envEnvironment ''local'',
         ls_level = (if ascii_lower (env envLogLevel) = ''debug'' then LevelDebug else LevelInfo)\<rparr>"

subsection \<open>Publisher and subscriber\<close>

text \<open>The subject it is given is ignored.\<close>

definition subjectFromType :: "'w nats_lib \<Rightarrow> 'ev codec \<Rightarrow> 'ev nats_marshaler" where
  "subjectFromType L C subject ce =
     (case nats_Marshal L C (subjectNS @ ''.'' @ event_type (cd_sdk C) ce) ce of
        Inl err \<Rightarrow> Inl (wrap_prefix ''subject-from-type marshal'' err)
      | Inr msg \<Rightarrow> Inr msg)"

definition newPublisher :: "('ev, 'w) surroundings \<Rightarrow> 'w nats_lib \<Rightarrow> 'w js_publish_api \<Rightarrow> logger option
    \<Rightarrow> goerr + ('ev, 'w) js_publisher" where
  "newPublisher W L js lg =
     (case js_NewPublisher W L (Some js) \<lparr>jc_Subject = subjectNS, jc_Marshaler = Some (subjectFromType L (tp_codec W)),
         jc_AckAsync = False, jc_TrackMsgID = False, jc_PublishOpts = []\<rparr> lg of
        Inl err \<Rightarrow> Inl (wrap_prefix ''new nats publisher'' err)
      | Inr pub \<Rightarrow> Inr pub)"

text \<open>\<open>storage\<close> stands for the fields of the stream configuration that only the server reads.\<close>

definition newSubscriber :: "'w js_client \<Rightarrow> string \<Rightarrow> logger option \<Rightarrow> 'w \<Rightarrow> goerr + 'w js_subscriber" where
  "newSubscriber js storage lg w =
     (case js_NewSubscriber (Some js) \<lparr>jcf_Stream = natsStream, jcf_FilterSubject = natsSubjects,
         jcf_MaxOutstandingMessages = 50, jcf_MaxOutstandingBytes = 0, jcf_AckWait = 0, jcf_MaxDeliver = 0,
         jcf_NakDelay = 0, jcf_InactiveThreshold = 0, jcf_ConsumerName = [],
         jcf_StreamConfig = Some \<lparr>stc_Name = natsStream, stc_Rest = storage\<rparr>\<rparr> lg w of
        Inl err \<Rightarrow> Inl (wrap_prefix ''new nats subscriber'' err)
      | Inr sub \<Rightarrow> Inr sub)"

subsection \<open>The routers\<close>

definition nats_config :: "string \<Rightarrow> 'w subscription option \<Rightarrow> bool \<Rightarrow> ('ev, 'w) config" where
  "nats_config name sub debug = \<lparr>cfg_Name = name, cfg_Subscription = sub, cfg_DebugEnabled = debug,
     cfg_MaxRetries = 0, cfg_DeadLetter = None, cfg_PublishAfterAck = False, cfg_Observer = None\<rparr>"

definition nats_command :: "goerr \<Rightarrow> 'w use_fn" where
  "nats_command bad c p =
     go_seq (h_log_add \<lparr>log_level = LevelInfo, log_message = ''http command published to nats'', log_attrs = []\<rparr>)
     (go_ret (case json_Marshal bad p of
        Inl err \<Rightarrow> (None, Some (wrap_prefix ''marshal person'' err)) | Inr data \<Rightarrow> (Some data, None)))"

definition nats_received :: "'w use_fn" where
  "nats_received c p =
     go_seq (h_log_add \<lparr>log_level = LevelInfo, log_message = ''nats event received'', log_attrs = []\<rparr>)
     (go_ret (None, None))"

definition newHTTPMux :: "'ev sdk \<Rightarrow> (bytes \<Rightarrow> goerr + person) \<Rightarrow> (person \<Rightarrow> goerr option) \<Rightarrow> goerr
    \<Rightarrow> 'w subscription option \<Rightarrow> bool \<Rightarrow> ('ev, 'w) publisher \<Rightarrow> ('w \<times> logrec list, goerr + ('ev, person, 'w) mux) go" where
  "newHTTPMux S unmarshal validator bad sub debug pub =
     setup_mux ''new http mux'' (nats_config ''http-mux'' sub debug)
       (go_seq (UsePreflight [validate_New validator])
         (Handle (person_type unmarshal) (Some pub) (Some (ByType S 0 [''http.command.nats''])) (nats_command bad)))"

definition newNatsMux :: "'ev sdk \<Rightarrow> (bytes \<Rightarrow> goerr + person) \<Rightarrow> 'w subscription option \<Rightarrow> bool
    \<Rightarrow> ('w \<times> logrec list, goerr + ('ev, person, 'w) mux) go" where
  "newNatsMux S unmarshal sub debug =
     setup_mux ''new nats mux'' (nats_config ''nats-mux'' sub debug)
       (Handle (person_type unmarshal) None (Some (ByType S 1 [''http.command.nats.result''])) nats_received)"

subsection \<open>run\<close>

text \<open>What the components of the group share.\<close>

record ('ev, 'w) nats_program =
  np_HTTPMux :: "('ev, person, 'w) mux"
  np_NatsMux :: "('ev, person, 'w) mux"
  np_world :: 'w
  np_log :: "logrec list"
  np_conn :: "'w conn"

definition np_on_HTTPMux :: "(('ev, person, 'w) app, 'a) go \<Rightarrow> (('ev, 'w) nats_program, 'a) go" where
  "np_on_HTTPMux = go_zoom (\<lambda>s. \<lparr>app_mux = np_HTTPMux s, app_world = np_world s, app_log = np_log s\<rparr>)
     (\<lambda>a s. s\<lparr>np_HTTPMux := app_mux a, np_world := app_world a, np_log := app_log a\<rparr>)"

definition np_on_NatsMux :: "(('ev, person, 'w) app, 'a) go \<Rightarrow> (('ev, 'w) nats_program, 'a) go" where
  "np_on_NatsMux = go_zoom (\<lambda>s. \<lparr>app_mux = np_NatsMux s, app_world = np_world s, app_log = np_log s\<rparr>)
     (\<lambda>a s. s\<lparr>np_NatsMux := app_mux a, np_world := app_world a, np_log := app_log a\<rparr>)"

text \<open>The connection works on the world of the program.\<close>

definition np_on_conn :: "('w conn, 'a) go \<Rightarrow> (('ev, 'w) nats_program, 'a) go" where
  "np_on_conn = go_zoom (\<lambda>s. (np_conn s)\<lparr>cn_world := np_world s\<rparr>)
     (\<lambda>cn s. s\<lparr>np_conn := cn, np_world := cn_world cn\<rparr>)"

definition nats_group :: "(ctx \<Rightarrow> ('w conn, goerr option) go) \<Rightarrow> 'w component \<Rightarrow> ('ev, 'w) nats_program
    \<Rightarrow> unit res \<times> ('ev, 'w) nats_program grp" where
  "nats_group await server s =
     (go_seq (Add ''nats'' (Some \<lparr>cp_Start = (\<lambda>c. np_on_conn (conn_Start c)),
        cp_Stop = (\<lambda>c. np_on_conn (conn_Stop await c))\<rparr>))
     (go_seq (Add (mux_Name (np_NatsMux s)) (Some \<lparr>cp_Start = (\<lambda>c. np_on_NatsMux (mux_Start c)),
        cp_Stop = (\<lambda>c. np_on_NatsMux (mux_Stop c))\<rparr>))
     (go_seq (Add (mux_Name (np_HTTPMux s)) (Some \<lparr>cp_Start = (\<lambda>c. np_on_HTTPMux (mux_Start c)),
        cp_Stop = (\<lambda>c. np_on_HTTPMux (mux_Stop c))\<rparr>))
     (Add ''http-server'' (Some \<lparr>cp_Start = (\<lambda>c. go_zoom np_world (\<lambda>w s. s\<lparr>np_world := w\<rparr>) (cp_Start server c)),
        cp_Stop = (\<lambda>c. go_zoom np_world (\<lambda>w s. s\<lparr>np_world := w\<rparr>) (cp_Stop server c))\<rparr>))))) (NewGroup 0 s)"

text \<open>
  What \<open>run\<close> takes from its surroundings: the libraries, \<open>nats.Connect\<close> and \<open>jetstream.New\<close>, the wait for
  a closed connection, and the interface values of the two subscribers.
\<close>

record ('ev, 'w) nats_deps =
  nd_W :: "('ev, 'w) surroundings"
  nd_L :: "'w nats_lib"
  nd_N :: net_url
  nd_trim :: "string \<Rightarrow> string"
  nd_default_url :: string
  nd_connect :: "string \<Rightarrow> string \<Rightarrow> int \<Rightarrow> ('w, goerr + ('w, goerr option) go) go"
  nd_jetstream :: "'w conn \<Rightarrow> goerr + 'w js_publish_api \<times> 'w js_client"
  nd_await :: "ctx \<Rightarrow> ('w conn, goerr option) go"
  nd_storage :: string
  nd_foreign :: "goerr \<Rightarrow> string option"
  nd_unmarshal :: "bytes \<Rightarrow> goerr + person"
  nd_validator :: "person \<Rightarrow> goerr option"
  nd_bad :: goerr
  nd_debug :: bool
  nd_js_iface :: "'w js_subscriber \<Rightarrow> 'w subscription"
  nd_http_iface :: "('ev, 'w) http_subscriber \<Rightarrow> 'w subscription"
  nd_server :: "string \<Rightarrow> 'w component"

text \<open>The state is the world and the records of the routers; an error ends the set-up where it happens.\<close>

definition on_world_part :: "('w, 'a) go \<Rightarrow> ('w \<times> 'l, 'a) go" where
  "on_world_part = go_zoom fst (\<lambda>w (_, l). (w, l))"

definition or_return :: "('s, goerr + 'a) go \<Rightarrow> ('a \<Rightarrow> ('s, goerr + 'b) go) \<Rightarrow> ('s, goerr + 'b) go" where
  "or_return m f = go_bind m (\<lambda>r. (case r of Inl err \<Rightarrow> go_ret (Inl err) | Inr a \<Rightarrow> f a))"

definition nats_routers :: "('ev, 'w) nats_deps \<Rightarrow> logger \<Rightarrow> 'w js_publish_api \<Rightarrow> 'w js_client
    \<Rightarrow> ('w \<times> logrec list, goerr + ('ev, person, 'w) mux \<times> ('ev, person, 'w) mux) go" where
  "nats_routers D lg api client =
     or_return (go_ret (newPublisher (nd_W D) (nd_L D) api (Some lg))) (\<lambda>pub.
     or_return (go_get (\<lambda>(w, l). newSubscriber client (nd_storage D) (Some lg) w)) (\<lambda>natsSub.
     or_return (go_get (\<lambda>(w, l). (case http_NewSubscriber (nd_foreign D) True \<lparr>hc_Pattern = ''POST /publish'',
         hc_DefaultType = ''http.command.nats'', hc_MaxBodyBytes = 0, hc_ErrorRules = []\<rparr> (Some lg) w of
           Inl err \<Rightarrow> Inl (wrap_prefix ''new http subscriber'' err) | Inr s \<Rightarrow> Inr s))) (\<lambda>httpSub.
     or_return (newHTTPMux (tp_sdk (nd_W D)) (nd_unmarshal D) (nd_validator D) (nd_bad D)
        (Some (nd_http_iface D httpSub)) (nd_debug D) (js_Publish (nd_W D) (nd_L D) pub)) (\<lambda>httpMux.
     or_return (newNatsMux (tp_sdk (nd_W D)) (nd_unmarshal D) (Some (nd_js_iface D natsSub)) (nd_debug D)) (\<lambda>natsMux.
     go_ret (Inr (httpMux, natsMux)))))))"

definition nats_setup :: "('ev, 'w) nats_deps \<Rightarrow> logger \<Rightarrow> environment
    \<Rightarrow> ('w \<times> logrec list, goerr + ('ev, 'w) nats_program) go" where
  "nats_setup D lg env =
     go_bind (on_world_part (Dial (nd_W D) (nd_N D) (nd_trim D) (nd_default_url D) (nd_connect D)
       \<lparr>cc_URL = env envNATSURL, cc_Name = ''nats-example'', cc_MaxReconnects = 0\<rparr> (Some lg))) (\<lambda>r.
     (case r of
        Inl err \<Rightarrow> go_ret (Inl (wrap_prefix ''nats dial'' err))
      | Inr cn \<Rightarrow> (case nd_jetstream D cn of
          Inl err \<Rightarrow> go_seq (go_zoom (\<lambda>(w, l). cn\<lparr>cn_world := w\<rparr>) (\<lambda>cn (w, l). (cn_world cn, l))
              (conn_Stop (nd_await D) Background)) (go_ret (Inl (wrap_prefix ''jetstream new'' err)))
        | Inr (api, client) \<Rightarrow>
            or_return (nats_routers D lg api client) (\<lambda>(httpMux, natsMux).
            go_bind (go_get (\<lambda>s. s)) (\<lambda>(w, l).
            go_ret (Inr \<lparr>np_HTTPMux = httpMux, np_NatsMux = natsMux, np_world = w, np_log = l, np_conn = cn\<rparr>))))))"

text \<open>
  \<open>fatal\<close>, \<open>wait\<close> and \<open>ctxErr\<close> as in \<open>Group_run\<close>; the result is the error of \<open>run\<close> and what it leaves
  behind: the group, if it came to one, or else the world and the routers' records as the set-up left
  them.
\<close>

definition nats_run :: "('ev, 'w) nats_deps \<Rightarrow> logger \<Rightarrow> environment
    \<Rightarrow> (('ev, 'w) nats_program, goerr option) go \<Rightarrow> (('ev, 'w) nats_program, goerr option) go \<Rightarrow> bool
    \<Rightarrow> 'w \<times> logrec list \<Rightarrow> goerr option res \<times> ('w \<times> logrec list + ('ev, 'w) nats_program grp)" where
  "nats_run D lg env fatal wait ctxErr s =
     (case nats_setup D lg env s of
        (Panic p, s') \<Rightarrow> (Panic p, Inl s')
      | (Ret (Inl err), s') \<Rightarrow> (Ret (Some err), Inl s')
      | (Ret (Inr prog), _) \<Rightarrow>
          (case nats_group (nd_await D) (nd_server D (getenvDefault env envHTTPAddr '':8080'')) prog of
             (Panic p, g) \<Rightarrow> (Panic p, Inr g)
           | (Ret u, g) \<Rightarrow> (case Group_run Background fatal wait ctxErr g of (r, g') \<Rightarrow> (r, Inr g'))))"

end
