(* ===== verification/ExampleTheorems.thy ===== *)
theory ExampleTheorems
  imports Example Hop LifecycleProofs EnvelopeTheorems
begin

text \<open>
  The demonstration service: which route takes which event, and what becomes of a command on its way over
  HTTP, Pub/Sub and the webhook.  At the end a concrete set-up for the witnesses.
\<close>

subsection \<open>The routes\<close>

definition mux_open :: "('ev, person, 'w) mux \<Rightarrow> bool" where
  "mux_open mx \<longleftrightarrow> mux_routes mx = [] \<and> \<not> mux_frozen mx"

abbreviation person_route :: "(bytes \<Rightarrow> goerr + person) \<Rightarrow> ('ev, 'w) publisher option \<Rightarrow> ('ev, 'w) filter_impl
    \<Rightarrow> 'w use_fn \<Rightarrow> ('ev, person, 'w) route" where
  "person_route unmarshal pub flt fn \<equiv>
     \<lparr>rt_pub = map_option BarePub pub, rt_filter = Some flt, rt_decode = route_decode (person_type unmarshal),
      rt_handler = route_handler (person_type unmarshal) fn, rt_chain = None\<rparr>"

lemma filter_identities [simp]:
  "flt_identity (ByType S a ts) = Some a" "flt_identity (FilterAll a fs) = Some a"
  by (simp_all add: ByType_def FilterAll_def)

lemma on_mux_zooms:
  "on_HTTPMux m s = (case m \<lparr>app_mux = pg_HTTPMux s, app_world = pg_world s, app_log = pg_log s\<rparr> of
     (r, a) \<Rightarrow> (r, s\<lparr>pg_HTTPMux := app_mux a, pg_world := app_world a, pg_log := app_log a\<rparr>))"
  "on_PubSubMux m s = (case m \<lparr>app_mux = pg_PubSubMux s, app_world = pg_world s, app_log = pg_log s\<rparr> of
     (r, a) \<Rightarrow> (r, s\<lparr>pg_PubSubMux := app_mux a, pg_world := app_world a, pg_log := app_log a\<rparr>))"
  by (simp_all add: on_HTTPMux_def on_PubSubMux_def go_zoom_def)

text \<open>What registration does, by its outcome.\<close>

lemma RegisterEventHandlers_cases:
  fixes s :: "('ev, 'w) program"
  assumes "mux_open (pg_HTTPMux s)" and "mux_open (pg_PubSubMux s)"
    and run: "RegisterEventHandlers W N bi R J unmarshal env pubsubPub uc lg s = (r, s')"
  obtains (bad_url) e where "http_NewPublisher N bi (webhook_config env :: 'w http_pub_config) lg = Inl e"
      and "r = Ret (Some (wrap_prefix ''example: webhook publisher'' e))" and "s' = s"
  | (bad_expression) p e where "http_NewPublisher N bi (webhook_config env :: 'w http_pub_config) lg = Inr p"
      and "jmespath_New J W 0 webhook_expression lg = Inl e"
      and "r = Ret (Some (wrap_prefix ''example: webhook filter'' e))" and "s' = s"
  | (registered) p f l where "http_NewPublisher N bi (webhook_config env) lg = Inr p"
      and "jmespath_New J W 0 webhook_expression lg = Inr f" and "r = Ret None"
      and "s' = s\<lparr>pg_HTTPMux := (pg_HTTPMux s)\<lparr>mux_routes :=
              [person_route unmarshal pubsubPub (ByType (tp_sdk W) 1 [''http.command'']) (uc_Command uc),
               person_route unmarshal (Some (http_Publish W R p))
                 (FilterAll 3 [ByType (tp_sdk W) 2 [''http.command.webhook''], f]) (uc_Command uc)]\<rparr>,
            pg_PubSubMux := (pg_PubSubMux s)\<lparr>mux_routes :=
              [person_route unmarshal (Some (http_Publish W R p)) (ByType (tp_sdk W) 4 [''http.command.result''])
                 (uc_Execute uc),
               person_route unmarshal pubsubPub (ByType (tp_sdk W) 5
                 [''com.example.person.created'', ''com.example.person.updated'']) (uc_Execute uc)]\<rparr>,
            pg_log := pg_log s @ l\<rparr>"
proof (cases "http_NewPublisher N bi (webhook_config env :: 'w http_pub_config) lg")
  case (Inl e)
  with run bad_url show thesis by (simp add: RegisterEventHandlers_def Let_def go_ret_def)
next
  case p: (Inr p)
  show thesis
  proof (cases "jmespath_New J W 0 webhook_expression lg")
    case (Inl e)
    with p run bad_expression show thesis by (simp add: RegisterEventHandlers_def Let_def go_ret_def)
  next
    case f: (Inr f)
    show thesis
      using run assms(1,2) by (intro registered [OF p f])
        (auto simp: RegisterEventHandlers_def Let_def p f go_seq_def go_bind_def go_ret_def on_mux_zooms Handle_cases
          mux_open_def identical_def)
  qed
qed

lemma accepts_computes:
  assumes "computes f P" and "rt_filter rt = Some f"
  shows "accepts m rt \<longleftrightarrow> P m" "rejects m rt \<longleftrightarrow> \<not> P m"
  using assms unfolding accepts_def rejects_def answers_def computes_def
  by (auto, metis fst_conv res.inject(1), metis prod.collapse, metis fst_conv res.inject(1), metis prod.collapse)

text \<open>The expression of the second route is true of the payload.\<close>

definition webhook_payload :: "'j jmes_engine \<Rightarrow> 'ev sdk \<Rightarrow> ('ev, 'w) message \<Rightarrow> bool" where
  "webhook_payload J S m \<longleftrightarrow> (\<exists>d. jm_unmarshal J (event_data S (msg_event m)) = Inr d
     \<and> jm_search J webhook_expression d = Inr (JmesBool True))"

text \<open>
  The routing table of the demonstration.  Registration on two fresh routers gives each two routes,
  and every route decides by the type of the event, the second one also by its payload: no event is
  taken by two routes of a router, and every other one by none.  Commands go to the topic, webhook
  commands and results to the webhook, the person events back to the topic.
\<close>

theorem example_routes:
  fixes s :: "('ev, 'w) program"
  assumes fresh: "mux_open (pg_HTTPMux s)" "mux_open (pg_PubSubMux s)"
    and reg: "RegisterEventHandlers W N bi R J unmarshal env topic uc lg s = (Ret None, s')"
  shows "\<exists>r1 r2 r3 r4 hook. mux_routes (pg_HTTPMux s') = [r1, r2] \<and> mux_routes (pg_PubSubMux s') = [r3, r4]
    \<and> map rt_pub [r1, r2, r3, r4] = map (map_option BarePub) [topic, Some hook, Some hook, topic]
    \<and> (\<forall>m. (accepts m r1 \<longleftrightarrow> event_type (tp_sdk W) (msg_event m) = ''http.command'')
         \<and> (accepts m r2 \<longleftrightarrow> event_type (tp_sdk W) (msg_event m) = ''http.command.webhook'' \<and> webhook_payload J (tp_sdk W) m)
         \<and> (accepts m r3 \<longleftrightarrow> event_type (tp_sdk W) (msg_event m) = ''http.command.result'')
         \<and> (accepts m r4 \<longleftrightarrow> event_type (tp_sdk W) (msg_event m)
              \<in> {''com.example.person.created'', ''com.example.person.updated''})
         \<and> (\<forall>r \<in> {r1, r2, r3, r4}. rejects m r \<longleftrightarrow> \<not> accepts m r))"
  using fresh reg
proof (cases rule: RegisterEventHandlers_cases)
  case (registered p f l)
  let ?S = "tp_sdk W"
  have f: "computes f (\<lambda>m. webhook_payload J ?S m)"
    using computes_jmespath [OF registered(2)] by (simp add: webhook_payload_def)
  have all: "computes (FilterAll 3 [ByType ?S 2 [''http.command.webhook''], f])
      (\<lambda>m. list_all (\<lambda>P. P m) [\<lambda>m. event_type ?S (msg_event m) \<in> set [''http.command.webhook''], webhook_payload J ?S])"
    by (rule computes_FilterAll) (simp add: computes_ByType [of _ _ "[''http.command.webhook'']", simplified] f)
  let ?hook = "http_Publish W R p"
  let ?r1 = "person_route unmarshal topic (ByType ?S 1 [''http.command'']) (uc_Command uc)"
  let ?r2 = "person_route unmarshal (Some ?hook) (FilterAll 3 [ByType ?S 2 [''http.command.webhook''], f]) (uc_Command uc)"
  let ?r3 = "person_route unmarshal (Some ?hook) (ByType ?S 4 [''http.command.result'']) (uc_Execute uc)"
  let ?r4 = "person_route unmarshal topic (ByType ?S 5 [''com.example.person.created'', ''com.example.person.updated''])
    (uc_Execute uc)"
  have tables: "mux_routes (pg_HTTPMux s') = [?r1, ?r2]" "mux_routes (pg_PubSubMux s') = [?r3, ?r4]"
    by (simp_all add: registered(4))
  show ?thesis
    unfolding tables
    by (rule exI [of _ ?r1], rule exI [of _ ?r2], rule exI [of _ ?r3], rule exI [of _ ?r4], rule exI [of _ ?hook])
      (auto simp: accepts_computes [OF computes_ByType] accepts_computes [OF all])
qed simp_all

subsection \<open>The routers when they run\<close>

lemma NewHTTPMux_is:
  assumes "NewHTTPMux validator sub debug obs (w, l) = (Ret (Inr mx), t)"
  shows "mx = \<lparr>mux_cfg = example_config ''http-mux'' sub debug obs, mux_routes = [], mux_middlewares = [],
      mux_preflightMiddlewares = [validate_New validator], mux_started = False, mux_frozen = False, mux_preflight = None\<rparr>"
  using assms
  by (auto simp: NewHTTPMux_def setup_mux_def New_def UsePreflight_def mustBeOpen_def go_defs split: if_splits)

abbreviation example_skipper :: "(person, 'w) middleware" where
  "example_skipper \<equiv> Skipper_Middleware (Skipper_New
     [ByErr ''ErrInvalidObject'' ''ErrInvalidObject'', ByErr ''ErrDataNotFound'' ''ErrDataNotFound''])"

lemma NewPubSubMux_is:
  assumes "NewPubSubMux sub debug obs (w, l) = (Ret (Inr mx), t)"
  shows "mx = \<lparr>mux_cfg = example_config ''pubsub-mux'' sub debug obs, mux_routes = [], mux_middlewares = [example_skipper],
      mux_preflightMiddlewares = [], mux_started = False, mux_frozen = False, mux_preflight = None\<rparr>"
  using assms
  by (auto simp: NewPubSubMux_def setup_mux_def New_def Use_def mustBeOpen_def go_defs split: if_splits)

lemma freeze_observed:
  assumes "\<not> mux_frozen mx" and "cfg_Observer (mux_cfg mx) = Some obs"
  shows "mux_routes (freeze mx) = map (\<lambda>rt. rt\<lparr>rt_chain := Some (Chain (rt_handler rt) (mux_middlewares mx)),
      rt_pub := map_option observed (rt_pub rt)\<rparr>) (mux_routes mx)"
    "mux_preflight (freeze mx) = Some (Chain noopHandler (mux_preflightMiddlewares mx))"
    "cfg_Observer (mux_cfg (freeze mx)) = Some obs"
    "cfg_PublishAfterAck (mux_cfg (freeze mx)) = cfg_PublishAfterAck (mux_cfg mx)"
  using assms by (simp_all add: freeze_def observePublishers_def)

text \<open>Both handlers return the JSON of a person whose name is UTF-8; \<open>Execute\<close> makes it ten years older.\<close>

lemma example_Execute_ok:
  assumes "json_Marshal bad (p\<lparr>person_Age := person_Age p + 10\<rparr>) = Inr data"
  shows "\<exists>h'. example_Execute bad c p h = (Ret (Some data, None), h') \<and> h_world h' = h_world h"
  using assms by (simp add: example_Execute_def Let_def store_Sets_def go_defs FromContext_def)

lemma example_Command_ok:
  assumes "json_Marshal bad p = Inr data"
  shows "\<exists>h'. example_Command bad c p h = (Ret (Some data, None), h') \<and> h_world h' = h_world h"
  using assms by (simp add: example_Command_def store_Sets_def go_defs FromContext_def)

lemma succeeds_preflight:
  assumes "mux_preflight mx = Some pf" and "\<And>c h. pf c payload h = (Ret (None, None), h)"
    and "rt_chain rt = Some chain"
    and "\<And>c h. \<exists>h'. chain c payload h = (Ret (Some data, None), h') \<and> h_world h' = h_world h"
  shows "succeeds E mx rt payload data"
  unfolding succeeds_def
proof (intro allI)
  fix c h
  from assms(4) obtain h' where "chain c payload h = (Ret (Some data, None), h')" "h_world h' = h_world h" by blast
  then show "\<exists>h'. invoke E mx rt c payload h = (Ret (Some data, None), h') \<and> h_world h' = h_world h"
    by (simp add: invoke_def call_handler_def assms(1,2,3) go_recover_def go_bind_def)
qed

lemma skipper_passes:
  assumes "nxt c p h = (Ret (Some data, None), h')"
  shows "Skipper_Middleware sk nxt c p h = (Ret (Some data, None), h')"
  by (simp add: Skipper_Middleware_def go_bind_def go_ret_def assms)

subsection \<open>The webhook\<close>

text \<open>
  What a request shows of an event; the codec can write every extension, the HTTP library answers 200 and
  \<open>posted\<close> lists the requests it sent.
\<close>

definition webhook_shows :: "'ev sdk \<Rightarrow> environment \<Rightarrow> 'ev \<Rightarrow> out_request \<Rightarrow> bool" where
  "webhook_shows S env ev req \<longleftrightarrow>
     or_Method req = ''POST'' \<and> or_URL req = WebhookURL env \<and> or_Body req = event_data S ev"

definition webhook_up :: "('w \<Rightarrow> out_request list) \<Rightarrow> ('ev, 'w) surroundings \<Rightarrow> 'w resty_lib \<Rightarrow> bool" where
  "webhook_up posted W R \<longleftrightarrow> (\<forall>v. \<exists>t. cd_format (tp_codec W) v = Inr t)
     \<and> (\<forall>cl c req w. \<exists>w'. rl_Send R cl c req w = (Ret (Inr 200), w') \<and> posted w' = posted w @ [req])
     \<and> \<not> rl_IsStatusFailure R 200 \<and> (\<forall>r w. posted (tp_emit W r w) = posted w)"

lemma Encode_total:
  assumes "\<forall>v. \<exists>t. cd_format C v = Inr t"
  shows "\<exists>attrs. Encode C ce = Inr attrs"
proof -
  have "\<exists>attrs. encode_exts C xs as = Inr attrs" for xs as
  proof (induction xs arbitrary: as)
    case (Cons x xs)
    obtain n v where "x = (n, v)" by fastforce
    moreover obtain t where "cd_format C v = Inr t" using assms by blast
    ultimately show ?case using Cons.IH by simp
  qed simp
  then show ?thesis by (simp add: Encode_def)
qed

lemma InjectTrace_data: "sdk_laws S \<Longrightarrow> event_data S (fst (InjectTraceFromContext T S c ev)) = event_data S ev"
  by (simp add: InjectTraceFromContext_def injectTrace_def sdk_set_ext split: option.split)

lemma webhook_records:
  assumes S: "sdk_laws (tp_sdk W)" and up: "webhook_up posted W R"
    and new: "http_NewPublisher N bi (webhook_config env) lg = Inr wp"
  shows "records posted (webhook_shows (tp_sdk W) env) (http_Publish W R wp)"
  unfolding records_def
proof (intro allI)
  fix c ev w
  have cfg: "hp_TargetURL (hb_cfg wp) = WebhookURL env" "hp_TokenProvider (hb_cfg wp) = None"
    using new by (auto simp: http_NewPublisher_def webhook_config_def Let_def split: if_splits sum.splits)
  obtain ce tc where inj: "InjectTraceFromContext (tp_tracer W) (tp_sdk W) c ev = (ce, tc)" by fastforce
  then have data: "event_data (tp_sdk W) ce = event_data (tp_sdk W) ev"
    using InjectTrace_data [OF S, of "tp_tracer W" c ev] by simp
  obtain attrs where enc: "Encode (tp_codec W) ce = Inr attrs"
    using Encode_total [of "tp_codec W" ce] up unfolding webhook_up_def by auto
  let ?req = "\<lparr>or_Method = ''POST'', or_URL = WebhookURL env, or_Headers = publish_headers W wp ce attrs tc,
    or_Body = event_data (tp_sdk W) ev\<rparr>"
  from up obtain w' where send: "rl_Send R (hb_client wp) c ?req w = (Ret (Inr 200), w')" and posted: "posted w' = posted w @ [?req]"
    unfolding webhook_up_def by blast
  have "\<exists>w''. http_Publish W R wp c ev w = (Ret None, w'') \<and> posted w'' = posted w'"
    using send up by (auto simp: http_Publish_def inj enc cfg data Let_def go_bind_def go_ret_def publish_status_def
        webhook_up_def go_seq_def emit_def go_when_def go_modify_def)
  with posted show "\<exists>w' x. http_Publish W R wp c ev w = (Ret None, w') \<and> posted w' = posted w @ [x]
      \<and> webhook_shows (tp_sdk W) env ev x"
    by (auto simp: webhook_shows_def)
qed

subsection \<open>From the command to the webhook\<close>

lemma routed_first_ByType:
  assumes "rt_filter rt = Some (ByType S a ts)" and "event_type S (msg_event m) \<in> set ts"
  shows "routed (rt # rts) m rt"
proof -
  have "matches True m rt" using assms by (simp add: matches_def ByType_def typeFilter_Match_def go_ret_def)
  then show ?thesis unfolding routed_def by (intro exI [of _ "[]"] exI [of _ rts]) simp
qed

lemma minted_type: "sdk_laws S \<Longrightarrow> event_type S (msg_event (mint_correlation S m)) = event_type S (msg_event m)"
  by (simp add: mint_correlation_def sdk_set_ext)

lemma quiet_env_minted:
  "sdk_laws (env_sdk E) \<Longrightarrow> quiet_env part E (msg_event m) \<Longrightarrow> quiet_env part E (msg_event (mint_correlation (env_sdk E) m))"
  by (auto simp: quiet_env_def mint_correlation_def result_accepted_def sdk_set_ext)

text \<open>A frozen router of the demonstration whose first route is \<open>rt\<close>, on a payload that its handler turns into \<open>data\<close>.\<close>

lemma person_hop:
  assumes S: "sdk_laws (env_sdk E)" and mx: "\<not> mux_frozen mx" "cfg_Observer (mux_cfg mx) = Some obs"
      "\<not> cfg_PublishAfterAck (mux_cfg mx)" "observer_keeps sent mx"
    and route: "mux_routes mx = person_route unmarshal (Some pub) (ByType (env_sdk E) a ts) fn # rts"
    and type: "event_type (env_sdk E) ce \<in> set ts" and payload: "unmarshal (event_data (env_sdk E) ce) = Inr p"
    and pub: "records sent shows pub" and ack: "ack_keeps sent dl" and env: "quiet_env sent E ce"
    and json: "stores_json (env_sdk E) data"
    and pre: "\<And>c h. Chain noopHandler (mux_preflightMiddlewares mx) c p h = (Ret (None, None), h)"
    and run: "\<And>c h. \<exists>h'. Chain fn (mux_middlewares mx) c p h = (Ret (Some data, None), h') \<and> h_world h' = h_world h"
  obtains s' ev x where "handle E (freeze mx) (deliver (NewMessage c ce dl) w l b) = (Ret (), s')"
    and "msg_outcome (st_msg s') = OutcomeAcked"
    and "result_of (env_sdk E) (msg_event (mint_correlation (env_sdk E) (NewMessage c ce dl))) data ev"
    and "sent (st_world s') = sent w @ [x]" and "shows ev x"
proof -
  let ?S = "env_sdk E" and ?m = "NewMessage c ce dl"
  let ?rt = "(person_route unmarshal (Some pub) (ByType ?S a ts) fn)
    \<lparr>rt_chain := Some (Chain (route_handler (person_type unmarshal) fn) (mux_middlewares mx)), rt_pub := Some (ObservedPub pub)\<rparr>"
  note fz = freeze_observed [OF mx(1,2)]
  have m: "msg_event ?m = ce" by (simp add: NewMessage_def Let_def)
  have head: "\<exists>post. mux_routes (freeze mx) = ?rt # post" by (simp add: fz route)
  then obtain post where table: "mux_routes (freeze mx) = ?rt # post" by blast
  have fn: "route_handler (person_type unmarshal) fn = fn"
    by (simp add: route_handler_def person_type_def fun_eq_iff)
  have ok: "succeeds E (freeze mx) ?rt p data"
    by (rule succeeds_preflight [OF fz(2) pre]) (simp, unfold fn, rule run)
  have routed: "routed (mux_routes (freeze mx)) (mint_correlation ?S ?m) ?rt"
    unfolding table by (rule routed_first_ByType [of _ _ a ts]) (simp, unfold minted_type [OF S] m, rule type)
  have obs: "observer_keeps sent (freeze mx)"
    using mx(4) by (simp add: observer_keeps_def fz(3) mx(2))
  have dec: "rt_decode ?rt (event_data ?S ce) w = (Ret (Inr p), w)" for w
    by (simp add: route_decode_def person_type_def payload go_defs)
  have after: "\<not> cfg_PublishAfterAck (mux_cfg (freeze mx))" using mx(3) by (simp add: fz(4))
  have env': "quiet_env sent E (msg_event (mint_correlation ?S ?m))"
    by (rule quiet_env_minted [OF S]) (simp add: m env)
  have bare: "rt_pub ?rt = Some (ObservedPub pub)" "records sent shows (bare (ObservedPub pub))" using pub by simp_all
  show thesis
    by (rule hop [OF S refl refl routed bare obs after ack env' json dec ok]) (rule that)
qed

lemma example_json: "valid_utf8 (person_Name p) \<Longrightarrow> \<exists>data. json_Marshal bad p = Inr data"
  by (simp add: json_Marshal_def)

lemma fresh_muxes:
  assumes "NewHTTPMux validator hsub debug obs start = (Ret (Inr (pg_HTTPMux s)), t)"
    and "NewPubSubMux psub debug obs start' = (Ret (Inr (pg_PubSubMux s)), t')"
  shows "mux_open (pg_HTTPMux s)" "mux_open (pg_PubSubMux s)"
  using NewHTTPMux_is [of validator hsub debug obs "fst start" "snd start"]
    NewPubSubMux_is [of psub debug obs "fst start'" "snd start'"] assms by (simp_all add: mux_open_def)

lemma first_routes:
  assumes "mux_open (pg_HTTPMux s)" "mux_open (pg_PubSubMux s)"
    and "RegisterEventHandlers W N bi R J unmarshal env topic (NewHandler bad) lg s = (Ret None, s')"
  obtains hook rts1 rts2 where "http_NewPublisher N bi (webhook_config env) lg = Inr hook"
    and "pg_HTTPMux s' = (pg_HTTPMux s)\<lparr>mux_routes :=
      person_route unmarshal topic (ByType (tp_sdk W) 1 [''http.command'']) (example_Command bad) # rts1\<rparr>"
    and "pg_PubSubMux s' = (pg_PubSubMux s)\<lparr>mux_routes :=
      person_route unmarshal (Some (http_Publish W R hook)) (ByType (tp_sdk W) 4 [''http.command.result'']) (example_Execute bad) # rts2\<rparr>"
  using assms by (cases rule: RegisterEventHandlers_cases) (auto simp: NewHandler_def)

text \<open>The first hop: the command through the HTTP router.\<close>

lemma command_hop:
  assumes S: "sdk_laws (tp_sdk W)" "env_sdk E = tp_sdk W" and old: "NewHTTPMux validator hsub debug obs start = (Ret (Inr old), t)"
    and mx: "mx = old\<lparr>mux_routes := person_route unmarshal (Some topic) (ByType (tp_sdk W) 1 [''http.command'']) (example_Command bad) # rts\<rparr>"
    and topic: "records published shows topic" "observer_keeps published old"
    and json: "json_Marshal bad p = Inr d" "stores_json (tp_sdk W) d"
    and ce: "event_type (tp_sdk W) ce = ''http.command''" "unmarshal (event_data (tp_sdk W) ce) = Inr p" "validator p = None"
    and quiet: "quiet_env published E ce" "ack_keeps published dl"
  obtains s1 ev x where "handle E (freeze mx) (deliver (NewMessage c ce dl) w l b) = (Ret (), s1)"
    and "msg_outcome (st_msg s1) = OutcomeAcked" and "published (st_world s1) = published w @ [x]" and "shows ev x"
    and "event_type (tp_sdk W) ev = ''http.command.result''" and "event_data (tp_sdk W) ev = d"
    and "event_id (tp_sdk W) ce \<noteq> [] \<longrightarrow> extension (tp_sdk W) ev ExtCausationID = Some (XString (event_id (tp_sdk W) ce))"
proof -
  let ?S = "tp_sdk W" and ?m = "mint_correlation (tp_sdk W) (NewMessage c ce dl)"
  have E: "sdk_laws (env_sdk E)" using S by simp
  note facts = mx NewHTTPMux_is [of validator hsub debug obs "fst start" "snd start", simplified, OF old]
  have h: "\<not> mux_frozen mx" "cfg_Observer (mux_cfg mx) = Some obs" "\<not> cfg_PublishAfterAck (mux_cfg mx)"
      "observer_keeps published mx"
      "mux_routes mx = person_route unmarshal (Some topic) (ByType (env_sdk E) 1 [''http.command'']) (example_Command bad) # rts"
    using topic(2) S(2) by (simp_all add: facts example_config_def observer_keeps_def)
  have up: "Chain noopHandler (mux_preflightMiddlewares mx) c p h = (Ret (None, None), h)"
      "\<exists>h'. Chain (example_Command bad) (mux_middlewares mx) c p h = (Ret (Some d, None), h') \<and> h_world h' = h_world h"
    for c h
    using ce(3) example_Command_ok [OF json(1)] by (simp_all add: facts validate_New_def noopHandler_def go_ret_def)
  have type: "event_type (env_sdk E) ce \<in> set [''http.command'']" "unmarshal (event_data (env_sdk E) ce) = Inr p"
      "stores_json (env_sdk E) d"
    using ce S(2) json(2) by simp_all
  have m: "event_id ?S (msg_event ?m) = event_id ?S ce" "event_type ?S (msg_event ?m) = event_type ?S ce"
    using S(1) by (simp_all add: mint_correlation_def NewMessage_def Let_def sdk_set_ext)
  show thesis
    by (rule person_hop [OF E h type(1,2) topic(1) quiet(2,1) type(3) up, of c w l b], rule that)
      (use S(2) m ce(1) in \<open>auto simp: result_of_def\<close>)
qed

text \<open>The second hop: the result through the Pub/Sub router to the webhook.\<close>

lemma result_hop:
  fixes W :: "('ev, 'w) surroundings"
  assumes S: "sdk_laws (tp_sdk W)" "env_sdk E = tp_sdk W" and old: "NewPubSubMux psub debug obs start = (Ret (Inr old), t)"
    and mx: "mx = old\<lparr>mux_routes := person_route unmarshal (Some (http_Publish W R hook))
      (ByType (tp_sdk W) 4 [''http.command.result'']) (example_Execute bad) # rts\<rparr>"
    and hook: "webhook_up posted W R" "observer_keeps posted old" "http_NewPublisher N bi (webhook_config env) lg = Inr hook"
    and json: "json_Marshal bad (p\<lparr>person_Age := person_Age p + 10\<rparr>) = Inr d" "stores_json (tp_sdk W) d"
    and ce: "event_type (tp_sdk W) ce = ''http.command.result''" "unmarshal (event_data (tp_sdk W) ce) = Inr p"
    and quiet: "quiet_env posted E ce" "ack_keeps posted dl"
  obtains s1 req where "handle E (freeze mx) (deliver (NewMessage c ce dl) w l b) = (Ret (), s1)"
    and "msg_outcome (st_msg s1) = OutcomeAcked" and "posted (st_world s1) = posted w @ [req]"
    and "or_Method req = ''POST''" and "or_URL req = WebhookURL env" and "or_Body req = d"
proof -
  have E: "sdk_laws (env_sdk E)" using S by simp
  note facts = mx NewPubSubMux_is [of psub debug obs "fst start" "snd start", simplified, OF old]
  have h: "\<not> mux_frozen mx" "cfg_Observer (mux_cfg mx) = Some obs" "\<not> cfg_PublishAfterAck (mux_cfg mx)"
      "observer_keeps posted mx"
      "mux_routes mx = person_route unmarshal (Some (http_Publish W R hook)) (ByType (env_sdk E) 4 [''http.command.result''])
         (example_Execute bad) # rts"
    using hook(2) S(2) by (simp_all add: facts example_config_def observer_keeps_def)
  have up: "Chain noopHandler (mux_preflightMiddlewares mx) c p h = (Ret (None, None), h)"
      "\<exists>h'. Chain (example_Execute bad) (mux_middlewares mx) c p h = (Ret (Some d, None), h') \<and> h_world h' = h_world h"
    for c h
    using example_Execute_ok [OF json(1), of c h] by (auto simp: facts noopHandler_def go_ret_def intro!: skipper_passes)
  have type: "event_type (env_sdk E) ce \<in> set [''http.command.result'']" "unmarshal (event_data (env_sdk E) ce) = Inr p"
      "stores_json (env_sdk E) d"
    using ce S(2) json(2) by simp_all
  show thesis
    by (rule person_hop [OF E h type(1,2) webhook_records [OF S(1) hook(1,3)] quiet(2,1) type(3) up, of c w l b], rule that)
      (use S(2) in \<open>auto simp: result_of_def webhook_shows_def\<close>)
qed

text \<open>
  C12. The demonstration end to end.  Once both routers are set up and the routes registered, a command
  that arrives over HTTP with a valid person is acked, and exactly one event, of type
  \<open>http.command.result\<close> and with the person as JSON, goes to the topic, under the causation id of the
  command.  Whenever an event of that type with that data then comes back from the subscription, it is acked
  and exactly one request is posted to the webhook's URL, its body the person ten years older.
\<close>

theorem command_round_trip:
  fixes s :: "('ev, 'w) program" and W :: "('ev, 'w) surroundings" and published :: "'w \<Rightarrow> 'x list"
  assumes S: "sdk_laws (tp_sdk W)" "env_sdk E = tp_sdk W"
    and http: "NewHTTPMux validator hsub debug obs start = (Ret (Inr (pg_HTTPMux s)), t)"
    and pubsub: "NewPubSubMux psub debug obs start' = (Ret (Inr (pg_PubSubMux s)), t')"
    and reg: "RegisterEventHandlers W N bi R J unmarshal env (Some topic) (NewHandler bad) lg s = (Ret None, s')"
    and topic: "records published shows topic" "observer_keeps published (pg_HTTPMux s)"
    and hook: "webhook_up posted W R" "observer_keeps posted (pg_PubSubMux s)"
    and json: "\<And>q d. json_Marshal bad q = Inr d \<Longrightarrow> stores_json (tp_sdk W) d" "\<And>d. json_Marshal bad p = Inr d \<Longrightarrow> unmarshal d = Inr p"
    and ce: "event_type (tp_sdk W) ce = ''http.command''" "unmarshal (event_data (tp_sdk W) ce) = Inr p"
    and p: "validator p = None" "valid_utf8 (person_Name p)"
    and quiet: "quiet_env published E ce" "ack_keeps published dl"
  shows "\<exists>s1 ev x. handle E (freeze (pg_HTTPMux s')) (deliver (NewMessage c ce dl) w l b) = (Ret (), s1)
    \<and> msg_outcome (st_msg s1) = OutcomeAcked \<and> published (st_world s1) = published w @ [x] \<and> shows ev x
    \<and> event_type (tp_sdk W) ev = ''http.command.result'' \<and> json_Marshal bad p = Inr (event_data (tp_sdk W) ev)
    \<and> (event_id (tp_sdk W) ce \<noteq> [] \<longrightarrow> extension (tp_sdk W) ev ExtCausationID = Some (XString (event_id (tp_sdk W) ce)))
    \<and> (\<forall>c2 ce2 dl2 w2 l2 b2. event_type (tp_sdk W) ce2 = event_type (tp_sdk W) ev
         \<longrightarrow> event_data (tp_sdk W) ce2 = event_data (tp_sdk W) ev \<longrightarrow> quiet_env posted E ce2 \<longrightarrow> ack_keeps posted dl2
         \<longrightarrow> (\<exists>s2 req. handle E (freeze (pg_PubSubMux s')) (deliver (NewMessage c2 ce2 dl2) w2 l2 b2) = (Ret (), s2)
            \<and> msg_outcome (st_msg s2) = OutcomeAcked \<and> posted (st_world s2) = posted w2 @ [req]
            \<and> or_Method req = ''POST'' \<and> or_URL req = WebhookURL env
            \<and> json_Marshal bad (p\<lparr>person_Age := person_Age p + 10\<rparr>) = Inr (or_Body req)))"
proof -
  let ?older = "p\<lparr>person_Age := person_Age p + 10\<rparr>"
  obtain d1 where d1: "json_Marshal bad p = Inr d1" using example_json [OF p(2)] by blast
  obtain d2 where d2: "json_Marshal bad ?older = Inr d2" using example_json [of ?older bad] p(2) by auto
  obtain wp rts1 rts2 where wp: "http_NewPublisher N bi (webhook_config env) lg = Inr wp"
    and m1: "pg_HTTPMux s' = (pg_HTTPMux s)\<lparr>mux_routes :=
      person_route unmarshal (Some topic) (ByType (tp_sdk W) 1 [''http.command'']) (example_Command bad) # rts1\<rparr>"
    and m2: "pg_PubSubMux s' = (pg_PubSubMux s)\<lparr>mux_routes :=
      person_route unmarshal (Some (http_Publish W R wp)) (ByType (tp_sdk W) 4 [''http.command.result'']) (example_Execute bad) # rts2\<rparr>"
    using first_routes [OF fresh_muxes [OF http pubsub] reg] by blast
  obtain s1 ev x where first: "handle E (freeze (pg_HTTPMux s')) (deliver (NewMessage c ce dl) w l b) = (Ret (), s1)"
      "msg_outcome (st_msg s1) = OutcomeAcked" "published (st_world s1) = published w @ [x]" "shows ev x"
      "event_type (tp_sdk W) ev = ''http.command.result''" "event_data (tp_sdk W) ev = d1"
      "event_id (tp_sdk W) ce \<noteq> [] \<longrightarrow> extension (tp_sdk W) ev ExtCausationID = Some (XString (event_id (tp_sdk W) ce))"
    by (rule command_hop [OF S http m1 topic d1 json(1) [OF d1] ce p(1) quiet, of c w l b])
  have second: "\<exists>s2 req. handle E (freeze (pg_PubSubMux s')) (deliver (NewMessage c2 ce2 dl2) w2 l2 b2) = (Ret (), s2)
      \<and> msg_outcome (st_msg s2) = OutcomeAcked \<and> posted (st_world s2) = posted w2 @ [req]
      \<and> or_Method req = ''POST'' \<and> or_URL req = WebhookURL env \<and> json_Marshal bad ?older = Inr (or_Body req)"
    if in2: "event_type (tp_sdk W) ce2 = ''http.command.result''" "event_data (tp_sdk W) ce2 = d1" "quiet_env posted E ce2"
      "ack_keeps posted dl2" for c2 ce2 dl2 w2 l2 b2
  proof -
    have "unmarshal (event_data (tp_sdk W) ce2) = Inr p" using in2(2) json(2) [OF d1] by simp
    from result_hop [OF S pubsub m2 hook wp d2 json(1) [OF d2] in2(1) this in2(3,4), of c2 w2 l2 b2] d2 show ?thesis by metis
  qed
  show ?thesis
    by (intro exI [of _ s1] exI [of _ ev] exI [of _ x]) (use first d1 second in auto)
qed

subsection \<open>A demonstration set-up for the witnesses\<close>

text \<open>The world is the list of events published and the list of requests posted.\<close>

type_synonym demo_world = "sev list \<times> out_request list"

definition demo_person :: person where
  "demo_person = \<lparr>person_Name = ''webhook'', person_Age = 30\<rparr>"

definition demo_surroundings :: "(sev, demo_world) surroundings" where
  "demo_surroundings = \<lparr>tp_codec = sample_codec\<lparr>cd_format := (\<lambda>v. Inr (case v of XString s \<Rightarrow> s | _ \<Rightarrow> []))\<rparr>,
     tp_tracer = \<lparr>trace_parse = (\<lambda>s. None), trace_parent = TraceID, trace_new_span = go_ret ''s'',
       trace_new = go_ret \<lparr>TraceID = ''t'', SpanID = ''s''\<rparr>\<rparr>,
     tp_header = ''traceparent'', tp_emit = (\<lambda>r w. w)\<rparr>"

definition demo_resty :: "demo_world resty_lib" where
  "demo_resty = \<lparr>rl_Send = (\<lambda>cl c req (a, b). (Ret (Inr 200), (a, b @ [req]))), rl_IsStatusFailure = (\<lambda>st. st \<ge> 400)\<rparr>"

definition demo_topic :: "(sev, demo_world) publisher" where
  "demo_topic c ce = (\<lambda>(a, b). (Ret None, (a @ [ce], b)))"

definition demo_engine :: "bytes jmes_engine" where
  "demo_engine = \<lparr>jm_compile = (\<lambda>e. None), jm_unmarshal = Inr, jm_search = (\<lambda>e d. Inr (JmesBool True))\<rparr>"

definition demo_url :: net_url where
  "demo_url = \<lparr>nu_Parse = (\<lambda>raw. Inr \<lparr>ur_Scheme = ''http'', ur_User = None, ur_Host = ''hook'', ur_Path = [], ur_RawQuery = [],
     ur_Fragment = []\<rparr>), nu_String = (\<lambda>u. ur_Host u)\<rparr>"

definition demo_vars :: environment where
  "demo_vars k = (if k = envWebhookURL then ''http://hook'' else [])"

definition demo_env :: "(sev, demo_world) env" where
  "demo_env = \<lparr>env_sdk = sample_sdk, env_uuid = (\<lambda>w. (''uuid'', w)), env_now = (\<lambda>w. (0, w)), env_stack = ''stack''\<rparr>"

definition demo_observer :: "(sev, demo_world) observer" where
  "demo_observer = \<lparr>OnMessage = (\<lambda>c m out r. go_ret ()), OnPublish = (\<lambda>c ce err. go_ret ())\<rparr>"

definition demo_subscription :: "demo_world subscription" where
  "demo_subscription = \<lparr>sub_Start = (\<lambda>c. go_ret None), sub_Stop = (\<lambda>c. go_ret None)\<rparr>"

definition demo_mux :: "(demo_world \<times> logrec list, goerr + (sev, person, demo_world) mux) go \<Rightarrow> (sev, person, demo_world) mux" where
  "demo_mux mk = (case mk (([], []), []) of (Ret (Inr mx), t) \<Rightarrow> mx)"

definition demo_http :: "(demo_world \<times> logrec list, goerr + (sev, person, demo_world) mux) go" where
  "demo_http = NewHTTPMux (\<lambda>p. if person_Age p = 0 then Some (errors_new ''age'') else None) (Some demo_subscription) False demo_observer"

definition demo_pubsub :: "(demo_world \<times> logrec list, goerr + (sev, person, demo_world) mux) go" where
  "demo_pubsub = NewPubSubMux (Some demo_subscription) False demo_observer"

definition demo_program :: "(sev, demo_world) program" where
  "demo_program = \<lparr>pg_HTTPMux = demo_mux demo_http, pg_PubSubMux = demo_mux demo_pubsub, pg_world = ([], []), pg_log = [],
     pg_client_closed = False, pg_publisher_closed = False\<rparr>"

definition demo_register :: "((sev, demo_world) program, goerr option) go" where
  "demo_register = RegisterEventHandlers demo_surroundings demo_url None demo_resty demo_engine (\<lambda>b. Inr demo_person) demo_vars
     (Some demo_topic) (NewHandler (errors_new ''invalid UTF-8'')) None"

definition demo_command :: sev where
  "demo_command = (sample_event ''1'' [])\<lparr>se_type := ''http.command''\<rparr>"

definition demo_delivery :: "demo_world delivery" where
  "demo_delivery = \<lparr>dl_ack = Some (go_ret None), dl_nack = None, dl_discard = None, dl_count = 0\<rparr>"

lemma demo_sdk [simp]: "tp_sdk demo_surroundings = sample_sdk" "env_sdk demo_env = sample_sdk"
  by (simp_all add: demo_surroundings_def demo_env_def)

lemma demo_muxes:
  "demo_http (([], []), []) = (Ret (Inr (pg_HTTPMux demo_program)), (([], []), []))"
  "demo_pubsub (([], []), []) = (Ret (Inr (pg_PubSubMux demo_program)), (([], []), []))"
  by (simp_all add: demo_http_def demo_pubsub_def demo_program_def demo_mux_def NewHTTPMux_def NewPubSubMux_def setup_mux_def New_def
      UsePreflight_def Use_def mustBeOpen_def example_config_def go_defs)

lemma demo_registered: "fst (demo_register demo_program) = Ret None"
proof -
  have open_muxes: "mux_open (pg_HTTPMux demo_program)" "mux_open (pg_PubSubMux demo_program)"
    using fresh_muxes [OF demo_muxes [unfolded demo_http_def demo_pubsub_def]] .
  obtain r s' where run: "demo_register demo_program = (r, s')" by fastforce
  show ?thesis
    using open_muxes run [unfolded demo_register_def]
    by (cases rule: RegisterEventHandlers_cases)
      (simp_all add: run http_NewPublisher_def jmespath_New_def webhook_config_def WebhookURL_def demo_vars_def demo_url_def
        demo_engine_def Let_def)
qed

theorem example_routes_witness:
  "\<exists>s' r1 r2 r3 r4. demo_register demo_program = (Ret None, s') \<and> mux_routes (pg_HTTPMux s') = [r1, r2]
    \<and> mux_routes (pg_PubSubMux s') = [r3, r4] \<and> accepts (NewMessage None demo_command demo_delivery) r1
    \<and> \<not> accepts (NewMessage None demo_command demo_delivery) r2"
proof -
  obtain s' where run: "demo_register demo_program = (Ret None, s')"
    using demo_registered by (cases "demo_register demo_program") auto
  have open_muxes: "mux_open (pg_HTTPMux demo_program)" "mux_open (pg_PubSubMux demo_program)"
    using fresh_muxes [OF demo_muxes [unfolded demo_http_def demo_pubsub_def]] .
  obtain r1 r2 r3 r4 where "mux_routes (pg_HTTPMux s') = [r1, r2]" "mux_routes (pg_PubSubMux s') = [r3, r4]"
    and "\<forall>m. (accepts m r1 \<longleftrightarrow> se_type (msg_event m) = ''http.command'')
      \<and> (accepts m r2 \<longleftrightarrow> se_type (msg_event m) = ''http.command.webhook'' \<and> webhook_payload demo_engine sample_sdk m)"
    using example_routes [OF open_muxes run [unfolded demo_register_def]] unfolding demo_sdk sample_fields by blast
  moreover have "se_type (msg_event (NewMessage None demo_command demo_delivery)) = ''http.command''"
    by (simp add: NewMessage_def Let_def demo_command_def)
  ultimately show ?thesis using run by (intro exI [of _ s'] exI [of _ r1] exI [of _ r2] exI [of _ r3] exI [of _ r4]) simp
qed

lemma demo_assumptions:
  "sdk_laws (tp_sdk demo_surroundings)" "env_sdk demo_env = tp_sdk demo_surroundings"
  "records fst (=) demo_topic" "webhook_up snd demo_surroundings demo_resty"
  "observer_keeps fst (pg_HTTPMux demo_program)" "observer_keeps snd (pg_PubSubMux demo_program)"
  "stores_json (tp_sdk demo_surroundings) d" "quiet_env fst demo_env e" "quiet_env snd demo_env e"
  "ack_keeps fst demo_delivery" "ack_keeps snd demo_delivery"
  "event_type (tp_sdk demo_surroundings) demo_command = ''http.command''" "WebhookURL demo_vars = ''http://hook''"
proof -
  note http = NewHTTPMux_is [OF demo_muxes(1) [unfolded demo_http_def]]
  note pubsub = NewPubSubMux_is [OF demo_muxes(2) [unfolded demo_pubsub_def]]
  show "observer_keeps fst (pg_HTTPMux demo_program)" "observer_keeps snd (pg_PubSubMux demo_program)"
    unfolding observer_keeps_def by (simp_all add: http pubsub example_config_def demo_observer_def keeps_def go_ret_def)
  show "webhook_up snd demo_surroundings demo_resty"
    by (simp add: webhook_up_def demo_surroundings_def demo_resty_def)
qed (simp_all add: sample_sdk_laws records_def demo_topic_def stores_json_def quiet_env_def demo_env_def result_accepted_def
  ack_keeps_def no_panic_def keeps_def demo_delivery_def go_ret_def demo_command_def WebhookURL_def demo_vars_def)

theorem command_round_trip_witness:
  "\<exists>s' s1 ev s2 req. demo_register demo_program = (Ret None, s')
    \<and> handle demo_env (freeze (pg_HTTPMux s')) (deliver (NewMessage None demo_command demo_delivery) ([], []) [] False) = (Ret (), s1)
    \<and> fst (st_world s1) = [ev] \<and> extension sample_sdk ev ExtCausationID = Some (XString ''1'')
    \<and> handle demo_env (freeze (pg_PubSubMux s')) (deliver (NewMessage None ev demo_delivery) ([], []) [] False) = (Ret (), s2)
    \<and> snd (st_world s2) = [req] \<and> or_URL req = ''http://hook''"
proof -
  obtain s' where run: "demo_register demo_program = (Ret None, s')"
    using demo_registered by (cases "demo_register demo_program") auto
  note D = demo_assumptions
  have p: "valid_utf8 (person_Name demo_person)" "person_Age demo_person \<noteq> 0" 
    by (rule valid_utf8_ascii) (simp_all add: demo_person_def)
  have age: "(\<lambda>p. if person_Age p = 0 then Some (errors_new ''age'') else None) demo_person = None" by (simp add: p(2))
  note both = command_round_trip [OF D(1,2) demo_muxes(1) [unfolded demo_http_def] demo_muxes(2) [unfolded demo_pubsub_def]
    run [unfolded demo_register_def] D(3,5,4,6) D(7) refl D(12) refl age p(1) D(8,10), of None "([], [])" "[]" False]
  obtain s1 ev x where hop1: "handle demo_env (freeze (pg_HTTPMux s')) (deliver (NewMessage None demo_command demo_delivery) ([], []) [] False) = (Ret (), s1)"
      "fst (st_world s1) = fst (([], []) :: demo_world) @ [x]" "ev = x"
      "event_id (tp_sdk demo_surroundings) demo_command \<noteq> [] \<longrightarrow> extension (tp_sdk demo_surroundings) ev ExtCausationID
         = Some (XString (event_id (tp_sdk demo_surroundings) demo_command))"
    and hop2: "\<forall>c2 ce2 dl2 w2 l2 b2. event_type (tp_sdk demo_surroundings) ce2 = event_type (tp_sdk demo_surroundings) ev
      \<longrightarrow> event_data (tp_sdk demo_surroundings) ce2 = event_data (tp_sdk demo_surroundings) ev \<longrightarrow> quiet_env snd demo_env ce2
      \<longrightarrow> ack_keeps snd dl2 \<longrightarrow> (\<exists>s2 req. handle demo_env (freeze (pg_PubSubMux s')) (deliver (NewMessage c2 ce2 dl2) w2 l2 b2) = (Ret (), s2)
         \<and> msg_outcome (st_msg s2) = OutcomeAcked \<and> snd (st_world s2) = snd w2 @ [req] \<and> or_Method req = ''POST''
         \<and> or_URL req = WebhookURL demo_vars
         \<and> json_Marshal (errors_new ''invalid UTF-8'') (demo_person\<lparr>person_Age := person_Age demo_person + 10\<rparr>) = Inr (or_Body req))"
    using both by (elim exE conjE) (rule that)
  have "\<exists>s2 req. handle demo_env (freeze (pg_PubSubMux s')) (deliver (NewMessage None ev demo_delivery) ([], []) [] False) = (Ret (), s2)
      \<and> snd (st_world s2) = snd (([], []) :: demo_world) @ [req] \<and> or_URL req = WebhookURL demo_vars"
    using hop2 [rule_format, OF refl refl D(9,11), of None "([], [])" "[]" False] by (elim exE conjE) (intro exI conjI)
  then obtain s2 req where "handle demo_env (freeze (pg_PubSubMux s')) (deliver (NewMessage None ev demo_delivery) ([], []) [] False) = (Ret (), s2)"
      "snd (st_world s2) = [req]" "or_URL req = ''http://hook''" using D(13) by auto
  moreover have "fst (st_world s1) = [ev]" "extension sample_sdk ev ExtCausationID = Some (XString ''1'')"
    using hop1(2-4) by (simp_all add: demo_command_def sample_event_def)
  ultimately show ?thesis using run hop1(1) by blast
qed

end
