(* ===== verification/ExampleLifecycle.thy ===== *)
theory ExampleLifecycle
  imports ExampleNats ExampleTheorems JetstreamTheorems
begin

text \<open>
  How the demonstrations are set up, start and stop: which parts the group of the service holds and in
  which order, what each constructor can fail with, and what is left up when the NATS program ends.
\<close>

subsection \<open>What can fail while the service is set up\<close>

lemma NewHTTPSubscriber_succeeds: "\<exists>sub. NewHTTPSubscriber foreign lg w = Inr sub"
  by (simp add: NewHTTPSubscriber_def http_NewSubscriber_def Let_def)

lemma NewAppSubscription_cases:
  "(\<exists>sub. NewAppSubscription client env lg w = Inr sub) \<longleftrightarrow> env envSubscription \<noteq> []"
  by (simp add: NewAppSubscription_def pubsub_NewSubscriber_def)

lemma http_NewPublisher_targets:
  "(\<exists>p. http_NewPublisher N bi (webhook_config env) lg = Inr p) \<longleftrightarrow>
     WebhookURL env \<noteq> [] \<and> (\<exists>u. nu_Parse N (WebhookURL env) = Inr u \<and> ur_Scheme u \<in> {''http'', ''https''} \<and> ur_Host u \<noteq> [])"
  by (auto simp: http_NewPublisher_def webhook_config_def Let_def split: sum.split)

text \<open>
  Registering the routes of the demonstration on fresh routers never panics.  It fails exactly if the
  webhook URL is missing or no absolute http(s) URL, or the filter expression does not compile; and then
  neither router has a route.
\<close>

theorem registration_outcome:
  fixes s :: "('ev, 'w) program"
  assumes "mux_open (pg_HTTPMux s)" "mux_open (pg_PubSubMux s)"
  shows "\<exists>err s'. RegisterEventHandlers W N bi R J unmarshal env topic uc lg s = (Ret err, s')
    \<and> (err = None \<longleftrightarrow> WebhookURL env \<noteq> []
        \<and> (\<exists>u. nu_Parse N (WebhookURL env) = Inr u \<and> ur_Scheme u \<in> {''http'', ''https''} \<and> ur_Host u \<noteq> [])
        \<and> jm_compile J webhook_expression = None)
    \<and> (err \<noteq> None \<longrightarrow> s' = s)"
proof -
  obtain r s' where run: "RegisterEventHandlers W N bi R J unmarshal env topic uc lg s = (r, s')" by fastforce
  note url = http_NewPublisher_targets [of N bi env lg, where 'a = 'w]
  have compiles: "(\<exists>f. jmespath_New J W 0 webhook_expression lg = Inr f) \<longleftrightarrow> jm_compile J webhook_expression = None"
    by (simp add: jmespath_New_def Let_def split: option.split)
  show ?thesis
    using assms run
    by (cases rule: RegisterEventHandlers_cases) (use run url compiles in auto)
qed

theorem registration_outcome_witness:
  "\<exists>err s'. RegisterEventHandlers demo_surroundings demo_url None demo_resty demo_engine (\<lambda>b. Inr demo_person) (\<lambda>k. [])
      (Some demo_topic) (NewHandler (errors_new ''invalid UTF-8'')) None demo_program = (Ret (Some err), s')
    \<and> mux_routes (pg_HTTPMux s') = []"
proof -
  have open_muxes: "mux_open (pg_HTTPMux demo_program)" "mux_open (pg_PubSubMux demo_program)"
    using fresh_muxes [OF demo_muxes [unfolded demo_http_def demo_pubsub_def]] .
  have none: "WebhookURL (\<lambda>k. []) = []" by (simp add: WebhookURL_def)
  from registration_outcome [OF open_muxes, of demo_surroundings demo_url None demo_resty demo_engine "\<lambda>b. Inr demo_person"
      "\<lambda>k. []" "Some demo_topic" "NewHandler (errors_new ''invalid UTF-8'')" None] none open_muxes(1)
  show ?thesis by (auto simp: mux_open_def)
qed

subsection \<open>The group of the service\<close>

abbreviation example_parts :: "'w LifecycleParams \<Rightarrow> string list" where
  "example_parts p \<equiv> [''pubsub-client''] @ (if lp_Publisher p = None then [] else [''pubsub-publisher''])
     @ [''pubsub-mux'', ''http-mux'', ''http-server'']"

lemma BindLifecycle_group:
  assumes "mux_Name (pg_PubSubMux s) = ''pubsub-mux''" and "mux_Name (pg_HTTPMux s) = ''http-mux''"
  shows "\<exists>g. BindLifecycle expired p s = (Ret BindGroup, g) \<and> fresh_group g \<and> map mb_name (gr_members g) = example_parts p"
  using assms by (cases "lp_Publisher p") (simp_all add: BindLifecycle_def Add_def NewGroup_def go_defs fresh_group_def)

lemma OnStart_group: "fx_OnStart BindGroup c g = (Ret r, g') \<longleftrightarrow>
    (\<exists>r0. Group_Start c g = (Ret r0, g') \<and> r = map_option (wrap_prefix ''fxmux'') r0)"
  by (auto simp: BindGroup_def go_defs split: prod.splits res.splits option.splits)

lemma OnStop_group: "fx_OnStop BindGroup c g = (Ret r, g') \<longleftrightarrow>
    (\<exists>r0. Group_Stop c g = (Ret r0, g') \<and> r = map_option (wrap_prefix ''fxmux'') r0)"
  by (auto simp: BindGroup_def go_defs split: prod.splits res.splits option.splits)

lemma mux_names:
  assumes "NewHTTPMux validator hsub debug obs start = (Ret (Inr hm), t)"
    and "NewPubSubMux psub debug obs start' = (Ret (Inr pm), t')"
  shows "mux_Name pm = ''pubsub-mux''" "mux_Name hm = ''http-mux''"
  using NewHTTPMux_is [of validator hsub debug obs "fst start" "snd start"]
    NewPubSubMux_is [of psub debug obs "fst start'" "snd start'"] assms by (simp_all add: mux_Name_def example_config_def)

lemma Group_Stop_all:
  assumes "started_all g n" and "Group_Stop c g = (Ret r, g')"
  shows "\<exists>es. length es = n \<and> gr_trace g' = starts_ok n @ map2 Called_Stop (rev [0..<n]) es"
  using assms stopLocked_spec [of c g r g'] by (auto simp: Group_Stop_def started_all_def go_bind_def go_get_def)

lemma bound_group_runs:
  assumes "fresh_group g" and run: "fx_OnStart BindGroup c g = (Ret err, g1)"
  shows "if err = None then gr_trace g1 = starts_ok (length (gr_members g))
      \<and> (\<forall>c' err' g2. fx_OnStop BindGroup c' g1 = (Ret err', g2) \<longrightarrow> (\<exists>es. length es = length (gr_members g)
          \<and> gr_trace g2 = starts_ok (length (gr_members g)) @ map2 Called_Stop (rev [0..<length (gr_members g)]) es))
    else rolled_back g1 (length (gr_members g))"
proof -
  define n where "n = length (gr_members g)"
  from run obtain r0 where r0: "Group_Start c g = (Ret r0, g1)" "err = map_option (wrap_prefix ''fxmux'') r0"
    unfolding OnStart_group by blast
  have out: "if r0 = None then started_all g1 n else rolled_back g1 n"
    using Group_Start_outcome [OF assms(1) r0(1)] by (simp add: n_def)
  show ?thesis
    unfolding n_def [symmetric] OnStop_group using out r0(2) Group_Stop_all [of g1 n]
    by (auto simp: started_all_def)
qed

text \<open>
  C20. The service starts the client, the publisher if there is one, the Pub/Sub router, the HTTP router and
  the server, in this order; a part that fails to start has exactly those before it stopped, in reverse.
  Shutdown stops all of them in reverse order: the server first, then the routers, and the publisher and
  the client only when both routers were told to stop.
\<close>

theorem service_stops_in_reverse:
  fixes s :: "('ev, 'w) program"
  assumes "NewHTTPMux validator hsub debug obs start = (Ret (Inr (pg_HTTPMux s)), t)"
    and "NewPubSubMux psub debug obs start' = (Ret (Inr (pg_PubSubMux s)), t')"
  shows "\<exists>g. BindLifecycle expired p s = (Ret BindGroup, g) \<and> map mb_name (gr_members g) = example_parts p
    \<and> (\<forall>c err g1. fx_OnStart BindGroup c g = (Ret err, g1) \<longrightarrow>
        (if err = None then gr_trace g1 = starts_ok (length (example_parts p))
           \<and> (\<forall>c' err' g2. fx_OnStop BindGroup c' g1 = (Ret err', g2) \<longrightarrow> (\<exists>es. length es = length (example_parts p)
               \<and> gr_trace g2 = starts_ok (length (example_parts p)) @ map2 Called_Stop (rev [0..<length (example_parts p)]) es))
         else rolled_back g1 (length (example_parts p))))"
proof -
  obtain g where g: "BindLifecycle expired p s = (Ret BindGroup, g)" "fresh_group g" "map mb_name (gr_members g) = example_parts p"
    using BindLifecycle_group [OF mux_names [OF assms]] by blast
  have n: "length (gr_members g) = length (example_parts p)" using g(3) by (metis length_map)
  from g bound_group_runs [OF g(2)] show ?thesis unfolding n by blast
qed

definition demo_lifecycle :: "demo_world LifecycleParams" where
  "demo_lifecycle = \<lparr>lp_Close = go_ret None, lp_Publisher = None,
     lp_Server = \<lparr>cp_Start = (\<lambda>c. go_ret None), cp_Stop = (\<lambda>c. go_ret None)\<rparr>\<rparr>"

definition demo_group :: "(sev, demo_world) program grp" where
  "demo_group = snd (BindLifecycle (\<lambda>c. None) demo_lifecycle demo_program)"

lemma demo_starts: "\<exists>g1. fx_OnStart BindGroup Background demo_group = (Ret None, g1)"
proof -
  note http = NewHTTPMux_is [OF demo_muxes(1) [unfolded demo_http_def]]
  note pubsub = NewPubSubMux_is [OF demo_muxes(2) [unfolded demo_pubsub_def]]
  show ?thesis
    by (simp add: demo_group_def BindLifecycle_def demo_lifecycle_def Add_def NewGroup_def go_defs mux_Name_def http pubsub
      example_config_def OnStart_group Group_Start_def eval_nat_numeral closer_component_def closer_Start_def Let_def
      HTTPMux_component_def PubSubMux_component_def server_component_def on_HTTPMux_def on_PubSubMux_def mux_Start_def
      sub_start_def demo_subscription_def freeze_def)
qed

theorem service_stops_in_reverse_witness:
  "\<exists>g1. fx_OnStart BindGroup Background demo_group = (Ret None, g1) \<and> map mb_name (gr_members demo_group)
     = [''pubsub-client'', ''pubsub-mux'', ''http-mux'', ''http-server''] \<and> gr_trace g1 = starts_ok 4"
proof -
  have parts: "example_parts demo_lifecycle = [''pubsub-client'', ''pubsub-mux'', ''http-mux'', ''http-server'']"
    by (simp add: demo_lifecycle_def)
  obtain g where g: "BindLifecycle (\<lambda>c. None) demo_lifecycle demo_program = (Ret BindGroup, g)"
      "map mb_name (gr_members g) = example_parts demo_lifecycle"
    and runs: "\<forall>c err g1. fx_OnStart BindGroup c g = (Ret err, g1) \<longrightarrow> err = None \<longrightarrow>
      gr_trace g1 = starts_ok (length (example_parts demo_lifecycle))"
    using service_stops_in_reverse [OF demo_muxes [unfolded demo_http_def demo_pubsub_def], of "\<lambda>c. None" demo_lifecycle]
    by (metis (no_types, lifting))
  have "demo_group = g" using g(1) by (simp add: demo_group_def)
  with demo_starts obtain g1 where g1: "fx_OnStart BindGroup Background g = (Ret None, g1)" by blast
  have "gr_trace g1 = starts_ok (length (example_parts demo_lifecycle))" using runs g1 by blast
  then have "gr_trace g1 = starts_ok 4" unfolding parts by (simp add: eval_nat_numeral)
  with g1 g(2) [unfolded parts] \<open>demo_group = g\<close> show ?thesis by simp
qed

subsection \<open>The NATS program\<close>

lemma nats_routers_muxes:
  "\<exists>hm nm l' hsub nsub. nats_routers D lg api client (w, l) = (Ret (Inr (hm, nm)), (w, l'))
     \<and> mux_cfg hm = nats_config ''http-mux'' (Some (nd_http_iface D hsub)) (nd_debug D) \<and> \<not> mux_started hm
     \<and> mux_cfg nm = nats_config ''nats-mux'' (Some (nd_js_iface D nsub)) (nd_debug D) \<and> \<not> mux_started nm"
  by (simp add: nats_routers_def or_return_def newPublisher_def js_NewPublisher_def newSubscriber_def js_NewSubscriber_def
      http_NewSubscriber_def newHTTPMux_def newNatsMux_def setup_mux_def nats_config_def New_def UsePreflight_def Handle_def
      mustBeOpen_def natsStream_def subjectNS_def go_defs Let_def) blast

lemma nats_routers_succeed:
  "\<exists>hm nm l'. nats_routers D lg api client (w, l) = (Ret (Inr (hm, nm)), (w, l'))
     \<and> mux_Name hm = ''http-mux'' \<and> mux_Name nm = ''nats-mux''"
proof -
  obtain hm nm l' where "nats_routers D lg api client (w, l) = (Ret (Inr (hm, nm)), (w, l'))"
    and "cfg_Name (mux_cfg hm) = ''http-mux''" "cfg_Name (mux_cfg nm) = ''nats-mux''"
    using nats_routers_muxes [of D lg api client w l] by (auto simp: nats_config_def)
  then show ?thesis by (intro exI [of _ hm] exI [of _ nm] exI [of _ l']) (simp add: mux_Name_def)
qed

lemma nats_group_fresh:
  assumes "mux_Name (np_HTTPMux s) = ''http-mux''" and "mux_Name (np_NatsMux s) = ''nats-mux''"
  shows "\<exists>g. nats_group await server s = (Ret (), g) \<and> fresh_group g
    \<and> map mb_name (gr_members g) = [''nats'', ''nats-mux'', ''http-mux'', ''http-server'']"
  using assms by (simp add: nats_group_def Add_def NewGroup_def go_defs fresh_group_def)

lemma start_steps_members: "start_steps n c pc g = (Ret pc', g') \<Longrightarrow> gr_members g' = gr_members g"
  by (induction n arbitrary: pc g) (auto simp: go_ret_def go_bind_def dest: start_step_members split: prod.splits res.splits)

lemma Group_run_members:
  assumes "Group_run c fatal await ctxErr g = (Ret r, g')"
  shows "gr_members g' = gr_members g"
proof -
  have start: "Group_Start c g = (Ret r, g') \<Longrightarrow> gr_members g' = gr_members g" for r g'
    by (auto simp: Group_Start_def go_bind_def go_get_def go_ret_def dest: start_steps_members split: prod.splits res.splits)
  have stop: "Group_Stop c g = (Ret r, g') \<Longrightarrow> gr_members g' = gr_members g" for c g r g'
    using stopLocked_spec [of c g r g'] by (auto simp: Group_Stop_def go_bind_def go_get_def go_ret_def split: if_splits)
  have world: "on_gr_world f g = (r, g') \<Longrightarrow> gr_members g' = gr_members g" for f :: "('a, 'c) go" and g r g'
    by (auto dest: on_gr_world_effect)
  show ?thesis
    using assms by (auto simp: Group_run_def go_bind_def go_get_def go_ret_def dest!: start stop world
        split: prod.splits res.splits option.splits if_splits)
qed

text \<open>What was called on the parts of a group when \<open>run\<close> returns: a rolled back start, or everything up and down.\<close>

lemma Group_run_trace:
  assumes "fresh_group g" and "Group_run c fatal await ctxErr g = (Ret r, g')"
  shows "rolled_back g' (length (gr_members g)) \<and> (r = None \<longrightarrow> ctxErr)
    \<or> (\<exists>es. length es = length (gr_members g)
        \<and> gr_trace g' = starts_ok (length (gr_members g)) @ map2 Called_Stop (rev [0..<length (gr_members g)]) es)"
proof -
  define n where "n = length (gr_members g)"
  obtain e g1 where start: "Group_Start c g = (Ret e, g1)"
    using assms(2) by (auto simp: Group_run_def go_bind_def split: prod.splits res.splits)
  obtain f g2 where fatal: "on_gr_world fatal g1 = (Ret f, g2)"
    using assms(2) start by (auto simp: Group_run_def go_bind_def split: prod.splits res.splits)
  obtain w where g2: "g2 = g1\<lparr>gr_world := w\<rparr>" using on_gr_world_effect [OF fatal] ..
  have out: "if e = None then started_all g1 n else rolled_back g1 n"
    using Group_Start_outcome [OF assms(1) start] by (simp add: n_def)
  show ?thesis
  proof (cases e)
    case (Some x)
    have "g' = g2" and "r = None \<Longrightarrow> ctxErr"
      using assms(2) start fatal Some errors_Join_None_iff [of "[f, Some x]"]
      by (auto simp: Group_run_def go_bind_def go_ret_def split: option.splits if_splits)
    with out Some show ?thesis by (simp add: n_def g2 rolled_back_def)
  next
    case None
    obtain f' g3 where await: "on_gr_world await g2 = (Ret f', g3)"
      using assms(2) start fatal None by (auto simp: Group_run_def go_bind_def split: prod.splits res.splits)
    then obtain w' where "g3 = g2\<lparr>gr_world := w'\<rparr>" using on_gr_world_effect by blast
    with out None g2 have "started_all g3 n" by (simp add: started_all_def)
    moreover obtain c' s where "Group_Stop c' g3 = (Ret s, g')"
      using assms(2) start fatal None await
      by (auto simp: Group_run_def go_bind_def go_get_def go_ret_def split: prod.splits res.splits option.splits)
    ultimately show ?thesis using Group_Stop_all [of g3 n] by (simp add: n_def)
  qed
qed

text \<open>
  C19. The NATS program leaves nothing up when \<open>run\<close> returns.  Its set-up fails only when the connection
  cannot be opened, or when there is no JetStream on it; then the connection is stopped, once, before
  \<open>run\<close> returns, and what that leaves is all that is left.  Everything else it builds cannot fail.
  Past the set-up, the connection, the NATS router, the HTTP router and the HTTP server were started
  in this order and all stopped in the reverse one, or one of them failed to start and exactly those
  before it were stopped, in reverse; \<open>run\<close> returns nil after a failed start only if its context had
  ended.
\<close>

theorem nats_run_leaves_nothing_up:
  assumes "nats_run D lg env fatal wait ctxErr (w, l) = (Ret r, left)"
  shows "case left of
      Inr g \<Rightarrow> map mb_name (gr_members g) = [''nats'', ''nats-mux'', ''http-mux'', ''http-server'']
        \<and> \<not> gr_started g \<and> (\<forall>i. balance (gr_trace g) i = 0)
        \<and> (rolled_back g 4 \<and> (r = None \<longrightarrow> ctxErr)
           \<or> (\<exists>es. length es = 4 \<and> gr_trace g = starts_ok 4 @ map2 Called_Stop [3, 2, 1, 0] es))
    | Inl s' \<Rightarrow> \<exists>dialled w1. Dial (nd_W D) (nd_N D) (nd_trim D) (nd_default_url D) (nd_connect D)
          \<lparr>cc_URL = env envNATSURL, cc_Name = ''nats-example'', cc_MaxReconnects = 0\<rparr> (Some lg) w = (Ret dialled, w1)
        \<and> (case dialled of
            Inl e \<Rightarrow> r = Some (wrap_prefix ''nats dial'' e) \<and> s' = (w1, l)
          | Inr cn \<Rightarrow> (\<exists>e stopped cn'. nd_jetstream D cn = Inl e \<and> r = Some (wrap_prefix ''jetstream new'' e)
              \<and> conn_Stop (nd_await D) Background (cn\<lparr>cn_world := w1\<rparr>) = (Ret stopped, cn')
              \<and> s' = (cn_world cn', l)))"
proof -
  obtain dialled w1 where dial: "Dial (nd_W D) (nd_N D) (nd_trim D) (nd_default_url D) (nd_connect D)
      \<lparr>cc_URL = env envNATSURL, cc_Name = ''nats-example'', cc_MaxReconnects = 0\<rparr> (Some lg) w = (Ret dialled, w1)"
    using assms by (auto simp: nats_run_def nats_setup_def on_world_part_def go_zoom_def go_bind_def split: prod.splits res.splits)
  show ?thesis
  proof (cases "\<exists>cn api client. dialled = Inr cn \<and> nd_jetstream D cn = Inr (api, client)")
    case False
    note unfold_run = nats_run_def nats_setup_def on_world_part_def go_zoom_def go_bind_def go_seq_def go_ret_def
    show ?thesis
    proof (cases dialled)
      case (Inl e)
      with assms dial show ?thesis by (auto simp: unfold_run)
    next
      case (Inr cn)
      with False obtain e where "nd_jetstream D cn = Inl e" by (cases "nd_jetstream D cn") auto
      with Inr assms dial show ?thesis by (auto simp: unfold_run split: prod.splits res.splits)
    qed
  next
    case True
    then obtain cn api client where cn: "dialled = Inr cn" "nd_jetstream D cn = Inr (api, client)" by blast
    obtain hm nm l' where routers: "nats_routers D lg api client (w1, l) = (Ret (Inr (hm, nm)), (w1, l'))"
      and names: "mux_Name hm = ''http-mux''" "mux_Name nm = ''nats-mux''" using nats_routers_succeed [of D lg api client w1 l] by auto
    let ?prog = "\<lparr>np_HTTPMux = hm, np_NatsMux = nm, np_world = w1, np_log = l', np_conn = cn\<rparr>"
    have ready: "nats_setup D lg env (w, l) = (Ret (Inr ?prog), (w1, l'))"
      by (simp add: nats_setup_def on_world_part_def go_zoom_def go_bind_def dial cn or_return_def routers go_get_def go_ret_def)
    obtain g where g: "nats_group (nd_await D) (nd_server D (getenvDefault env envHTTPAddr '':8080'')) ?prog = (Ret (), g)"
      "fresh_group g" "map mb_name (gr_members g) = [''nats'', ''nats-mux'', ''http-mux'', ''http-server'']"
      using nats_group_fresh [of ?prog "nd_await D" "nd_server D (getenvDefault env envHTTPAddr '':8080'')"] names by auto
    from assms ready g(1) obtain g' where run: "Group_run Background fatal wait ctxErr g = (Ret r, g')" "left = Inr g'"
      by (auto simp: nats_run_def split: prod.splits)
    have four: "length (gr_members g) = 4" using arg_cong [OF g(3), of length] by simp
    have down: "rev [0..<4] = [3, 2, 1, 0 :: nat]" by code_simp
    from Group_run_trace [OF g(2) run(1)] Group_run_down [OF g(2) run(1)] Group_run_members [OF run(1)] g(3) run(2)
    show ?thesis unfolding four down by simp
  qed
qed

definition demo_deps :: "(sev, nat) nats_deps" where
  "demo_deps = \<lparr>nd_W = sample_surroundings, nd_L = sample_nats_lib, nd_N = sample_net_url, nd_trim = (\<lambda>s. s),
     nd_default_url = ''nats://127.0.0.1:4222'', nd_connect = (\<lambda>url name n. go_ret (Inr (go_ret None))),
     nd_jetstream = (\<lambda>cn. Inr (\<lparr>jp_PublishMsg = (\<lambda>c msg opts. go_ret (Inr (''s'', 1))), jp_PublishMsgAsync = (\<lambda>msg opts. go_ret None)\<rparr>, sample_js_client)), nd_await = (\<lambda>c. go_ret None),
     nd_storage = ''file'', nd_foreign = (\<lambda>e. None), nd_unmarshal = (\<lambda>b. Inr demo_person), nd_validator = (\<lambda>p. None),
     nd_bad = errors_new ''invalid UTF-8'', nd_debug = False,
     nd_js_iface = (\<lambda>s. \<lparr>sub_Start = (\<lambda>c. go_ret None), sub_Stop = (\<lambda>c. go_ret None)\<rparr>),
     nd_http_iface = (\<lambda>s. \<lparr>sub_Start = (\<lambda>c. go_ret None), sub_Stop = (\<lambda>c. go_ret None)\<rparr>),
     nd_server = (\<lambda>addr. \<lparr>cp_Start = (\<lambda>c. go_ret None), cp_Stop = (\<lambda>c. go_ret None)\<rparr>)\<rparr>"

lemma demo_runs: "\<exists>r g. nats_run demo_deps \<lparr>lg_discard = True, lg_with = []\<rparr> (\<lambda>k. []) (go_ret None) (go_ret None) False (0, []) = (Ret r, Inr g)"
proof -
  let ?lg = "\<lparr>lg_discard = True, lg_with = []\<rparr>"
  define quiet :: "nat subscription" where "quiet = \<lparr>sub_Start = (\<lambda>c. go_ret None), sub_Stop = (\<lambda>c. go_ret None)\<rparr>"
  have iface: "nd_http_iface demo_deps s = quiet" "nd_js_iface demo_deps s' = quiet" for s s'
    by (simp_all add: demo_deps_def quiet_def)
  have parts: "nd_await demo_deps c = go_ret None" "nd_server demo_deps addr = \<lparr>cp_Start = (\<lambda>c. go_ret None), cp_Stop = (\<lambda>c. go_ret None)\<rparr>"
    for c addr by (simp_all add: demo_deps_def)
  let ?cn = "\<lparr>cn_drain = go_ret None, cn_closed = False, cn_stopped = False, cn_world = 0\<rparr>"
  have dial: "Dial (nd_W demo_deps) (nd_N demo_deps) (nd_trim demo_deps) (nd_default_url demo_deps) (nd_connect demo_deps) cfg (Some ?lg) 0
      = (Ret (Inr ?cn), 0)" for cfg
    by (simp add: Dial_def Let_def emit_def go_defs) (simp add: demo_deps_def go_defs sample_surroundings_def)
  obtain api client where js: "nd_jetstream demo_deps ?cn = Inr (api, client)" by (simp add: demo_deps_def)
  obtain hm nm l' where routers: "nats_routers demo_deps ?lg api client (0, []) = (Ret (Inr (hm, nm)), (0, l'))"
    and mx: "mux_cfg hm = nats_config ''http-mux'' (Some quiet) (nd_debug demo_deps)" "\<not> mux_started hm"
      "mux_cfg nm = nats_config ''nats-mux'' (Some quiet) (nd_debug demo_deps)" "\<not> mux_started nm"
    using nats_routers_muxes [of demo_deps ?lg api client 0 "[]"] unfolding iface by blast
  let ?prog = "\<lparr>np_HTTPMux = hm, np_NatsMux = nm, np_world = 0, np_log = l', np_conn = ?cn\<rparr>"
  have ready: "nats_setup demo_deps ?lg (\<lambda>k. []) (0, []) = (Ret (Inr ?prog), (0, l'))"
    by (simp add: nats_setup_def on_world_part_def go_zoom_def go_bind_def dial js or_return_def routers go_get_def go_ret_def)
  show ?thesis
    by (simp add: nats_run_def ready nats_group_def Add_def NewGroup_def mux_Name_def mx nats_config_def Group_run_def
        Group_Start_def eval_nat_numeral go_defs conn_Start_def np_on_conn_def np_on_NatsMux_def np_on_HTTPMux_def mux_Start_def
        sub_start_def sub_stop_def mux_Stop_def freeze_facts quiet_def Group_Stop_def stopLocked_def conn_Stop_def waitClosed_def
        awaitClosed_def parts)
qed

text \<open>No JetStream on the connection, whose \<open>Drain\<close> counts.\<close>

definition demo_no_jetstream :: "(sev, nat) nats_deps" where
  "demo_no_jetstream = demo_deps\<lparr>nd_connect := (\<lambda>url name n. go_ret (Inr (\<lambda>w. (Ret None, Suc w)))),
     nd_jetstream := (\<lambda>cn. Inl Canceled)\<rparr>"

theorem nats_run_leaves_nothing_up_witness:
  "(\<exists>r g. nats_run demo_deps \<lparr>lg_discard = True, lg_with = []\<rparr> (\<lambda>k. []) (go_ret None) (go_ret None) False (0, []) = (Ret r, Inr g)
     \<and> map mb_name (gr_members g) = [''nats'', ''nats-mux'', ''http-mux'', ''http-server''] \<and> balance (gr_trace g) 0 = 0)
   \<and> (\<exists>r. nats_run demo_no_jetstream \<lparr>lg_discard = True, lg_with = []\<rparr> (\<lambda>k. []) (go_ret None) (go_ret None) False (0, [])
        = (Ret (Some r), Inl (1, [])))"
proof
  obtain r g where run: "nats_run demo_deps \<lparr>lg_discard = True, lg_with = []\<rparr> (\<lambda>k. []) (go_ret None) (go_ret None) False (0, []) = (Ret r, Inr g)"
    using demo_runs by blast
  from nats_run_leaves_nothing_up [OF run] have "map mb_name (gr_members g) = [''nats'', ''nats-mux'', ''http-mux'', ''http-server'']"
    "balance (gr_trace g) 0 = 0" by auto
  with run show "\<exists>r g. nats_run demo_deps \<lparr>lg_discard = True, lg_with = []\<rparr> (\<lambda>k. []) (go_ret None) (go_ret None) False (0, []) = (Ret r, Inr g)
     \<and> map mb_name (gr_members g) = [''nats'', ''nats-mux'', ''http-mux'', ''http-server''] \<and> balance (gr_trace g) 0 = 0"
    by (intro exI [of _ r] exI [of _ g] conjI)
  show "\<exists>r. nats_run demo_no_jetstream \<lparr>lg_discard = True, lg_with = []\<rparr> (\<lambda>k. []) (go_ret None) (go_ret None) False (0, [])
        = (Ret (Some r), Inl (1, []))"
    by (simp add: nats_run_def nats_setup_def on_world_part_def Dial_def Let_def emit_def go_defs)
      (simp add: demo_no_jetstream_def demo_deps_def go_defs conn_Stop_def waitClosed_def awaitClosed_def)
qed

subsection \<open>The Observer of the service\<close>

text \<open>What the Observer counted of a list of messages, in the order it was told of them.\<close>

type_synonym ('ev, 'v) told_message = "ctx \<times> ('ev, 'v) message \<times> log_outcome \<times> reason option"

fun told_all :: "('ev, 'w) surroundings \<Rightarrow> ('ev, 'v) told_message list \<Rightarrow> ('w outcomeCounter, unit) go" where
  "told_all W [] = go_ret ()"
| "told_all W ((c, m, out, r) # ms) = go_seq (counter_OnMessage W c m out r) (told_all W ms)"

definition has_outcome :: "'ev sdk \<Rightarrow> outcomeKey \<Rightarrow> ('ev, 'v) told_message \<Rightarrow> bool" where
  "has_outcome S key x = (case x of (c, m, out, r) \<Rightarrow> (event_type S (msg_event m), out) = key)"

lemma counter_OnMessage_counts:
  "\<exists>oc'. counter_OnMessage W c m out r oc = (Ret (), oc')
     \<and> count_of (oc_counts oc') key = count_of (oc_counts oc) key + of_bool (has_outcome (tp_sdk W) key (c, m, out, r))"
  by (simp add: counter_OnMessage_def oc_emit_def emit_def Let_def go_defs count_of_def update_conv has_outcome_def)

text \<open>
  The Observer of the service counts right: it never panics, and after any list of messages the number
  kept for an event type and an outcome is how many of them had both, modulo \<open>2 ^ 64\<close>.
\<close>

theorem observer_counts_outcomes:
  "\<exists>oc'. told_all W ms (NewObserver lg w) = (Ret (), oc')
     \<and> count_of (oc_counts oc') key = word_of_nat (length (filter (has_outcome (tp_sdk W) key) ms))"
proof -
  have "\<exists>oc'. told_all W ms oc = (Ret (), oc')
      \<and> count_of (oc_counts oc') key = count_of (oc_counts oc) key + word_of_nat (length (filter (has_outcome (tp_sdk W) key) ms))" for oc
  proof (induction ms arbitrary: oc)
    case (Cons x ms)
    obtain c m out r where x: "x = (c, m, out, r)" by (cases x)
    obtain oc1 where one: "counter_OnMessage W c m out r oc = (Ret (), oc1)"
      "count_of (oc_counts oc1) key = count_of (oc_counts oc) key + of_bool (has_outcome (tp_sdk W) key x)"
      using counter_OnMessage_counts unfolding x by blast
    from Cons.IH [of oc1] one show ?case by (auto simp: x go_seq_def go_bind_def)
  qed (simp add: go_ret_def)
  from this [of "NewObserver lg w"] show ?thesis by (simp add: NewObserver_def count_of_def)
qed

end
