(* ===== verification/Spec2Isabelle.thy ===== *)
theory Spec2Isabelle
  imports Registration EventTheorems Retry Skiperr LifecycleProofs Fxmux EnvelopeTheorems JetstreamTheorems
    HttpTheorems HttpClientTheorems Service Jmespath Hop AwsConfig Example ExampleNats ExampleTheorems ExampleLifecycle
begin

text \<open>
  A verification development for the Go library norlis/event-driven (package v2): a router for
  CloudEvents and its transports.  The names of definitions are those of the source; a prefix tells
  the packages apart where they clash (\<open>sqs_Start\<close>, \<open>js_Start\<close>).

  How the program works.  A transport (SQS, Pub/Sub, NATS core, JetStream, HTTP) turns what its
  broker delivers into an \<open>event.Message\<close>: an event, the callbacks that settle it, a delivery
  count.  It calls \<open>mux.handle\<close>, which picks the first route whose filter matches, decodes the
  payload, runs preflight and handler, publishes the result, and settles the message exactly once
  by Ack, Nack or Discard, with a copy to a dead-letter publisher where it gives up.  A lifecycle
  group starts and stops the parts in order.

  How it is modelled.  A call that touches the outside world is a state transformer that returns or
  panics, \<open>('s, 'a) go\<close> (Prelude); errors are trees of wrapped errors (GoError).  The world \<open>'w\<close> is
  a type parameter: handlers, filters, publishers, broker clients, clocks and random sources are
  arbitrary functions on it that may fail or panic.  Handlers, middlewares and messages are values.
  Calls that may overlap are cut at the grain of the locks: \<open>Start\<close> and \<open>Stop\<close> of a subscriber are
  the locked sections and the wait between them, a step relation interleaves them with the broker's
  goroutines (Slots keeps the current run, the live ones and the cancelled ones), and a group's
  \<open>Start\<close> is a thread of \<open>start_step\<close>s.  Events are values: what a \<open>Publish\<close> writes into the event it
  was given, such as an injected trace, is not seen by its caller.  Machine integers keep their width where they can wrap
  (delivery counts, durations of the retry middleware, token lifetimes).

  Theories and source:
  \<^item> Prelude, GoError, Utf8, Contracts: calls, panics, weakest preconditions; errors and
    \<open>errors.Is/As/Join\<close>; UTF-8 validity; the start/stop contract.
  \<^item> CloudEvents, Message (\<open>pkg/event\<close>): extensions, correlation ids, tracing; a message and its
    one-shot decision, with the callbacks that were run in the ghost field \<open>msg_told\<close>.  Logfields (\<open>pkg/kit/logfields\<close>), Metadata (\<open>pkg/eventmux/metadata\<close>),
    Middleware, Filters, Jmespath (\<open>pkg/eventmux\<close> middleware chain, \<open>pkg/filter\<close>), Retry, Skiperr
    (\<open>pkg/middleware\<close>, with validate).
  \<^item> MuxTypes, Failure, Mux (\<open>pkg/eventmux\<close>): router state, failure policy, registration, Start, Stop
    and \<open>handle\<close>.  MuxSpec states the policy abstractly (\<open>permitted\<close>: which verdicts what user code
    answered allows); MuxProofs and MuxTheorems show that \<open>handle\<close> refines it.  Registration:
    registration, freezing, typed routes.  EventTheorems: result events and dead-letter copies.
  \<^item> Lifecycle, LifecycleProofs (\<open>pkg/kit/lifecycle\<close>), Fxmux (\<open>pkg/kit/fxmux\<close>).
  \<^item> Envelope, EnvelopeTheorems (\<open>pkg/transport/internal/envelope\<close>): CloudEvents as string
    attributes and a body.  Transport: what the transports share.
  \<^item> AwsConfig, Sns, Sqs, SnsTheorems, SqsTheorems (\<open>pkg/transport/aws\<close>); Pubsub, PubsubTheorems
    (\<open>pkg/transport/gcp/pubsub\<close>); Nats, Natsconn, NatsTheorems, Jetstream, JetstreamTheorems
    (\<open>pkg/transport/nats\<close> and \<open>internal/redact\<close>); Eventhttp, HttpTheorems, HttpClient,
    HttpClientTheorems (\<open>pkg/transport/eventhttp\<close>).
  \<^item> Service: the router behind each transport.  Hop: one message through the router, from its
    delivery to the one event its route publishes.
  \<^item> Example (\<open>example\<close>): the service that wires HTTP, Pub/Sub and a webhook: payload, handlers,
    Observer, constructors, routes, start and stop order.  ExampleNats (\<open>example/nats\<close>): the NATS
    program up to \<open>run\<close>, with the world that is left when its set-up fails.  ExampleTheorems: the routing table, and a command on its way through both
    routers to the webhook.  ExampleLifecycle: what the set-up can fail with, the order of starting
    and stopping, and what the Observer counted.
  \<^item> Sample and SampleCodec: concrete instances of the parameters, for the witnesses.

  Interfaces.  \<open>startable\<close> (Contracts) is the start/stop contract, interpreted on the router and the
  five subscribers; \<open>one_shot\<close> (Message) is settling once; \<open>kv_store\<close> (Metadata) the metadata store;
  \<open>run_slot\<close> (Slots) one run at a time under interleaving, interpreted on SQS, Pub/Sub and NATS core,
  and \<open>run_watch\<close>, which extends it by failure reports, on Pub/Sub and JetStream.  There the look
  at whether the run is being stopped and the report are two steps, as in the code: a failure is
  reported only if the look came before any Stop, but a Stop may come, and return, in between.

  What the lemmas show.  The router: every message is settled as the policy permits and reported
  once, unless the dead-letter publisher or the delivery's callback panics, and no panic of user
  code escapes; what an ack, a nack and a discard imply; result events keep their lineage;
  dead-letter copies are bounded and valid text.  Settling: the first decision wins, and it runs
  that decision's own callback, once.
  The group: all or nothing, nothing leaks, every Start returns, run leaves nothing up; and what two
  overlapping Starts break.  The envelope and each transport: round trips, limits, rejection of what
  cannot be decoded.
  Subscribers: one run at a time, drained and reported once.  HTTP: which events are admitted, which
  answer an outcome gets, and that 202 means processed, unless an error rule's own status makes it
  202; which answers the client retries, and that a cached token is served only while it is valid.
  Retry: call bound, delays that do not wrap.
  The examples: a command over HTTP becomes one event on the topic and, once back, one request to the
  webhook; registration fails only on a bad URL or expression; both programs stop in reverse order
  and leave nothing up.

  Bounds and fuel.  \<open>Group_Start\<close> runs a thread for \<open>2 n + 3\<close> steps, \<open>n\<close> members: two steps per
  member and three more, which \<open>start_terminates\<close> shows to be enough under any interleaving.  The
  worker loop of SQS runs as long as its context lives: \<open>sqs_worker\<close> has fuel for the passes looked
  at, and running out of it means "still polling".  Every other loop
  recurses on its data or has a measure.

  Parameters.  The CloudEvents SDK (record \<open>sdk\<close>, its documented laws \<open>sdk_laws\<close>, \<open>view_laws\<close>), its
  JSON format and HTTP binding, the trace package, the broker clients (AWS, Pub/Sub, NATS), resty,
  \<open>net/url\<close>, \<open>mime.ParseMediaType\<close>, \<open>strings.TrimSpace\<close>, the JMESPath engine, the validator, clocks,
  UUIDs and random sources; for the examples also the environment variables, the logging library,
  the HTTP server and the decoder of their payload.

  Not modelled.  Of \<open>example/cmd/main.go\<close> only the health checker: the rest declares the graph that fx
  resolves and the probes of the server library.  \<open>tools\<close> pins build tools; the signal wiring around
  \<open>Group.run\<close> is the operating system's.
  Elapsed times in records and Observer calls are left out; a context records the timeouts put on it,
  and when they fire is the client's to say.  The Go memory model below the locks and atomics is
  not modelled: each locked section and each atomic operation is one step.
\<close>

end
